(* ===== verification/Prelude.thy ===== *)
theory Prelude
  imports Main "HOL-Library.AList" "HOL-Library.Char_ord" "HOL-Library.List_Lexorder"
begin

text \<open>
  What every theory of the development shares.

  \<^item> Machine integers: \<open>u8\<close>, \<open>u32\<close> and \<open>u64\<close> values are naturals; the operations of
    the source that can leave the range are written with their bound
    (\<open>saturating_add\<close>, the release-mode wrap-around of \<open>+\<close>, an \<open>as u32\<close> cast).
    \<open>saturating_sub\<close> is the truncating subtraction of the naturals.
  \<^item> \<open>HashMap\<close>: an association list with distinct keys. A Rust \<open>HashMap\<close> is a finite map
    iterated in an order the program must not rely on; the list is one such order.
  \<^item> The \<open>str\<close> operations of the standard library the program calls
    (\<open>split\<close>, \<open>splitn\<close>, \<open>find\<close>, \<open>ends_with\<close>, decimal formatting). A \<open>String\<close> is its list of
    UTF-8 bytes; every separator searched for is an ASCII character.
\<close>

section \<open>Machine integers\<close>

type_synonym u8 = nat
type_synonym u32 = nat
type_synonym u64 = nat

text \<open>An \<open>f64\<close> the program carries and never computes with: its 64 bits.\<close>

type_synonym f64_bits = nat

definition u8_max :: nat where "u8_max = 2 ^ 8 - 1"
definition u32_max :: nat where "u32_max = 2 ^ 32 - 1"
definition u64_max :: nat where "u64_max = 2 ^ 64 - 1"

definition sat_add8 :: "u8 \<Rightarrow> u8 \<Rightarrow> u8" where
  "sat_add8 a b = min u8_max (a + b)"

definition sat_add32 :: "u32 \<Rightarrow> u32 \<Rightarrow> u32" where
  "sat_add32 a b = min u32_max (a + b)"

definition sat_add64 :: "u64 \<Rightarrow> u64 \<Rightarrow> u64" where
  "sat_add64 a b = min u64_max (a + b)"

definition wrap_add32 :: "u32 \<Rightarrow> u32 \<Rightarrow> u32" where
  "wrap_add32 a b = (a + b) mod 2 ^ 32"

definition wrap_add64 :: "u64 \<Rightarrow> u64 \<Rightarrow> u64" where
  "wrap_add64 a b = (a + b) mod 2 ^ 64"

definition wrap_mul64 :: "u64 \<Rightarrow> u64 \<Rightarrow> u64" where
  "wrap_mul64 a b = (a * b) mod 2 ^ 64"

definition as_u32 :: "nat \<Rightarrow> u32" where
  "as_u32 n = n mod 2 ^ 32"

lemma sat_add64_exact: "a + b \<le> u64_max \<Longrightarrow> sat_add64 a b = a + b"
  by (simp add: sat_add64_def)

lemma sat_add64_le: "sat_add64 a b \<le> u64_max"
  by (simp add: sat_add64_def)

lemma sat_add64_ge: "a \<le> u64_max \<Longrightarrow> a \<le> sat_add64 a b"
  by (simp add: sat_add64_def)

lemma wrap_add64_exact: "a + b < 2 ^ 64 \<Longrightarrow> wrap_add64 a b = a + b"
  by (simp add: wrap_add64_def)

lemma wrap_mul64_exact: "a * b < 2 ^ 64 \<Longrightarrow> wrap_mul64 a b = a * b"
  by (simp add: wrap_mul64_def)

lemma as_u32_exact: "n < 2 ^ 32 \<Longrightarrow> as_u32 n = n"
  by (simp add: as_u32_def)

lemma as_u32_le: "as_u32 n \<le> n"
  by (simp add: as_u32_def)

section \<open>Hash maps\<close>

named_theorems hmap_simps \<open>look-ups after an operation on a hash map\<close>
named_theorems hmap_wf \<open>operations that keep the keys of a hash map distinct\<close>

type_synonym ('k, 'v) hmap = "('k \<times> 'v) list"

definition hwf :: "('k, 'v) hmap \<Rightarrow> bool" where
  "hwf m = distinct (map fst m)"

definition hget :: "('k, 'v) hmap \<Rightarrow> 'k \<Rightarrow> 'v option" where
  "hget m k = map_of m k"

definition hput :: "'k \<Rightarrow> 'v \<Rightarrow> ('k, 'v) hmap \<Rightarrow> ('k, 'v) hmap" where
  "hput k v m = AList.update k v m"

definition hdel :: "'k \<Rightarrow> ('k, 'v) hmap \<Rightarrow> ('k, 'v) hmap" where
  "hdel k m = AList.delete k m"

text \<open>\<open>if let Some(rec) = m.get_mut(k) { *rec = f(*rec) }\<close>.\<close>

definition hmodify :: "'k \<Rightarrow> ('v \<Rightarrow> 'v) \<Rightarrow> ('k, 'v) hmap \<Rightarrow> ('k, 'v) hmap" where
  "hmodify k f m = (case hget m k of None \<Rightarrow> m | Some v \<Rightarrow> hput k (f v) m)"

text \<open>\<open>let rec = m.entry(k).or_insert_with(|| d); *rec = f(*rec)\<close>.\<close>

definition hentry :: "'k \<Rightarrow> 'v \<Rightarrow> ('v \<Rightarrow> 'v) \<Rightarrow> ('k, 'v) hmap \<Rightarrow> ('k, 'v) hmap" where
  "hentry k d f m = hput k (f (case hget m k of None \<Rightarrow> d | Some v \<Rightarrow> v)) m"

text \<open>\<open>for v in m.values_mut() { *v = f(*v) }\<close>.\<close>

definition hmap_values :: "('v \<Rightarrow> 'v) \<Rightarrow> ('k, 'v) hmap \<Rightarrow> ('k, 'v) hmap" where
  "hmap_values f m = map (\<lambda>(k, v). (k, f v)) m"

definition hvals :: "('k, 'v) hmap \<Rightarrow> 'v list" where
  "hvals m = map snd m"

definition hsum :: "('v \<Rightarrow> nat) \<Rightarrow> ('k, 'v) hmap \<Rightarrow> nat" where
  "hsum f m = sum_list (map f (hvals m))"

lemma hget_Nil [simp]: "hget [] k = None"
  by (simp add: hget_def)

lemma hget_hput [hmap_simps]: "hget (hput k v m) k' = (if k' = k then Some v else hget m k')"
  by (simp add: hget_def hput_def update_conv')

lemma hget_hdel [hmap_simps]: "hget (hdel k m) k' = (if k' = k then None else hget m k')"
  by (simp add: hget_def hdel_def delete_conv')

lemma hget_hmodify [hmap_simps]:
  "hget (hmodify k f m) k' = (if k' = k then map_option f (hget m k) else hget m k')"
  by (auto simp: hmodify_def hget_hput split: option.split)

lemma hget_hentry [hmap_simps]:
  "hget (hentry k d f m) k' =
     (if k' = k then Some (f (case hget m k of None \<Rightarrow> d | Some v \<Rightarrow> v)) else hget m k')"
  by (simp add: hentry_def hget_hput)

lemma hget_hmap_values [hmap_simps]: "hget (hmap_values f m) k = map_option f (hget m k)"
  by (induction m) (auto simp: hget_def hmap_values_def)

lemma update_new: "k \<notin> fst ` set m \<Longrightarrow> AList.update k v m = m @ [(k, v)]"
  by (induction m) auto

lemma hwf_Nil [simp, hmap_wf]: "hwf []"
  by (simp add: hwf_def)

lemma hwf_hput [hmap_wf]: "hwf m \<Longrightarrow> hwf (hput k v m)"
  by (simp add: hwf_def hput_def distinct_update)

lemma hwf_hdel [hmap_wf]: "hwf m \<Longrightarrow> hwf (hdel k m)"
  by (simp add: hwf_def hdel_def distinct_delete)

lemma hwf_hmodify [hmap_wf]: "hwf m \<Longrightarrow> hwf (hmodify k f m)"
  by (simp add: hmodify_def hwf_hput split: option.split)

lemma hwf_hentry [hmap_wf]: "hwf m \<Longrightarrow> hwf (hentry k d f m)"
  by (simp add: hentry_def hwf_hput)

lemma keys_hmap_values [simp]: "map fst (hmap_values f m) = map fst m"
  by (induction m) (auto simp: hmap_values_def)

lemma hwf_hmap_values [hmap_wf]: "hwf m \<Longrightarrow> hwf (hmap_values f m)"
  by (simp add: hwf_def)

lemma hget_set: "hget m k = Some v \<Longrightarrow> (k, v) \<in> set m"
  by (simp add: hget_def map_of_SomeD)

lemma set_hget: "hwf m \<Longrightarrow> (k, v) \<in> set m \<longleftrightarrow> hget m k = Some v"
  by (simp add: hget_def hwf_def)

lemma set_hvals: "hwf m \<Longrightarrow> v \<in> set (hvals m) \<longleftrightarrow> (\<exists>k. hget m k = Some v)"
  by (auto simp: hvals_def image_iff set_hget [symmetric] Bex_def split_paired_Ex)

lemma hsum_Nil [simp]: "hsum f [] = 0"
  by (simp add: hsum_def hvals_def)

text \<open>A sum over the values moves by the difference of the old and the new value.\<close>

lemma hsum_hput:
  "hwf m \<Longrightarrow> hsum f (hput k v m) + (case hget m k of None \<Rightarrow> 0 | Some u \<Rightarrow> f u) = hsum f m + f v"
proof (induction m)
  case Nil
  then show ?case by (simp add: hsum_def hvals_def hput_def)
next
  case (Cons p m)
  obtain a b where p: "p = (a, b)" by (cases p)
  from Cons.prems p have wf: "hwf m" and na: "a \<notin> fst ` set m"
    by (auto simp: hwf_def)
  show ?case
  proof (cases "a = k")
    case True
    then show ?thesis using p na by (simp add: hsum_def hvals_def hput_def hget_def)
  next
    case False
    then have "hsum f (hput k v (p # m)) = f b + hsum f (hput k v m)"
      by (simp add: p hsum_def hvals_def hput_def)
    moreover have "hget (p # m) k = hget m k"
      using False by (simp add: p hget_def)
    ultimately show ?thesis
      using Cons.IH [OF wf] by (simp add: p hsum_def hvals_def)
  qed
qed

lemma hsum_hentry_add:
  assumes "hwf m" and "\<And>r. f (g r) = f r + c" and "f d = 0"
  shows "hsum f (hentry k d g m) = hsum f m + c"
  using hsum_hput [OF assms(1), of f k "g (case hget m k of None \<Rightarrow> d | Some v \<Rightarrow> v)"]
  by (cases "hget m k") (simp_all add: hentry_def assms)

text \<open>A table whose rows carry their own key.\<close>

definition keyed :: "('v \<Rightarrow> 'k) \<Rightarrow> ('k, 'v) hmap \<Rightarrow> bool" where
  "keyed f m \<longleftrightarrow> hwf m \<and> (\<forall>k v. hget m k = Some v \<longrightarrow> f v = k)"

lemma keyed_Nil [simp]: "keyed f []"
  by (simp add: keyed_def)

lemma keyed_hput: "keyed f m \<Longrightarrow> f v = k \<Longrightarrow> keyed f (hput k v m)"
  by (auto simp: keyed_def hmap_wf hmap_simps)

lemma keyed_hmodify: "keyed f m \<Longrightarrow> (\<And>v. f (g v) = f v) \<Longrightarrow> keyed f (hmodify k g m)"
  by (auto simp: keyed_def hmap_wf hmap_simps split: if_splits)

lemma keyed_inj: "keyed f m \<Longrightarrow> inj_on f (set (hvals m))"
  by (auto simp: keyed_def inj_on_def set_hvals)

lemma keyed_get: "keyed f m \<Longrightarrow> v \<in> set (hvals m) \<Longrightarrow> hget m (f v) = Some v"
  by (auto simp: keyed_def set_hvals)

text \<open>A change of a row that keeps \<open>f\<close> keeps the list of its values.\<close>

lemma map_hvals_hmodify:
  assumes "\<And>v. f (g v) = f v"
  shows "map f (hvals (hmodify k g m)) = map f (hvals m)"
proof -
  have "map f (hvals (hput k v m)) = map f (hvals m)" if "hget m k = Some u" "f v = f u" for u v
    using that by (induction m) (auto simp: hvals_def hput_def hget_def split: if_splits)
  then show ?thesis by (auto simp: hmodify_def assms split: option.split)
qed

section \<open>String operations of the standard library\<close>

text \<open>\<open>s.split(c)\<close>: at least one piece, an empty one between adjacent separators.\<close>

fun split_on :: "char \<Rightarrow> string \<Rightarrow> string list" where
  "split_on c [] = [[]]"
| "split_on c (x # xs) =
     (if x = c then [] # split_on c xs
      else (case split_on c xs of [] \<Rightarrow> [[x]] | p # ps \<Rightarrow> (x # p) # ps))"

text \<open>\<open>s.splitn(n, c)\<close>: at most \<open>n\<close> pieces, the last one unsplit.\<close>

primrec splitn :: "nat \<Rightarrow> char \<Rightarrow> string \<Rightarrow> string list" where
  "splitn 0 c s = []"
| "splitn (Suc n) c s =
     (if n = 0 \<or> c \<notin> set s then [s]
      else takeWhile (\<lambda>x. x \<noteq> c) s # splitn n c (tl (dropWhile (\<lambda>x. x \<noteq> c) s)))"

text \<open>\<open>s.find(pat)\<close> for a string pattern: the offset of its first occurrence.\<close>

fun find_sub :: "string \<Rightarrow> string \<Rightarrow> nat option" where
  "find_sub pat [] = (if pat = [] then Some 0 else None)"
| "find_sub pat (x # xs) =
     (if take (length pat) (x # xs) = pat then Some 0
      else map_option Suc (find_sub pat xs))"

definition str_contains :: "string \<Rightarrow> string \<Rightarrow> bool" where
  "str_contains pat s = (find_sub pat s \<noteq> None)"

definition ends_with :: "string \<Rightarrow> string \<Rightarrow> bool" where
  "ends_with suf s = (take (length suf) (rev s) = rev suf)"

text \<open>\<open>s.splitn(2, pat)\<close> with both pieces present.\<close>

definition split_once :: "string \<Rightarrow> string \<Rightarrow> (string \<times> string) option" where
  "split_once pat s =
     map_option (\<lambda>i. (take i s, drop (i + length pat) s)) (find_sub pat s)"

fun join_with :: "string \<Rightarrow> string list \<Rightarrow> string" where
  "join_with sep [] = []"
| "join_with sep [x] = x"
| "join_with sep (x # y # ys) = x @ sep @ join_with sep (y # ys)"

text \<open>Decimal formatting of an unsigned integer (\<open>{n}\<close> in a format string).\<close>

definition digit_char :: "nat \<Rightarrow> char" where
  "digit_char d = char_of (48 + d)"

fun show_nat :: "nat \<Rightarrow> string" where
  "show_nat n = (if n < 10 then [digit_char n] else show_nat (n div 10) @ [digit_char (n mod 10)])"

declare show_nat.simps [simp del]

lemma digit_chars [simp]:
  "digit_char 0 = CHR ''0''" "digit_char (Suc 0) = CHR ''1''" "digit_char 2 = CHR ''2''"
  "digit_char 3 = CHR ''3''" "digit_char 4 = CHR ''4''" "digit_char 5 = CHR ''5''"
  "digit_char 6 = CHR ''6''" "digit_char 7 = CHR ''7''" "digit_char 8 = CHR ''8''"
  "digit_char 9 = CHR ''9''"
  by (simp_all add: digit_char_def char_of_def bit_iff_odd)

lemma show_nat_nonempty: "show_nat n \<noteq> []"
  by (subst show_nat.simps) simp

lemma digit_char_inj: "a < 10 \<Longrightarrow> b < 10 \<Longrightarrow> digit_char a = digit_char b \<Longrightarrow> a = b"
  by (simp add: digit_char_def char_of_eq_iff take_bit_eq_mod)

lemma show_nat_inj: "show_nat a = show_nat b \<Longrightarrow> a = b"
proof (induction a arbitrary: b rule: less_induct)
  case (less a)
  have cut: "show_nat n = (if n < 10 then [] else show_nat (n div 10)) @ [digit_char (n mod 10)]" for n
    by (subst show_nat.simps) simp
  have last: "a mod 10 = b mod 10"
    using less.prems cut [of a] cut [of b] by (auto intro: digit_char_inj)
  have rest: "(if a < 10 then [] else show_nat (a div 10)) = (if b < 10 then [] else show_nat (b div 10))"
    using less.prems cut [of a] cut [of b] by simp
  show ?case
  proof (cases "a < 10")
    case True
    then have "b < 10" using rest not_sym [OF show_nat_nonempty] by (auto split: if_splits)
    then show ?thesis using True last by simp
  next
    case False
    then have "\<not> b < 10" "show_nat (a div 10) = show_nat (b div 10)"
      using rest show_nat_nonempty by (auto split: if_splits)
    then have "a div 10 = b div 10" using less.IH [of "a div 10"] False by simp
    then show ?thesis using last by (metis div_mult_mod_eq)
  qed
qed

lemma splitn_nonempty: "0 < n \<Longrightarrow> splitn n c s \<noteq> []"
  by (cases n) auto

lemma splitn_middle_no_sep:
  "i + 1 < n \<Longrightarrow> i < length (splitn n c s) \<Longrightarrow> c \<notin> set (splitn n c s ! i)"
proof (induction n arbitrary: i s)
  case 0
  then show ?case by simp
next
  case (Suc n)
  show ?case
  proof (cases "c \<in> set s \<and> n \<noteq> 0")
    case True
    then show ?thesis
      using Suc by (cases i) (auto dest: set_takeWhileD)
  next
    case False
    then show ?thesis using Suc.prems by (cases i) auto
  qed
qed

lemma split_on_nonempty: "split_on c s \<noteq> []"
  by (induction s) (auto split: list.split)

lemma split_on_no_sep: "p \<in> set (split_on c s) \<Longrightarrow> c \<notin> set p"
proof (induction s arbitrary: p)
  case Nil
  then show ?case by simp
next
  case (Cons x xs)
  then show ?case
    using split_on_nonempty [of c xs] by (cases "split_on c xs") (auto split: if_splits)
qed

lemma find_sub_bound: "find_sub pat s = Some i \<Longrightarrow> i + length pat \<le> length s"
proof (induction s arbitrary: i)
  case Nil
  then show ?case by (auto split: if_splits)
next
  case (Cons x xs)
  show ?case
  proof (cases "take (length pat) (x # xs) = pat")
    case True
    then have "length pat \<le> length (x # xs)"
      by (metis length_take min.cobounded1)
    then show ?thesis using True Cons.prems by simp
  next
    case False
    then show ?thesis using Cons by auto
  qed
qed

lemma find_sub_occurs: "find_sub pat s = Some i \<Longrightarrow> take (length pat) (drop i s) = pat"
  by (induction s arbitrary: i) (auto split: if_splits)

text \<open>Cutting two strings at the first separator is unambiguous.\<close>

lemma cut_unique:
  assumes "a @ c # b = a' @ c # b'" and "c \<notin> set a" and "c \<notin> set a'"
  shows "a = a' \<and> b = b'"
  using assms
proof (induction a arbitrary: a')
  case Nil
  then show ?case by (cases a') auto
next
  case (Cons x a)
  then show ?case by (cases a') auto
qed

end
