(* ===== verification/Tenancy.thy ===== *)
theory Tenancy
  imports Prelude
begin

text \<open>
  Ownership keys and workspace roles
  (\<open>crates/cairn-domain/src/tenancy.rs\<close>, \<open>ids.rs\<close>). Every identifier type of
  \<open>ids.rs\<close> is a newtype over \<open>String\<close>; they are all \<open>ident\<close> here.
\<close>

type_synonym ident = string

datatype scope = System | Tenant | Workspace | Project

record tenant_key =
  tk_tenant_id :: ident

record workspace_key =
  wk_tenant_id :: ident
  wk_workspace_id :: ident

record project_key =
  tenant_id :: ident
  workspace_id :: ident
  project_id :: ident

datatype ownership_key =
    OwnSystem
  | OwnTenant tenant_key
  | OwnWorkspace workspace_key
  | OwnProject project_key

fun scope_includes :: "scope \<Rightarrow> scope \<Rightarrow> bool" where
  "scope_includes System _ = True"
| "scope_includes Tenant s = (s \<in> {Tenant, Workspace, Project})"
| "scope_includes Workspace s = (s \<in> {Workspace, Project})"
| "scope_includes Project s = (s = Project)"

definition project_key_new :: "ident \<Rightarrow> ident \<Rightarrow> ident \<Rightarrow> project_key" where
  "project_key_new t w p = \<lparr>tenant_id = t, workspace_id = w, project_id = p\<rparr>"

definition workspace_key_of :: "project_key \<Rightarrow> workspace_key" where
  "workspace_key_of p = \<lparr>wk_tenant_id = tenant_id p, wk_workspace_id = workspace_id p\<rparr>"

definition default_project_key :: project_key where
  "default_project_key =
     project_key_new ''default_tenant'' ''default_workspace'' ''default_project''"

fun ownership_scope :: "ownership_key \<Rightarrow> scope" where
  "ownership_scope OwnSystem = System"
| "ownership_scope (OwnTenant _) = Tenant"
| "ownership_scope (OwnWorkspace _) = Workspace"
| "ownership_scope (OwnProject _) = Project"

datatype workspace_role = Owner | Admin | Member | Viewer

fun role_level :: "workspace_role \<Rightarrow> u8" where
  "role_level Viewer = 1"
| "role_level Member = 2"
| "role_level Admin = 3"
| "role_level Owner = 4"

definition has_at_least :: "workspace_role \<Rightarrow> workspace_role \<Rightarrow> bool" where
  "has_at_least r minimum = (role_level minimum \<le> role_level r)"

lemma role_level_inj: "role_level r = role_level r' \<longleftrightarrow> r = r'"
  by (cases r; cases r') simp_all

text \<open>Containment of scopes is a partial order with \<open>System\<close> on top.\<close>

lemma scope_includes_refl: "scope_includes s s"
  by (cases s) simp_all

lemma scope_includes_trans:
  "scope_includes a b \<Longrightarrow> scope_includes b c \<Longrightarrow> scope_includes a c"
  by (cases a; cases b; cases c) simp_all

lemma scope_includes_antisym:
  "scope_includes a b \<Longrightarrow> scope_includes b a \<Longrightarrow> a = b"
  by (cases a; cases b) simp_all

lemma scope_includes_total: "scope_includes a b \<or> scope_includes b a"
  by (cases a; cases b) simp_all

text \<open>
  A role check is monotone in both arguments, so a role passes exactly the checks of the
  roles below it: adding privilege never loses a permission.
\<close>

instantiation workspace_role :: linorder
begin

definition less_eq_workspace_role :: "workspace_role \<Rightarrow> workspace_role \<Rightarrow> bool" where
  "less_eq_workspace_role r r' = (role_level r \<le> role_level r')"

definition less_workspace_role :: "workspace_role \<Rightarrow> workspace_role \<Rightarrow> bool" where
  "less_workspace_role r r' = (role_level r < role_level r')"

instance
  by standard (auto simp: less_eq_workspace_role_def less_workspace_role_def role_level_inj)

end

lemma has_at_least_iff: "has_at_least r minimum \<longleftrightarrow> minimum \<le> r"
  by (simp add: has_at_least_def less_eq_workspace_role_def)

lemma has_at_least_mono:
  "has_at_least r m \<Longrightarrow> r \<le> r' \<Longrightarrow> m' \<le> m \<Longrightarrow> has_at_least r' m'"
  by (auto simp: has_at_least_iff)

end
