(* ===== verification/Decision_Types.thy ===== *)
theory Decision_Types
  imports Tenancy
begin

text \<open>
  The vocabulary of the decision layer (\<open>crates/cairn-domain/src/decisions.rs\<close>). The
  arguments of a tool call are a \<open>serde_json::Value\<close>, a type of a third-party package that
  the decision layer carries and never inspects: the type variable \<open>'j\<close>.
\<close>

datatype run_mode = Direct | Plan | Execute ident

datatype tool_effect = Observational | Internal | External

datatype decision_scope_ref =
    RunScope ident project_key
  | ProjectScope project_key
  | WorkspaceScope ident ident
  | TenantScope ident

datatype decision_kind =
    ToolInvocationKind string tool_effect
  | ProviderCallKind string u32
  | PluginEnablement string project_key
  | WorkspaceProvision string string
  | CredentialAccess ident string
  | TriggerFire string string
  | DestructiveAction string string
  | OtherKind string

datatype principal = RunPrincipal ident | OperatorPrincipal ident | SystemPrincipal

datatype 'j decision_subject =
    ToolCall string 'j
  | Resource string string
  | ProviderCall string

record cost_estimate =
  ce_amount :: f64_bits
  ce_currency :: string
  ce_description :: string

record 'j decision_request =
  rq_kind :: decision_kind
  rq_principal :: principal
  rq_subject :: "'j decision_subject"
  rq_scope :: project_key
  rq_cost_estimate :: "cost_estimate option"
  rq_requested_at :: u64
  rq_correlation_id :: ident

record decision_key =
  dk_kind_tag :: string
  dk_scope_ref :: decision_scope_ref
  dk_semantic_hash :: string

datatype decision_outcome = Allowed | Denied (outcome_step: u8) (outcome_reason: string)

datatype decision_cache_scope = CacheRun | CacheProject | CacheWorkspace | CacheTenant

datatype cache_policy = AlwaysCache | NeverCache | CacheIfApproved | CacheIfDenied

record decision_policy =
  dp_default_ttl_secs :: u64
  dp_default_scope :: decision_cache_scope
  dp_cache_policy :: cache_policy
  dp_max_ttl_secs :: u64

record step_result =
  sr_step :: u8
  sr_name :: string
  sr_outcome :: string
  sr_detail :: "string option"
  sr_rule_ids :: "ident list"

datatype decision_source =
    CacheHit ident
  | FreshEvaluation
  | Guardian string
  | Human ident

datatype actor_ref = OperatorActor ident | SystemPolicyChange

record cached_decision_ref =
  cr_decision_key :: decision_key
  cr_expires_at :: u64

datatype risk_level = Low | Medium | High

record resolver_decision =
  rd_outcome :: decision_outcome
  rd_rationale :: string
  rd_risk_level :: risk_level
  rd_resolved_by :: string
  rd_ttl_secs :: "u64 option"

record guardian_config =
  gc_model_id :: "string option"
  gc_timeout_ms :: u64
  gc_risk_ceiling :: risk_level
  gc_max_context_tokens :: nat

definition default_guardian_config :: guardian_config where
  "default_guardian_config =
     \<lparr>gc_model_id = None, gc_timeout_ms = 60000, gc_risk_ceiling = Low,
      gc_max_context_tokens = 16000\<rparr>"

text \<open>The payload of \<open>DecisionEvent::DecisionRecorded\<close>, then the event itself.\<close>

record 'j recorded_decision =
  rec_decision_id :: ident
  rec_request :: "'j decision_request"
  rec_outcome :: decision_outcome
  rec_reasoning_chain :: "step_result list"
  rec_source :: decision_source
  rec_resolved_by :: "string option"
  rec_cached_for :: "cached_decision_ref option"
  rec_decided_at :: u64

datatype 'j decision_event =
    DecisionRecordedEvent "'j recorded_decision"
  | DecisionCacheUpdated ident decision_key decision_cache_scope u64 u64 u64
  | DecisionCacheHit ident ident decision_key u64
  | DecisionCacheInvalidated ident decision_key actor_ref string u64

fun risk_rank :: "risk_level \<Rightarrow> nat" where
  "risk_rank Low = 0"
| "risk_rank Medium = 1"
| "risk_rank High = 2"

text \<open>\<open>derive(PartialOrd, Ord)\<close> on \<open>RiskLevel\<close>: the order of the variants.\<close>

instantiation risk_level :: linorder
begin

definition less_eq_risk_level :: "risk_level \<Rightarrow> risk_level \<Rightarrow> bool" where
  "less_eq_risk_level a b = (risk_rank a \<le> risk_rank b)"

definition less_risk_level :: "risk_level \<Rightarrow> risk_level \<Rightarrow> bool" where
  "less_risk_level a b = (risk_rank a < risk_rank b)"

instance
proof
  fix a b :: risk_level
  show "a \<le> b \<Longrightarrow> b \<le> a \<Longrightarrow> a = b"
    by (cases a; cases b) (simp_all add: less_eq_risk_level_def)
qed (auto simp: less_eq_risk_level_def less_risk_level_def)

end

end
