(* ===== verification/Decision_Cache.thy ===== *)
theory Decision_Cache
  imports Decision_Types
begin

text \<open>
  The singleflight cache of the decision service (\<open>DecisionCache\<close> of
  \<open>crates/cairn-runtime/src/decisions.rs\<close>). Every method takes one of the three locks for
  its whole body, so it is an atomic step; \<open>promote_to_resolved\<close> takes two locks one after
  the other and is the composition of its two halves. The clock is an argument of the
  methods that read it. \<open>cache_step\<close> is one such atomic step of any concurrent caller, and
  the invariants of the last section hold in every interleaving of them.
\<close>

section \<open>Data\<close>

datatype cache_entry_state =
    Miss
  | Pending (owner_decision_id: ident) (started_at: u64)
  | Resolved (resolved_id: ident) (resolved_outcome: decision_outcome) (resolved_until: u64)

record cache_entry =
  ce_decision_id :: ident
  ce_outcome :: "decision_outcome option"
  ce_expires_at :: u64
  ce_created_at :: u64
  ce_hit_count :: u64
  ce_is_pending :: bool

record 'j decision_cache =
  dc_entries :: "(string, cache_entry) hmap"
  dc_events :: "(string, 'j decision_event) hmap"
  dc_rule_index :: "(string, string list) hmap"
  dc_pending_timeout_ms :: u64

record cached_decision_summary =
  cs_decision_id :: ident
  cs_decision_key :: decision_key
  cs_outcome :: decision_outcome
  cs_kind_tag :: string
  cs_scope :: decision_scope_ref
  cs_ttl_remaining_secs :: u64
  cs_source :: decision_source
  cs_hit_count :: u64
  cs_created_at :: u64
  cs_expires_at :: u64

definition decision_cache_new :: "u64 \<Rightarrow> 'j decision_cache" where
  "decision_cache_new pending_timeout_ms =
     \<lparr>dc_entries = [], dc_events = [], dc_rule_index = [],
      dc_pending_timeout_ms = pending_timeout_ms\<rparr>"

definition project_path :: "project_key \<Rightarrow> string" where
  "project_path p = tenant_id p @ ''/'' @ workspace_id p @ ''/'' @ project_id p"

fun scope_ref_string :: "decision_scope_ref \<Rightarrow> string" where
  "scope_ref_string (RunScope run_id p) = ''run:'' @ run_id @ '':'' @ project_path p"
| "scope_ref_string (ProjectScope p) = ''project:'' @ project_path p"
| "scope_ref_string (WorkspaceScope t w) = ''workspace:'' @ t @ ''/'' @ w"
| "scope_ref_string (TenantScope t) = ''tenant:'' @ t"

definition cache_key_string :: "decision_key \<Rightarrow> string" where
  "cache_key_string key =
     dk_kind_tag key @ '':'' @ scope_ref_string (dk_scope_ref key) @ '':'' @ dk_semantic_hash key"

section \<open>Methods\<close>

definition lookup :: "u64 \<Rightarrow> decision_key \<Rightarrow> 'j decision_cache \<Rightarrow>
    cache_entry_state \<times> 'j decision_cache" where
  "lookup now key c =
     (let ck = cache_key_string key
      in (case hget (dc_entries c) ck of
            None \<Rightarrow> (Miss, c)
          | Some entry \<Rightarrow>
              if ce_is_pending entry then
                (if now - ce_created_at entry > dc_pending_timeout_ms c
                 then (Miss, c\<lparr>dc_entries := hdel ck (dc_entries c)\<rparr>)
                 else (Pending (ce_decision_id entry) (ce_created_at entry), c))
              else if now < ce_expires_at entry then
                (Resolved (ce_decision_id entry)
                   (case ce_outcome entry of Some out \<Rightarrow> out | None \<Rightarrow> Allowed)
                   (ce_expires_at entry), c)
              else (Miss, c\<lparr>dc_entries := hdel ck (dc_entries c)\<rparr>)))"

definition install_pending :: "u64 \<Rightarrow> decision_key \<Rightarrow> ident \<Rightarrow> 'j decision_cache \<Rightarrow>
    'j decision_cache" where
  "install_pending now key decision_id c =
     c\<lparr>dc_entries := hput (cache_key_string key)
         \<lparr>ce_decision_id = decision_id, ce_outcome = None, ce_expires_at = 0,
          ce_created_at = now, ce_hit_count = 0, ce_is_pending = True\<rparr> (dc_entries c)\<rparr>"

definition chain_rule_ids :: "step_result list \<Rightarrow> ident list" where
  "chain_rule_ids chain = concat (map sr_rule_ids chain)"

definition index_rules :: "string \<Rightarrow> ident list \<Rightarrow> 'j decision_cache \<Rightarrow> 'j decision_cache" where
  "index_rules ck rule_ids c =
     c\<lparr>dc_rule_index :=
         fold (\<lambda>rid idx. hentry rid [] (\<lambda>ks. ks @ [ck]) idx) rule_ids (dc_rule_index c)\<rparr>"

definition insert_resolved :: "string \<Rightarrow> ident \<Rightarrow> decision_outcome \<Rightarrow> u64 \<Rightarrow> u64 \<Rightarrow>
    'j decision_cache \<Rightarrow> 'j decision_cache" where
  "insert_resolved ck decision_id outcome expires_at created_at c =
     c\<lparr>dc_entries := hput ck
         \<lparr>ce_decision_id = decision_id, ce_outcome = Some outcome,
          ce_expires_at = expires_at, ce_created_at = created_at,
          ce_hit_count = 0, ce_is_pending = False\<rparr> (dc_entries c)\<rparr>"

definition expiry :: "u64 \<Rightarrow> u64 \<Rightarrow> u64" where
  "expiry now ttl_secs = wrap_add64 now (wrap_mul64 ttl_secs 1000)"

definition promote_to_resolved :: "u64 \<Rightarrow> decision_key \<Rightarrow> ident \<Rightarrow> decision_outcome \<Rightarrow>
    step_result list \<Rightarrow> u64 \<Rightarrow> 'j decision_cache \<Rightarrow> u64 \<times> 'j decision_cache" where
  "promote_to_resolved now key decision_id outcome chain ttl_secs c =
     (let ck = cache_key_string key;
          expires_at = expiry now ttl_secs
      in (expires_at,
          insert_resolved ck decision_id outcome expires_at now
            (index_rules ck (chain_rule_ids chain) c)))"

definition record_hit :: "decision_key \<Rightarrow> 'j decision_cache \<Rightarrow> 'j decision_cache" where
  "record_hit key c =
     c\<lparr>dc_entries := hmodify (cache_key_string key)
         (\<lambda>e. e\<lparr>ce_hit_count := wrap_add64 (ce_hit_count e) 1\<rparr>) (dc_entries c)\<rparr>"

definition store_event :: "ident \<Rightarrow> 'j decision_event \<Rightarrow> 'j decision_cache \<Rightarrow> 'j decision_cache" where
  "store_event decision_id ev c = c\<lparr>dc_events := hput decision_id ev (dc_events c)\<rparr>"

definition get_event :: "ident \<Rightarrow> 'j decision_cache \<Rightarrow> 'j decision_event option" where
  "get_event decision_id c = hget (dc_events c) decision_id"

definition remove_by_decision_id :: "ident \<Rightarrow> 'j decision_cache \<Rightarrow> bool \<times> 'j decision_cache" where
  "remove_by_decision_id decision_id c =
     (case find (\<lambda>(k, v). ce_decision_id v = decision_id) (dc_entries c) of
        Some (k, _) \<Rightarrow> (True, c\<lparr>dc_entries := hdel k (dc_entries c)\<rparr>)
      | None \<Rightarrow> (False, c))"

definition scope_filter :: "string \<Rightarrow> string option \<Rightarrow> string \<Rightarrow> bool" where
  "scope_filter scope_str kind_filter k =
     (let parts = splitn 3 (CHR '':'') k
      in if length parts < 2 then False
         else let matches_scope = (parts ! 1 = scope_str);
                  matches_kind = (case kind_filter of None \<Rightarrow> True | Some f \<Rightarrow> parts ! 0 = f)
              in matches_scope \<and> matches_kind)"

definition remove_by_scope :: "decision_scope_ref \<Rightarrow> string option \<Rightarrow> 'j decision_cache \<Rightarrow>
    u32 \<times> 'j decision_cache" where
  "remove_by_scope scope_ref kind_filter c =
     (let scope_str = scope_ref_string scope_ref;
          keys_to_remove = filter (scope_filter scope_str kind_filter) (map fst (dc_entries c))
      in (as_u32 (length keys_to_remove),
          c\<lparr>dc_entries := fold hdel keys_to_remove (dc_entries c)\<rparr>))"

text \<open>The loop of \<open>remove_by_rule_id\<close>: the removals and the count of those that hit.\<close>

fun remove_keys :: "string list \<Rightarrow> (string, cache_entry) hmap \<Rightarrow> u32 \<Rightarrow>
    u32 \<times> (string, cache_entry) hmap" where
  "remove_keys [] es count = (count, es)"
| "remove_keys (k # ks) es count =
     (if hget es k \<noteq> None then remove_keys ks (hdel k es) (wrap_add32 count 1)
      else remove_keys ks es count)"

definition remove_by_rule_id :: "ident \<Rightarrow> 'j decision_cache \<Rightarrow> u32 \<times> 'j decision_cache" where
  "remove_by_rule_id rid c =
     (let ks = (case hget (dc_rule_index c) rid of None \<Rightarrow> [] | Some ks \<Rightarrow> ks);
          (count, es) = remove_keys ks (dc_entries c) 0
      in (count, c\<lparr>dc_rule_index := hdel rid (dc_rule_index c), dc_entries := es\<rparr>))"

definition summary_of :: "u64 \<Rightarrow> project_key \<Rightarrow> cache_entry \<Rightarrow> decision_outcome \<Rightarrow>
    cached_decision_summary" where
  "summary_of now scope_key e outcome =
     \<lparr>cs_decision_id = ce_decision_id e,
      cs_decision_key = \<lparr>dk_kind_tag = [], dk_scope_ref = ProjectScope scope_key,
                         dk_semantic_hash = []\<rparr>,
      cs_outcome = outcome, cs_kind_tag = [], cs_scope = ProjectScope scope_key,
      cs_ttl_remaining_secs = (ce_expires_at e - now) div 1000,
      cs_source = CacheHit (ce_decision_id e),
      cs_hit_count = ce_hit_count e, cs_created_at = ce_created_at e,
      cs_expires_at = ce_expires_at e\<rparr>"

definition list_active :: "u64 \<Rightarrow> project_key \<Rightarrow> nat \<Rightarrow> 'j decision_cache \<Rightarrow>
    cached_decision_summary list" where
  "list_active now scope_key limit c =
     List.map_filter
       (\<lambda>(k, e). map_option (summary_of now scope_key e) (ce_outcome e))
       (take limit
         (filter (\<lambda>(k, e). ce_outcome e \<noteq> None \<and> ce_expires_at e > now) (dc_entries c)))"

text \<open>\<open>DecisionServiceImpl::seed_cache_entry\<close>, the insertion of startup replay.\<close>

definition seed_cache_entry :: "ident \<Rightarrow> decision_key \<Rightarrow> decision_outcome \<Rightarrow> u64 \<Rightarrow> u64 \<Rightarrow>
    'j decision_event option \<Rightarrow> 'j decision_cache \<Rightarrow> 'j decision_cache" where
  "seed_cache_entry decision_id key outcome expires_at decided_at ev c =
     (let c' = insert_resolved (cache_key_string key) decision_id outcome expires_at decided_at c
      in (case ev of None \<Rightarrow> c' | Some e \<Rightarrow> store_event decision_id e c'))"

section \<open>Steps of concurrent callers\<close>

text \<open>
  A grant is one insertion of a resolved entry: the key it was stored under, the decision,
  its outcome and its expiry. A step carries the grants made so far.
\<close>

type_synonym grant = "string \<times> ident \<times> decision_outcome \<times> u64"

inductive cache_step ::
  "'j decision_cache \<times> grant set \<Rightarrow> 'j decision_cache \<times> grant set \<Rightarrow> bool" where
  step_lookup: "cache_step (c, G) (snd (lookup now key c), G)"
| step_install: "cache_step (c, G) (install_pending now key did c, G)"
| step_index: "cache_step (c, G) (index_rules ck rids c, G)"
| step_insert:
    "cache_step (c, G) (insert_resolved ck did out exp at c, insert (ck, did, out, exp) G)"
| step_hit: "cache_step (c, G) (record_hit key c, G)"
| step_store: "cache_step (c, G) (store_event did ev c, G)"
| step_remove_id: "cache_step (c, G) (snd (remove_by_decision_id did c), G)"
| step_remove_scope: "cache_step (c, G) (snd (remove_by_scope s kf c), G)"
| step_remove_rule: "cache_step (c, G) (snd (remove_by_rule_id rid c), G)"

inductive cache_reachable :: "u64 \<Rightarrow> 'j decision_cache \<times> grant set \<Rightarrow> bool" for t where
  reach_new: "cache_reachable t (decision_cache_new t, {})"
| reach_step: "cache_reachable t s \<Longrightarrow> cache_step s s' \<Longrightarrow> cache_reachable t s'"

inductive_cases cache_stepE: "cache_step (c, G) s'"

section \<open>Invariants\<close>

definition entry_wf :: "grant set \<Rightarrow> string \<Rightarrow> cache_entry \<Rightarrow> bool" where
  "entry_wf G k e =
     (if ce_is_pending e then ce_outcome e = None
      else (case ce_outcome e of
              None \<Rightarrow> False
            | Some out \<Rightarrow> (k, ce_decision_id e, out, ce_expires_at e) \<in> G))"

definition cache_inv :: "'j decision_cache \<Rightarrow> grant set \<Rightarrow> bool" where
  "cache_inv c G \<longleftrightarrow>
     hwf (dc_entries c) \<and> (\<forall>k e. hget (dc_entries c) k = Some e \<longrightarrow> entry_wf G k e)"

lemma cache_inv_new: "cache_inv (decision_cache_new t) {}"
  by (simp add: cache_inv_def decision_cache_new_def)

lemma entry_wf_grow: "entry_wf G k e \<Longrightarrow> entry_wf (insert g G) k e"
  by (auto simp: entry_wf_def split: if_splits option.splits)

text \<open>An operation that only removes entries or keeps them keeps the invariant.\<close>

lemma cache_inv_shrink:
  assumes "cache_inv c G" and "hwf (dc_entries c')"
    and "\<And>k e. hget (dc_entries c') k = Some e \<Longrightarrow> hget (dc_entries c) k = Some e"
  shows "cache_inv c' G"
  using assms by (auto simp: cache_inv_def)

lemma hwf_fold_hdel: "hwf m \<Longrightarrow> hwf (fold hdel ks m)"
  by (induction ks arbitrary: m) (simp_all add: hwf_hdel)

lemma hget_fold_hdel: "hget (fold hdel ks m) k = (if k \<in> set ks then None else hget m k)"
  by (induction ks arbitrary: m) (auto simp: hmap_simps)

lemma remove_keys_entries:
  "hget (snd (remove_keys ks es n)) k = (if k \<in> set ks then None else hget es k)"
  by (induction ks es n rule: remove_keys.induct) (auto simp: hmap_simps)

lemma hwf_remove_keys: "hwf es \<Longrightarrow> hwf (snd (remove_keys ks es n))"
  by (induction ks es n rule: remove_keys.induct) (auto simp: hmap_wf)

lemma lookup_entries:
  "hget (dc_entries (snd (lookup now key c))) k = Some e \<Longrightarrow> hget (dc_entries c) k = Some e"
  by (auto simp: lookup_def Let_def hmap_simps split: option.splits if_splits)

lemma hwf_lookup: "hwf (dc_entries c) \<Longrightarrow> hwf (dc_entries (snd (lookup now key c)))"
  by (auto simp: lookup_def Let_def hmap_wf split: option.splits)

lemma remove_by_decision_id_entries:
  "hget (dc_entries (snd (remove_by_decision_id did c))) k = Some e \<Longrightarrow>
     hget (dc_entries c) k = Some e"
  by (auto simp: remove_by_decision_id_def hmap_simps split: option.splits if_splits)

lemma hwf_remove_by_decision_id:
  "hwf (dc_entries c) \<Longrightarrow> hwf (dc_entries (snd (remove_by_decision_id did c)))"
  by (auto simp: remove_by_decision_id_def hmap_wf split: option.splits)

lemma remove_by_rule_id_entries:
  "hget (dc_entries (snd (remove_by_rule_id rid c))) k =
     (if k \<in> set (case hget (dc_rule_index c) rid of None \<Rightarrow> [] | Some ks \<Rightarrow> ks)
      then None else hget (dc_entries c) k)"
  using remove_keys_entries [of "case hget (dc_rule_index c) rid of None \<Rightarrow> [] | Some ks \<Rightarrow> ks"
      "dc_entries c" 0 k]
  by (auto simp: remove_by_rule_id_def Let_def split: prod.splits)

lemma hwf_remove_by_rule_id:
  "hwf (dc_entries c) \<Longrightarrow> hwf (dc_entries (snd (remove_by_rule_id rid c)))"
  using hwf_remove_keys [of "dc_entries c"]
  by (auto simp: remove_by_rule_id_def Let_def split: prod.splits) (metis snd_conv)

lemma cache_inv_insert_resolved:
  "cache_inv c G \<Longrightarrow>
     cache_inv (insert_resolved ck did out exp at c) (insert (ck, did, out, exp) G)"
  by (auto simp: cache_inv_def insert_resolved_def hmap_wf hmap_simps
      intro: entry_wf_grow split: if_splits) (simp add: entry_wf_def)

lemma cache_inv_install_pending: "cache_inv c G \<Longrightarrow> cache_inv (install_pending now key did c) G"
  by (auto simp: cache_inv_def install_pending_def hmap_wf hmap_simps split: if_splits)
    (simp add: entry_wf_def)

lemma entry_wf_count [simp]: "entry_wf G k (e\<lparr>ce_hit_count := n\<rparr>) = entry_wf G k e"
  by (cases "ce_outcome e") (simp_all add: entry_wf_def)

lemma cache_inv_record_hit: "cache_inv c G \<Longrightarrow> cache_inv (record_hit key c) G"
  by (auto simp: cache_inv_def record_hit_def hmap_wf hmap_simps split: if_splits)

lemma cache_step_inv: "cache_step s s' \<Longrightarrow> cache_inv (fst s) (snd s) \<Longrightarrow> cache_inv (fst s') (snd s')"
proof (induction rule: cache_step.induct)
  case (step_lookup c G now key)
  then show ?case
    by (auto intro!: cache_inv_shrink [of c G] hwf_lookup dest: lookup_entries simp: cache_inv_def)
next
  case (step_remove_id c G did)
  then show ?case
    by (auto intro!: cache_inv_shrink [of c G] hwf_remove_by_decision_id
        dest: remove_by_decision_id_entries simp: cache_inv_def)
next
  case (step_remove_scope c G s kf)
  then show ?case
    by (auto intro!: cache_inv_shrink [of c G] hwf_fold_hdel
        simp: cache_inv_def remove_by_scope_def Let_def hget_fold_hdel split: if_splits)
next
  case (step_remove_rule c G rid)
  then show ?case
    by (auto intro!: cache_inv_shrink [of c G] hwf_remove_by_rule_id
        simp: cache_inv_def remove_by_rule_id_entries split: if_splits)
next
  case (step_index c G ck rids)
  then show ?case by (simp add: cache_inv_def index_rules_def)
next
  case (step_store c G did ev)
  then show ?case by (simp add: cache_inv_def store_event_def)
qed (simp_all add: cache_inv_insert_resolved cache_inv_install_pending cache_inv_record_hit)

lemma cache_reachable_inv: "cache_reachable t s \<Longrightarrow> cache_inv (fst s) (snd s)"
  by (induction rule: cache_reachable.induct) (auto simp: cache_inv_new intro: cache_step_inv)

text \<open>
  Under the invariant, what \<open>lookup\<close> reports as resolved was granted for that key and has
  not expired: the \<open>unwrap_or(Allowed)\<close> of the code never decides anything.
\<close>

lemma lookup_resolved_granted:
  assumes "cache_inv c G" and "fst (lookup now key c) = Resolved did out exp"
  shows "(cache_key_string key, did, out, exp) \<in> G \<and> now < exp"
proof -
  let ?ck = "cache_key_string key"
  obtain e where e: "hget (dc_entries c) ?ck = Some e"
    using assms(2) by (cases "hget (dc_entries c) ?ck") (auto simp: lookup_def)
  then have "entry_wf G ?ck e" using assms(1) by (simp add: cache_inv_def)
  with e assms(2) show ?thesis
    by (auto simp: lookup_def Let_def entry_wf_def split: option.splits if_splits)
qed

lemma lookup_insert_resolved:
  "now < exp \<Longrightarrow>
     lookup now key (insert_resolved (cache_key_string key) did out exp at c) =
       (Resolved did out exp, insert_resolved (cache_key_string key) did out exp at c)"
  by (simp add: lookup_def Let_def insert_resolved_def hmap_simps)

end
