(* ===== verification/Decision_Service.thy ===== *)
theory Decision_Service
  imports Decision_Cache
begin

text \<open>
  The decision service (\<open>DecisionServiceImpl\<close> of \<open>crates/cairn-runtime/src/decisions.rs\<close>): the
  policy table, the derivation of the cache key, the eight steps of \<open>evaluate\<close>, and the
  invalidation and query operations.

  The five pluggable checkers are trait objects; they are the functions of \<open>services\<close>, with
  the two library calls of the service beside them (the truncated SHA-256 of the JSON of the
  kind, and the JSON encoding of an event). The readings of the system clock that one
  evaluation makes are the fields of \<open>eval_clock\<close>. \<open>evaluate\<close> returns the result, the cache
  and the event it appends to the log when one is attached.
\<close>

section \<open>Checkers\<close>

datatype scope_check_result = ScopeAllowed | ScopeDenied string
datatype visibility_check_result = Visible | NotInContext string
datatype guardrail_check_outcome = GuardAllow | GuardDeny string | GuardEscalate

record guardrail_check_result =
  gr_outcome :: guardrail_check_outcome
  gr_rule_ids :: "ident list"

datatype budget_check_result = BudgetOk | SoftAlert u32 | Exceeded string

record 'j services =
  sv_scope :: "'j decision_request \<Rightarrow> scope_check_result"
  sv_visibility :: "'j decision_request \<Rightarrow> visibility_check_result"
  sv_guardrail :: "'j decision_request \<Rightarrow> guardrail_check_result"
  sv_budget :: "'j decision_request \<Rightarrow> budget_check_result"
  sv_resolve :: "'j decision_request \<Rightarrow> decision_outcome \<times> decision_source"
  sv_kind_hash :: "decision_kind \<Rightarrow> string"
  sv_event_json :: "'j decision_event \<Rightarrow> string option"

text \<open>The default services: every checker allows (\<open>AllowAll*\<close>, \<open>AutoApproveResolver\<close>).\<close>

definition allow_all_services ::
  "(decision_kind \<Rightarrow> string) \<Rightarrow> ('j decision_event \<Rightarrow> string option) \<Rightarrow> 'j services" where
  "allow_all_services hash json =
     \<lparr>sv_scope = (\<lambda>_. ScopeAllowed), sv_visibility = (\<lambda>_. Visible),
      sv_guardrail = (\<lambda>_. \<lparr>gr_outcome = GuardAllow, gr_rule_ids = []\<rparr>),
      sv_budget = (\<lambda>_. BudgetOk), sv_resolve = (\<lambda>_. (Allowed, FreshEvaluation)),
      sv_kind_hash = hash, sv_event_json = json\<rparr>"

section \<open>Policies and the cache key\<close>

type_synonym policies = "(string, decision_policy) hmap"

definition policy :: "u64 \<Rightarrow> decision_cache_scope \<Rightarrow> cache_policy \<Rightarrow> u64 \<Rightarrow> decision_policy" where
  "policy ttl scope cp max_ttl =
     \<lparr>dp_default_ttl_secs = ttl, dp_default_scope = scope, dp_cache_policy = cp,
      dp_max_ttl_secs = max_ttl\<rparr>"

definition default_policies :: policies where
  "default_policies =
     [(''tool_invocation:observational'', policy 86400 CacheProject AlwaysCache 604800),
      (''tool_invocation:internal'', policy 86400 CacheProject AlwaysCache 604800),
      (''tool_invocation:external'', policy 14400 CacheProject CacheIfApproved 86400),
      (''provider_call'', policy 3600 CacheRun CacheIfApproved 86400),
      (''plugin_enablement'', policy 0 CacheProject NeverCache 0),
      (''workspace_provision'', policy 86400 CacheProject AlwaysCache 604800),
      (''trigger_fire'', policy 3600 CacheProject CacheIfApproved 14400),
      (''credential_access'', policy 3600 CacheRun CacheIfApproved 3600)]"

fun kind_tag_for :: "decision_kind \<Rightarrow> string" where
  "kind_tag_for (ToolInvocationKind _ _) = ''tool_invocation''"
| "kind_tag_for (ProviderCallKind _ _) = ''provider_call''"
| "kind_tag_for (PluginEnablement _ _) = ''plugin_enablement''"
| "kind_tag_for (WorkspaceProvision _ _) = ''workspace_provision''"
| "kind_tag_for (CredentialAccess _ _) = ''credential_access''"
| "kind_tag_for (TriggerFire _ _) = ''trigger_fire''"
| "kind_tag_for (DestructiveAction _ _) = ''destructive_action''"
| "kind_tag_for (OtherKind s) = ''other:'' @ s"

fun effect_str :: "tool_effect \<Rightarrow> string" where
  "effect_str Observational = ''observational''"
| "effect_str Internal = ''internal''"
| "effect_str External = ''external''"

definition policy_key :: "decision_kind \<Rightarrow> string" where
  "policy_key kind =
     (case kind of
        ToolInvocationKind _ eff \<Rightarrow> kind_tag_for kind @ '':'' @ effect_str eff
      | _ \<Rightarrow> kind_tag_for kind)"

definition resolve_policy :: "policies \<Rightarrow> decision_kind \<Rightarrow> decision_policy" where
  "resolve_policy ps kind =
     (case hget ps (policy_key kind) of
        Some p \<Rightarrow> p
      | None \<Rightarrow> policy 0 CacheProject NeverCache 0)"

definition derive_scope_ref :: "'j decision_request \<Rightarrow> decision_policy \<Rightarrow> decision_scope_ref" where
  "derive_scope_ref rq p =
     (case dp_default_scope p of
        CacheRun \<Rightarrow>
          (case rq_principal rq of
             RunPrincipal run_id \<Rightarrow> RunScope run_id (rq_scope rq)
           | _ \<Rightarrow> ProjectScope (rq_scope rq))
      | CacheProject \<Rightarrow> ProjectScope (rq_scope rq)
      | CacheWorkspace \<Rightarrow> WorkspaceScope (tenant_id (rq_scope rq)) (workspace_id (rq_scope rq))
      | CacheTenant \<Rightarrow> TenantScope (tenant_id (rq_scope rq)))"

definition should_cache :: "decision_policy \<Rightarrow> decision_outcome \<Rightarrow> bool" where
  "should_cache p outcome =
     (case dp_cache_policy p of
        NeverCache \<Rightarrow> False
      | AlwaysCache \<Rightarrow> True
      | CacheIfApproved \<Rightarrow> outcome = Allowed
      | CacheIfDenied \<Rightarrow> outcome \<noteq> Allowed)"

definition request_key :: "'j services \<Rightarrow> policies \<Rightarrow> 'j decision_request \<Rightarrow> decision_key" where
  "request_key sv ps rq =
     \<lparr>dk_kind_tag = kind_tag_for (rq_kind rq),
      dk_scope_ref = derive_scope_ref rq (resolve_policy ps (rq_kind rq)),
      dk_semantic_hash = sv_kind_hash sv (rq_kind rq)\<rparr>"

section \<open>Evaluation\<close>

record eval_clock =
  ec_now :: u64
  ec_lookup :: u64
  ec_pending :: u64
  ec_promote :: u64
  ec_decided :: u64

record 'j decision_result =
  dr_decision_id :: ident
  dr_outcome :: decision_outcome
  dr_decision_key :: decision_key
  dr_event :: "'j decision_event"

text \<open>The payload of \<open>RuntimeEvent::DecisionRecorded\<close>.\<close>

record decision_recorded_evt =
  de_project :: project_key
  de_decision_id :: ident
  de_decision_key :: decision_key
  de_outcome :: decision_outcome
  de_cached :: bool
  de_expires_at :: u64
  de_decided_at :: u64
  de_event_json :: string

definition row :: "u8 \<Rightarrow> string \<Rightarrow> string \<Rightarrow> string option \<Rightarrow> ident list \<Rightarrow> step_result" where
  "row step name outcome detail rule_ids =
     \<lparr>sr_step = step, sr_name = name, sr_outcome = outcome, sr_detail = detail,
      sr_rule_ids = rule_ids\<rparr>"

definition verdict_word :: "decision_outcome \<Rightarrow> string" where
  "verdict_word out = (if out = Allowed then ''allow'' else ''deny'')"

definition decision_id_for :: "u64 \<Rightarrow> 'j decision_request \<Rightarrow> ident" where
  "decision_id_for now_ms rq = ''dec_'' @ show_nat now_ms @ ''_'' @ rq_correlation_id rq"

text \<open>
  Steps 1 to 4. They read and write no state: the outcome is the denial (step, reason and
  chain so far), or the escalation flag, the rules of the guardrail and the chain.
\<close>

datatype gate =
    GateDenied u8 string "step_result list"
  | GatePassed bool "ident list" "step_result list"

definition budget_gate :: "budget_check_result \<Rightarrow> bool \<Rightarrow> ident list \<Rightarrow> step_result list \<Rightarrow> gate" where
  "budget_gate b escalate rules chain =
     (case b of
        BudgetOk \<Rightarrow> GatePassed escalate rules (chain @ [row 4 ''budget'' ''allow'' None []])
      | SoftAlert pct \<Rightarrow>
          GatePassed escalate rules
            (chain @ [row 4 ''budget'' ''allow''
                        (Some (''soft_alert: '' @ show_nat pct @ ''% used'')) []])
      | Exceeded reason \<Rightarrow>
          GateDenied 4 reason (chain @ [row 4 ''budget'' ''deny'' (Some reason) []]))"

definition guardrail_gate ::
  "guardrail_check_result \<Rightarrow> budget_check_result \<Rightarrow> step_result list \<Rightarrow> gate" where
  "guardrail_gate g b chain =
     (let rules = gr_rule_ids g
      in (case gr_outcome g of
            GuardAllow \<Rightarrow>
              budget_gate b False rules (chain @ [row 3 ''guardrail'' ''allow'' None rules])
          | GuardDeny reason \<Rightarrow>
              GateDenied 3 reason (chain @ [row 3 ''guardrail'' ''deny'' (Some reason) rules])
          | GuardEscalate \<Rightarrow>
              budget_gate b True rules
                (chain @ [row 3 ''guardrail'' ''escalate'' (Some ''requires approval'') rules])))"

definition run_checks :: "'j services \<Rightarrow> 'j decision_request \<Rightarrow> gate" where
  "run_checks sv rq =
     (case sv_scope sv rq of
        ScopeDenied reason \<Rightarrow> GateDenied 1 reason [row 1 ''scope'' ''deny'' (Some reason) []]
      | ScopeAllowed \<Rightarrow>
          (let chain = [row 1 ''scope'' ''allow'' None []]
           in (case sv_visibility sv rq of
                 NotInContext reason \<Rightarrow>
                   GateDenied 2 reason (chain @ [row 2 ''visibility'' ''deny'' (Some reason) []])
               | Visible \<Rightarrow>
                   guardrail_gate (sv_guardrail sv rq) (sv_budget sv rq)
                     (chain @ [row 2 ''visibility'' ''allow'' None []]))))"

definition step_name :: "u8 \<Rightarrow> string" where
  "step_name step =
     (if step = 2 then ''visibility'' else if step = 3 then ''guardrail''
      else if step = 4 then ''budget'' else if step = 5 then ''cache''
      else if step = 6 then ''resolver'' else if step = 7 then ''cache_write''
      else if step = 8 then ''return'' else ''unknown'')"

definition denied_fill :: "u8 \<Rightarrow> step_result list" where
  "denied_fill deny_step =
     map (\<lambda>step. row step (step_name step) (if step = 8 then ''deny'' else ''skip'')
                   (Some (''denied at step '' @ show_nat deny_step)) [])
       [deny_step + 1 ..< 9]"

definition recorded :: "ident \<Rightarrow> 'j decision_request \<Rightarrow> decision_outcome \<Rightarrow> step_result list \<Rightarrow>
    decision_source \<Rightarrow> cached_decision_ref option \<Rightarrow> u64 \<Rightarrow> 'j decision_event" where
  "recorded did rq outcome chain source cached_for decided_at =
     DecisionRecordedEvent
       \<lparr>rec_decision_id = did, rec_request = rq, rec_outcome = outcome,
        rec_reasoning_chain = chain, rec_source = source, rec_resolved_by = None,
        rec_cached_for = cached_for, rec_decided_at = decided_at\<rparr>"

definition result_of :: "ident \<Rightarrow> decision_outcome \<Rightarrow> decision_key \<Rightarrow> 'j decision_event \<Rightarrow>
    'j decision_result" where
  "result_of did outcome key ev =
     \<lparr>dr_decision_id = did, dr_outcome = outcome, dr_decision_key = key, dr_event = ev\<rparr>"

definition build_denied_result :: "u64 \<Rightarrow> ident \<Rightarrow> 'j decision_request \<Rightarrow> decision_key \<Rightarrow>
    step_result list \<Rightarrow> u8 \<Rightarrow> string \<Rightarrow> 'j decision_cache \<Rightarrow>
    'j decision_result \<times> 'j decision_cache" where
  "build_denied_result decided_at did rq key chain deny_step deny_reason c =
     (let outcome = Denied deny_step deny_reason;
          ev = recorded did rq outcome (chain @ denied_fill deny_step) FreshEvaluation None
                 decided_at
      in (result_of did outcome key ev, store_event did ev c))"

definition evaluate_hit :: "u64 \<Rightarrow> ident \<Rightarrow> 'j decision_request \<Rightarrow> decision_key \<Rightarrow>
    step_result list \<Rightarrow> ident \<Rightarrow> decision_outcome \<Rightarrow> u64 \<Rightarrow> 'j decision_cache \<Rightarrow>
    'j decision_result \<times> 'j decision_cache" where
  "evaluate_hit now_ms did rq key chain cached_id cached_outcome expires_at c =
     (let c = record_hit key c;
          chain = chain @
            [row 5 ''cache'' ''cache_hit''
               (Some (''cached_decision='' @ cached_id @ '', expires_at='' @ show_nat expires_at)) [],
             row 6 ''resolver'' ''skip'' (Some ''cache hit'') [],
             row 7 ''cache_write'' ''skip'' (Some ''cache hit'') [],
             row 8 ''return'' (verdict_word cached_outcome) None []];
          ev = recorded did rq cached_outcome chain (CacheHit cached_id) None now_ms
      in (result_of did cached_outcome key ev, store_event did ev c))"

text \<open>Step 6: the resolver is asked only when the guardrail escalated.\<close>

definition resolution :: "'j services \<Rightarrow> bool \<Rightarrow> 'j decision_request \<Rightarrow>
    decision_outcome \<times> decision_source \<times> step_result" where
  "resolution sv escalate rq =
     (if escalate then
        (let (out, src) = sv_resolve sv rq
         in (out, src, row 6 ''resolver'' (verdict_word out) None []))
      else (Allowed, FreshEvaluation,
            row 6 ''resolver'' ''skip'' (Some ''no escalation needed'') []))"

text \<open>Step 7: what is cached, the row of the chain and the new cache.\<close>

definition cache_write :: "decision_policy \<Rightarrow> u64 \<Rightarrow> decision_key \<Rightarrow> ident \<Rightarrow> decision_outcome \<Rightarrow>
    step_result list \<Rightarrow> ident list \<Rightarrow> 'j decision_cache \<Rightarrow>
    cached_decision_ref option \<times> step_result \<times> 'j decision_cache" where
  "cache_write p promote_at key did outcome chain rules c =
     (if should_cache p outcome \<and> dp_default_ttl_secs p > 0 then
        (let (expires_at, c) =
               promote_to_resolved promote_at key did outcome chain (dp_default_ttl_secs p) c
         in (Some \<lparr>cr_decision_key = key, cr_expires_at = expires_at\<rparr>,
             row 7 ''cache_write'' ''written''
               (Some (''ttl='' @ show_nat (dp_default_ttl_secs p) @ ''s, expires_at='' @
                      show_nat expires_at)) rules,
             c))
      else (None, row 7 ''cache_write'' ''skip'' (Some ''not cacheable'') [],
            snd (remove_by_decision_id did c)))"

definition persisted_event :: "'j services \<Rightarrow> 'j decision_request \<Rightarrow> ident \<Rightarrow> decision_key \<Rightarrow>
    decision_outcome \<Rightarrow> u64 \<Rightarrow> cached_decision_ref option \<Rightarrow> 'j decision_event \<Rightarrow>
    decision_recorded_evt option" where
  "persisted_event sv rq did key outcome decided_at cached_for ev =
     map_option
       (\<lambda>cached_ref.
          \<lparr>de_project = rq_scope rq, de_decision_id = did, de_decision_key = key,
           de_outcome = outcome, de_cached = True, de_expires_at = cr_expires_at cached_ref,
           de_decided_at = decided_at,
           de_event_json = (case sv_event_json sv ev of Some j \<Rightarrow> j | None \<Rightarrow> ''{}'')\<rparr>)
       cached_for"

definition evaluate_fresh :: "'j services \<Rightarrow> decision_policy \<Rightarrow> bool \<Rightarrow> eval_clock \<Rightarrow> ident \<Rightarrow>
    'j decision_request \<Rightarrow> decision_key \<Rightarrow> bool \<Rightarrow> ident list \<Rightarrow> step_result list \<Rightarrow>
    'j decision_cache \<Rightarrow> 'j decision_result \<times> 'j decision_cache \<times> decision_recorded_evt option"
  where
  "evaluate_fresh sv p has_log clk did rq key escalate rules chain c =
     (let c = install_pending (ec_pending clk) key did c;
          (outcome, source, row6) = resolution sv escalate rq;
          chain = chain @ [row6];
          (cached_for, row7, c) = cache_write p (ec_promote clk) key did outcome chain rules c;
          chain = chain @ [row7, row 8 ''return'' (verdict_word outcome) None []];
          ev = recorded did rq outcome chain source cached_for (ec_decided clk)
      in (result_of did outcome key ev, store_event did ev c,
          if has_log
          then persisted_event sv rq did key outcome (ec_decided clk) cached_for ev else None))"

definition evaluate :: "'j services \<Rightarrow> policies \<Rightarrow> bool \<Rightarrow> eval_clock \<Rightarrow> 'j decision_request \<Rightarrow>
    'j decision_cache \<Rightarrow> 'j decision_result \<times> 'j decision_cache \<times> decision_recorded_evt option"
  where
  "evaluate sv ps has_log clk rq c =
     (let did = decision_id_for (ec_now clk) rq;
          p = resolve_policy ps (rq_kind rq);
          key = request_key sv ps rq
      in (case run_checks sv rq of
            GateDenied step reason chain \<Rightarrow>
              (let (r, c) = build_denied_result (ec_decided clk) did rq key chain step reason c
               in (r, c, None))
          | GatePassed escalate rules chain \<Rightarrow>
              (let (state, c) = lookup (ec_lookup clk) key c
               in (case state of
                     Resolved cached_id cached_outcome expires_at \<Rightarrow>
                       (let (r, c) = evaluate_hit (ec_now clk) did rq key chain cached_id
                                       cached_outcome expires_at c
                        in (r, c, None))
                   | Pending owner _ \<Rightarrow>
                       evaluate_fresh sv p has_log clk did rq key escalate rules
                         (chain @ [row 5 ''cache'' ''pending''
                            (Some (''concurrent eval by '' @ owner @ '', proceeding fresh'')) []]) c
                   | Miss \<Rightarrow>
                       evaluate_fresh sv p has_log clk did rq key escalate rules
                         (chain @ [row 5 ''cache'' ''cache_miss'' None []]) c))))"

section \<open>The other operations of the service\<close>

definition policy_for_kind :: "policies \<Rightarrow> string \<Rightarrow> decision_policy option" where
  "policy_for_kind ps kind_tag = hget ps kind_tag"

definition cache_lookup :: "u64 \<Rightarrow> decision_key \<Rightarrow> 'j decision_cache \<Rightarrow>
    cache_entry_state \<times> 'j decision_cache" where
  "cache_lookup now key c = lookup now key c"

definition invalidate :: "ident \<Rightarrow> string \<Rightarrow> actor_ref \<Rightarrow> 'j decision_cache \<Rightarrow> 'j decision_cache" where
  "invalidate did reason invalidated_by c = snd (remove_by_decision_id did c)"

definition invalidate_by_scope :: "decision_scope_ref \<Rightarrow> string option \<Rightarrow> string \<Rightarrow> actor_ref \<Rightarrow>
    'j decision_cache \<Rightarrow> u32 \<times> 'j decision_cache" where
  "invalidate_by_scope scope_ref kind_filter reason invalidated_by c =
     remove_by_scope scope_ref kind_filter c"

definition invalidate_by_rule :: "ident \<Rightarrow> string \<Rightarrow> actor_ref \<Rightarrow> 'j decision_cache \<Rightarrow>
    u32 \<times> 'j decision_cache" where
  "invalidate_by_rule rule_id reason invalidated_by c = remove_by_rule_id rule_id c"

definition list_cached :: "u64 \<Rightarrow> project_key \<Rightarrow> nat \<Rightarrow> 'j decision_cache \<Rightarrow>
    cached_decision_summary list" where
  "list_cached now scope_key limit c = list_active now scope_key limit c"

definition get_decision :: "ident \<Rightarrow> 'j decision_cache \<Rightarrow> 'j decision_event option" where
  "get_decision did c = get_event did c"

end
