(* ===== verification/Lifecycle.thy ===== *)
theory Lifecycle
  imports Tenancy
begin

text \<open>
  The session, run and task life cycles (\<open>crates/cairn-domain/src/lifecycle.rs\<close>): the
  states, the transition tables of RFC 005 as the code lists them, and the derivation of a
  session's state. The locale \<open>lifecycle\<close> is the contract a transition table and its notion
  of a terminal state have with the rest of the runtime; it is interpreted for the run, the
  task and (in \<open>Tool_Invocation\<close>) the tool-invocation table.
\<close>

section \<open>States\<close>

datatype session_state = Open | Completed | Failed | Archived

datatype run_state =
    Pending | Running | WaitingApproval | Paused | WaitingDependency
  | Completed | Failed | Canceled

datatype task_state =
    Queued | Leased | Running | WaitingApproval | Paused | WaitingDependency
  | RetryableFailed | Completed | Failed | Canceled | DeadLettered

datatype checkpoint_disposition = Latest | Superseded

datatype failure_class =
    TimedOut | DependencyFailed | ApprovalRejected | PolicyDenied | ExecutionError
  | LeaseExpired | CanceledByOperator

datatype pause_reason_kind =
    OperatorPause | RuntimeSuspension | ToolRequestedSuspension | PolicyHold

record pause_reason =
  pr_kind :: pause_reason_kind
  pr_detail :: "string option"
  pr_resume_after_ms :: "u64 option"
  pr_actor :: "string option"

datatype resume_trigger = OperatorResume | ResumeAfterTimer | RuntimeSignal

datatype run_resume_target = RunResumePending | RunResumeRunning

datatype task_resume_target = TaskResumeQueued | TaskResumeRunning

definition session_is_terminal :: "session_state \<Rightarrow> bool" where
  "session_is_terminal s = (s \<noteq> session_state.Open)"

definition run_is_terminal :: "run_state \<Rightarrow> bool" where
  "run_is_terminal s = (s \<in> {run_state.Completed, run_state.Failed, run_state.Canceled})"

definition task_is_terminal :: "task_state \<Rightarrow> bool" where
  "task_is_terminal s =
     (s \<in> {task_state.Completed, task_state.Failed, task_state.Canceled, task_state.DeadLettered})"

definition task_is_retryable :: "task_state \<Rightarrow> bool" where
  "task_is_retryable s = (s = task_state.RetryableFailed)"

section \<open>Transition tables\<close>

definition can_transition_run_state :: "run_state \<Rightarrow> run_state \<Rightarrow> bool" where
  "can_transition_run_state from to = ((from, to) \<in> set
     [(run_state.Pending, run_state.Running),
      (run_state.Pending, run_state.WaitingApproval),
      (run_state.Pending, run_state.WaitingDependency),
      (run_state.Pending, run_state.Paused),
      (run_state.Pending, run_state.Failed),
      (run_state.Pending, run_state.Canceled),
      (run_state.Running, run_state.WaitingApproval),
      (run_state.Running, run_state.WaitingDependency),
      (run_state.Running, run_state.Paused),
      (run_state.Running, run_state.Completed),
      (run_state.Running, run_state.Failed),
      (run_state.Running, run_state.Canceled),
      (run_state.WaitingApproval, run_state.Running),
      (run_state.WaitingApproval, run_state.Paused),
      (run_state.WaitingApproval, run_state.Failed),
      (run_state.WaitingApproval, run_state.Canceled),
      (run_state.Paused, run_state.Pending),
      (run_state.Paused, run_state.Running),
      (run_state.Paused, run_state.Failed),
      (run_state.Paused, run_state.Canceled),
      (run_state.WaitingDependency, run_state.Running),
      (run_state.WaitingDependency, run_state.Paused),
      (run_state.WaitingDependency, run_state.Completed),
      (run_state.WaitingDependency, run_state.Failed),
      (run_state.WaitingDependency, run_state.Canceled)])"

definition can_transition_task_state :: "task_state \<Rightarrow> task_state \<Rightarrow> bool" where
  "can_transition_task_state from to = ((from, to) \<in> set
     [(task_state.Queued, task_state.Leased),
      (task_state.Queued, task_state.WaitingDependency),
      (task_state.Queued, task_state.Paused),
      (task_state.Queued, task_state.Canceled),
      (task_state.Queued, task_state.DeadLettered),
      (task_state.WaitingDependency, task_state.Queued),
      (task_state.Leased, task_state.Running),
      (task_state.Leased, task_state.Queued),
      (task_state.Leased, task_state.Paused),
      (task_state.Leased, task_state.RetryableFailed),
      (task_state.Leased, task_state.Failed),
      (task_state.Leased, task_state.Canceled),
      (task_state.Leased, task_state.DeadLettered),
      (task_state.Running, task_state.WaitingApproval),
      (task_state.Running, task_state.WaitingDependency),
      (task_state.Running, task_state.Paused),
      (task_state.Running, task_state.Completed),
      (task_state.Running, task_state.RetryableFailed),
      (task_state.Running, task_state.Failed),
      (task_state.Running, task_state.Canceled),
      (task_state.WaitingApproval, task_state.Running),
      (task_state.WaitingApproval, task_state.Paused),
      (task_state.WaitingApproval, task_state.RetryableFailed),
      (task_state.WaitingApproval, task_state.Failed),
      (task_state.WaitingApproval, task_state.Canceled),
      (task_state.Paused, task_state.Queued),
      (task_state.Paused, task_state.Running),
      (task_state.Paused, task_state.RetryableFailed),
      (task_state.Paused, task_state.Failed),
      (task_state.Paused, task_state.Canceled),
      (task_state.WaitingDependency, task_state.Running),
      (task_state.WaitingDependency, task_state.Paused),
      (task_state.WaitingDependency, task_state.Completed),
      (task_state.WaitingDependency, task_state.RetryableFailed),
      (task_state.WaitingDependency, task_state.Failed),
      (task_state.WaitingDependency, task_state.Canceled),
      (task_state.RetryableFailed, task_state.Queued),
      (task_state.RetryableFailed, task_state.Failed),
      (task_state.RetryableFailed, task_state.Canceled),
      (task_state.RetryableFailed, task_state.DeadLettered)])"

fun can_resume_run_to :: "run_resume_target \<Rightarrow> bool" where
  "can_resume_run_to RunResumePending = True"
| "can_resume_run_to RunResumeRunning = True"

fun can_resume_task_to :: "task_resume_target \<Rightarrow> bool" where
  "can_resume_task_to TaskResumeQueued = True"
| "can_resume_task_to TaskResumeRunning = True"

section \<open>Derived states\<close>

datatype agent_status = Busy | Idle | Offline

fun agent_status_from_run_state :: "run_state option \<Rightarrow> agent_status" where
  "agent_status_from_run_state (Some run_state.Running) = Busy"
| "agent_status_from_run_state (Some run_state.Pending) = Idle"
| "agent_status_from_run_state (Some run_state.WaitingApproval) = Idle"
| "agent_status_from_run_state (Some run_state.Paused) = Idle"
| "agent_status_from_run_state (Some run_state.Completed) = Offline"
| "agent_status_from_run_state (Some run_state.Failed) = Offline"
| "agent_status_from_run_state (Some run_state.Canceled) = Offline"
| "agent_status_from_run_state None = Offline"
| "agent_status_from_run_state (Some run_state.WaitingDependency) = Idle"

definition derive_session_state :: "bool \<Rightarrow> bool \<Rightarrow> run_state option \<Rightarrow> session_state" where
  "derive_session_state is_archived any_run_non_terminal latest_root_run_terminal =
     (if is_archived then session_state.Archived
      else if any_run_non_terminal then session_state.Open
      else (case latest_root_run_terminal of
              Some run_state.Failed \<Rightarrow> session_state.Failed
            | Some run_state.Completed \<Rightarrow> session_state.Completed
            | Some run_state.Canceled \<Rightarrow> session_state.Completed
            | _ \<Rightarrow> session_state.Open))"

section \<open>The contract of a life cycle\<close>

text \<open>A history is a list of states each of which follows from the one before.\<close>

fun valid_history :: "('s \<Rightarrow> 's \<Rightarrow> bool) \<Rightarrow> 's \<Rightarrow> 's list \<Rightarrow> bool" where
  "valid_history can s [] = True"
| "valid_history can s (t # ts) = (can s t \<and> valid_history can t ts)"

lemma valid_history_append:
  "valid_history can s (xs @ ys) \<longleftrightarrow>
     valid_history can s xs \<and> valid_history can (last (s # xs)) ys"
  by (induction xs arbitrary: s) auto

lemma rtranclp_history:
  "can\<^sup>*\<^sup>* s t \<longleftrightarrow> (\<exists>ts. valid_history can s ts \<and> last (s # ts) = t)"
proof
  assume "can\<^sup>*\<^sup>* s t"
  then show "\<exists>ts. valid_history can s ts \<and> last (s # ts) = t"
  proof (induction rule: rtranclp_induct)
    case base
    show ?case by (rule exI [of _ "[]"]) simp
  next
    case (step y z)
    then obtain ts where ts: "valid_history can s ts" "last (s # ts) = y" by blast
    with step.hyps(2) have "valid_history can s (ts @ [z])"
      by (simp add: valid_history_append)
    then show ?case by (intro exI [of _ "ts @ [z]"]) simp
  qed
next
  assume "\<exists>ts. valid_history can s ts \<and> last (s # ts) = t"
  then obtain ts where "valid_history can s ts" "last (s # ts) = t" by blast
  then show "can\<^sup>*\<^sup>* s t"
  proof (induction ts arbitrary: s)
    case Nil
    then show ?case by simp
  next
    case (Cons u us)
    then have "can s u" and "can\<^sup>*\<^sup>* u t" by auto
    then show ?case by (rule converse_rtranclp_into_rtranclp)
  qed
qed

locale lifecycle =
  fixes can :: "'s \<Rightarrow> 's \<Rightarrow> bool"
    and terminal :: "'s \<Rightarrow> bool"
    and initial :: 's
  assumes terminal_final: "terminal s \<Longrightarrow> \<not> can s t"
    and can_finish: "\<not> terminal s \<Longrightarrow> \<exists>t. terminal t \<and> can\<^sup>*\<^sup>* s t"
    and no_self_step: "\<not> can s s"
    and initial_open: "\<not> terminal initial"
begin

lemma terminal_absorbs: "can\<^sup>*\<^sup>* s t \<Longrightarrow> terminal s \<Longrightarrow> t = s"
  by (induction rule: rtranclp_induct) (auto simp: terminal_final)

lemma terminal_history: "terminal s \<Longrightarrow> valid_history can s ts \<Longrightarrow> ts = []"
  by (cases ts) (auto simp: terminal_final)

text \<open>Only the last state of a history can be terminal, and it is so at most once.\<close>

lemma open_until_last:
  "valid_history can s ts \<Longrightarrow> i < length ts \<Longrightarrow> \<not> terminal ((s # ts) ! i)"
proof (induction ts arbitrary: s i)
  case Nil
  then show ?case by simp
next
  case (Cons t ts)
  then show ?case by (cases i) (auto dest: terminal_final)
qed

lemma outcome_unique:
  assumes "valid_history can s (ts @ us)" and "terminal (last (s # ts))"
  shows "us = []"
  using assms by (auto simp: valid_history_append intro: terminal_history)

lemma history_shape:
  assumes "valid_history can s ts" and "\<not> terminal (last (s # ts)) \<Longrightarrow> can (last (s # ts)) t"
  shows "(\<forall>i < length ts. \<not> terminal ((s # ts) ! i))
      \<and> (if terminal (last (s # ts)) then \<forall>us. valid_history can s (ts @ us) \<longrightarrow> us = []
         else valid_history can s (ts @ [t]))"
proof (intro conjI allI impI)
  show "\<not> terminal ((s # ts) ! i)" if "i < length ts" for i
    by (rule open_until_last [OF assms(1) that])
  show "if terminal (last (s # ts)) then \<forall>us. valid_history can s (ts @ us) \<longrightarrow> us = []
        else valid_history can s (ts @ [t])"
  proof (cases "terminal (last (s # ts))")
    case True
    then show ?thesis using outcome_unique by (simp only: if_True) blast
  next
    case False
    then show ?thesis
      using assms(1) assms(2) [OF False]
      by (simp only: if_False valid_history_append) (simp only: valid_history.simps simp_thms)
  qed
qed

lemma not_stuck: "\<not> terminal s \<Longrightarrow> \<exists>t. can s t"
  by (metis can_finish converse_rtranclpE)

end

lemmas run_tables = can_transition_run_state_def run_is_terminal_def

lemmas task_tables = can_transition_task_state_def task_is_terminal_def

lemma run_failed_terminal: "run_is_terminal run_state.Failed"
  by (simp add: run_is_terminal_def)

lemma task_canceled_terminal: "task_is_terminal task_state.Canceled"
  by (simp add: task_is_terminal_def)

lemma run_step_to_failed:
  "\<not> run_is_terminal s \<Longrightarrow> can_transition_run_state s run_state.Failed"
  by (cases s) (simp_all add: run_tables)

lemma task_step_to_canceled:
  "\<not> task_is_terminal s \<Longrightarrow> can_transition_task_state s task_state.Canceled"
  by (cases s) (simp_all add: task_tables)

interpretation run: lifecycle can_transition_run_state run_is_terminal run_state.Pending
proof unfold_locales
  fix s t
  show "run_is_terminal s \<Longrightarrow> \<not> can_transition_run_state s t"
    by (auto simp: run_tables)
  show "\<not> can_transition_run_state s s"
    by (cases s) (simp_all add: run_tables)
  show "\<not> run_is_terminal s \<Longrightarrow> \<exists>t. run_is_terminal t \<and> can_transition_run_state\<^sup>*\<^sup>* s t"
    using run_step_to_failed run_failed_terminal by blast
  show "\<not> run_is_terminal run_state.Pending"
    by (simp add: run_is_terminal_def)
qed

interpretation task: lifecycle can_transition_task_state task_is_terminal task_state.Queued
proof unfold_locales
  fix s t
  show "task_is_terminal s \<Longrightarrow> \<not> can_transition_task_state s t"
    by (auto simp: task_tables)
  show "\<not> can_transition_task_state s s"
    by (cases s) (simp_all add: task_tables)
  show "\<not> task_is_terminal s \<Longrightarrow> \<exists>t. task_is_terminal t \<and> can_transition_task_state\<^sup>*\<^sup>* s t"
    using task_step_to_canceled task_canceled_terminal by blast
  show "\<not> task_is_terminal task_state.Queued"
    by (simp add: task_is_terminal_def)
qed

section \<open>Properties\<close>

text \<open>
  The outcome of a run is final. Along every history the transition table allows, no state
  before the last is terminal, nothing follows a terminal state, and from every other state
  the run can still be failed in one step: a run ends at most once and can always end.
\<close>

theorem run_outcome_is_final:
  assumes "valid_history can_transition_run_state s ts"
  shows "(\<forall>i < length ts. \<not> run_is_terminal ((s # ts) ! i))
      \<and> (if run_is_terminal (last (s # ts))
         then \<forall>us. valid_history can_transition_run_state s (ts @ us) \<longrightarrow> us = []
         else valid_history can_transition_run_state s (ts @ [run_state.Failed]))"
  by (rule run.history_shape [OF assms run_step_to_failed])

theorem run_outcome_is_final_witness:
  "valid_history can_transition_run_state run_state.Pending
     ([run_state.Running, run_state.Paused] @ [run_state.Failed])"
  using run_outcome_is_final [of run_state.Pending "[run_state.Running, run_state.Paused]"]
  by (simp add: run_tables)

text \<open>
  The outcome of a task is final. Along every history the transition table allows, no state
  before the last is terminal, nothing follows a terminal state, and from every other state
  the task can still be canceled in one step. \<open>RetryableFailed\<close> is not an outcome: it can be
  queued again.
\<close>

theorem task_outcome_is_final:
  assumes "valid_history can_transition_task_state s ts"
  shows "(\<forall>i < length ts. \<not> task_is_terminal ((s # ts) ! i))
      \<and> (if task_is_terminal (last (s # ts))
         then \<forall>us. valid_history can_transition_task_state s (ts @ us) \<longrightarrow> us = []
         else valid_history can_transition_task_state s (ts @ [task_state.Canceled]))
      \<and> (task_is_retryable (last (s # ts)) \<longrightarrow>
           valid_history can_transition_task_state s (ts @ [task_state.Queued]))"
proof -
  have "valid_history can_transition_task_state s (ts @ [task_state.Queued])"
    if "task_is_retryable (last (s # ts))"
    using assms that
    by (simp only: valid_history_append task_is_retryable_def)
      (simp add: can_transition_task_state_def)
  with task.history_shape [OF assms task_step_to_canceled] show ?thesis by blast
qed

theorem task_outcome_is_final_witness:
  "valid_history can_transition_task_state task_state.Queued
     ([task_state.Leased, task_state.Running, task_state.RetryableFailed] @ [task_state.Queued])"
  using task_outcome_is_final [of task_state.Queued
      "[task_state.Leased, task_state.Running, task_state.RetryableFailed]"]
  by (simp add: task_tables task_is_retryable_def)

end
