(* ===== verification/Tool_Invocation.thy ===== *)
theory Tool_Invocation
  imports Lifecycle
begin

text \<open>
  The durable record of a tool invocation
  (\<open>crates/cairn-domain/src/tool_invocation.rs\<close>): its transition table, the validation a
  record must pass, and the two operations that move it. The store keeps one record per
  invocation and applies the operations with \<open>expect\<close>; \<open>Event_Store\<close> says what that means
  for its invariant.
\<close>

datatype execution_class = SupervisedProcess | SandboxedProcess | Sensitive

datatype tool_invocation_state = Requested | Started | Completed | Failed | Canceled

datatype tool_invocation_outcome_kind =
    Success | RetryableFailure | PermanentFailure | Timeout | Canceled | ProtocolViolation

fun outcome_is_success :: "tool_invocation_outcome_kind \<Rightarrow> bool" where
  "outcome_is_success Success = True"
| "outcome_is_success _ = False"

definition outcome_is_failure :: "tool_invocation_outcome_kind \<Rightarrow> bool" where
  "outcome_is_failure k =
     (k \<in> {RetryableFailure, PermanentFailure, Timeout,
           tool_invocation_outcome_kind.Canceled, ProtocolViolation})"

fun terminal_state :: "tool_invocation_outcome_kind \<Rightarrow> tool_invocation_state" where
  "terminal_state Success = tool_invocation_state.Completed"
| "terminal_state tool_invocation_outcome_kind.Canceled = tool_invocation_state.Canceled"
| "terminal_state _ = tool_invocation_state.Failed"

datatype tool_invocation_target =
    Builtin string
  | Plugin ident string

record tool_invocation_record =
  ti_invocation_id :: ident
  ti_project :: project_key
  ti_session_id :: "ident option"
  ti_run_id :: "ident option"
  ti_task_id :: "ident option"
  ti_target :: tool_invocation_target
  ti_execution_class :: execution_class
  ti_prompt_release_id :: "ident option"
  ti_state :: tool_invocation_state
  ti_version :: u64
  ti_requested_at_ms :: u64
  ti_started_at_ms :: "u64 option"
  ti_finished_at_ms :: "u64 option"
  ti_outcome :: "tool_invocation_outcome_kind option"
  ti_error_message :: "string option"

datatype tool_invocation_validation_error =
    InvalidTransition
  | MissingTerminalOutcome
  | UnexpectedOutcomeForRequested
  | UnexpectedErrorMessageForSuccess
  | MissingErrorMessageForFailure

definition invocation_is_terminal :: "tool_invocation_state \<Rightarrow> bool" where
  "invocation_is_terminal s =
     (s \<in> {tool_invocation_state.Completed, tool_invocation_state.Failed,
           tool_invocation_state.Canceled})"

definition can_transition_tool_invocation ::
  "tool_invocation_state \<Rightarrow> tool_invocation_state \<Rightarrow> bool" where
  "can_transition_tool_invocation from to = ((from, to) \<in> set
     [(Requested, Started),
      (Requested, tool_invocation_state.Failed),
      (Requested, tool_invocation_state.Canceled),
      (Started, tool_invocation_state.Completed),
      (Started, tool_invocation_state.Failed),
      (Started, tool_invocation_state.Canceled)])"

definition validate_terminal_record ::
  "tool_invocation_record \<Rightarrow> tool_invocation_validation_error + unit" where
  "validate_terminal_record r =
     (case ti_outcome r of
        None \<Rightarrow> Inl MissingTerminalOutcome
      | Some outcome \<Rightarrow>
          if ti_finished_at_ms r = None then Inl MissingTerminalOutcome
          else if ti_state r = tool_invocation_state.Completed \<and> \<not> outcome_is_success outcome
            then Inl InvalidTransition
          else if ti_state r \<in> {tool_invocation_state.Failed, tool_invocation_state.Canceled}
                  \<and> \<not> outcome_is_failure outcome
            then Inl InvalidTransition
          else if outcome_is_success outcome \<and> ti_error_message r \<noteq> None
            then Inl UnexpectedErrorMessageForSuccess
          else if outcome_is_failure outcome \<and> ti_error_message r = None
            then Inl MissingErrorMessageForFailure
          else Inr ())"

definition validate_tool_invocation_record ::
  "tool_invocation_record \<Rightarrow> tool_invocation_validation_error + unit" where
  "validate_tool_invocation_record r =
     (case ti_state r of
        Requested \<Rightarrow>
          (if ti_outcome r \<noteq> None \<or> ti_finished_at_ms r \<noteq> None
           then Inl UnexpectedOutcomeForRequested else Inr ())
      | Started \<Rightarrow>
          (if ti_started_at_ms r = None then Inl InvalidTransition
           else if ti_outcome r \<noteq> None \<or> ti_finished_at_ms r \<noteq> None
           then Inl MissingTerminalOutcome else Inr ())
      | tool_invocation_state.Completed \<Rightarrow> validate_terminal_record r
      | tool_invocation_state.Failed \<Rightarrow> validate_terminal_record r
      | tool_invocation_state.Canceled \<Rightarrow> validate_terminal_record r)"

definition new_requested ::
  "ident \<Rightarrow> project_key \<Rightarrow> ident option \<Rightarrow> ident option \<Rightarrow> ident option \<Rightarrow>
   tool_invocation_target \<Rightarrow> execution_class \<Rightarrow> u64 \<Rightarrow> tool_invocation_record" where
  "new_requested i p sid rid tid tgt cls at =
     \<lparr>ti_invocation_id = i, ti_project = p, ti_session_id = sid, ti_run_id = rid,
      ti_task_id = tid, ti_target = tgt, ti_execution_class = cls,
      ti_prompt_release_id = None, ti_state = Requested, ti_version = 1,
      ti_requested_at_ms = at, ti_started_at_ms = None, ti_finished_at_ms = None,
      ti_outcome = None, ti_error_message = None\<rparr>"

definition mark_started ::
  "tool_invocation_record \<Rightarrow> u64 \<Rightarrow> tool_invocation_validation_error + tool_invocation_record" where
  "mark_started r at =
     (if \<not> can_transition_tool_invocation (ti_state r) Started then Inl InvalidTransition
      else let nxt = r\<lparr>ti_state := Started, ti_started_at_ms := Some at,
                        ti_version := wrap_add64 (ti_version r) 1\<rparr>
           in (case validate_tool_invocation_record nxt of
                 Inl e \<Rightarrow> Inl e | Inr _ \<Rightarrow> Inr nxt))"

definition mark_finished ::
  "tool_invocation_record \<Rightarrow> tool_invocation_outcome_kind \<Rightarrow> string option \<Rightarrow> u64 \<Rightarrow>
   tool_invocation_validation_error + tool_invocation_record" where
  "mark_finished r outcome err at =
     (let target = terminal_state outcome
      in if \<not> can_transition_tool_invocation (ti_state r) target then Inl InvalidTransition
         else let nxt = r\<lparr>ti_state := target, ti_outcome := Some outcome,
                           ti_error_message := err, ti_finished_at_ms := Some at,
                           ti_version := wrap_add64 (ti_version r) 1\<rparr>
              in (case validate_tool_invocation_record nxt of
                    Inl e \<Rightarrow> Inl e | Inr _ \<Rightarrow> Inr nxt))"

section \<open>The life cycle\<close>

lemmas invocation_tables = can_transition_tool_invocation_def invocation_is_terminal_def

lemma invocation_failed_terminal: "invocation_is_terminal tool_invocation_state.Failed"
  by (simp add: invocation_is_terminal_def)

lemma invocation_step_to_failed:
  "\<not> invocation_is_terminal s \<Longrightarrow> can_transition_tool_invocation s tool_invocation_state.Failed"
  by (cases s) (simp_all add: invocation_tables)

interpretation invocation:
  lifecycle can_transition_tool_invocation invocation_is_terminal Requested
proof unfold_locales
  fix s t
  show "invocation_is_terminal s \<Longrightarrow> \<not> can_transition_tool_invocation s t"
    by (auto simp: invocation_tables)
  show "\<not> can_transition_tool_invocation s s"
    by (cases s) (simp_all add: invocation_tables)
  show "\<not> invocation_is_terminal s \<Longrightarrow>
      \<exists>t. invocation_is_terminal t \<and> can_transition_tool_invocation\<^sup>*\<^sup>* s t"
    using invocation_step_to_failed invocation_failed_terminal by blast
  show "\<not> invocation_is_terminal Requested"
    by (simp add: invocation_is_terminal_def)
qed

section \<open>What the operations guarantee\<close>

definition valid_invocation :: "tool_invocation_record \<Rightarrow> bool" where
  "valid_invocation r = (validate_tool_invocation_record r = Inr ())"

lemmas validation_defs =
  valid_invocation_def validate_tool_invocation_record_def validate_terminal_record_def

lemma outcome_classes: "outcome_is_failure k \<longleftrightarrow> \<not> outcome_is_success k"
  by (cases k) (simp_all add: outcome_is_failure_def)

lemma terminal_state_terminal: "invocation_is_terminal (terminal_state k)"
  by (cases k) (simp_all add: invocation_is_terminal_def)

lemma terminal_state_completed:
  "terminal_state k = tool_invocation_state.Completed \<longleftrightarrow> outcome_is_success k"
  by (cases k) simp_all

lemma new_requested_valid:
  "valid_invocation (new_requested i p sid rid tid tgt cls at)"
  by (simp add: validation_defs new_requested_def)

lemma new_requested_started:
  "\<exists>r. mark_started (new_requested i p sid rid tid tgt cls req) at = Inr r \<and>
       valid_invocation r \<and> ti_state r = Started \<and> ti_version r = 2"
  by (simp add: mark_started_def new_requested_def validation_defs Let_def
      can_transition_tool_invocation_def wrap_add64_def)

lemma mark_started_valid: "mark_started r at = Inr r' \<Longrightarrow> valid_invocation r'"
  by (auto simp: mark_started_def valid_invocation_def Let_def split: if_splits sum.splits)

lemma mark_finished_valid: "mark_finished r k err at = Inr r' \<Longrightarrow> valid_invocation r'"
  by (auto simp: mark_finished_def valid_invocation_def Let_def split: if_splits sum.splits)

lemma mark_started_step:
  "mark_started r at = Inr r' \<Longrightarrow>
     ti_state r' = Started \<and> can_transition_tool_invocation (ti_state r) (ti_state r')"
  by (auto simp: mark_started_def Let_def split: if_splits sum.splits)

lemma mark_finished_step:
  "mark_finished r k err at = Inr r' \<Longrightarrow>
     ti_state r' = terminal_state k \<and> can_transition_tool_invocation (ti_state r) (ti_state r')"
  by (auto simp: mark_finished_def Let_def split: if_splits sum.splits)

text \<open>
  A finish succeeds exactly when the table allows it and the error message is present for
  failures and absent for successes.
\<close>

lemma mark_finished_iff:
  "(\<exists>r'. mark_finished r k err at = Inr r') \<longleftrightarrow>
     can_transition_tool_invocation (ti_state r) (terminal_state k) \<and>
     (err = None \<longleftrightarrow> outcome_is_success k)"
  by (cases k)
    (auto simp: mark_finished_def validation_defs Let_def outcome_is_failure_def)

lemma mark_finished_terminal_refused:
  "invocation_is_terminal (ti_state r) \<Longrightarrow> mark_finished r k err at = Inl InvalidTransition"
  by (simp add: mark_finished_def invocation.terminal_final)

section \<open>Sequences of operations\<close>

datatype invocation_op =
    Start u64
  | Finish tool_invocation_outcome_kind "string option" u64

fun apply_invocation_op :: "invocation_op \<Rightarrow> tool_invocation_record \<Rightarrow>
    tool_invocation_validation_error + tool_invocation_record" where
  "apply_invocation_op (Start at) r = mark_started r at"
| "apply_invocation_op (Finish k err at) r = mark_finished r k err at"

fun apply_invocation_ops :: "invocation_op list \<Rightarrow> tool_invocation_record \<Rightarrow>
    tool_invocation_validation_error + tool_invocation_record" where
  "apply_invocation_ops [] r = Inr r"
| "apply_invocation_ops (op # ops) r =
     (case apply_invocation_op op r of Inl e \<Rightarrow> Inl e | Inr r' \<Rightarrow> apply_invocation_ops ops r')"

fun state_rank :: "tool_invocation_state \<Rightarrow> nat" where
  "state_rank Requested = 0"
| "state_rank Started = 1"
| "state_rank _ = 2"

lemma table_rank: "can_transition_tool_invocation s t \<Longrightarrow> state_rank s < state_rank t"
  by (cases s; cases t) (simp_all add: can_transition_tool_invocation_def)

lemma rank_bound: "state_rank s \<le> 2"
  by (cases s) simp_all

lemma apply_invocation_op_step:
  assumes "apply_invocation_op op r = Inr r'"
  shows "valid_invocation r' \<and> state_rank (ti_state r) < state_rank (ti_state r')
      \<and> ti_version r' = wrap_add64 (ti_version r) 1
      \<and> ti_invocation_id r' = ti_invocation_id r \<and> ti_project r' = ti_project r"
proof (cases op)
  case (Start at)
  then show ?thesis
    using assms mark_started_valid [of r at r'] mark_started_step [of r at r']
      table_rank [of "ti_state r" "ti_state r'"]
    by (auto simp: mark_started_def Let_def split: if_splits sum.splits)
next
  case (Finish k err at)
  then show ?thesis
    using assms mark_finished_valid [of r k err at r'] mark_finished_step [of r k err at r']
      table_rank [of "ti_state r" "ti_state r'"]
    by (auto simp: mark_finished_def Let_def split: if_splits sum.splits)
qed

lemma apply_invocation_ops_step:
  assumes "apply_invocation_ops ops r = Inr r'" and "valid_invocation r"
    and "ti_version r + state_rank tool_invocation_state.Failed < 2 ^ 64 + state_rank (ti_state r)"
  shows "valid_invocation r' \<and> state_rank (ti_state r) + length ops \<le> state_rank (ti_state r')
      \<and> ti_version r' = ti_version r + length ops \<and> ti_project r' = ti_project r"
  using assms
proof (induction ops arbitrary: r)
  case Nil
  then show ?case by simp
next
  case (Cons op ops)
  then obtain r1 where r1: "apply_invocation_op op r = Inr r1"
    and rest: "apply_invocation_ops ops r1 = Inr r'"
    by (auto split: sum.splits)
  note step = apply_invocation_op_step [OF r1]
  have "ti_version r1 = ti_version r + 1"
    using step rank_bound [of "ti_state r1"] Cons.prems(3) by (simp add: wrap_add64_exact)
  with Cons.IH [OF rest] step Cons.prems(3) show ?case by simp
qed

text \<open>
  The record of a tool invocation stays valid and finishes at most once. Whatever sequence
  of starts and finishes the table accepts on a freshly requested invocation, the record
  passes the validator, keeps its project, counts one version per accepted operation, and at
  most two are ever accepted: a second outcome for the same invocation is always refused.
\<close>

theorem invocation_finishes_once:
  assumes "apply_invocation_ops ops (new_requested i p sid rid tid tgt cls at) = Inr r"
  shows "validate_tool_invocation_record r = Inr () \<and> ti_project r = p
      \<and> ti_version r = 1 + length ops \<and> length ops \<le> 2
      \<and> (invocation_is_terminal (ti_state r) \<longrightarrow> apply_invocation_op op r = Inl InvalidTransition)"
proof -
  let ?r = "new_requested i p sid rid tid tgt cls at"
  have "valid_invocation r \<and> state_rank (ti_state ?r) + length ops \<le> state_rank (ti_state r)
      \<and> ti_version r = ti_version ?r + length ops \<and> ti_project r = ti_project ?r"
    by (rule apply_invocation_ops_step [OF assms new_requested_valid]) (simp add: new_requested_def)
  moreover have "apply_invocation_op op r = Inl InvalidTransition" if "invocation_is_terminal (ti_state r)"
    using that mark_finished_terminal_refused invocation.terminal_final
    by (cases op) (simp_all add: mark_started_def)
  ultimately show ?thesis
    using rank_bound [of "ti_state r"] by (simp add: valid_invocation_def new_requested_def)
qed

theorem invocation_finishes_once_witness:
  "\<exists>r. apply_invocation_ops [Start 5, Finish Timeout (Some ''late'') 9]
         (new_requested ''i'' (project_key_new ''t'' ''w'' ''p'') None None None
           (Builtin ''grep'') SupervisedProcess 1) = Inr r
     \<and> ti_version r = 3 \<and> apply_invocation_op (Finish Success None 10) r = Inl InvalidTransition"
proof -
  let ?ops = "[Start 5, Finish Timeout (Some ''late'') 9]"
  let ?r = "new_requested ''i'' (project_key_new ''t'' ''w'' ''p'') None None None
           (Builtin ''grep'') SupervisedProcess 1"
  obtain r where r: "apply_invocation_ops ?ops ?r = Inr r" and "ti_state r = tool_invocation_state.Failed"
    by (simp add: mark_started_def mark_finished_def new_requested_def validation_defs
        can_transition_tool_invocation_def outcome_is_failure_def wrap_add64_def Let_def)
  with invocation_finishes_once [OF r, of "Finish Success None 10"] show ?thesis
    by (simp add: invocation_is_terminal_def)
qed

text \<open>
  A finish is accepted exactly when the transition table allows the state its outcome leads
  to and the error message is there for the failures and absent for the success; a refused
  finish returns the error and no record.
\<close>

theorem finish_accepted_iff:
  "(\<exists>r'. mark_finished r k err at = Inr r' \<and> ti_state r' = terminal_state k \<and>
         ti_outcome r' = Some k \<and> ti_finished_at_ms r' = Some at) \<longleftrightarrow>
     can_transition_tool_invocation (ti_state r) (terminal_state k) \<and>
     (err = None \<longleftrightarrow> outcome_is_success k)"
  by (cases k)
    (auto simp: mark_finished_def validation_defs Let_def outcome_is_failure_def)

end
