(* ===== verification/Runtime_Events.thy ===== *)
theory Runtime_Events
  imports Tool_Invocation Decision_Service
begin

text \<open>
  The event vocabulary of the runtime (\<open>crates/cairn-domain/src/events.rs\<close>): the envelope, the
  payloads of the variants the store projects into the tables modelled here, and the two
  functions that read an event (\<open>project\<close>, \<open>primary_entity_ref\<close>). A JSON value is the type
  variable \<open>'j\<close>. The variants whose projection touches none of the modelled tables are
  \<open>OtherEvent\<close>: the name of the variant, its project, the entity the log files it under and its
  primary entity.
\<close>

section \<open>Types the payloads use\<close>

record 's state_transition =
  st_from :: "'s option"
  st_to :: 's

datatype event_source =
    OperatorSource ident
  | RuntimeSource
  | SchedulerSource
  | ExternalWorkerSource string
  | SystemSource

datatype approval_requirement = NotRequired | Required
datatype approval_decision = Approved | Rejected

datatype approval_match_policy =
    Exact
  | ProjectScopedPath string
  | ExactPath string

datatype approval_scope = Once | SessionApproval approval_match_policy

datatype checkpoint_kind = Intent | Result

datatype mailbox_delivery_status = Pending | Scheduled | Delivered | Failed

datatype operation_kind = Generate | Embed | Rerank
datatype provider_call_status = Succeeded | Failed | Cancelled
datatype provider_call_error_class =
    TransportFailure | TimedOut | RateLimited | StructuredOutputInvalid | ProviderError | Cancelled
datatype provider_cost_type = Metered | FlatRate | Free
datatype provider_budget_period = Daily | Monthly

record command_outcome =
  co_tool_name :: string
  co_cmd :: string
  co_exit_code :: "int option"

record completion_verification =
  cv_warnings :: "string list"
  cv_errors :: "string list"
  cv_commands :: "command_outcome list"
  cv_tool_results_scanned :: nat
  cv_extractor_version :: u32

record external_worker_progress =
  ewp_message :: "string option"
  ewp_percent_milli :: "nat option"

datatype external_worker_outcome =
    WorkerCompleted
  | WorkerFailed failure_class
  | WorkerCanceled
  | WorkerSuspended pause_reason

record external_worker_report =
  ewr_project :: project_key
  ewr_worker_id :: ident
  ewr_run_id :: "ident option"
  ewr_task_id :: ident
  ewr_lease_token :: u64
  ewr_reported_at_ms :: u64
  ewr_progress :: "external_worker_progress option"
  ewr_outcome :: "external_worker_outcome option"

section \<open>Payloads\<close>

record session_created =
  sc_project :: project_key
  sc_session_id :: ident

record session_state_changed =
  ssc_project :: project_key
  ssc_session_id :: ident
  ssc_transition :: "session_state state_transition"

record run_created =
  rc_project :: project_key
  rc_session_id :: ident
  rc_run_id :: ident
  rc_parent_run_id :: "ident option"
  rc_prompt_release_id :: "ident option"
  rc_agent_role_id :: "string option"

record run_state_changed =
  rsc_project :: project_key
  rsc_run_id :: ident
  rsc_transition :: "run_state state_transition"
  rsc_failure_class :: "failure_class option"
  rsc_pause_reason :: "pause_reason option"
  rsc_resume_trigger :: "resume_trigger option"

record task_created =
  tc_project :: project_key
  tc_task_id :: ident
  tc_parent_run_id :: "ident option"
  tc_parent_task_id :: "ident option"
  tc_prompt_release_id :: "ident option"
  tc_session_id :: "ident option"

record task_lease_claimed =
  tlc_project :: project_key
  tlc_task_id :: ident
  tlc_lease_owner :: string
  tlc_lease_token :: u64
  tlc_lease_expires_at_ms :: u64

record task_lease_heartbeated =
  tlh_project :: project_key
  tlh_task_id :: ident
  tlh_lease_token :: u64
  tlh_lease_expires_at_ms :: u64

record task_state_changed =
  tsc_project :: project_key
  tsc_task_id :: ident
  tsc_transition :: "task_state state_transition"
  tsc_failure_class :: "failure_class option"
  tsc_pause_reason :: "pause_reason option"
  tsc_resume_trigger :: "resume_trigger option"

record approval_requested =
  aq_project :: project_key
  aq_approval_id :: ident
  aq_run_id :: "ident option"
  aq_task_id :: "ident option"
  aq_requirement :: approval_requirement
  aq_title :: "string option"
  aq_description :: "string option"

record approval_resolved =
  ar_project :: project_key
  ar_approval_id :: ident
  ar_decision :: approval_decision

record 'j tool_call_proposed =
  tp_project :: project_key
  tp_call_id :: ident
  tp_session_id :: ident
  tp_run_id :: ident
  tp_tool_name :: string
  tp_tool_args :: "'j"
  tp_display_summary :: string
  tp_match_policy :: approval_match_policy
  tp_proposed_at_ms :: u64

record 'j tool_call_approved =
  ta_project :: project_key
  ta_call_id :: ident
  ta_session_id :: ident
  ta_operator_id :: ident
  ta_scope :: approval_scope
  ta_approved_tool_args :: "'j option"
  ta_approved_at_ms :: u64

record tool_call_rejected =
  tr_project :: project_key
  tr_call_id :: ident
  tr_session_id :: ident
  tr_operator_id :: ident
  tr_reason :: "string option"
  tr_rejected_at_ms :: u64

record 'j tool_call_amended =
  tm_project :: project_key
  tm_call_id :: ident
  tm_session_id :: ident
  tm_operator_id :: ident
  tm_new_tool_args :: "'j"
  tm_amended_at_ms :: u64

record 'j checkpoint_recorded =
  cp_project :: project_key
  cp_run_id :: ident
  cp_checkpoint_id :: ident
  cp_disposition :: checkpoint_disposition
  cp_data :: "'j option"
  cp_kind :: "checkpoint_kind option"
  cp_message_history_size :: "u32 option"
  cp_tool_call_ids :: "string list"

record checkpoint_restored =
  cpr_project :: project_key
  cpr_run_id :: ident
  cpr_checkpoint_id :: ident

record mailbox_message_appended =
  mb_project :: project_key
  mb_message_id :: ident
  mb_run_id :: "ident option"
  mb_task_id :: "ident option"
  mb_content :: string
  mb_from_run_id :: "ident option"
  mb_from_task_id :: "ident option"
  mb_deliver_at_ms :: u64
  mb_sender :: "string option"
  mb_recipient :: "string option"
  mb_body :: "string option"
  mb_sent_at :: "u64 option"
  mb_delivery_status :: "mailbox_delivery_status option"

record tool_invocation_started =
  tis_project :: project_key
  tis_invocation_id :: ident
  tis_session_id :: "ident option"
  tis_run_id :: "ident option"
  tis_task_id :: "ident option"
  tis_target :: tool_invocation_target
  tis_execution_class :: execution_class
  tis_prompt_release_id :: "ident option"
  tis_requested_at_ms :: u64
  tis_started_at_ms :: u64

record 'j tool_invocation_completed =
  tic_project :: project_key
  tic_invocation_id :: ident
  tic_task_id :: "ident option"
  tic_tool_name :: string
  tic_finished_at_ms :: u64
  tic_outcome :: tool_invocation_outcome_kind
  tic_tool_call_id :: "string option"
  tic_result_json :: "'j option"

record tool_invocation_failed =
  tif_project :: project_key
  tif_invocation_id :: ident
  tif_task_id :: "ident option"
  tif_tool_name :: string
  tif_finished_at_ms :: u64
  tif_outcome :: tool_invocation_outcome_kind
  tif_error_message :: "string option"

record 'j signal_ingested =
  si_project :: project_key
  si_signal_id :: ident
  si_source :: string
  si_payload :: "'j"
  si_timestamp_ms :: u64

record external_worker_registered =
  wr_sentinel_project :: project_key
  wr_worker_id :: ident
  wr_tenant_id :: ident
  wr_display_name :: string
  wr_registered_at :: u64

record external_worker_reported =
  wp_report :: external_worker_report

record external_worker_suspended =
  ws_sentinel_project :: project_key
  ws_worker_id :: ident
  ws_tenant_id :: ident
  ws_suspended_at :: u64
  ws_reason :: "string option"

record external_worker_reactivated =
  wa_sentinel_project :: project_key
  wa_worker_id :: ident
  wa_tenant_id :: ident
  wa_reactivated_at :: u64

record subagent_spawned =
  sp_project :: project_key
  sp_parent_run_id :: ident
  sp_parent_task_id :: "ident option"
  sp_child_task_id :: ident
  sp_child_session_id :: ident
  sp_child_run_id :: "ident option"

record user_message_appended =
  um_project :: project_key
  um_session_id :: ident
  um_run_id :: ident
  um_content :: string
  um_sequence :: u64
  um_appended_at_ms :: u64

record provider_call_completed =
  pc_project :: project_key
  pc_provider_call_id :: ident
  pc_route_decision_id :: ident
  pc_route_attempt_id :: ident
  pc_provider_binding_id :: ident
  pc_provider_connection_id :: ident
  pc_provider_model_id :: ident
  pc_operation_kind :: operation_kind
  pc_status :: provider_call_status
  pc_latency_ms :: "u64 option"
  pc_input_tokens :: "u32 option"
  pc_output_tokens :: "u32 option"
  pc_cost_micros :: "u64 option"
  pc_completed_at :: u64
  pc_session_id :: "ident option"
  pc_run_id :: "ident option"
  pc_error_class :: "provider_call_error_class option"
  pc_raw_error_message :: "string option"
  pc_retry_count :: u8
  pc_task_id :: "ident option"
  pc_prompt_release_id :: "ident option"
  pc_fallback_position :: u32
  pc_started_at :: u64
  pc_finished_at :: u64

record session_cost_updated =
  scu_project :: project_key
  scu_session_id :: ident
  scu_tenant_id :: ident
  scu_delta_cost_micros :: u64
  scu_delta_tokens_in :: u64
  scu_delta_tokens_out :: u64
  scu_provider_call_id :: string
  scu_updated_at_ms :: u64

record run_cost_updated =
  rcu_project :: project_key
  rcu_run_id :: ident
  rcu_delta_cost_micros :: u64
  rcu_delta_tokens_in :: u64
  rcu_delta_tokens_out :: u64
  rcu_provider_call_id :: string
  rcu_updated_at_ms :: u64
  rcu_session_id :: "ident option"
  rcu_tenant_id :: "ident option"

record provider_budget_set =
  pbs_tenant_id :: ident
  pbs_budget_id :: string
  pbs_period :: provider_budget_period
  pbs_limit_micros :: u64
  pbs_alert_threshold_percent :: "u32 option"

record provider_budget_alert_triggered =
  pba_budget_id :: string
  pba_current_micros :: u64
  pba_limit_micros :: u64
  pba_triggered_at_ms :: u64

record provider_budget_exceeded =
  pbe_budget_id :: string
  pbe_exceeded_by_micros :: u64
  pbe_exceeded_at_ms :: u64

record channel_created =
  cc_channel_id :: ident
  cc_project :: project_key
  cc_name :: string
  cc_capacity :: u32
  cc_created_at_ms :: u64

record channel_message_sent =
  cm_channel_id :: ident
  cm_project :: project_key
  cm_message_id :: string
  cm_sender_id :: string
  cm_body :: string
  cm_sent_at_ms :: u64

record channel_message_consumed =
  cx_channel_id :: ident
  cx_project :: project_key
  cx_message_id :: string
  cx_consumed_by :: string
  cx_consumed_at_ms :: u64

record tenant_quota_set =
  tq_tenant_id :: ident
  tq_max_concurrent_runs :: u32
  tq_max_sessions_per_hour :: u32
  tq_max_tasks_per_run :: u32

record run_cost_alert_set =
  ras_run_id :: ident
  ras_tenant_id :: ident
  ras_threshold_micros :: u64
  ras_set_at_ms :: u64

record run_cost_alert_triggered =
  rat_run_id :: ident
  rat_tenant_id :: ident
  rat_threshold_micros :: u64
  rat_actual_cost_micros :: u64
  rat_triggered_at_ms :: u64

record decision_cache_warmup =
  cw_cached :: u32
  cw_expired_and_dropped :: u32
  cw_warmed_at :: u64

record run_completion_annotated =
  rca_project :: project_key
  rca_session_id :: ident
  rca_run_id :: ident
  rca_summary :: string
  rca_verification :: completion_verification
  rca_occurred_at_ms :: u64

section \<open>Events\<close>

datatype runtime_entity_ref =
    SessionEntity ident
  | RunEntity ident
  | TaskEntity ident
  | ApprovalEntity ident
  | CheckpointEntity ident
  | MailboxMessageEntity ident
  | SignalEntity ident
  | ToolInvocationEntity ident
  | IngestJobEntity ident
  | EvalRunEntity ident
  | PromptAssetEntity ident
  | PromptVersionEntity ident
  | PromptReleaseEntity ident

text \<open>\<open>EntityRef\<close> of \<open>crates/cairn-store/src/event_log.rs\<close>, the key of per-entity reads.\<close>

datatype entity_ref =
    SessionRef ident
  | RunRef ident
  | TaskRef ident
  | ApprovalRef ident
  | CheckpointRef ident
  | MailboxRef ident
  | ToolInvocationRef ident
  | SignalRef ident
  | IngestJobRef ident
  | EvalRunRef ident
  | PromptAssetRef ident
  | PromptVersionRef ident
  | PromptReleaseRef ident

datatype 'j runtime_event =
    SessionCreated session_created
  | SessionStateChanged session_state_changed
  | RunCreated run_created
  | RunStateChanged run_state_changed
  | TaskCreated task_created
  | TaskLeaseClaimed task_lease_claimed
  | TaskLeaseHeartbeated task_lease_heartbeated
  | TaskStateChanged task_state_changed
  | ApprovalRequested approval_requested
  | ApprovalResolved approval_resolved
  | ToolCallProposed "'j tool_call_proposed"
  | ToolCallApproved "'j tool_call_approved"
  | ToolCallRejected tool_call_rejected
  | ToolCallAmended "'j tool_call_amended"
  | CheckpointRecorded "'j checkpoint_recorded"
  | CheckpointRestored checkpoint_restored
  | MailboxMessageAppended mailbox_message_appended
  | ToolInvocationStarted tool_invocation_started
  | ToolInvocationCompleted "'j tool_invocation_completed"
  | ToolInvocationFailed tool_invocation_failed
  | SignalIngested "'j signal_ingested"
  | ExternalWorkerRegistered external_worker_registered
  | ExternalWorkerReported external_worker_reported
  | ExternalWorkerSuspended external_worker_suspended
  | ExternalWorkerReactivated external_worker_reactivated
  | SubagentSpawned subagent_spawned
  | UserMessageAppended user_message_appended
  | ProviderCallCompleted provider_call_completed
  | SessionCostUpdated session_cost_updated
  | RunCostUpdated run_cost_updated
  | ProviderBudgetSet provider_budget_set
  | ProviderBudgetAlertTriggered provider_budget_alert_triggered
  | ProviderBudgetExceeded provider_budget_exceeded
  | ChannelCreated channel_created
  | ChannelMessageSent channel_message_sent
  | ChannelMessageConsumed channel_message_consumed
  | TenantQuotaSet tenant_quota_set
  | RunCostAlertSet run_cost_alert_set
  | RunCostAlertTriggered run_cost_alert_triggered
  | DecisionCacheWarmup decision_cache_warmup
  | DecisionRecorded decision_recorded_evt
  | RunCompletionAnnotated run_completion_annotated
  | OtherEvent string project_key "entity_ref option" "runtime_entity_ref option"

section \<open>Reading an event\<close>

definition system_key :: project_key where
  "system_key = project_key_new ''_system'' ''_system'' ''_system''"

fun event_project :: "'j runtime_event \<Rightarrow> project_key" where
  "event_project (SessionCreated e) = sc_project e"
| "event_project (SessionStateChanged e) = ssc_project e"
| "event_project (RunCreated e) = rc_project e"
| "event_project (RunStateChanged e) = rsc_project e"
| "event_project (TaskCreated e) = tc_project e"
| "event_project (TaskLeaseClaimed e) = tlc_project e"
| "event_project (TaskLeaseHeartbeated e) = tlh_project e"
| "event_project (TaskStateChanged e) = tsc_project e"
| "event_project (ApprovalRequested e) = aq_project e"
| "event_project (ApprovalResolved e) = ar_project e"
| "event_project (ToolCallProposed e) = tp_project e"
| "event_project (ToolCallApproved e) = ta_project e"
| "event_project (ToolCallRejected e) = tr_project e"
| "event_project (ToolCallAmended e) = tm_project e"
| "event_project (CheckpointRecorded e) = cp_project e"
| "event_project (CheckpointRestored e) = cpr_project e"
| "event_project (MailboxMessageAppended e) = mb_project e"
| "event_project (ToolInvocationStarted e) = tis_project e"
| "event_project (ToolInvocationCompleted e) = tic_project e"
| "event_project (ToolInvocationFailed e) = tif_project e"
| "event_project (SignalIngested e) = si_project e"
| "event_project (ExternalWorkerRegistered e) = wr_sentinel_project e"
| "event_project (ExternalWorkerReported e) = ewr_project (wp_report e)"
| "event_project (ExternalWorkerSuspended e) = ws_sentinel_project e"
| "event_project (ExternalWorkerReactivated e) = wa_sentinel_project e"
| "event_project (SubagentSpawned e) = sp_project e"
| "event_project (UserMessageAppended e) = um_project e"
| "event_project (ProviderCallCompleted e) = pc_project e"
| "event_project (SessionCostUpdated e) = scu_project e"
| "event_project (RunCostUpdated e) = rcu_project e"
| "event_project (RunCompletionAnnotated e) = rca_project e"
| "event_project (DecisionRecorded e) = de_project e"
| "event_project (ProviderBudgetSet _) = system_key"
| "event_project (ProviderBudgetAlertTriggered _) = system_key"
| "event_project (ProviderBudgetExceeded _) = system_key"
| "event_project (ChannelCreated _) = system_key"
| "event_project (ChannelMessageSent _) = system_key"
| "event_project (ChannelMessageConsumed _) = system_key"
| "event_project (TenantQuotaSet _) = system_key"
| "event_project (RunCostAlertSet _) = system_key"
| "event_project (RunCostAlertTriggered _) = system_key"
| "event_project (DecisionCacheWarmup _) = system_key"
| "event_project (OtherEvent _ p _ _) = p"

fun primary_entity_ref :: "'j runtime_event \<Rightarrow> runtime_entity_ref option" where
  "primary_entity_ref (SessionCreated e) = Some (SessionEntity (sc_session_id e))"
| "primary_entity_ref (SessionStateChanged e) = Some (SessionEntity (ssc_session_id e))"
| "primary_entity_ref (RunCreated e) = Some (RunEntity (rc_run_id e))"
| "primary_entity_ref (RunStateChanged e) = Some (RunEntity (rsc_run_id e))"
| "primary_entity_ref (TaskCreated e) = Some (TaskEntity (tc_task_id e))"
| "primary_entity_ref (TaskLeaseClaimed e) = Some (TaskEntity (tlc_task_id e))"
| "primary_entity_ref (TaskLeaseHeartbeated e) = Some (TaskEntity (tlh_task_id e))"
| "primary_entity_ref (TaskStateChanged e) = Some (TaskEntity (tsc_task_id e))"
| "primary_entity_ref (ApprovalRequested e) = Some (ApprovalEntity (aq_approval_id e))"
| "primary_entity_ref (ApprovalResolved e) = Some (ApprovalEntity (ar_approval_id e))"
| "primary_entity_ref (CheckpointRecorded e) = Some (CheckpointEntity (cp_checkpoint_id e))"
| "primary_entity_ref (CheckpointRestored e) = Some (CheckpointEntity (cpr_checkpoint_id e))"
| "primary_entity_ref (MailboxMessageAppended e) = Some (MailboxMessageEntity (mb_message_id e))"
| "primary_entity_ref (ToolInvocationStarted e) = Some (ToolInvocationEntity (tis_invocation_id e))"
| "primary_entity_ref (ToolInvocationCompleted e) = Some (ToolInvocationEntity (tic_invocation_id e))"
| "primary_entity_ref (ToolInvocationFailed e) = Some (ToolInvocationEntity (tif_invocation_id e))"
| "primary_entity_ref (SignalIngested e) = Some (SignalEntity (si_signal_id e))"
| "primary_entity_ref (SubagentSpawned e) = Some (TaskEntity (sp_child_task_id e))"
| "primary_entity_ref (UserMessageAppended e) = Some (RunEntity (um_run_id e))"
| "primary_entity_ref (RunCompletionAnnotated e) = Some (RunEntity (rca_run_id e))"
| "primary_entity_ref (ExternalWorkerReported e) = Some (TaskEntity (ewr_task_id (wp_report e)))"
| "primary_entity_ref (ToolCallProposed _) = None"
| "primary_entity_ref (ToolCallApproved _) = None"
| "primary_entity_ref (ToolCallRejected _) = None"
| "primary_entity_ref (ToolCallAmended _) = None"
| "primary_entity_ref (ExternalWorkerRegistered _) = None"
| "primary_entity_ref (ExternalWorkerSuspended _) = None"
| "primary_entity_ref (ExternalWorkerReactivated _) = None"
| "primary_entity_ref (ProviderCallCompleted _) = None"
| "primary_entity_ref (SessionCostUpdated _) = None"
| "primary_entity_ref (RunCostUpdated _) = None"
| "primary_entity_ref (ProviderBudgetSet _) = None"
| "primary_entity_ref (ProviderBudgetAlertTriggered _) = None"
| "primary_entity_ref (ProviderBudgetExceeded _) = None"
| "primary_entity_ref (ChannelCreated _) = None"
| "primary_entity_ref (ChannelMessageSent _) = None"
| "primary_entity_ref (ChannelMessageConsumed _) = None"
| "primary_entity_ref (TenantQuotaSet _) = None"
| "primary_entity_ref (RunCostAlertSet _) = None"
| "primary_entity_ref (RunCostAlertTriggered _) = None"
| "primary_entity_ref (DecisionCacheWarmup _) = None"
| "primary_entity_ref (DecisionRecorded _) = None"
| "primary_entity_ref (OtherEvent _ _ _ r) = r"

section \<open>The envelope\<close>

record 'j event_envelope =
  ev_event_id :: ident
  ev_source :: event_source
  ev_ownership :: ownership_key
  ev_causation_id :: "ident option"
  ev_correlation_id :: "string option"
  ev_payload :: "'j runtime_event"

definition event_envelope_new :: "ident \<Rightarrow> event_source \<Rightarrow> ownership_key \<Rightarrow> 'j runtime_event \<Rightarrow>
    'j event_envelope" where
  "event_envelope_new i src own payload =
     \<lparr>ev_event_id = i, ev_source = src, ev_ownership = own, ev_causation_id = None,
      ev_correlation_id = None, ev_payload = payload\<rparr>"

definition with_causation_id :: "ident \<Rightarrow> 'j event_envelope \<Rightarrow> 'j event_envelope" where
  "with_causation_id c env = env\<lparr>ev_causation_id := Some c\<rparr>"

definition with_correlation_id :: "string \<Rightarrow> 'j event_envelope \<Rightarrow> 'j event_envelope" where
  "with_correlation_id c env = env\<lparr>ev_correlation_id := Some c\<rparr>"

definition for_runtime_event :: "ident \<Rightarrow> event_source \<Rightarrow> 'j runtime_event \<Rightarrow> 'j event_envelope" where
  "for_runtime_event i src payload =
     event_envelope_new i src (OwnProject (event_project payload)) payload"

definition envelope_project :: "'j event_envelope \<Rightarrow> project_key" where
  "envelope_project env = event_project (ev_payload env)"

text \<open>
  \<open>next_event_id\<close> and \<open>make_envelope\<close> of \<open>crates/cairn-runtime/src/services/event_helpers.rs\<close>: the
  counter is a process-wide atomic, the clock and the trace id of the task are arguments.
\<close>

definition seed_event_counter :: "u64 \<Rightarrow> u64 \<Rightarrow> u64" where
  "seed_event_counter floor current =
     (let target = wrap_add64 floor 1 in if current \<ge> target then current else target)"

definition next_event_id :: "u64 \<Rightarrow> u64 \<Rightarrow> ident \<times> u64" where
  "next_event_id ts_ms counter =
     (''evt_'' @ show_nat ts_ms @ ''_'' @ show_nat counter, wrap_add64 counter 1)"

definition make_envelope :: "u64 \<Rightarrow> string \<Rightarrow> u64 \<Rightarrow> 'j runtime_event \<Rightarrow> 'j event_envelope \<times> u64" where
  "make_envelope ts_ms trace_id counter payload =
     (let (i, counter) = next_event_id ts_ms counter;
          env = for_runtime_event i RuntimeSource payload
      in (if trace_id \<noteq> [] then with_correlation_id trace_id env else env, counter))"

end
