(* ===== verification/Projections.thy ===== *)
theory Projections
  imports Runtime_Events
begin

text \<open>
  The rows the store keeps: the records of \<open>crates/cairn-store/src/projections\<close> and those of the
  domain crate the store projects events into. Field names carry the prefix of their record.
\<close>

datatype tool_call_approval_state = Pending | Approved | Rejected | Timeout

record session_record =
  sess_session_id :: ident
  sess_project :: project_key
  sess_state :: session_state
  sess_version :: u64
  sess_created_at :: u64
  sess_updated_at :: u64

record run_record =
  run_run_id :: ident
  run_session_id :: ident
  run_parent_run_id :: "ident option"
  run_project :: project_key
  run_state :: run_state
  run_prompt_release_id :: "ident option"
  run_agent_role_id :: "string option"
  run_failure_class :: "failure_class option"
  run_pause_reason :: "pause_reason option"
  run_resume_trigger :: "resume_trigger option"
  run_version :: u64
  run_created_at :: u64
  run_updated_at :: u64
  run_completion_summary :: "string option"
  run_completion_verification :: "completion_verification option"
  run_completion_annotated_at_ms :: "u64 option"

record task_record =
  task_task_id :: ident
  task_project :: project_key
  task_parent_run_id :: "ident option"
  task_parent_task_id :: "ident option"
  task_session_id :: "ident option"
  task_state :: task_state
  task_prompt_release_id :: "ident option"
  task_failure_class :: "failure_class option"
  task_pause_reason :: "pause_reason option"
  task_resume_trigger :: "resume_trigger option"
  task_retry_count :: u32
  task_lease_owner :: "string option"
  task_lease_expires_at :: "u64 option"
  task_title :: "string option"
  task_description :: "string option"
  task_version :: u64
  task_created_at :: u64
  task_updated_at :: u64

record approval_record =
  appr_approval_id :: ident
  appr_project :: project_key
  appr_run_id :: "ident option"
  appr_task_id :: "ident option"
  appr_requirement :: approval_requirement
  appr_decision :: "approval_decision option"
  appr_title :: "string option"
  appr_description :: "string option"
  appr_version :: u64
  appr_created_at :: u64
  appr_updated_at :: u64

record 'j tool_call_approval_record =
  tca_call_id :: ident
  tca_session_id :: ident
  tca_run_id :: ident
  tca_project :: project_key
  tca_tool_name :: string
  tca_original_tool_args :: "'j"
  tca_amended_tool_args :: "'j option"
  tca_approved_tool_args :: "'j option"
  tca_display_summary :: "string option"
  tca_match_policy :: approval_match_policy
  tca_state :: tool_call_approval_state
  tca_operator_id :: "ident option"
  tca_scope :: "approval_scope option"
  tca_reason :: "string option"
  tca_proposed_at_ms :: u64
  tca_approved_at_ms :: "u64 option"
  tca_rejected_at_ms :: "u64 option"
  tca_last_amended_at_ms :: "u64 option"
  tca_version :: u64
  tca_created_at :: u64
  tca_updated_at :: u64

record 'j checkpoint_record =
  ckpt_checkpoint_id :: ident
  ckpt_project :: project_key
  ckpt_run_id :: ident
  ckpt_disposition :: checkpoint_disposition
  ckpt_data :: "'j option"
  ckpt_version :: u64
  ckpt_created_at :: u64

record mailbox_record =
  mail_message_id :: ident
  mail_project :: project_key
  mail_run_id :: "ident option"
  mail_task_id :: "ident option"
  mail_from_task_id :: "ident option"
  mail_content :: string
  mail_from_run_id :: "ident option"
  mail_deliver_at_ms :: u64
  mail_sender :: "string option"
  mail_recipient :: "string option"
  mail_body :: "string option"
  mail_sent_at :: "u64 option"
  mail_delivery_status :: "mailbox_delivery_status option"
  mail_version :: u64
  mail_created_at :: u64

record 'j signal_record =
  sig_id :: ident
  sig_project :: project_key
  sig_source :: string
  sig_payload :: "'j"
  sig_timestamp_ms :: u64

record worker_health =
  health_last_heartbeat_ms :: u64
  health_is_alive :: bool
  health_active_task_count :: u32

record external_worker_record =
  wkr_worker_id :: ident
  wkr_tenant_id :: ident
  wkr_display_name :: string
  wkr_status :: string
  wkr_registered_at :: u64
  wkr_updated_at :: u64
  wkr_health :: worker_health
  wkr_current_task_id :: "ident option"

record session_cost_record =
  scost_session_id :: ident
  scost_tenant_id :: ident
  scost_total_cost_micros :: u64
  scost_total_tokens_in :: u64
  scost_total_tokens_out :: u64
  scost_updated_at_ms :: u64
  scost_provider_calls :: u64
  scost_token_in :: u64
  scost_token_out :: u64

record run_cost_record =
  rcost_run_id :: ident
  rcost_total_cost_micros :: u64
  rcost_total_tokens_in :: u64
  rcost_total_tokens_out :: u64
  rcost_provider_calls :: u64
  rcost_token_in :: u64
  rcost_token_out :: u64

record project_cost_record =
  pcost_tenant_id :: ident
  pcost_workspace_id :: string
  pcost_project_id :: string
  pcost_total_cost_micros :: u64
  pcost_total_tokens_in :: u64
  pcost_total_tokens_out :: u64
  pcost_provider_calls :: u64
  pcost_updated_at_ms :: u64

record workspace_cost_record =
  wcost_tenant_id :: ident
  wcost_workspace_id :: string
  wcost_total_cost_micros :: u64
  wcost_total_tokens_in :: u64
  wcost_total_tokens_out :: u64
  wcost_provider_calls :: u64
  wcost_updated_at_ms :: u64

record run_cost_alert =
  alert_run_id :: ident
  alert_threshold_micros :: u64
  alert_triggered_at_ms :: u64
  alert_tenant_id :: ident
  alert_actual_cost_micros :: u64

record provider_budget =
  budget_tenant_id :: ident
  budget_period :: provider_budget_period
  budget_limit_micros :: u64
  budget_alert_threshold_percent :: u32
  budget_current_spend_micros :: u64
  budget_created_at :: u64
  budget_updated_at :: u64

record provider_call_record =
  call_provider_call_id :: ident
  call_route_decision_id :: ident
  call_route_attempt_id :: ident
  call_project_id :: ident
  call_operation_kind :: operation_kind
  call_provider_binding_id :: ident
  call_provider_connection_id :: ident
  call_provider_adapter :: string
  call_provider_model_id :: ident
  call_task_id :: "ident option"
  call_run_id :: "ident option"
  call_prompt_release_id :: "ident option"
  call_fallback_position :: nat
  call_status :: provider_call_status
  call_latency_ms :: "u64 option"
  call_input_tokens :: "u32 option"
  call_output_tokens :: "u32 option"
  call_cost_micros :: "u64 option"
  call_cost_type :: provider_cost_type
  call_error_class :: "provider_call_error_class option"
  call_started_at_ms :: u64
  call_finished_at_ms :: u64
  call_raw_error_message :: "string option"

record llm_call_trace =
  trace_trace_id :: string
  trace_model_id :: string
  trace_prompt_tokens :: u32
  trace_completion_tokens :: u32
  trace_latency_ms :: u64
  trace_cost_micros :: u64
  trace_session_id :: "ident option"
  trace_run_id :: "ident option"
  trace_created_at_ms :: u64
  trace_is_error :: bool

record tenant_quota =
  quota_tenant_id :: ident
  quota_max_concurrent_runs :: u32
  quota_max_sessions_per_hour :: u32
  quota_max_tasks_per_run :: u32
  quota_current_active_runs :: u32
  quota_sessions_this_hour :: u32

record channel_record =
  chan_channel_id :: ident
  chan_project :: project_key
  chan_name :: string
  chan_capacity :: u32
  chan_created_at :: u64
  chan_updated_at :: u64

record channel_message =
  cmsg_channel_id :: ident
  cmsg_message_id :: string
  cmsg_sender_id :: string
  cmsg_body :: string
  cmsg_sent_at_ms :: u64
  cmsg_consumed_by :: "string option"
  cmsg_consumed_at_ms :: "u64 option"

record usage_counters =
  usage_run_count :: u64
  usage_event_count :: u64
  usage_sandbox_provision_count :: u64
  usage_decision_evaluation_count :: u64
  usage_trigger_fire_count :: u64

end
