(* ===== verification/Event_Store.thy ===== *)
theory Event_Store
  imports Projections
begin

text \<open>
  The in-memory event store (\<open>crates/cairn-store/src/in_memory.rs\<close>): the state under its mutex,
  the synchronous projections (\<open>apply_projection\<close>, one function per arm), \<open>append\<close> and the
  reads of the log. The clock reading of an append is an argument. The arms of tool
  invocations call \<open>expect\<close>; a projection that panics is \<open>None\<close>, and \<open>append\<close> then returns
  \<open>Panicked\<close> with the state the mutex is left with: the event in the log, its projection
  missing. The secondary log is another implementation of the trait; its answer to the
  append is an argument.

  Left out: the tables of prompts, evaluations, settings, credentials, organisations,
  routing and notifications (their events are \<open>OtherEvent\<close> and change no table here), the
  broadcast channel, and the debug-only failure injection.
\<close>

section \<open>State\<close>

record 'j stored_event =
  se_position :: u64
  se_envelope :: "'j event_envelope"
  se_stored_at :: u64

record 'j store =
  s_events :: "'j stored_event list"
  s_next_position :: u64
  s_command_id_index :: "(string, u64) hmap"
  s_sessions :: "(string, session_record) hmap"
  s_runs :: "(string, run_record) hmap"
  s_tasks :: "(string, task_record) hmap"
  s_approvals :: "(string, approval_record) hmap"
  s_tool_call_approvals :: "(string, 'j tool_call_approval_record) hmap"
  s_checkpoints :: "(string, 'j checkpoint_record) hmap"
  s_mailbox_messages :: "(string, mailbox_record) hmap"
  s_tool_invocations :: "(string, tool_invocation_record) hmap"
  s_signals :: "(string, 'j signal_record) hmap"
  s_provider_calls :: "(string, provider_call_record) hmap"
  s_external_workers :: "(string, external_worker_record) hmap"
  s_session_costs :: "(string, session_cost_record) hmap"
  s_run_costs :: "(string, run_cost_record) hmap"
  s_project_costs :: "(string \<times> string \<times> string, project_cost_record) hmap"
  s_workspace_costs :: "(string \<times> string, workspace_cost_record) hmap"
  s_llm_traces :: "llm_call_trace list"
  s_provider_budgets :: "(string, provider_budget) hmap"
  s_quotas :: "(string, tenant_quota) hmap"
  s_run_cost_alerts :: "(string, run_cost_alert) hmap"
  s_channels :: "(string, channel_record) hmap"
  s_channel_messages :: "(string, channel_message list) hmap"
  s_usage :: "(project_key, usage_counters) hmap"

definition store_new :: "'j store" where
  "store_new =
     \<lparr>s_events = [], s_next_position = 1, s_command_id_index = [], s_sessions = [],
      s_runs = [], s_tasks = [], s_approvals = [], s_tool_call_approvals = [],
      s_checkpoints = [], s_mailbox_messages = [], s_tool_invocations = [], s_signals = [],
      s_provider_calls = [], s_external_workers = [], s_session_costs = [], s_run_costs = [],
      s_project_costs = [], s_workspace_costs = [], s_llm_traces = [],
      s_provider_budgets = [], s_quotas = [], s_run_cost_alerts = [], s_channels = [],
      s_channel_messages = [], s_usage = []\<rparr>"

definition default_usage_counters :: usage_counters where
  "default_usage_counters =
     \<lparr>usage_run_count = 0, usage_event_count = 0, usage_sandbox_provision_count = 0,
      usage_decision_evaluation_count = 0, usage_trigger_fire_count = 0\<rparr>"

definition increment_usage_for_project :: "project_key \<Rightarrow> (usage_counters \<Rightarrow> usage_counters) \<Rightarrow>
    'j store \<Rightarrow> 'j store" where
  "increment_usage_for_project p f s =
     s\<lparr>s_usage := hentry p default_usage_counters f (s_usage s)\<rparr>"

definition increment_sandbox_provision_count :: "project_key \<Rightarrow> 'j store \<Rightarrow> 'j store" where
  "increment_sandbox_provision_count p = increment_usage_for_project p
     (\<lambda>c. c\<lparr>usage_sandbox_provision_count := wrap_add64 (usage_sandbox_provision_count c) 1\<rparr>)"

definition increment_decision_evaluation_count :: "project_key \<Rightarrow> 'j store \<Rightarrow> 'j store" where
  "increment_decision_evaluation_count p = increment_usage_for_project p
     (\<lambda>c. c\<lparr>usage_decision_evaluation_count :=
              wrap_add64 (usage_decision_evaluation_count c) 1\<rparr>)"

definition increment_trigger_fire_count :: "project_key \<Rightarrow> 'j store \<Rightarrow> 'j store" where
  "increment_trigger_fire_count p = increment_usage_for_project p
     (\<lambda>c. c\<lparr>usage_trigger_fire_count := wrap_add64 (usage_trigger_fire_count c) 1\<rparr>)"

section \<open>Projections: sessions, runs and tasks\<close>

definition bump :: "u64 \<Rightarrow> u64" where
  "bump v = wrap_add64 v 1"

definition apply_session_created :: "u64 \<Rightarrow> session_created \<Rightarrow> 'j store \<Rightarrow> 'j store" where
  "apply_session_created now e s =
     (let is_fresh = (hget (s_sessions s) (sc_session_id e) = None);
          s = s\<lparr>s_sessions := hput (sc_session_id e)
                \<lparr>sess_session_id = sc_session_id e, sess_project = sc_project e,
                 sess_state = session_state.Open, sess_version = 1, sess_created_at = now,
                 sess_updated_at = now\<rparr> (s_sessions s)\<rparr>
      in if is_fresh
         then s\<lparr>s_quotas := hmodify (tenant_id (sc_project e))
                  (\<lambda>q. q\<lparr>quota_sessions_this_hour := sat_add32 (quota_sessions_this_hour q) 1\<rparr>)
                  (s_quotas s)\<rparr>
         else s)"

definition apply_session_state_changed :: "u64 \<Rightarrow> session_state_changed \<Rightarrow> 'j store \<Rightarrow> 'j store" where
  "apply_session_state_changed now e s =
     s\<lparr>s_sessions := hmodify (ssc_session_id e)
         (\<lambda>r. r\<lparr>sess_state := st_to (ssc_transition e), sess_version := bump (sess_version r),
                sess_updated_at := now\<rparr>) (s_sessions s)\<rparr>"

definition apply_run_created :: "u64 \<Rightarrow> run_created \<Rightarrow> 'j store \<Rightarrow> 'j store" where
  "apply_run_created now e s =
     s\<lparr>s_runs := hput (rc_run_id e)
         \<lparr>run_run_id = rc_run_id e, run_session_id = rc_session_id e,
          run_parent_run_id = rc_parent_run_id e, run_project = rc_project e,
          run_state = run_state.Pending, run_prompt_release_id = rc_prompt_release_id e,
          run_agent_role_id = rc_agent_role_id e, run_failure_class = None,
          run_pause_reason = None, run_resume_trigger = None, run_version = 1,
          run_created_at = now, run_updated_at = now, run_completion_summary = None,
          run_completion_verification = None, run_completion_annotated_at_ms = None\<rparr> (s_runs s),
       s_quotas := hmodify (tenant_id (rc_project e))
         (\<lambda>q. q\<lparr>quota_current_active_runs := sat_add32 (quota_current_active_runs q) 1\<rparr>)
         (s_quotas s)\<rparr>"

definition apply_run_state_changed :: "u64 \<Rightarrow> run_state_changed \<Rightarrow> 'j store \<Rightarrow> 'j store" where
  "apply_run_state_changed now e s =
     s\<lparr>s_runs := hmodify (rsc_run_id e)
         (\<lambda>r. r\<lparr>run_state := st_to (rsc_transition e), run_failure_class := rsc_failure_class e,
                run_pause_reason := rsc_pause_reason e,
                run_resume_trigger := rsc_resume_trigger e,
                run_version := bump (run_version r), run_updated_at := now\<rparr>) (s_runs s)\<rparr>"

definition apply_run_completion_annotated :: "u64 \<Rightarrow> run_completion_annotated \<Rightarrow> 'j store \<Rightarrow>
    'j store" where
  "apply_run_completion_annotated now e s =
     s\<lparr>s_runs := hmodify (rca_run_id e)
         (\<lambda>r. r\<lparr>run_completion_summary := Some (rca_summary e),
                run_completion_verification := Some (rca_verification e),
                run_completion_annotated_at_ms := Some (rca_occurred_at_ms e),
                run_version := bump (run_version r), run_updated_at := now\<rparr>) (s_runs s)\<rparr>"

definition task_session :: "task_created \<Rightarrow> 'j store \<Rightarrow> ident option" where
  "task_session e s =
     (case tc_session_id e of
        Some sid \<Rightarrow> Some sid
      | None \<Rightarrow>
          (case tc_parent_run_id e of
             None \<Rightarrow> None
           | Some rid \<Rightarrow> map_option run_session_id (hget (s_runs s) rid)))"

definition apply_task_created :: "u64 \<Rightarrow> task_created \<Rightarrow> 'j store \<Rightarrow> 'j store" where
  "apply_task_created now e s =
     s\<lparr>s_tasks := hput (tc_task_id e)
         \<lparr>task_task_id = tc_task_id e, task_project = tc_project e,
          task_parent_run_id = tc_parent_run_id e, task_parent_task_id = tc_parent_task_id e,
          task_session_id = task_session e s, task_state = task_state.Queued,
          task_prompt_release_id = tc_prompt_release_id e, task_failure_class = None,
          task_pause_reason = None, task_resume_trigger = None, task_retry_count = 0,
          task_lease_owner = None, task_lease_expires_at = None, task_title = None,
          task_description = None, task_version = 1, task_created_at = now,
          task_updated_at = now\<rparr> (s_tasks s)\<rparr>"

definition task_changed :: "u64 \<Rightarrow> task_state_changed \<Rightarrow> task_record \<Rightarrow> task_record" where
  "task_changed now e r =
     (let target = st_to (tsc_transition e);
          r = r\<lparr>task_state := target, task_failure_class := tsc_failure_class e,
                task_pause_reason := tsc_pause_reason e,
                task_resume_trigger := tsc_resume_trigger e\<rparr>;
          r = (if target = task_state.RetryableFailed
               then r\<lparr>task_retry_count := wrap_add32 (task_retry_count r) 1\<rparr> else r);
          r = (if target \<in> {task_state.Queued, task_state.Paused}
               then r\<lparr>task_lease_owner := None, task_lease_expires_at := None\<rparr> else r)
      in r\<lparr>task_version := bump (task_version r), task_updated_at := now\<rparr>)"

definition apply_task_state_changed :: "u64 \<Rightarrow> task_state_changed \<Rightarrow> 'j store \<Rightarrow> 'j store" where
  "apply_task_state_changed now e s =
     s\<lparr>s_tasks := hmodify (tsc_task_id e) (task_changed now e) (s_tasks s)\<rparr>"

definition apply_task_lease_claimed :: "u64 \<Rightarrow> task_lease_claimed \<Rightarrow> 'j store \<Rightarrow> 'j store" where
  "apply_task_lease_claimed now e s =
     s\<lparr>s_tasks := hmodify (tlc_task_id e)
         (\<lambda>r. r\<lparr>task_lease_owner := Some (tlc_lease_owner e),
                task_lease_expires_at := Some (tlc_lease_expires_at_ms e),
                task_version := bump (task_version r), task_updated_at := now\<rparr>) (s_tasks s)\<rparr>"

definition apply_task_lease_heartbeated :: "u64 \<Rightarrow> task_lease_heartbeated \<Rightarrow> 'j store \<Rightarrow> 'j store"
  where
  "apply_task_lease_heartbeated now e s =
     s\<lparr>s_tasks := hmodify (tlh_task_id e)
         (\<lambda>r. r\<lparr>task_lease_expires_at := Some (tlh_lease_expires_at_ms e),
                task_version := bump (task_version r), task_updated_at := now\<rparr>) (s_tasks s)\<rparr>"

definition apply_subagent_spawned :: "u64 \<Rightarrow> subagent_spawned \<Rightarrow> 'j store \<Rightarrow> 'j store" where
  "apply_subagent_spawned now e s =
     s\<lparr>s_tasks := hmodify (sp_child_task_id e)
         (\<lambda>r. r\<lparr>task_parent_run_id := Some (sp_parent_run_id e),
                task_parent_task_id := sp_parent_task_id e, task_updated_at := now\<rparr>)
         (s_tasks s)\<rparr>"

section \<open>Projections: approvals, checkpoints, messages, signals, workers\<close>

definition apply_approval_requested :: "u64 \<Rightarrow> approval_requested \<Rightarrow> 'j store \<Rightarrow> 'j store" where
  "apply_approval_requested now e s =
     s\<lparr>s_approvals := hput (aq_approval_id e)
         \<lparr>appr_approval_id = aq_approval_id e, appr_project = aq_project e,
          appr_run_id = aq_run_id e, appr_task_id = aq_task_id e,
          appr_requirement = aq_requirement e, appr_decision = None, appr_title = aq_title e,
          appr_description = aq_description e, appr_version = 1, appr_created_at = now,
          appr_updated_at = now\<rparr> (s_approvals s)\<rparr>"

definition apply_approval_resolved :: "u64 \<Rightarrow> approval_resolved \<Rightarrow> 'j store \<Rightarrow> 'j store" where
  "apply_approval_resolved now e s =
     s\<lparr>s_approvals := hmodify (ar_approval_id e)
         (\<lambda>r. r\<lparr>appr_decision := Some (ar_decision e), appr_version := bump (appr_version r),
                appr_updated_at := now\<rparr>) (s_approvals s)\<rparr>"

definition proposed_record :: "u64 \<Rightarrow> 'j tool_call_proposed \<Rightarrow> 'j tool_call_approval_record" where
  "proposed_record now e =
     \<lparr>tca_call_id = tp_call_id e, tca_session_id = tp_session_id e, tca_run_id = tp_run_id e,
      tca_project = tp_project e, tca_tool_name = tp_tool_name e,
      tca_original_tool_args = tp_tool_args e, tca_amended_tool_args = None,
      tca_approved_tool_args = None,
      tca_display_summary =
        (if tp_display_summary e = [] then None else Some (tp_display_summary e)),
      tca_match_policy = tp_match_policy e, tca_state = tool_call_approval_state.Pending,
      tca_operator_id = None, tca_scope = None, tca_reason = None,
      tca_proposed_at_ms = tp_proposed_at_ms e, tca_approved_at_ms = None,
      tca_rejected_at_ms = None, tca_last_amended_at_ms = None, tca_version = 1,
      tca_created_at = now, tca_updated_at = now\<rparr>"

definition apply_tool_call_proposed :: "u64 \<Rightarrow> 'j tool_call_proposed \<Rightarrow> 'j store \<Rightarrow> 'j store" where
  "apply_tool_call_proposed now e s =
     s\<lparr>s_tool_call_approvals :=
         hentry (tp_call_id e) (proposed_record now e) (\<lambda>r. r) (s_tool_call_approvals s)\<rparr>"

definition apply_tool_call_amended :: "u64 \<Rightarrow> 'j tool_call_amended \<Rightarrow> 'j store \<Rightarrow> 'j store" where
  "apply_tool_call_amended now e s =
     s\<lparr>s_tool_call_approvals := hmodify (tm_call_id e)
         (\<lambda>r. r\<lparr>tca_amended_tool_args := Some (tm_new_tool_args e),
                tca_last_amended_at_ms := Some (tm_amended_at_ms e),
                tca_version := bump (tca_version r), tca_updated_at := now\<rparr>)
         (s_tool_call_approvals s)\<rparr>"

definition apply_tool_call_approved :: "u64 \<Rightarrow> 'j tool_call_approved \<Rightarrow> 'j store \<Rightarrow> 'j store" where
  "apply_tool_call_approved now e s =
     s\<lparr>s_tool_call_approvals := hmodify (ta_call_id e)
         (\<lambda>r. r\<lparr>tca_state := tool_call_approval_state.Approved,
                tca_operator_id := Some (ta_operator_id e), tca_scope := Some (ta_scope e),
                tca_approved_tool_args := ta_approved_tool_args e,
                tca_approved_at_ms := Some (ta_approved_at_ms e),
                tca_version := bump (tca_version r), tca_updated_at := now\<rparr>)
         (s_tool_call_approvals s)\<rparr>"

definition apply_tool_call_rejected :: "u64 \<Rightarrow> tool_call_rejected \<Rightarrow> 'j store \<Rightarrow> 'j store" where
  "apply_tool_call_rejected now e s =
     s\<lparr>s_tool_call_approvals := hmodify (tr_call_id e)
         (\<lambda>r. r\<lparr>tca_state := tool_call_approval_state.Rejected,
                tca_operator_id := Some (tr_operator_id e), tca_reason := tr_reason e,
                tca_rejected_at_ms := Some (tr_rejected_at_ms e),
                tca_version := bump (tca_version r), tca_updated_at := now\<rparr>)
         (s_tool_call_approvals s)\<rparr>"

definition supersede :: "ident \<Rightarrow> 'j checkpoint_record \<Rightarrow> 'j checkpoint_record" where
  "supersede run_id cp =
     (if ckpt_run_id cp = run_id \<and> ckpt_disposition cp = Latest
      then cp\<lparr>ckpt_disposition := Superseded, ckpt_version := bump (ckpt_version cp)\<rparr> else cp)"

definition apply_checkpoint_recorded :: "u64 \<Rightarrow> 'j checkpoint_recorded \<Rightarrow> 'j store \<Rightarrow> 'j store" where
  "apply_checkpoint_recorded now e s =
     (let s = (if cp_disposition e = Latest
               then s\<lparr>s_checkpoints := hmap_values (supersede (cp_run_id e)) (s_checkpoints s)\<rparr>
               else s)
      in s\<lparr>s_checkpoints := hput (cp_checkpoint_id e)
             \<lparr>ckpt_checkpoint_id = cp_checkpoint_id e, ckpt_project = cp_project e,
              ckpt_run_id = cp_run_id e, ckpt_disposition = cp_disposition e,
              ckpt_data = cp_data e, ckpt_version = 1, ckpt_created_at = now\<rparr>
             (s_checkpoints s)\<rparr>)"

definition apply_mailbox_message_appended :: "u64 \<Rightarrow> mailbox_message_appended \<Rightarrow> 'j store \<Rightarrow>
    'j store" where
  "apply_mailbox_message_appended now e s =
     s\<lparr>s_mailbox_messages := hput (mb_message_id e)
         \<lparr>mail_message_id = mb_message_id e, mail_project = mb_project e,
          mail_run_id = mb_run_id e, mail_task_id = mb_task_id e,
          mail_from_task_id = mb_from_task_id e, mail_content = mb_content e,
          mail_from_run_id = mb_from_run_id e, mail_deliver_at_ms = mb_deliver_at_ms e,
          mail_sender = mb_sender e, mail_recipient = mb_recipient e, mail_body = mb_body e,
          mail_sent_at = mb_sent_at e, mail_delivery_status = mb_delivery_status e,
          mail_version = 1, mail_created_at = now\<rparr> (s_mailbox_messages s)\<rparr>"

definition apply_tool_invocation_started :: "tool_invocation_started \<Rightarrow> 'j store \<Rightarrow>
    'j store option" where
  "apply_tool_invocation_started e s =
     (let requested = new_requested (tis_invocation_id e) (tis_project e) (tis_session_id e)
                        (tis_run_id e) (tis_task_id e) (tis_target e) (tis_execution_class e)
                        (tis_requested_at_ms e)
      in (case mark_started requested (tis_started_at_ms e) of
            Inl _ \<Rightarrow> None
          | Inr started \<Rightarrow>
              Some (s\<lparr>s_tool_invocations :=
                        hput (tis_invocation_id e) started (s_tool_invocations s)\<rparr>)))"

text \<open>The two finishing arms: \<open>get_mut\<close>, then \<open>mark_finished(..).expect(..)\<close>.\<close>

definition finish_invocation :: "ident \<Rightarrow> tool_invocation_outcome_kind \<Rightarrow> string option \<Rightarrow> u64 \<Rightarrow>
    'j store \<Rightarrow> 'j store option" where
  "finish_invocation i outcome err at s =
     (case hget (s_tool_invocations s) i of
        None \<Rightarrow> Some s
      | Some r \<Rightarrow>
          (case mark_finished r outcome err at of
             Inl _ \<Rightarrow> None
           | Inr r' \<Rightarrow> Some (s\<lparr>s_tool_invocations := hput i r' (s_tool_invocations s)\<rparr>)))"

definition apply_tool_invocation_completed :: "'j tool_invocation_completed \<Rightarrow> 'j store \<Rightarrow>
    'j store option" where
  "apply_tool_invocation_completed e s =
     finish_invocation (tic_invocation_id e) (tic_outcome e) None (tic_finished_at_ms e) s"

definition apply_tool_invocation_failed :: "tool_invocation_failed \<Rightarrow> 'j store \<Rightarrow>
    'j store option" where
  "apply_tool_invocation_failed e s =
     finish_invocation (tif_invocation_id e) (tif_outcome e) (tif_error_message e)
       (tif_finished_at_ms e) s"

definition apply_signal_ingested :: "'j signal_ingested \<Rightarrow> 'j store \<Rightarrow> 'j store" where
  "apply_signal_ingested e s =
     s\<lparr>s_signals := hput (si_signal_id e)
         \<lparr>sig_id = si_signal_id e, sig_project = si_project e, sig_source = si_source e,
          sig_payload = si_payload e, sig_timestamp_ms = si_timestamp_ms e\<rparr> (s_signals s)\<rparr>"

definition apply_external_worker_registered :: "u64 \<Rightarrow> external_worker_registered \<Rightarrow> 'j store \<Rightarrow>
    'j store" where
  "apply_external_worker_registered now e s =
     s\<lparr>s_external_workers := hput (wr_worker_id e)
         \<lparr>wkr_worker_id = wr_worker_id e, wkr_tenant_id = wr_tenant_id e,
          wkr_display_name = wr_display_name e, wkr_status = ''active'',
          wkr_registered_at = wr_registered_at e, wkr_updated_at = now,
          wkr_health = \<lparr>health_last_heartbeat_ms = 0, health_is_alive = False,
                         health_active_task_count = 0\<rparr>,
          wkr_current_task_id = None\<rparr> (s_external_workers s)\<rparr>"

definition set_worker_status :: "u64 \<Rightarrow> ident \<Rightarrow> string \<Rightarrow> 'j store \<Rightarrow> 'j store" where
  "set_worker_status now w status s =
     s\<lparr>s_external_workers := hmodify w
         (\<lambda>r. r\<lparr>wkr_status := status, wkr_updated_at := now\<rparr>) (s_external_workers s)\<rparr>"

definition worker_reported :: "u64 \<Rightarrow> external_worker_report \<Rightarrow> external_worker_record \<Rightarrow>
    external_worker_record" where
  "worker_reported now rep r =
     r\<lparr>wkr_health := (wkr_health r)\<lparr>health_last_heartbeat_ms := ewr_reported_at_ms rep,
                                     health_is_alive := True\<rparr>,
       wkr_current_task_id := (if ewr_outcome rep = None then Some (ewr_task_id rep) else None),
       wkr_updated_at := now\<rparr>"

definition apply_external_worker_reported :: "u64 \<Rightarrow> external_worker_reported \<Rightarrow> 'j store \<Rightarrow>
    'j store" where
  "apply_external_worker_reported now e s =
     s\<lparr>s_external_workers := hmodify (ewr_worker_id (wp_report e))
         (worker_reported now (wp_report e)) (s_external_workers s)\<rparr>"

section \<open>Projections: channels, quotas, budgets and alerts\<close>

definition apply_channel_created :: "channel_created \<Rightarrow> 'j store \<Rightarrow> 'j store" where
  "apply_channel_created e s =
     s\<lparr>s_channels := hput (cc_channel_id e)
         \<lparr>chan_channel_id = cc_channel_id e, chan_project = cc_project e, chan_name = cc_name e,
          chan_capacity = cc_capacity e, chan_created_at = cc_created_at_ms e,
          chan_updated_at = cc_created_at_ms e\<rparr> (s_channels s)\<rparr>"

definition apply_channel_message_sent :: "channel_message_sent \<Rightarrow> 'j store \<Rightarrow> 'j store" where
  "apply_channel_message_sent e s =
     s\<lparr>s_channel_messages := hentry (cm_channel_id e) []
         (\<lambda>ms. ms @ [\<lparr>cmsg_channel_id = cm_channel_id e, cmsg_message_id = cm_message_id e,
                       cmsg_sender_id = cm_sender_id e, cmsg_body = cm_body e,
                       cmsg_sent_at_ms = cm_sent_at_ms e, cmsg_consumed_by = None,
                       cmsg_consumed_at_ms = None\<rparr>]) (s_channel_messages s)\<rparr>"

text \<open>\<open>iter_mut().find(..)\<close>: only the first message with the id is marked.\<close>

fun consume_first :: "ident \<Rightarrow> string \<Rightarrow> u64 \<Rightarrow> channel_message list \<Rightarrow> channel_message list" where
  "consume_first i who at [] = []"
| "consume_first i who at (m # ms) =
     (if cmsg_message_id m = i
      then m\<lparr>cmsg_consumed_by := Some who, cmsg_consumed_at_ms := Some at\<rparr> # ms
      else m # consume_first i who at ms)"

definition apply_channel_message_consumed :: "channel_message_consumed \<Rightarrow> 'j store \<Rightarrow> 'j store" where
  "apply_channel_message_consumed e s =
     s\<lparr>s_channel_messages := hmodify (cx_channel_id e)
         (consume_first (cx_message_id e) (cx_consumed_by e) (cx_consumed_at_ms e))
         (s_channel_messages s)\<rparr>"

definition apply_tenant_quota_set :: "tenant_quota_set \<Rightarrow> 'j store \<Rightarrow> 'j store" where
  "apply_tenant_quota_set e s =
     s\<lparr>s_quotas := hput (tq_tenant_id e)
         \<lparr>quota_tenant_id = tq_tenant_id e,
          quota_max_concurrent_runs = tq_max_concurrent_runs e,
          quota_max_sessions_per_hour = tq_max_sessions_per_hour e,
          quota_max_tasks_per_run = tq_max_tasks_per_run e,
          quota_current_active_runs = 0, quota_sessions_this_hour = 0\<rparr> (s_quotas s)\<rparr>"

fun period_debug :: "provider_budget_period \<Rightarrow> string" where
  "period_debug Daily = ''Daily''"
| "period_debug Monthly = ''Monthly''"

definition apply_provider_budget_set :: "u64 \<Rightarrow> provider_budget_set \<Rightarrow> 'j store \<Rightarrow> 'j store" where
  "apply_provider_budget_set now e s =
     s\<lparr>s_provider_budgets := hput (pbs_tenant_id e @ '':'' @ period_debug (pbs_period e))
         \<lparr>budget_tenant_id = pbs_tenant_id e, budget_period = pbs_period e,
          budget_limit_micros = pbs_limit_micros e,
          budget_alert_threshold_percent =
            (case pbs_alert_threshold_percent e of Some p \<Rightarrow> p | None \<Rightarrow> 80),
          budget_current_spend_micros = 0, budget_created_at = now, budget_updated_at = now\<rparr>
         (s_provider_budgets s)\<rparr>"

definition apply_provider_budget_alert_triggered :: "u64 \<Rightarrow> provider_budget_alert_triggered \<Rightarrow>
    'j store \<Rightarrow> 'j store" where
  "apply_provider_budget_alert_triggered now e s =
     s\<lparr>s_provider_budgets := hmodify (pba_budget_id e)
         (\<lambda>b. b\<lparr>budget_current_spend_micros := pba_current_micros e, budget_updated_at := now\<rparr>)
         (s_provider_budgets s)\<rparr>"

definition apply_provider_budget_exceeded :: "u64 \<Rightarrow> provider_budget_exceeded \<Rightarrow> 'j store \<Rightarrow>
    'j store" where
  "apply_provider_budget_exceeded now e s =
     s\<lparr>s_provider_budgets := hmodify (pbe_budget_id e)
         (\<lambda>b. b\<lparr>budget_current_spend_micros :=
                  sat_add64 (budget_limit_micros b) (pbe_exceeded_by_micros e),
                budget_updated_at := now\<rparr>) (s_provider_budgets s)\<rparr>"

definition apply_run_cost_alert_set :: "run_cost_alert_set \<Rightarrow> 'j store \<Rightarrow> 'j store" where
  "apply_run_cost_alert_set e s =
     s\<lparr>s_run_cost_alerts := hput (ras_run_id e)
         \<lparr>alert_run_id = ras_run_id e, alert_threshold_micros = ras_threshold_micros e,
          alert_triggered_at_ms = 0, alert_tenant_id = ras_tenant_id e,
          alert_actual_cost_micros = 0\<rparr> (s_run_cost_alerts s)\<rparr>"

definition apply_run_cost_alert_triggered :: "run_cost_alert_triggered \<Rightarrow> 'j store \<Rightarrow> 'j store" where
  "apply_run_cost_alert_triggered e s =
     s\<lparr>s_run_cost_alerts := hmodify (rat_run_id e)
         (\<lambda>a. a\<lparr>alert_triggered_at_ms := rat_triggered_at_ms e,
                alert_actual_cost_micros := rat_actual_cost_micros e\<rparr>) (s_run_cost_alerts s)\<rparr>"

section \<open>Projections: costs\<close>

text \<open>The derived events a projection pushes behind the event it projects.\<close>

definition push_derived :: "u64 \<Rightarrow> ident \<Rightarrow> project_key \<Rightarrow> 'j runtime_event \<Rightarrow> 'j store \<Rightarrow> 'j store"
  where
  "push_derived now i p payload s =
     s\<lparr>s_events := s_events s @
         [\<lparr>se_position = s_next_position s,
           se_envelope = event_envelope_new i SystemSource (OwnProject p) payload,
           se_stored_at = now\<rparr>],
       s_next_position := wrap_add64 (s_next_position s) 1\<rparr>"

definition run_cost_zero :: "ident \<Rightarrow> run_cost_record" where
  "run_cost_zero i =
     \<lparr>rcost_run_id = i, rcost_total_cost_micros = 0, rcost_total_tokens_in = 0,
      rcost_total_tokens_out = 0, rcost_provider_calls = 0, rcost_token_in = 0,
      rcost_token_out = 0\<rparr>"

text \<open>
  The sums of the two cost arms. They count the calls differently: \<open>saturating_add(1)\<close> in the
  \<open>*CostUpdated\<close> arms, \<open>+= 1\<close> in the \<open>ProviderCallCompleted\<close> arm; \<open>count\<close> is that step.
\<close>

definition add_run_cost :: "(u64 \<Rightarrow> u64) \<Rightarrow> u64 \<Rightarrow> u64 \<Rightarrow> u64 \<Rightarrow> run_cost_record \<Rightarrow> run_cost_record"
  where
  "add_run_cost count cost tin tout r =
     (let ti = sat_add64 (rcost_total_tokens_in r) tin;
          to = sat_add64 (rcost_total_tokens_out r) tout
      in r\<lparr>rcost_total_cost_micros := sat_add64 (rcost_total_cost_micros r) cost,
           rcost_total_tokens_in := ti, rcost_total_tokens_out := to,
           rcost_provider_calls := count (rcost_provider_calls r),
           rcost_token_in := ti, rcost_token_out := to\<rparr>)"

definition session_cost_zero :: "u64 \<Rightarrow> ident \<Rightarrow> ident \<Rightarrow> session_cost_record" where
  "session_cost_zero now i t =
     \<lparr>scost_session_id = i, scost_tenant_id = t, scost_total_cost_micros = 0,
      scost_total_tokens_in = 0, scost_total_tokens_out = 0, scost_updated_at_ms = now,
      scost_provider_calls = 0, scost_token_in = 0, scost_token_out = 0\<rparr>"

definition add_session_cost :: "(u64 \<Rightarrow> u64) \<Rightarrow> u64 \<Rightarrow> u64 \<Rightarrow> u64 \<Rightarrow> u64 \<Rightarrow> session_cost_record \<Rightarrow>
    session_cost_record" where
  "add_session_cost count now cost tin tout r =
     (let ti = sat_add64 (scost_total_tokens_in r) tin;
          to = sat_add64 (scost_total_tokens_out r) tout
      in r\<lparr>scost_total_cost_micros := sat_add64 (scost_total_cost_micros r) cost,
           scost_total_tokens_in := ti, scost_total_tokens_out := to,
           scost_provider_calls := count (scost_provider_calls r),
           scost_token_in := ti, scost_token_out := to, scost_updated_at_ms := now\<rparr>)"

definition project_cost_zero :: "u64 \<Rightarrow> ident \<Rightarrow> ident \<Rightarrow> ident \<Rightarrow> project_cost_record" where
  "project_cost_zero now t w p =
     \<lparr>pcost_tenant_id = t, pcost_workspace_id = w, pcost_project_id = p,
      pcost_total_cost_micros = 0, pcost_total_tokens_in = 0, pcost_total_tokens_out = 0,
      pcost_provider_calls = 0, pcost_updated_at_ms = now\<rparr>"

definition add_project_cost :: "u64 \<Rightarrow> u64 \<Rightarrow> u64 \<Rightarrow> u64 \<Rightarrow> project_cost_record \<Rightarrow>
    project_cost_record" where
  "add_project_cost now cost tin tout r =
     r\<lparr>pcost_total_cost_micros := sat_add64 (pcost_total_cost_micros r) cost,
       pcost_total_tokens_in := sat_add64 (pcost_total_tokens_in r) tin,
       pcost_total_tokens_out := sat_add64 (pcost_total_tokens_out r) tout,
       pcost_provider_calls := sat_add64 (pcost_provider_calls r) 1,
       pcost_updated_at_ms := now\<rparr>"

definition workspace_cost_zero :: "u64 \<Rightarrow> ident \<Rightarrow> ident \<Rightarrow> workspace_cost_record" where
  "workspace_cost_zero now t w =
     \<lparr>wcost_tenant_id = t, wcost_workspace_id = w, wcost_total_cost_micros = 0,
      wcost_total_tokens_in = 0, wcost_total_tokens_out = 0, wcost_provider_calls = 0,
      wcost_updated_at_ms = now\<rparr>"

definition add_workspace_cost :: "u64 \<Rightarrow> u64 \<Rightarrow> u64 \<Rightarrow> u64 \<Rightarrow> workspace_cost_record \<Rightarrow>
    workspace_cost_record" where
  "add_workspace_cost now cost tin tout r =
     r\<lparr>wcost_total_cost_micros := sat_add64 (wcost_total_cost_micros r) cost,
       wcost_total_tokens_in := sat_add64 (wcost_total_tokens_in r) tin,
       wcost_total_tokens_out := sat_add64 (wcost_total_tokens_out r) tout,
       wcost_provider_calls := sat_add64 (wcost_provider_calls r) 1,
       wcost_updated_at_ms := now\<rparr>"

text \<open>The session, project and workspace totals move together, in both arms.\<close>

definition add_session_costs :: "(u64 \<Rightarrow> u64) \<Rightarrow> u64 \<Rightarrow> ident \<Rightarrow> ident \<Rightarrow> project_key \<Rightarrow> u64 \<Rightarrow> u64 \<Rightarrow>
    u64 \<Rightarrow> 'j store \<Rightarrow> 'j store" where
  "add_session_costs count now sid tenant p cost tin tout s =
     s\<lparr>s_session_costs := hentry sid (session_cost_zero now sid tenant)
         (add_session_cost count now cost tin tout) (s_session_costs s),
       s_project_costs := hentry (tenant, workspace_id p, project_id p)
         (project_cost_zero now tenant (workspace_id p) (project_id p))
         (add_project_cost now cost tin tout) (s_project_costs s),
       s_workspace_costs := hentry (tenant, workspace_id p)
         (workspace_cost_zero now tenant (workspace_id p))
         (add_workspace_cost now cost tin tout) (s_workspace_costs s)\<rparr>"

definition charge_budget :: "u64 \<Rightarrow> ident \<Rightarrow> u64 \<Rightarrow> provider_budget \<Rightarrow> provider_budget" where
  "charge_budget now tenant cost b =
     (if budget_tenant_id b = tenant
      then b\<lparr>budget_current_spend_micros := sat_add64 (budget_current_spend_micros b) cost,
             budget_updated_at := now\<rparr>
      else b)"

definition apply_session_cost_updated :: "u64 \<Rightarrow> session_cost_updated \<Rightarrow> 'j store \<Rightarrow> 'j store" where
  "apply_session_cost_updated now e s =
     (let s = add_session_costs (\<lambda>n. sat_add64 n 1) now (scu_session_id e) (scu_tenant_id e)
                (scu_project e) (scu_delta_cost_micros e) (scu_delta_tokens_in e)
                (scu_delta_tokens_out e) s
      in s\<lparr>s_provider_budgets :=
             hmap_values (charge_budget now (scu_tenant_id e) (scu_delta_cost_micros e))
               (s_provider_budgets s)\<rparr>)"

definition alert_event :: "u64 \<Rightarrow> ident \<Rightarrow> run_cost_alert \<Rightarrow> u64 \<Rightarrow> 'j runtime_event" where
  "alert_event now run_id alert spent =
     RunCostAlertTriggered
       \<lparr>rat_run_id = run_id, rat_tenant_id = alert_tenant_id alert,
        rat_threshold_micros = alert_threshold_micros alert, rat_actual_cost_micros = spent,
        rat_triggered_at_ms = now\<rparr>"

definition check_run_alert :: "u64 \<Rightarrow> ident \<Rightarrow> project_key \<Rightarrow> u64 \<Rightarrow> 'j store \<Rightarrow> 'j store" where
  "check_run_alert now run_id p spent s =
     (case hget (s_run_cost_alerts s) run_id of
        None \<Rightarrow> s
      | Some alert \<Rightarrow>
          if alert_triggered_at_ms alert = 0 \<and> spent \<ge> alert_threshold_micros alert then
            push_derived now (''derived_rcat_'' @ run_id) p (alert_event now run_id alert spent)
              (s\<lparr>s_run_cost_alerts := hmodify run_id
                   (\<lambda>a. a\<lparr>alert_triggered_at_ms := now, alert_actual_cost_micros := spent\<rparr>)
                   (s_run_cost_alerts s)\<rparr>)
          else s)"

definition apply_run_cost_updated :: "u64 \<Rightarrow> run_cost_updated \<Rightarrow> 'j store \<Rightarrow> 'j store" where
  "apply_run_cost_updated now e s =
     (let add = add_run_cost (\<lambda>n. sat_add64 n 1) (rcu_delta_cost_micros e)
                  (rcu_delta_tokens_in e) (rcu_delta_tokens_out e);
          rid = rcu_run_id e;
          spent = rcost_total_cost_micros
                    (add (case hget (s_run_costs s) rid of
                            Some r \<Rightarrow> r | None \<Rightarrow> run_cost_zero rid));
          s = s\<lparr>s_run_costs := hentry rid (run_cost_zero rid) add (s_run_costs s)\<rparr>
      in check_run_alert now rid (rcu_project e) spent s)"

definition or_zero :: "nat option \<Rightarrow> nat" where
  "or_zero x = (case x of Some n \<Rightarrow> n | None \<Rightarrow> 0)"

definition call_latency :: "provider_call_completed \<Rightarrow> u64 option" where
  "call_latency e =
     (case pc_latency_ms e of
        Some l \<Rightarrow> Some l
      | None \<Rightarrow>
          if pc_started_at e > 0 \<and> pc_finished_at e \<ge> pc_started_at e
          then Some (pc_finished_at e - pc_started_at e) else None)"

definition call_record :: "provider_call_completed \<Rightarrow> provider_call_record" where
  "call_record e =
     \<lparr>call_provider_call_id = pc_provider_call_id e,
      call_route_decision_id = pc_route_decision_id e,
      call_route_attempt_id = pc_route_attempt_id e,
      call_project_id = project_id (pc_project e), call_operation_kind = pc_operation_kind e,
      call_provider_binding_id = pc_provider_binding_id e,
      call_provider_connection_id = pc_provider_connection_id e,
      call_provider_adapter = [], call_provider_model_id = pc_provider_model_id e,
      call_task_id = pc_task_id e, call_run_id = pc_run_id e,
      call_prompt_release_id = pc_prompt_release_id e,
      call_fallback_position = pc_fallback_position e mod 2 ^ 16,
      call_status = pc_status e, call_latency_ms = call_latency e,
      call_input_tokens = pc_input_tokens e, call_output_tokens = pc_output_tokens e,
      call_cost_micros = pc_cost_micros e, call_cost_type = Metered,
      call_error_class = pc_error_class e, call_started_at_ms = pc_started_at e,
      call_finished_at_ms = pc_finished_at e,
      call_raw_error_message = pc_raw_error_message e\<rparr>"

definition call_trace :: "provider_call_completed \<Rightarrow> llm_call_trace" where
  "call_trace e =
     \<lparr>trace_trace_id = pc_provider_call_id e, trace_model_id = pc_provider_model_id e,
      trace_prompt_tokens = or_zero (pc_input_tokens e),
      trace_completion_tokens = or_zero (pc_output_tokens e),
      trace_latency_ms = or_zero (pc_latency_ms e),
      trace_cost_micros = or_zero (pc_cost_micros e), trace_session_id = pc_session_id e,
      trace_run_id = pc_run_id e, trace_created_at_ms = pc_completed_at e,
      trace_is_error = (pc_status e \<noteq> Succeeded)\<rparr>"

definition charge_run :: "u64 \<Rightarrow> provider_call_completed \<Rightarrow> ident \<Rightarrow> 'j store \<Rightarrow> 'j store" where
  "charge_run now e run_id s =
     (let cost = or_zero (pc_cost_micros e); tin = or_zero (pc_input_tokens e);
          tout = or_zero (pc_output_tokens e);
          s = s\<lparr>s_run_costs := hentry run_id (run_cost_zero run_id)
                   (add_run_cost bump cost tin tout) (s_run_costs s)\<rparr>
      in push_derived now (''derived_rcu_'' @ pc_provider_call_id e) (pc_project e)
           (RunCostUpdated
              \<lparr>rcu_project = pc_project e, rcu_run_id = run_id, rcu_delta_cost_micros = cost,
               rcu_delta_tokens_in = tin, rcu_delta_tokens_out = tout,
               rcu_provider_call_id = pc_provider_call_id e, rcu_updated_at_ms = now,
               rcu_session_id = None, rcu_tenant_id = None\<rparr>) s)"

definition call_session :: "provider_call_completed \<Rightarrow> 'j store \<Rightarrow> ident option" where
  "call_session e s =
     (case pc_session_id e of
        Some sid \<Rightarrow> Some sid
      | None \<Rightarrow>
          (case pc_run_id e of
             None \<Rightarrow> None
           | Some rid \<Rightarrow> map_option run_session_id (hget (s_runs s) rid)))"

definition charge_session :: "u64 \<Rightarrow> provider_call_completed \<Rightarrow> ident \<Rightarrow> 'j store \<Rightarrow> 'j store" where
  "charge_session now e sid s =
     (let cost = or_zero (pc_cost_micros e); tin = or_zero (pc_input_tokens e);
          tout = or_zero (pc_output_tokens e); tenant = tenant_id (pc_project e);
          s = add_session_costs bump now sid tenant (pc_project e) cost tin tout s
      in push_derived now (''derived_scu_'' @ pc_provider_call_id e) (pc_project e)
           (SessionCostUpdated
              \<lparr>scu_project = pc_project e, scu_session_id = sid, scu_tenant_id = tenant,
               scu_delta_cost_micros = cost, scu_delta_tokens_in = tin,
               scu_delta_tokens_out = tout, scu_provider_call_id = pc_provider_call_id e,
               scu_updated_at_ms = now\<rparr>) s)"

definition apply_provider_call_completed :: "u64 \<Rightarrow> provider_call_completed \<Rightarrow> 'j store \<Rightarrow> 'j store"
  where
  "apply_provider_call_completed now e s =
     (let s = s\<lparr>s_provider_calls := hput (pc_provider_call_id e) (call_record e)
                   (s_provider_calls s),
                s_llm_traces := s_llm_traces s @ [call_trace e]\<rparr>;
          s = (case pc_run_id e of None \<Rightarrow> s | Some rid \<Rightarrow> charge_run now e rid s)
      in (case call_session e s of
            None \<Rightarrow> s
          | Some sid \<Rightarrow> charge_session now e sid s))"

section \<open>Applying an event\<close>

definition apply_projection :: "'j stored_event \<Rightarrow> 'j store \<Rightarrow> 'j store option" where
  "apply_projection ev s =
     (let now = se_stored_at ev
      in (case ev_payload (se_envelope ev) of
            SessionCreated e \<Rightarrow> Some (apply_session_created now e s)
          | SessionStateChanged e \<Rightarrow> Some (apply_session_state_changed now e s)
          | RunCreated e \<Rightarrow> Some (apply_run_created now e s)
          | RunStateChanged e \<Rightarrow> Some (apply_run_state_changed now e s)
          | TaskCreated e \<Rightarrow> Some (apply_task_created now e s)
          | TaskStateChanged e \<Rightarrow> Some (apply_task_state_changed now e s)
          | ApprovalRequested e \<Rightarrow> Some (apply_approval_requested now e s)
          | ApprovalResolved e \<Rightarrow> Some (apply_approval_resolved now e s)
          | CheckpointRecorded e \<Rightarrow> Some (apply_checkpoint_recorded now e s)
          | MailboxMessageAppended e \<Rightarrow> Some (apply_mailbox_message_appended now e s)
          | TaskLeaseClaimed e \<Rightarrow> Some (apply_task_lease_claimed now e s)
          | TaskLeaseHeartbeated e \<Rightarrow> Some (apply_task_lease_heartbeated now e s)
          | ToolInvocationStarted e \<Rightarrow> apply_tool_invocation_started e s
          | ToolInvocationCompleted e \<Rightarrow> apply_tool_invocation_completed e s
          | ToolInvocationFailed e \<Rightarrow> apply_tool_invocation_failed e s
          | SignalIngested e \<Rightarrow> Some (apply_signal_ingested e s)
          | ExternalWorkerRegistered e \<Rightarrow> Some (apply_external_worker_registered now e s)
          | ExternalWorkerSuspended e \<Rightarrow>
              Some (set_worker_status now (ws_worker_id e) ''suspended'' s)
          | ExternalWorkerReactivated e \<Rightarrow>
              Some (set_worker_status now (wa_worker_id e) ''active'' s)
          | ExternalWorkerReported e \<Rightarrow> Some (apply_external_worker_reported now e s)
          | RunCostUpdated e \<Rightarrow> Some (apply_run_cost_updated now e s)
          | ChannelCreated e \<Rightarrow> Some (apply_channel_created e s)
          | ChannelMessageSent e \<Rightarrow> Some (apply_channel_message_sent e s)
          | ChannelMessageConsumed e \<Rightarrow> Some (apply_channel_message_consumed e s)
          | TenantQuotaSet e \<Rightarrow> Some (apply_tenant_quota_set e s)
          | ProviderBudgetSet e \<Rightarrow> Some (apply_provider_budget_set now e s)
          | ProviderBudgetAlertTriggered e \<Rightarrow>
              Some (apply_provider_budget_alert_triggered now e s)
          | ProviderBudgetExceeded e \<Rightarrow> Some (apply_provider_budget_exceeded now e s)
          | RunCostAlertSet e \<Rightarrow> Some (apply_run_cost_alert_set e s)
          | RunCostAlertTriggered e \<Rightarrow> Some (apply_run_cost_alert_triggered e s)
          | SessionCostUpdated e \<Rightarrow> Some (apply_session_cost_updated now e s)
          | SubagentSpawned e \<Rightarrow> Some (apply_subagent_spawned now e s)
          | CheckpointRestored _ \<Rightarrow> Some s
          | UserMessageAppended _ \<Rightarrow> Some s
          | ToolCallProposed e \<Rightarrow> Some (apply_tool_call_proposed now e s)
          | ToolCallAmended e \<Rightarrow> Some (apply_tool_call_amended now e s)
          | ToolCallApproved e \<Rightarrow> Some (apply_tool_call_approved now e s)
          | ToolCallRejected e \<Rightarrow> Some (apply_tool_call_rejected now e s)
          | ProviderCallCompleted e \<Rightarrow> Some (apply_provider_call_completed now e s)
          | DecisionRecorded _ \<Rightarrow> Some s
          | DecisionCacheWarmup _ \<Rightarrow> Some s
          | RunCompletionAnnotated e \<Rightarrow> Some (apply_run_completion_annotated now e s)
          | OtherEvent _ _ _ _ \<Rightarrow> Some s))"

section \<open>The event log\<close>

datatype append_result =
    Appended "u64 list"
  | Panicked
  | SecondaryFailed string "u64 list"

fun is_run_created :: "'j runtime_event \<Rightarrow> bool" where
  "is_run_created (RunCreated _) = True"
| "is_run_created _ = False"

definition count_event :: "'j event_envelope \<Rightarrow> 'j store \<Rightarrow> 'j store" where
  "count_event env s =
     increment_usage_for_project (envelope_project env)
       (\<lambda>c. let c = c\<lparr>usage_event_count := bump (usage_event_count c)\<rparr>
            in if is_run_created (ev_payload env)
               then c\<lparr>usage_run_count := bump (usage_run_count c)\<rparr> else c) s"

text \<open>What one turn of the loop does before the projection: count, position, index, push.\<close>

definition push_event :: "u64 \<Rightarrow> 'j event_envelope \<Rightarrow> 'j store \<Rightarrow> 'j stored_event \<times> 'j store" where
  "push_event now env s =
     (let s = count_event env s;
          pos = s_next_position s;
          s = s\<lparr>s_next_position := wrap_add64 pos 1\<rparr>;
          stored = \<lparr>se_position = pos, se_envelope = env, se_stored_at = now\<rparr>;
          s = (case ev_causation_id env of
                 None \<Rightarrow> s
               | Some cause \<Rightarrow>
                   s\<lparr>s_command_id_index := hentry cause pos (\<lambda>p. p) (s_command_id_index s)\<rparr>)
      in (stored, s\<lparr>s_events := s_events s @ [stored]\<rparr>))"

fun append_loop :: "u64 \<Rightarrow> 'j event_envelope list \<Rightarrow> u64 list \<Rightarrow> 'j store \<Rightarrow>
    append_result \<times> 'j store" where
  "append_loop now [] positions s = (Appended positions, s)"
| "append_loop now (env # envs) positions s =
     (let (stored, s1) = push_event now env s
      in (case apply_projection stored s1 of
            None \<Rightarrow> (Panicked, s1)
          | Some s2 \<Rightarrow> append_loop now envs (positions @ [se_position stored]) s2))"

declare append_loop.simps(2) [simp del]

text \<open>
  \<open>secondary\<close> is the answer of the secondary log to the same events: \<open>None\<close> when there is none
  or it accepts, the error otherwise. The in-memory write has committed by then.
\<close>

definition append_events :: "u64 \<Rightarrow> string option \<Rightarrow> 'j event_envelope list \<Rightarrow> 'j store \<Rightarrow>
    append_result \<times> 'j store" where
  "append_events now secondary envs s =
     (let (r, s') = append_loop now envs [] s
      in (case (r, secondary) of
            (Appended positions, Some err) \<Rightarrow> (SecondaryFailed err positions, s')
          | _ \<Rightarrow> (r, s')))"

definition min_pos :: "u64 option \<Rightarrow> u64" where
  "min_pos after = (case after of Some p \<Rightarrow> p | None \<Rightarrow> 0)"

definition read_stream :: "u64 option \<Rightarrow> nat \<Rightarrow> 'j store \<Rightarrow> 'j stored_event list" where
  "read_stream after limit s =
     take limit (filter (\<lambda>e. se_position e > min_pos after) (s_events s))"

definition head_position :: "'j store \<Rightarrow> u64 option" where
  "head_position s = (if s_events s = [] then None else Some (se_position (last (s_events s))))"

definition find_by_causation_id :: "string \<Rightarrow> 'j store \<Rightarrow> u64 option" where
  "find_by_causation_id c s = hget (s_command_id_index s) c"

definition event_matches_entity :: "'j runtime_event \<Rightarrow> entity_ref \<Rightarrow> bool" where
  "event_matches_entity ev entity =
     (case ev of
        SessionCreated e \<Rightarrow> entity = SessionRef (sc_session_id e)
      | SessionStateChanged e \<Rightarrow> entity = SessionRef (ssc_session_id e)
      | RunCreated e \<Rightarrow> entity = RunRef (rc_run_id e)
      | RunStateChanged e \<Rightarrow> entity = RunRef (rsc_run_id e)
      | TaskCreated e \<Rightarrow> entity = TaskRef (tc_task_id e)
      | TaskLeaseClaimed e \<Rightarrow> entity = TaskRef (tlc_task_id e)
      | TaskLeaseHeartbeated e \<Rightarrow> entity = TaskRef (tlh_task_id e)
      | TaskStateChanged e \<Rightarrow> entity = TaskRef (tsc_task_id e)
      | ApprovalRequested e \<Rightarrow> entity = ApprovalRef (aq_approval_id e)
      | ApprovalResolved e \<Rightarrow> entity = ApprovalRef (ar_approval_id e)
      | CheckpointRecorded e \<Rightarrow> entity = CheckpointRef (cp_checkpoint_id e)
      | CheckpointRestored e \<Rightarrow> entity = CheckpointRef (cpr_checkpoint_id e)
      | MailboxMessageAppended e \<Rightarrow> entity = MailboxRef (mb_message_id e)
      | ToolInvocationStarted e \<Rightarrow> entity = ToolInvocationRef (tis_invocation_id e)
      | ToolInvocationCompleted e \<Rightarrow> entity = ToolInvocationRef (tic_invocation_id e)
      | ToolInvocationFailed e \<Rightarrow> entity = ToolInvocationRef (tif_invocation_id e)
      | SignalIngested e \<Rightarrow> entity = SignalRef (si_signal_id e)
      | UserMessageAppended e \<Rightarrow> entity = RunRef (um_run_id e)
      | OtherEvent _ _ ent _ \<Rightarrow> ent = Some entity
      | _ \<Rightarrow> False)"

definition read_by_entity :: "entity_ref \<Rightarrow> u64 option \<Rightarrow> nat \<Rightarrow> 'j store \<Rightarrow> 'j stored_event list"
  where
  "read_by_entity entity after limit s =
     take limit
       (filter (\<lambda>e. event_matches_entity (ev_payload (se_envelope e)) entity)
         (filter (\<lambda>e. se_position e > min_pos after) (s_events s)))"

end
