(* ===== verification/Read_Models.thy ===== *)
theory Read_Models
  imports Event_Store "HOL-Library.Product_Lexorder"
begin

text \<open>
  The read models of the in-memory store: look-ups and listings over its tables. A listing
  takes the values of the hash map in the map's own order, filters, sorts (\<open>sort_by_key\<close> is a
  stable sort, as \<open>sort_key\<close> is) and cuts the page. Identifiers compare by their bytes.
\<close>

definition page :: "nat \<Rightarrow> nat \<Rightarrow> 'a list \<Rightarrow> 'a list" where
  "page limit offset xs = take limit (drop offset xs)"

section \<open>Sessions and runs\<close>

definition session_get :: "ident \<Rightarrow> 'j store \<Rightarrow> session_record option" where
  "session_get i s = hget (s_sessions s) i"

definition sessions_by_project :: "project_key \<Rightarrow> nat \<Rightarrow> nat \<Rightarrow> 'j store \<Rightarrow> session_record list" where
  "sessions_by_project p limit offset s =
     page limit offset
       (sort_key (\<lambda>r. (sess_created_at r, sess_session_id r))
         (filter (\<lambda>r. sess_project r = p) (hvals (s_sessions s))))"

text \<open>\<open>Reverse(updated_at)\<close>: descending, records with equal times in their earlier order.\<close>

definition sessions_active :: "nat \<Rightarrow> 'j store \<Rightarrow> session_record list" where
  "sessions_active limit s =
     take limit
       (rev (sort_key sess_updated_at
         (rev (filter (\<lambda>r. sess_state r = session_state.Open) (hvals (s_sessions s))))))"

definition run_get :: "ident \<Rightarrow> 'j store \<Rightarrow> run_record option" where
  "run_get i s = hget (s_runs s) i"

definition runs_by_session :: "ident \<Rightarrow> nat \<Rightarrow> nat \<Rightarrow> 'j store \<Rightarrow> run_record list" where
  "runs_by_session sid limit offset s =
     page limit offset
       (sort_key (\<lambda>r. (run_created_at r, run_run_id r))
         (filter (\<lambda>r. run_session_id r = sid) (hvals (s_runs s))))"

definition any_non_terminal :: "ident \<Rightarrow> 'j store \<Rightarrow> bool" where
  "any_non_terminal sid s =
     list_ex (\<lambda>r. run_session_id r = sid \<and> \<not> run_is_terminal (run_state r)) (hvals (s_runs s))"

text \<open>\<open>max_by_key\<close>: the last of the greatest elements.\<close>

fun max_by_key :: "('a \<Rightarrow> 'k::linorder) \<Rightarrow> 'a list \<Rightarrow> 'a option" where
  "max_by_key f [] = None"
| "max_by_key f (x # xs) =
     (case max_by_key f xs of
        None \<Rightarrow> Some x
      | Some y \<Rightarrow> if f y < f x then Some x else Some y)"

definition latest_root_run :: "ident \<Rightarrow> 'j store \<Rightarrow> run_record option" where
  "latest_root_run sid s =
     max_by_key (\<lambda>r. (run_created_at r, run_run_id r))
       (filter (\<lambda>r. run_session_id r = sid \<and> run_parent_run_id r = None) (hvals (s_runs s)))"

definition runs_by_state :: "run_state \<Rightarrow> nat \<Rightarrow> 'j store \<Rightarrow> run_record list" where
  "runs_by_state st limit s =
     take limit (sort_key run_created_at (filter (\<lambda>r. run_state r = st) (hvals (s_runs s))))"

definition runs_active_by_project :: "project_key \<Rightarrow> nat \<Rightarrow> 'j store \<Rightarrow> run_record list" where
  "runs_active_by_project p limit s =
     take limit
       (sort_key run_created_at
         (filter (\<lambda>r. run_project r = p \<and> \<not> run_is_terminal (run_state r)) (hvals (s_runs s))))"

definition runs_by_parent :: "ident \<Rightarrow> nat \<Rightarrow> 'j store \<Rightarrow> run_record list" where
  "runs_by_parent rid limit s =
     take limit
       (sort_key (\<lambda>r. (run_created_at r, run_run_id r))
         (filter (\<lambda>r. run_parent_run_id r = Some rid) (hvals (s_runs s))))"

section \<open>Tasks\<close>

definition task_get :: "ident \<Rightarrow> 'j store \<Rightarrow> task_record option" where
  "task_get i s = hget (s_tasks s) i"

definition tasks_by_state :: "project_key \<Rightarrow> task_state \<Rightarrow> nat \<Rightarrow> 'j store \<Rightarrow> task_record list" where
  "tasks_by_state p st limit s =
     take limit
       (sort_key (\<lambda>r. (task_created_at r, task_task_id r))
         (filter (\<lambda>r. task_project r = p \<and> task_state r = st) (hvals (s_tasks s))))"

definition lease_expired :: "u64 \<Rightarrow> task_record \<Rightarrow> bool" where
  "lease_expired now r =
     (task_state r = task_state.Leased \<and>
      (case task_lease_expires_at r of None \<Rightarrow> False | Some exp \<Rightarrow> exp < now))"

definition list_expired_leases :: "u64 \<Rightarrow> nat \<Rightarrow> 'j store \<Rightarrow> task_record list" where
  "list_expired_leases now limit s =
     take limit
       (sort_key (\<lambda>r. (or_zero (task_lease_expires_at r), task_task_id r))
         (filter (lease_expired now) (hvals (s_tasks s))))"

definition tasks_by_parent_run :: "ident \<Rightarrow> nat \<Rightarrow> 'j store \<Rightarrow> task_record list" where
  "tasks_by_parent_run rid limit s =
     take limit
       (sort_key (\<lambda>r. (task_created_at r, task_task_id r))
         (filter (\<lambda>r. task_parent_run_id r = Some rid) (hvals (s_tasks s))))"

definition any_non_terminal_children :: "ident \<Rightarrow> 'j store \<Rightarrow> bool" where
  "any_non_terminal_children rid s =
     list_ex (\<lambda>r. task_parent_run_id r = Some rid \<and> \<not> task_is_terminal (task_state r))
       (hvals (s_tasks s))"

section \<open>Approvals and tool calls\<close>

definition approval_get :: "ident \<Rightarrow> 'j store \<Rightarrow> approval_record option" where
  "approval_get i s = hget (s_approvals s) i"

definition approvals_pending :: "project_key \<Rightarrow> nat \<Rightarrow> nat \<Rightarrow> 'j store \<Rightarrow> approval_record list" where
  "approvals_pending p limit offset s =
     page limit offset
       (sort_key (\<lambda>r. (appr_created_at r, appr_approval_id r))
         (filter (\<lambda>r. appr_project r = p \<and> appr_decision r = None) (hvals (s_approvals s))))"

definition approvals_all :: "project_key \<Rightarrow> nat \<Rightarrow> nat \<Rightarrow> 'j store \<Rightarrow> approval_record list" where
  "approvals_all p limit offset s =
     page limit offset
       (sort_key (\<lambda>r. (appr_created_at r, appr_approval_id r))
         (filter (\<lambda>r. appr_project r = p) (hvals (s_approvals s))))"

definition has_pending_for_run :: "ident \<Rightarrow> 'j store \<Rightarrow> bool" where
  "has_pending_for_run rid s =
     list_ex (\<lambda>r. appr_run_id r = Some rid \<and> appr_decision r = None) (hvals (s_approvals s))"

definition tool_call_get :: "ident \<Rightarrow> 'j store \<Rightarrow> 'j tool_call_approval_record option" where
  "tool_call_get i s = hget (s_tool_call_approvals s) i"

definition by_proposal :: "'j tool_call_approval_record list \<Rightarrow> 'j tool_call_approval_record list" where
  "by_proposal = sort_key (\<lambda>r. (tca_proposed_at_ms r, tca_call_id r))"

definition tool_calls_for_run :: "ident \<Rightarrow> 'j store \<Rightarrow> 'j tool_call_approval_record list" where
  "tool_calls_for_run rid s =
     by_proposal (filter (\<lambda>r. tca_run_id r = rid) (hvals (s_tool_call_approvals s)))"

definition tool_calls_for_session :: "ident \<Rightarrow> 'j store \<Rightarrow> 'j tool_call_approval_record list" where
  "tool_calls_for_session sid s =
     by_proposal (filter (\<lambda>r. tca_session_id r = sid) (hvals (s_tool_call_approvals s)))"

definition tool_calls_pending_for_project :: "project_key \<Rightarrow> nat \<Rightarrow> nat \<Rightarrow> 'j store \<Rightarrow>
    'j tool_call_approval_record list" where
  "tool_calls_pending_for_project p limit offset s =
     page limit offset
       (by_proposal
         (filter (\<lambda>r. tca_project r = p \<and> tca_state r = tool_call_approval_state.Pending)
           (hvals (s_tool_call_approvals s))))"

definition tool_calls_all_pending :: "nat \<Rightarrow> nat \<Rightarrow> 'j store \<Rightarrow> 'j tool_call_approval_record list"
  where
  "tool_calls_all_pending limit offset s =
     page limit offset
       (by_proposal
         (filter (\<lambda>r. tca_state r = tool_call_approval_state.Pending)
           (hvals (s_tool_call_approvals s))))"

section \<open>Checkpoints, messages, invocations and signals\<close>

definition latest_for_run :: "ident \<Rightarrow> 'j store \<Rightarrow> 'j checkpoint_record option" where
  "latest_for_run rid s =
     find (\<lambda>c. ckpt_run_id c = rid \<and> ckpt_disposition c = Latest) (hvals (s_checkpoints s))"

definition checkpoints_by_run :: "ident \<Rightarrow> nat \<Rightarrow> 'j store \<Rightarrow> 'j checkpoint_record list" where
  "checkpoints_by_run rid limit s =
     take limit
       (sort_key (\<lambda>c. (ckpt_created_at c, ckpt_checkpoint_id c))
         (filter (\<lambda>c. ckpt_run_id c = rid) (hvals (s_checkpoints s))))"

definition mailbox_by_run :: "ident \<Rightarrow> nat \<Rightarrow> nat \<Rightarrow> 'j store \<Rightarrow> mailbox_record list" where
  "mailbox_by_run rid limit offset s =
     page limit offset
       (sort_key mail_message_id
         (filter (\<lambda>m. mail_run_id m = Some rid) (hvals (s_mailbox_messages s))))"

definition mailbox_by_task :: "ident \<Rightarrow> nat \<Rightarrow> nat \<Rightarrow> 'j store \<Rightarrow> mailbox_record list" where
  "mailbox_by_task tid limit offset s =
     page limit offset
       (sort_key (\<lambda>m. (mail_created_at m, mail_message_id m))
         (filter (\<lambda>m. mail_task_id m = Some tid) (hvals (s_mailbox_messages s))))"

definition mailbox_pending :: "u64 \<Rightarrow> nat \<Rightarrow> 'j store \<Rightarrow> mailbox_record list" where
  "mailbox_pending now limit s =
     take limit
       (sort_key (\<lambda>m. (mail_deliver_at_ms m, mail_message_id m))
         (filter (\<lambda>m. mail_deliver_at_ms m > 0 \<and> mail_deliver_at_ms m \<le> now)
           (hvals (s_mailbox_messages s))))"

definition invocations_by_run :: "ident \<Rightarrow> nat \<Rightarrow> nat \<Rightarrow> 'j store \<Rightarrow> tool_invocation_record list"
  where
  "invocations_by_run rid limit offset s =
     page limit offset
       (sort_key ti_requested_at_ms
         (filter (\<lambda>r. ti_run_id r = Some rid) (hvals (s_tool_invocations s))))"

definition signals_by_project :: "project_key \<Rightarrow> nat \<Rightarrow> nat \<Rightarrow> 'j store \<Rightarrow> 'j signal_record list" where
  "signals_by_project p limit offset s =
     page limit offset
       (sort_key sig_timestamp_ms
         (filter (\<lambda>r. sig_project r = p) (hvals (s_signals s))))"

section \<open>Quotas, budgets and costs\<close>

definition get_quota :: "ident \<Rightarrow> 'j store \<Rightarrow> tenant_quota option" where
  "get_quota tenant s =
     (case hget (s_quotas s) tenant of
        None \<Rightarrow> None
      | Some q \<Rightarrow>
          Some (q\<lparr>quota_current_active_runs :=
                    as_u32 (length (filter
                      (\<lambda>r. tenant_id (run_project r) = tenant \<and> \<not> run_is_terminal (run_state r))
                      (hvals (s_runs s)))),
                  quota_sessions_this_hour :=
                    as_u32 (length (filter (\<lambda>r. tenant_id (sess_project r) = tenant)
                      (hvals (s_sessions s))))\<rparr>))"

definition budget_by_tenant_period :: "ident \<Rightarrow> provider_budget_period \<Rightarrow> 'j store \<Rightarrow>
    provider_budget option" where
  "budget_by_tenant_period tenant period s =
     hget (s_provider_budgets s) (tenant @ '':'' @ period_debug period)"

definition get_session_cost :: "ident \<Rightarrow> 'j store \<Rightarrow> session_cost_record option" where
  "get_session_cost sid s = hget (s_session_costs s) sid"

definition session_costs_by_tenant :: "ident \<Rightarrow> u64 \<Rightarrow> 'j store \<Rightarrow> session_cost_record list" where
  "session_costs_by_tenant tenant since_ms s =
     sort_key scost_updated_at_ms
       (filter (\<lambda>r. scost_tenant_id r = tenant) (hvals (s_session_costs s)))"

definition get_project_cost :: "project_key \<Rightarrow> 'j store \<Rightarrow> project_cost_record option" where
  "get_project_cost p s = hget (s_project_costs s) (tenant_id p, workspace_id p, project_id p)"

definition get_workspace_cost :: "ident \<Rightarrow> ident \<Rightarrow> 'j store \<Rightarrow> workspace_cost_record option" where
  "get_workspace_cost tenant w s = hget (s_workspace_costs s) (tenant, w)"

definition get_run_cost :: "ident \<Rightarrow> 'j store \<Rightarrow> run_cost_record option" where
  "get_run_cost rid s = hget (s_run_costs s) rid"

definition budgets_by_tenant :: "ident \<Rightarrow> 'j store \<Rightarrow> provider_budget list" where
  "budgets_by_tenant tenant s =
     filter (\<lambda>b. budget_tenant_id b = tenant) (hvals (s_provider_budgets s))"

definition get_alert :: "ident \<Rightarrow> 'j store \<Rightarrow> run_cost_alert option" where
  "get_alert rid s = hget (s_run_cost_alerts s) rid"

definition triggered_alerts_by_tenant :: "ident \<Rightarrow> 'j store \<Rightarrow> run_cost_alert list" where
  "triggered_alerts_by_tenant tenant s =
     filter (\<lambda>a. alert_tenant_id a = tenant \<and> alert_triggered_at_ms a > 0)
       (hvals (s_run_cost_alerts s))"

end
