(* ===== verification/Event_Log.thy ===== *)
theory Event_Log
  imports Prelude
begin

text \<open>
  The contract of the event log (\<open>EventLog\<close> of \<open>crates/cairn-store/src/event_log.rs\<close>) that its
  readers rely on, and the loop they share: read a page after a cursor, handle its events,
  move the cursor to the last of them, stop at an empty or a short page.
\<close>

text \<open>
  The loop. \<open>read\<close> is \<open>read_stream\<close> on the log as it stands during the replay, \<open>handle\<close> the
  body, \<open>fuel\<close> bounds the number of pages; \<open>None\<close> means the bound was reached.
\<close>

fun paged_fold :: "(nat option \<Rightarrow> nat \<Rightarrow> 'e list) \<Rightarrow> ('e \<Rightarrow> nat) \<Rightarrow> ('e \<Rightarrow> 'a \<Rightarrow> 'a) \<Rightarrow> nat \<Rightarrow>
    nat \<Rightarrow> nat option \<Rightarrow> 'a \<Rightarrow> 'a option" where
  "paged_fold read pos handle limit 0 cursor acc = None"
| "paged_fold read pos handle limit (Suc fuel) cursor acc =
     (let pg = read cursor limit
      in if pg = [] then Some acc
         else let acc = fold handle pg acc
              in if length pg < limit then Some acc
                 else paged_fold read pos handle limit fuel (Some (pos (last pg))) acc)"

locale event_log =
  fixes entries :: "'s \<Rightarrow> 'e list"
    and pos :: "'e \<Rightarrow> nat"
    and read :: "nat option \<Rightarrow> nat \<Rightarrow> 's \<Rightarrow> 'e list"
    and ok :: "'s \<Rightarrow> bool"
  assumes ordered: "ok s \<Longrightarrow> sorted_wrt (<) (map pos (entries s))"
    and positive: "ok s \<Longrightarrow> e \<in> set (entries s) \<Longrightarrow> 0 < pos e"
    and read_spec: "read after n s =
          take n (filter (\<lambda>e. pos e > (case after of Some p \<Rightarrow> p | None \<Rightarrow> 0)) (entries s))"
begin

definition rest :: "nat option \<Rightarrow> 's \<Rightarrow> 'e list" where
  "rest after s = filter (\<lambda>e. pos e > (case after of Some p \<Rightarrow> p | None \<Rightarrow> 0)) (entries s)"

lemma read_rest: "read after n s = take n (rest after s)"
  by (simp add: read_spec rest_def)

lemma rest_none: "ok s \<Longrightarrow> rest None s = entries s"
  using positive [of s] by (simp add: rest_def filter_id_conv)

lemma filter_after_last:
  assumes "sorted_wrt (<) (map pos (xs @ ys))" and "xs \<noteq> []"
  shows "filter (\<lambda>e. pos e > pos (last xs)) (xs @ ys) = ys"
proof -
  have below: "pos e \<le> pos (last xs)" if "e \<in> set xs" for e
  proof -
    from assms have "sorted_wrt (\<lambda>a b. pos a < pos b) xs"
      by (simp add: sorted_wrt_append sorted_wrt_map)
    then have "sorted_wrt (\<lambda>a b. pos a < pos b) (butlast xs @ [last xs])"
      using assms(2) by simp
    then have "\<forall>a \<in> set (butlast xs). pos a < pos (last xs)"
      by (simp add: sorted_wrt_append)
    moreover have "set xs = insert (last xs) (set (butlast xs))"
      using assms(2) by (metis append_butlast_last_id insert_is_Un list.simps(15) rotate1.simps(2) set_rotate1 sup_commute set_append empty_set)
    ultimately show ?thesis using that by auto
  qed
  have above: "pos e > pos (last xs)" if "e \<in> set ys" for e
    using assms that by (auto simp: sorted_wrt_append)
  have "filter (\<lambda>e. pos e > pos (last xs)) xs = []"
    using below by (auto simp: filter_empty_conv not_less)
  moreover have "filter (\<lambda>e. pos e > pos (last xs)) ys = ys"
    using above by (simp add: filter_id_conv)
  ultimately show ?thesis by simp
qed

text \<open>After a full page the cursor leaves exactly the events behind the page.\<close>

lemma rest_after_page:
  assumes "ok s" and "take n (rest after s) \<noteq> []"
  shows "rest (Some (pos (last (take n (rest after s))))) s = drop n (rest after s)"
proof -
  let ?r = "rest after s"
  let ?b = "case after of Some p \<Rightarrow> p | None \<Rightarrow> 0"
  have sorted: "sorted_wrt (<) (map pos (take n ?r @ drop n ?r))"
    using ordered [OF assms(1)] by (simp add: rest_def sorted_wrt_map sorted_wrt_filter)
  have "last (take n ?r) \<in> set ?r"
    using assms(2) by (meson in_set_takeD last_in_set)
  then have "?b < pos (last (take n ?r))"
    by (simp add: rest_def)
  then have "rest (Some (pos (last (take n ?r)))) s =
      filter (\<lambda>e. pos e > pos (last (take n ?r))) ?r"
    by (auto simp: rest_def intro!: filter_cong)
  also have "\<dots> = filter (\<lambda>e. pos e > pos (last (take n ?r))) (take n ?r @ drop n ?r)"
    by simp
  also have "\<dots> = drop n ?r"
    by (rule filter_after_last [OF sorted assms(2)])
  finally show ?thesis .
qed

text \<open>The loop handles every event behind the cursor once, in order, and ends.\<close>

lemma paged_fold_rest:
  assumes "ok s" and "0 < n" and "length (rest cursor s) < fuel"
  shows "paged_fold (\<lambda>after k. read after k s) pos handle n fuel cursor acc =
           Some (fold handle (rest cursor s) acc)"
  using assms(3)
proof (induction fuel arbitrary: cursor acc)
  case 0
  then show ?case by simp
next
  case (Suc fuel)
  let ?r = "rest cursor s"
  show ?case
  proof (cases "length ?r < n")
    case True
    then show ?thesis by (simp add: Let_def read_rest)
  next
    case False
    then have ne: "take n ?r \<noteq> []" using assms(2) by auto
    have next_rest: "rest (Some (pos (last (take n ?r)))) s = drop n ?r"
      by (rule rest_after_page [OF assms(1) ne])
    have "length (drop n ?r) < fuel"
      using Suc.prems assms(2) False by simp
    then have "paged_fold (\<lambda>after k. read after k s) pos handle n fuel
        (Some (pos (last (take n ?r)))) (fold handle (take n ?r) acc) =
        Some (fold handle (drop n ?r) (fold handle (take n ?r) acc))"
      using Suc.IH [of "Some (pos (last (take n ?r)))"] by (simp add: next_rest)
    moreover have "fold handle (drop n ?r) (fold handle (take n ?r) acc) = fold handle ?r acc"
      by (metis append_take_drop_id comp_apply fold_append)
    ultimately show ?thesis
      using ne False by (simp add: Let_def read_rest)
  qed
qed

lemma paged_fold_all:
  "ok s \<Longrightarrow> 0 < n \<Longrightarrow> length (entries s) < fuel \<Longrightarrow>
     paged_fold (\<lambda>after k. read after k s) pos handle n fuel None acc =
       Some (fold handle (entries s) acc)"
  using paged_fold_rest [of s n None fuel] by (simp add: rest_none)

end

end
