(* ===== verification/Startup.thy ===== *)
theory Startup
  imports Decision_Service Read_Models Event_Log
begin

text \<open>
  What the process rebuilds from the event log when it starts: the in-memory store from the
  durable log (\<open>crates/cairn-app/src/main.rs\<close>), the decision cache (\<open>replay_decision_cache\<close> of
  \<open>crates/cairn-runtime/src/decisions.rs\<close>) and the cache of tool results
  (\<open>crates/cairn-runtime/src/startup.rs\<close>), with the decision a recovered run takes on a tool
  call and the readiness the health endpoint reports. All three replays are the paged loop of
  \<open>Event_Log\<close>; \<open>fuel\<close> bounds its pages and one more page than the log has events is enough.
\<close>

section \<open>The decision cache\<close>

record replay_report =
  rp_restored :: u32
  rp_expired :: u32

definition replay_record :: "(string \<Rightarrow> 'd decision_event option) \<Rightarrow> u64 \<Rightarrow> decision_recorded_evt \<Rightarrow>
    replay_report \<times> 'd decision_cache \<Rightarrow> replay_report \<times> 'd decision_cache" where
  "replay_record decode now rec acc =
     (let (report, cache) = acc
      in if \<not> de_cached rec then (report, cache)
         else if de_expires_at rec \<le> now then
           (report\<lparr>rp_expired := sat_add32 (rp_expired report) 1\<rparr>, cache)
         else
           (report\<lparr>rp_restored := sat_add32 (rp_restored report) 1\<rparr>,
            seed_cache_entry (de_decision_id rec) (de_decision_key rec) (de_outcome rec)
              (de_expires_at rec) (de_decided_at rec) (decode (de_event_json rec)) cache))"

definition replay_stored :: "(string \<Rightarrow> 'd decision_event option) \<Rightarrow> u64 \<Rightarrow> 'j stored_event \<Rightarrow>
    replay_report \<times> 'd decision_cache \<Rightarrow> replay_report \<times> 'd decision_cache" where
  "replay_stored decode now ev acc =
     (case ev_payload (se_envelope ev) of
        DecisionRecorded rec \<Rightarrow> replay_record decode now rec acc
      | _ \<Rightarrow> acc)"

text \<open>
  \<open>decode\<close> is \<open>serde_json::from_str\<close> at the event type, \<open>now\<close> the reading the entries are held
  against, \<open>ts\<close> and \<open>at\<close> the readings of the envelope and of the append; the answer of the
  append is only logged.
\<close>

definition replay_decision_cache :: "(string \<Rightarrow> 'd decision_event option) \<Rightarrow> nat \<Rightarrow> u64 \<Rightarrow> u64 \<Rightarrow>
    u64 \<Rightarrow> string \<Rightarrow> string option \<Rightarrow> u64 \<Rightarrow> 'j store \<Rightarrow> 'd decision_cache \<Rightarrow>
    (replay_report \<times> 'd decision_cache \<times> u64 \<times> 'j store) option" where
  "replay_decision_cache decode fuel now ts at trace_id secondary counter s cache =
     (case paged_fold (\<lambda>after k. read_stream after k s) se_position (replay_stored decode now) 500
             fuel None (\<lparr>rp_restored = 0, rp_expired = 0\<rparr>, cache) of
        None \<Rightarrow> None
      | Some (report, cache) \<Rightarrow>
          (let (env, counter) = make_envelope ts trace_id counter
                 (DecisionCacheWarmup
                    \<lparr>cw_cached = rp_restored report, cw_expired_and_dropped = rp_expired report,
                     cw_warmed_at = now\<rparr>)
           in Some (report, cache, counter, snd (append_events at secondary [env] s))))"

section \<open>The cache of tool results\<close>

text \<open>
  \<open>ToolCallId::derive\<close>: the hasher of the standard library is \<open>hash\<close>, the hexadecimal text of
  its digest.
\<close>

definition derive_tool_call_id :: "(string \<times> u32 \<times> u32 \<times> string \<times> string \<Rightarrow> string) \<Rightarrow> string \<Rightarrow>
    u32 \<Rightarrow> u32 \<Rightarrow> string \<Rightarrow> string \<Rightarrow> string" where
  "derive_tool_call_id hash run_id step_number call_index tool_name normalized_args =
     ''tc_'' @ hash (run_id, step_number, call_index, tool_name, normalized_args)"

record 'j cached_tool_result =
  ctr_tool_call_id :: string
  ctr_tool_name :: string
  ctr_result_json :: 'j
  ctr_completed_at :: u64

type_synonym 'j tool_result_cache = "(string, 'j cached_tool_result) hmap"

definition insert_raw :: "string \<Rightarrow> 'j cached_tool_result \<Rightarrow> 'j tool_result_cache \<Rightarrow>
    'j tool_result_cache" where
  "insert_raw key r cache = hput key r cache"

definition insert_result :: "'j cached_tool_result \<Rightarrow> 'j tool_result_cache \<Rightarrow>
    'j tool_result_cache" where
  "insert_result r cache = hput (ctr_tool_call_id r) r cache"

definition get_result :: "string \<Rightarrow> 'j tool_result_cache \<Rightarrow> 'j cached_tool_result option" where
  "get_result tool_call_id cache = hget cache tool_call_id"

definition replay_tool_result :: "'j stored_event \<Rightarrow> nat \<times> 'j tool_result_cache \<Rightarrow>
    nat \<times> 'j tool_result_cache" where
  "replay_tool_result ev acc =
     (case ev_payload (se_envelope ev) of
        ToolInvocationCompleted e \<Rightarrow>
          (case (tic_tool_call_id e, tic_result_json e) of
             (Some i, Some result) \<Rightarrow>
               (fst acc + 1,
                insert_raw i
                  \<lparr>ctr_tool_call_id = i, ctr_tool_name = tic_tool_name e,
                   ctr_result_json = result, ctr_completed_at = tic_finished_at_ms e\<rparr> (snd acc))
           | _ \<Rightarrow> acc)
      | _ \<Rightarrow> acc)"

definition replay_tool_result_cache :: "nat \<Rightarrow> 'j store \<Rightarrow> 'j tool_result_cache \<Rightarrow>
    (nat \<times> 'j tool_result_cache) option" where
  "replay_tool_result_cache fuel s cache =
     paged_fold (\<lambda>after k. read_stream after k s) se_position replay_tool_result 500 fuel None
       (0, cache)"

text \<open>\<open>RetrySafety\<close> of \<open>crates/cairn-domain/src/recovery.rs\<close> and the decision on a recovered call.\<close>

datatype retry_safety = IdempotentSafe | DangerousPause | AuthorResponsible

datatype recovery_dispatch = DispatchCacheHit | Dispatch | Pause string string

definition recovery_dispatch_decision :: "'j tool_result_cache \<Rightarrow> string \<Rightarrow> string \<Rightarrow> retry_safety \<Rightarrow>
    bool \<Rightarrow> recovery_dispatch" where
  "recovery_dispatch_decision cache tool_call_id tool_name safety is_recovery =
     (if get_result tool_call_id cache \<noteq> None then DispatchCacheHit
      else if \<not> is_recovery then Dispatch
      else (case safety of
              IdempotentSafe \<Rightarrow> Dispatch
            | AuthorResponsible \<Rightarrow> Dispatch
            | DangerousPause \<Rightarrow>
                Pause tool_name ''DangerousPause tool with no cached result on recovery''))"

section \<open>The store\<close>

text \<open>
  \<open>read_stream\<close> of the durable log (\<open>crates/cairn-store/src/sqlite/event_log.rs\<close>, the same query
  in \<open>pg\<close>) over the rows of its table in the order of their key:
  \<open>WHERE position > after ORDER BY position LIMIT limit\<close>.
\<close>

definition durable_read :: "'j stored_event list \<Rightarrow> u64 option \<Rightarrow> nat \<Rightarrow> 'j stored_event list" where
  "durable_read rows after limit = take limit (filter (\<lambda>e. se_position e > min_pos after) rows)"

text \<open>
  The replay of \<open>main\<close>: read a batch of the durable log, append its envelopes to the in-memory
  store, stop at an empty or a short batch. A panic of the append ends the process, as the
  error of one does. At this point the store has no secondary log. \<open>clock k\<close> is the reading of
  the k-th append.
\<close>

datatype 'j replay_end =
    Replayed nat "'j store"
  | ReplayAborted "'j store"

fun replay_store :: "(u64 option \<Rightarrow> nat \<Rightarrow> 'j stored_event list) \<Rightarrow> nat \<Rightarrow> (nat \<Rightarrow> u64) \<Rightarrow> nat \<Rightarrow>
    u64 option \<Rightarrow> nat \<Rightarrow> 'j store \<Rightarrow> 'j replay_end option" where
  "replay_store read batch clock 0 after count s = None"
| "replay_store read batch clock (Suc fuel) after count s =
     (let events = read after batch
      in if events = [] then Some (Replayed count s)
         else let after = Some (se_position (last events));
                  count = count + length events;
                  (r, s) = append_events (clock count) None (map se_envelope events) s
              in (case r of
                    Appended _ \<Rightarrow>
                      if length events < batch then Some (Replayed count s)
                      else replay_store read batch clock fuel after count s
                  | _ \<Rightarrow> Some (ReplayAborted s)))"

definition replay_batch :: nat where
  "replay_batch = 10000"

definition seeded_counter :: "u64 \<Rightarrow> 'j store \<Rightarrow> u64" where
  "seeded_counter counter s =
     seed_event_counter (case head_position s of None \<Rightarrow> 0 | Some p \<Rightarrow> p) counter"

section \<open>Readiness\<close>

datatype branch_state = BranchPending | BranchInProgress | BranchComplete | BranchFailed

record branch_status =
  br_state :: branch_state
  br_count :: "u64 option"
  br_detail :: "string option"

definition branch_status_pending :: branch_status where
  "branch_status_pending = \<lparr>br_state = BranchPending, br_count = None, br_detail = None\<rparr>"

definition branch_status_complete :: "u64 \<Rightarrow> branch_status" where
  "branch_status_complete n = \<lparr>br_state = BranchComplete, br_count = Some n, br_detail = None\<rparr>"

definition branch_status_failed :: "string \<Rightarrow> branch_status" where
  "branch_status_failed d = \<lparr>br_state = BranchFailed, br_count = None, br_detail = Some d\<rparr>"

definition required_projections :: "string list" where
  "required_projections =
     [''run'', ''task'', ''approval'', ''session'', ''mailbox'', ''memory_index'', ''graph'',
      ''eval_scorecard'', ''decision_cache'', ''tool_result_cache'', ''webhook_dedup'']"

record warmup_progress =
  wu_projections_complete :: u32
  wu_projections_total :: u32
  wu_events_replayed :: u64
  wu_per_projection :: "(string, branch_state \<times> u64) hmap"

definition warmup_progress_new :: warmup_progress where
  "warmup_progress_new =
     \<lparr>wu_projections_complete = 0, wu_projections_total = as_u32 (length required_projections),
      wu_events_replayed = 0,
      wu_per_projection =
        fold (\<lambda>name. hput name (BranchPending, 0)) required_projections []\<rparr>"

definition mark_complete :: "string \<Rightarrow> u64 \<Rightarrow> warmup_progress \<Rightarrow> warmup_progress" where
  "mark_complete name entries w =
     w\<lparr>wu_projections_complete := wrap_add32 (wu_projections_complete w) 1,
       wu_per_projection := hmodify name (\<lambda>_. (BranchComplete, entries)) (wu_per_projection w)\<rparr>"

definition warmup_is_complete :: "warmup_progress \<Rightarrow> bool" where
  "warmup_is_complete w \<longleftrightarrow> wu_projections_complete w \<ge> wu_projections_total w"

end
