(* ===== verification/Store_Laws.thy ===== *)
theory Store_Laws
  imports Read_Models Event_Log "HOL-Library.Sublist"
begin

text \<open>
  What the store promises. Its states are those reachable from the empty store by appends of
  any events at any clock readings, whatever the secondary log answers; the state a panicking
  append leaves behind is reachable too. An invariant is proved once per projection and lifted
  to \<open>append_events\<close> by \<open>append_events_inv\<close>.
\<close>

section \<open>Reachable stores and invariants\<close>

inductive store_reachable :: "'j store \<Rightarrow> bool" where
  reach_empty: "store_reachable store_new"
| reach_append: "store_reachable s \<Longrightarrow> store_reachable (snd (append_events now secondary envs s))"
| reach_usage: "store_reachable s \<Longrightarrow> store_reachable (increment_usage_for_project p f s)"

lemma append_events_state: "snd (append_events now secondary envs s) = snd (append_loop now envs [] s)"
  by (simp add: append_events_def split: prod.split append_result.split option.split)

text \<open>One turn of the loop of \<open>append\<close>: push the event, apply its projection unless it panics.\<close>

definition turn :: "u64 \<Rightarrow> 'j event_envelope \<Rightarrow> 'j store \<Rightarrow> 'j store" where
  "turn now env s =
     (let (stored, s1) = push_event now env s
      in (case apply_projection stored s1 of None \<Rightarrow> s1 | Some s2 \<Rightarrow> s2))"

lemma append_loop_Cons:
  "append_loop now (env # envs) positions s =
     (if apply_projection (fst (push_event now env s)) (snd (push_event now env s)) = None
      then (Panicked, turn now env s)
      else append_loop now envs (positions @ [se_position (fst (push_event now env s))])
             (turn now env s))"
  by (auto simp: append_loop.simps turn_def Let_def split: prod.split option.split)

lemma append_loop_inv:
  assumes "I s" and "\<And>env s. I s \<Longrightarrow> I (turn now env s)"
  shows "I (snd (append_loop now envs positions s))"
  using assms(1)
proof (induction envs arbitrary: positions s)
  case Nil
  then show ?case by simp
next
  case (Cons env envs)
  then show ?case using assms(2) [of s env] by (simp add: append_loop_Cons)
qed

lemma store_reachable_inv:
  assumes "store_reachable s" and "I store_new"
    and "\<And>p f s. I s \<Longrightarrow> I (increment_usage_for_project p f s)"
    and "\<And>now env s. I s \<Longrightarrow> I (turn now env s)"
  shows "I s"
  using assms(1)
proof (induction rule: store_reachable.induct)
  case (reach_append s now secondary envs)
  show ?case
    unfolding append_events_state
    by (rule append_loop_inv [where I = I, OF reach_append.IH assms(4)])
next
  case reach_empty
  show ?case by (rule assms(2))
next
  case (reach_usage s p f)
  show ?case by (rule assms(3) [OF reach_usage.IH])
qed

text \<open>A turn, by whether the projection panics.\<close>

lemma turn_cases:
  obtains (panics) "apply_projection (fst (push_event now env s)) (snd (push_event now env s)) = None"
      and "turn now env s = snd (push_event now env s)"
  | (applies) s2 where
      "apply_projection (fst (push_event now env s)) (snd (push_event now env s)) = Some s2"
      and "turn now env s = s2"
  by (cases "apply_projection (fst (push_event now env s)) (snd (push_event now env s))")
    (auto simp: turn_def case_prod_beta Let_def)

lemma turn_inv:
  assumes "I (snd (push_event now env s))"
    and "\<And>s2. apply_projection (fst (push_event now env s)) (snd (push_event now env s)) = Some s2 \<Longrightarrow>
           I s2"
  shows "I (turn now env s)"
  by (cases rule: turn_cases [of now env s]) (simp_all add: assms)

lemma push_event_stored:
  "se_envelope (fst (push_event now env s)) = env"
  "se_stored_at (fst (push_event now env s)) = now"
  "se_position (fst (push_event now env s)) = s_next_position s"
  by (simp_all add: push_event_def count_event_def increment_usage_for_project_def Let_def)

lemma push_event_events:
  "s_events (snd (push_event now env s)) = s_events s @ [fst (push_event now env s)]"
  by (simp add: push_event_def count_event_def increment_usage_for_project_def Let_def
      split: option.split)

text \<open>Pushing touches the log, its counter, the causation index and the usage counters only.\<close>

lemma push_event_frame:
  "s_sessions (snd (push_event now env s)) = s_sessions s"
  "s_runs (snd (push_event now env s)) = s_runs s"
  "s_tasks (snd (push_event now env s)) = s_tasks s"
  "s_checkpoints (snd (push_event now env s)) = s_checkpoints s"
  "s_tool_call_approvals (snd (push_event now env s)) = s_tool_call_approvals s"
  "s_tool_invocations (snd (push_event now env s)) = s_tool_invocations s"
  "s_session_costs (snd (push_event now env s)) = s_session_costs s"
  "s_project_costs (snd (push_event now env s)) = s_project_costs s"
  "s_workspace_costs (snd (push_event now env s)) = s_workspace_costs s"
  "s_provider_budgets (snd (push_event now env s)) = s_provider_budgets s"
  "s_run_cost_alerts (snd (push_event now env s)) = s_run_cost_alerts s"
  "s_quotas (snd (push_event now env s)) = s_quotas s"
  by (simp_all add: push_event_def count_event_def increment_usage_for_project_def Let_def
      split: option.split)

section \<open>What a projection leaves alone\<close>

lemmas session_arms = apply_session_created_def apply_session_state_changed_def
  apply_run_created_def apply_run_state_changed_def apply_run_completion_annotated_def
  apply_task_created_def apply_task_state_changed_def apply_task_lease_claimed_def
  apply_task_lease_heartbeated_def apply_subagent_spawned_def

lemmas record_arms = apply_approval_requested_def apply_approval_resolved_def
  apply_tool_call_proposed_def apply_tool_call_amended_def apply_tool_call_approved_def
  apply_tool_call_rejected_def apply_checkpoint_recorded_def apply_mailbox_message_appended_def
  apply_signal_ingested_def apply_external_worker_registered_def set_worker_status_def
  apply_external_worker_reported_def apply_channel_created_def apply_channel_message_sent_def
  apply_channel_message_consumed_def apply_tenant_quota_set_def apply_provider_budget_set_def
  apply_provider_budget_alert_triggered_def apply_provider_budget_exceeded_def
  apply_run_cost_alert_set_def apply_run_cost_alert_triggered_def

lemmas invocation_arms = apply_tool_invocation_started_def apply_tool_invocation_completed_def
  apply_tool_invocation_failed_def finish_invocation_def

lemmas cost_arms = apply_session_cost_updated_def apply_run_cost_updated_def
  apply_provider_call_completed_def charge_run_def charge_session_def add_session_costs_def
  check_run_alert_def push_derived_def call_session_def

lemmas arms = session_arms record_arms invocation_arms cost_arms

lemmas arm_splits = runtime_event.splits option.splits sum.splits if_splits

text \<open>The log and its counter: a projection only pushes events at the next positions.\<close>

definition positions_ok :: "'j store \<Rightarrow> bool" where
  "positions_ok s \<longleftrightarrow>
     map se_position (s_events s) = map (\<lambda>i. Suc i mod 2 ^ 64) [0 ..< length (s_events s)] \<and>
     s_next_position s = Suc (length (s_events s)) mod 2 ^ 64"

lemma positions_ok_same:
  "positions_ok s \<Longrightarrow> s_events s' = s_events s \<Longrightarrow> s_next_position s' = s_next_position s \<Longrightarrow>
     positions_ok s'"
  by (simp add: positions_ok_def)

lemma positions_ok_push_derived: "positions_ok s \<Longrightarrow> positions_ok (push_derived now i p payload s)"
  by (simp add: positions_ok_def push_derived_def wrap_add64_def mod_Suc_eq)

lemma positions_ok_push_event: "positions_ok s \<Longrightarrow> positions_ok (snd (push_event now env s))"
  by (auto simp: positions_ok_def push_event_def count_event_def increment_usage_for_project_def
      Let_def wrap_add64_def mod_Suc_eq split: option.split)

text \<open>Arms other than the cost arms leave the log and its counter alone.\<close>

lemma log_frame:
  assumes "apply_projection ev s = Some s'"
    and "\<forall>e. ev_payload (se_envelope ev) \<noteq> RunCostUpdated e"
    and "\<forall>e. ev_payload (se_envelope ev) \<noteq> ProviderCallCompleted e"
  shows "s_events s' = s_events s \<and> s_next_position s' = s_next_position s"
  using assms
  by (cases "ev_payload (se_envelope ev)")
    (auto simp: apply_projection_def session_arms record_arms invocation_arms Let_def
      apply_session_cost_updated_def add_session_costs_def split: option.splits sum.splits if_splits)

lemma positions_ok_check_alert:
  "positions_ok s \<Longrightarrow> positions_ok (check_run_alert now rid p t s)"
  by (auto simp: check_run_alert_def intro!: positions_ok_push_derived
      intro: positions_ok_same split: option.split)

lemma positions_ok_charge:
  "positions_ok s \<Longrightarrow> positions_ok (charge_run now e rid s)"
  "positions_ok s \<Longrightarrow> positions_ok (charge_session now e sid s)"
  by (auto simp: charge_run_def charge_session_def add_session_costs_def Let_def
      intro!: positions_ok_push_derived intro: positions_ok_same)

lemma positions_ok_projection:
  assumes "apply_projection ev s = Some s'" and "positions_ok s"
  shows "positions_ok s'"
proof (cases "(\<forall>e. ev_payload (se_envelope ev) \<noteq> RunCostUpdated e) \<and>
    (\<forall>e. ev_payload (se_envelope ev) \<noteq> ProviderCallCompleted e)")
  case True
  then show ?thesis using log_frame [OF assms(1)] assms(2) positions_ok_same by blast
next
  case False
  then consider (r) e where "ev_payload (se_envelope ev) = RunCostUpdated e"
    | (p) e where "ev_payload (se_envelope ev) = ProviderCallCompleted e" by blast
  then show ?thesis
  proof cases
    case r
    then have "s' = apply_run_cost_updated (se_stored_at ev) e s"
      using assms(1) by (simp add: apply_projection_def)
    then show ?thesis
      using assms(2)
      by (auto simp: apply_run_cost_updated_def Let_def intro!: positions_ok_check_alert
          intro: positions_ok_same)
  next
    case p
    let ?s = "s\<lparr>s_provider_calls := hput (pc_provider_call_id e) (call_record e) (s_provider_calls s),
                s_llm_traces := s_llm_traces s @ [call_trace e]\<rparr>"
    have "positions_ok ?s" by (rule positions_ok_same [OF assms(2)]) simp_all
    moreover have "s' = apply_provider_call_completed (se_stored_at ev) e s"
      using assms(1) p by (simp add: apply_projection_def)
    ultimately show ?thesis
      by (auto simp: apply_provider_call_completed_def Let_def positions_ok_charge split: option.split)
  qed
qed

lemma positions_ok_turn: "positions_ok s \<Longrightarrow> positions_ok (turn now env s)"
  by (cases rule: turn_cases [of now env s])
    (auto simp: positions_ok_push_event intro: positions_ok_projection)

lemma positions_ok_usage: "positions_ok s \<Longrightarrow> positions_ok (increment_usage_for_project p f s)"
  by (rule positions_ok_same) (simp_all add: increment_usage_for_project_def)

lemma positions_ok_new: "positions_ok store_new"
  by (simp add: positions_ok_def store_new_def)

lemma reachable_positions: "store_reachable s \<Longrightarrow> positions_ok s"
  by (rule store_reachable_inv)
    (simp_all add: positions_ok_turn positions_ok_usage positions_ok_new)

text \<open>Below 2^64 - 1 events the positions are 1, 2, 3 and so on.\<close>

lemma positions_exact:
  assumes "positions_ok s" and "length (s_events s) < 2 ^ 64 - 1"
  shows "map se_position (s_events s) = [1 ..< Suc (length (s_events s))]"
proof -
  have "map se_position (s_events s) = map Suc [0 ..< length (s_events s)]"
    using assms by (auto simp: positions_ok_def)
  then show ?thesis by (simp add: map_Suc_upt)
qed

section \<open>The log grows\<close>

text \<open>The events a projection pushes carry no causation id and follow what was there.\<close>

fun is_cost_event :: "'j runtime_event \<Rightarrow> bool" where
  "is_cost_event (RunCostUpdated _) = True"
| "is_cost_event (SessionCostUpdated _) = True"
| "is_cost_event (RunCostAlertTriggered _) = True"
| "is_cost_event _ = False"

definition derived_tail :: "'j store \<Rightarrow> 'j store \<Rightarrow> bool" where
  "derived_tail s s' \<longleftrightarrow>
     (\<exists>tail. s_events s' = s_events s @ tail \<and>
             (\<forall>e \<in> set tail. ev_causation_id (se_envelope e) = None \<and>
                             ev_source (se_envelope e) = SystemSource \<and>
                             is_cost_event (ev_payload (se_envelope e)))) \<and>
     s_command_id_index s' = s_command_id_index s"

lemma derived_tail_refl: "derived_tail s s"
  by (simp add: derived_tail_def)

lemma derived_tail_same:
  "s_events s' = s_events s \<Longrightarrow> s_command_id_index s' = s_command_id_index s \<Longrightarrow> derived_tail s s'"
  by (simp add: derived_tail_def)

lemma derived_tail_trans: "derived_tail s s' \<Longrightarrow> derived_tail s' s'' \<Longrightarrow> derived_tail s s''"
  by (auto simp: derived_tail_def)

lemma derived_tail_push: "is_cost_event payload \<Longrightarrow> derived_tail s (push_derived now i p payload s)"
  by (simp add: derived_tail_def push_derived_def event_envelope_new_def)

lemma derived_tail_alert: "derived_tail s (check_run_alert now rid p t s)"
  by (auto simp: check_run_alert_def derived_tail_refl alert_event_def split: option.split
      intro!: derived_tail_trans [OF derived_tail_same derived_tail_push])

lemma derived_tail_charge:
  "derived_tail s (charge_run now e rid s)" "derived_tail s (charge_session now e sid s)"
  by (auto simp: charge_run_def charge_session_def add_session_costs_def Let_def
      intro!: derived_tail_trans [OF derived_tail_same derived_tail_push])

lemmas derived_tail_charges = derived_tail_trans [OF _ derived_tail_charge(1)]
  derived_tail_trans [OF _ derived_tail_charge(2)]

lemma index_frame: "apply_projection ev s = Some s' \<Longrightarrow> s_command_id_index s' = s_command_id_index s"
  by (cases "ev_payload (se_envelope ev)")
    (auto simp: apply_projection_def arms Let_def split: option.splits sum.splits if_splits)

lemma projection_tail:
  assumes "apply_projection ev s = Some s'"
  shows "derived_tail s s'"
proof (cases "(\<forall>e. ev_payload (se_envelope ev) \<noteq> RunCostUpdated e) \<and>
    (\<forall>e. ev_payload (se_envelope ev) \<noteq> ProviderCallCompleted e)")
  case True
  then show ?thesis using log_frame [OF assms] index_frame [OF assms] derived_tail_same by blast
next
  case False
  then consider (r) e where "ev_payload (se_envelope ev) = RunCostUpdated e"
    | (p) e where "ev_payload (se_envelope ev) = ProviderCallCompleted e" by blast
  then show ?thesis
  proof cases
    case r
    then show ?thesis
      using assms
      by (auto simp: apply_projection_def apply_run_cost_updated_def Let_def
          intro!: derived_tail_trans [OF derived_tail_same derived_tail_alert])
  next
    case p
    let ?s = "s\<lparr>s_provider_calls := hput (pc_provider_call_id e) (call_record e) (s_provider_calls s),
                s_llm_traces := s_llm_traces s @ [call_trace e]\<rparr>"
    have "derived_tail s ?s" by (simp add: derived_tail_same)
    then show ?thesis
      using assms p
      by (auto simp: apply_projection_def apply_provider_call_completed_def Let_def
          intro!: derived_tail_charges split: option.splits)
  qed
qed

lemma turn_events:
  obtains tail where "s_events (turn now env s) = s_events s @ fst (push_event now env s) # tail"
    and "\<forall>e \<in> set tail. ev_causation_id (se_envelope e) = None \<and>
           ev_source (se_envelope e) = SystemSource \<and>
           is_cost_event (ev_payload (se_envelope e))"
    and "s_command_id_index (turn now env s) =
           (case ev_causation_id env of None \<Rightarrow> s_command_id_index s
            | Some c \<Rightarrow> hentry c (s_next_position s) (\<lambda>p. p) (s_command_id_index s))"
proof -
  let ?s1 = "snd (push_event now env s)"
  have idx: "s_command_id_index ?s1 =
      (case ev_causation_id env of None \<Rightarrow> s_command_id_index s
       | Some c \<Rightarrow> hentry c (s_next_position s) (\<lambda>p. p) (s_command_id_index s))"
    by (simp add: push_event_def count_event_def increment_usage_for_project_def Let_def
        split: option.split)
  have "derived_tail ?s1 (turn now env s)"
    by (cases rule: turn_cases [of now env s])
      (auto simp: derived_tail_refl dest: projection_tail)
  then show thesis
    using that idx by (auto simp: derived_tail_def push_event_events)
qed

lemma subseq_set: "subseq xs ys \<Longrightarrow> x \<in> set xs \<Longrightarrow> x \<in> set ys"
  by (induction xs ys rule: list_emb.induct) auto

lemma sorted_wrt_subseq: "subseq xs ys \<Longrightarrow> sorted_wrt P ys \<Longrightarrow> sorted_wrt P xs"
  by (induction xs ys rule: list_emb.induct) (auto dest: subseq_set)

text \<open>An append extends the log; the positions it returns are those of its events, in order.\<close>

lemma append_loop_grows:
  assumes "append_loop now envs ps s = (r, s')"
  shows "\<exists>new. s_events s' = s_events s @ new \<and>
    (\<forall>qs. r = Appended qs \<longrightarrow>
       (\<exists>es. subseq es new \<and> map se_envelope es = envs \<and> qs = ps @ map se_position es))"
  using assms
proof (induction envs arbitrary: ps s)
  case Nil
  then show ?case by (intro exI [of _ "[]"]) auto
next
  case (Cons env envs)
  let ?ev = "fst (push_event now env s)"
  obtain tail where tail: "s_events (turn now env s) = s_events s @ ?ev # tail"
    using turn_events .
  show ?case
  proof (cases "apply_projection ?ev (snd (push_event now env s)) = None")
    case True
    then show ?thesis using Cons.prems tail by (auto simp: append_loop_Cons)
  next
    case False
    have "append_loop now envs (ps @ [se_position ?ev]) (turn now env s) = (r, s')"
      using Cons.prems unfolding append_loop_Cons if_not_P [OF False] .
    from Cons.IH [OF this] obtain new where new: "s_events s' = s_events (turn now env s) @ new"
      and es: "\<forall>qs. r = Appended qs \<longrightarrow> (\<exists>es. subseq es new \<and> map se_envelope es = envs \<and>
         qs = ps @ [se_position ?ev] @ map se_position es)"
      by auto
    show ?thesis
    proof (rule exI [of _ "?ev # tail @ new"], intro conjI allI impI)
      show "s_events s' = s_events s @ (?ev # tail @ new)" using new tail by simp
      fix qs
      assume "r = Appended qs"
      then obtain es where "subseq es new" "map se_envelope es = envs"
        "qs = ps @ [se_position ?ev] @ map se_position es" using es by blast
      moreover from this(1) have "subseq (?ev # es) (?ev # tail @ new)"
        by (simp add: list_emb_append2)
      ultimately show "\<exists>es. subseq es (?ev # tail @ new) \<and> map se_envelope es = env # envs \<and>
          qs = ps @ map se_position es"
        by (intro exI [of _ "?ev # es"]) (simp add: push_event_stored)
    qed
  qed
qed

lemma append_events_loop:
  assumes "append_events now secondary envs s = (r, s')"
  obtains r0 where "append_loop now envs [] s = (r0, s')"
    and "\<And>qs. r = Appended qs \<Longrightarrow> r0 = Appended qs"
  using assms by (auto simp: append_events_def split: prod.splits append_result.splits option.splits)

lemma append_events_grows:
  assumes "append_events now secondary envs s = (r, s')"
  shows "\<exists>new. s_events s' = s_events s @ new \<and>
    (\<forall>qs. r = Appended qs \<longrightarrow>
       (\<exists>es. subseq es new \<and> map se_envelope es = envs \<and> qs = map se_position es))"
  by (rule append_events_loop [OF assms]) (use append_loop_grows in fastforce)

section \<open>The store is an event log\<close>

definition log_in_range :: "'j store \<Rightarrow> bool" where
  "log_in_range s \<longleftrightarrow> store_reachable s \<and> length (s_events s) < 2 ^ 64 - 1"

lemma in_range_positions:
  "log_in_range s \<Longrightarrow> map se_position (s_events s) = [1 ..< Suc (length (s_events s))]"
  by (simp add: log_in_range_def positions_exact reachable_positions)

lemma log_ordered: "log_in_range s \<Longrightarrow> sorted_wrt (<) (map se_position (s_events s))"
  by (simp add: in_range_positions del: upt_Suc)

lemma log_positive:
  assumes "log_in_range s" and "e \<in> set (s_events s)"
  shows "0 < se_position e"
proof -
  have "se_position e \<in> set (map se_position (s_events s))" using assms(2) by simp
  then have "se_position e \<in> {1 ..< Suc (length (s_events s))}"
    by (simp only: in_range_positions [OF assms(1)] set_upt)
  then show ?thesis by simp
qed

interpretation log: event_log s_events se_position
  "\<lambda>after n s. read_stream after n s" log_in_range
  by unfold_locales (simp_all add: log_ordered log_positive read_stream_def min_pos_def)

section \<open>The causation index\<close>

definition first_caused :: "string \<Rightarrow> 'j stored_event list \<Rightarrow> u64 option" where
  "first_caused c es = map_option se_position (find (\<lambda>e. ev_causation_id (se_envelope e) = Some c) es)"

definition index_ok :: "'j store \<Rightarrow> bool" where
  "index_ok s \<longleftrightarrow> (\<forall>c. find_by_causation_id c s = first_caused c (s_events s))"

lemma find_append: "find P (xs @ ys) = (case find P xs of None \<Rightarrow> find P ys | Some x \<Rightarrow> Some x)"
  by (induction xs) auto

lemma first_caused_append:
  "first_caused c (xs @ ys) =
     (case first_caused c xs of None \<Rightarrow> first_caused c ys | Some p \<Rightarrow> Some p)"
  by (simp add: first_caused_def find_append split: option.split)

lemma first_caused_none:
  "\<forall>e \<in> set es. ev_causation_id (se_envelope e) = None \<Longrightarrow> first_caused c es = None"
  by (auto simp: first_caused_def find_None_iff)

lemma index_ok_turn:
  assumes "index_ok s"
  shows "index_ok (turn now env s)"
proof -
  obtain tail where ev: "s_events (turn now env s) = s_events s @ [fst (push_event now env s)] @ tail"
    and tail: "\<forall>e \<in> set tail. ev_causation_id (se_envelope e) = None"
    and idx: "s_command_id_index (turn now env s) =
      (case ev_causation_id env of None \<Rightarrow> s_command_id_index s
       | Some c \<Rightarrow> hentry c (s_next_position s) (\<lambda>p. p) (s_command_id_index s))"
    by (rule turn_events [of now env s]) (rule that, auto)
  have one: "first_caused c [fst (push_event now env s)] =
      (if ev_causation_id env = Some c then Some (s_next_position s) else None)" for c
    by (simp add: first_caused_def push_event_stored)
  have "hget (s_command_id_index s) c = first_caused c (s_events s)" for c
    using assms by (simp add: index_ok_def find_by_causation_id_def)
  then show ?thesis
    unfolding index_ok_def find_by_causation_id_def ev idx first_caused_append one
      first_caused_none [OF tail]
    by (auto simp: hmap_simps split: option.split)
qed

lemma reachable_index: "store_reachable s \<Longrightarrow> index_ok s"
proof (rule store_reachable_inv [of s index_ok])
  show "index_ok store_new"
    by (simp add: index_ok_def find_by_causation_id_def first_caused_def store_new_def)
  show "index_ok s \<Longrightarrow> index_ok (increment_usage_for_project p f s)" for p f and s :: "'a store"
    by (simp add: index_ok_def find_by_causation_id_def increment_usage_for_project_def)
qed (simp_all add: index_ok_turn)

end
