(* ===== verification/Store_Invariants.thy ===== *)
theory Store_Invariants
  imports Store_Laws
begin

text \<open>
  Invariants of the event store, each proved for one projection at a time and lifted to every
  reachable store: the states of sessions, runs and tasks as functions of the log, one latest
  checkpoint per run, well-formed tool invocations, cost totals that agree.
\<close>

section \<open>States of sessions, runs and tasks as functions of the log\<close>

fun session_event :: "ident \<Rightarrow> 'j runtime_event \<Rightarrow> session_state option \<Rightarrow> session_state option" where
  "session_event i (SessionCreated e) st =
     (if sc_session_id e = i then Some session_state.Open else st)"
| "session_event i (SessionStateChanged e) st =
     (if ssc_session_id e = i then map_option (\<lambda>_. st_to (ssc_transition e)) st else st)"
| "session_event i _ st = st"

fun run_event :: "ident \<Rightarrow> 'j runtime_event \<Rightarrow> run_state option \<Rightarrow> run_state option" where
  "run_event i (RunCreated e) st = (if rc_run_id e = i then Some run_state.Pending else st)"
| "run_event i (RunStateChanged e) st =
     (if rsc_run_id e = i then map_option (\<lambda>_. st_to (rsc_transition e)) st else st)"
| "run_event i _ st = st"

fun task_event :: "ident \<Rightarrow> 'j runtime_event \<Rightarrow> task_state option \<Rightarrow> task_state option" where
  "task_event i (TaskCreated e) st = (if tc_task_id e = i then Some task_state.Queued else st)"
| "task_event i (TaskStateChanged e) st =
     (if tsc_task_id e = i then map_option (\<lambda>_. st_to (tsc_transition e)) st else st)"
| "task_event i _ st = st"

definition replay_state :: "(ident \<Rightarrow> 'j runtime_event \<Rightarrow> 's option \<Rightarrow> 's option) \<Rightarrow> ident \<Rightarrow>
    'j stored_event list \<Rightarrow> 's option" where
  "replay_state step i es = fold (\<lambda>e. step i (ev_payload (se_envelope e))) es None"

lemma projection_sessions:
  "apply_projection ev s = Some s' \<Longrightarrow>
     map_option sess_state (session_get i s') =
       session_event i (ev_payload (se_envelope ev)) (map_option sess_state (session_get i s))"
  by (cases "ev_payload (se_envelope ev)")
    (auto simp: apply_projection_def arms Let_def session_get_def hmap_simps map_option_case
      split: option.splits sum.splits if_splits)

lemma projection_runs:
  "apply_projection ev s = Some s' \<Longrightarrow>
     map_option run_state (run_get i s') =
       run_event i (ev_payload (se_envelope ev)) (map_option run_state (run_get i s))"
  by (cases "ev_payload (se_envelope ev)")
    (auto simp: apply_projection_def arms Let_def run_get_def hmap_simps map_option_case
      split: option.splits sum.splits if_splits)

lemma projection_tasks:
  "apply_projection ev s = Some s' \<Longrightarrow>
     map_option task_state (task_get i s') =
       task_event i (ev_payload (se_envelope ev)) (map_option task_state (task_get i s))"
  by (cases "ev_payload (se_envelope ev)")
    (auto simp: apply_projection_def arms Let_def task_get_def task_changed_def hmap_simps
      map_option_case split: option.splits sum.splits if_splits)

lemma projection_panics:
  "apply_projection ev s = None \<Longrightarrow>
     (\<exists>e. ev_payload (se_envelope ev) = ToolInvocationStarted e) \<or>
     (\<exists>e. ev_payload (se_envelope ev) = ToolInvocationCompleted e) \<or>
     (\<exists>e. ev_payload (se_envelope ev) = ToolInvocationFailed e)"
  by (cases "ev_payload (se_envelope ev)") (auto simp: apply_projection_def)

lemma cost_event_states:
  "is_cost_event p \<Longrightarrow> session_event i p a = a"
  "is_cost_event p \<Longrightarrow> run_event i p b = b"
  "is_cost_event p \<Longrightarrow> task_event i p c = c"
  by (cases p; simp)+

text \<open>A turn moves the state of an entity by the event it appends.\<close>

lemma replay_state_turn:
  assumes "\<And>p a. is_cost_event p \<Longrightarrow> step i p a = a"
  shows "replay_state step i (s_events (turn now env s)) =
    step i (ev_payload env) (replay_state step i (s_events s))"
proof -
  obtain tail where ev: "s_events (turn now env s) = s_events s @ fst (push_event now env s) # tail"
    and tail: "\<forall>e \<in> set tail. is_cost_event (ev_payload (se_envelope e))"
    by (rule turn_events [of now env s]) (rule that, auto)
  have "fold (\<lambda>e. step i (ev_payload (se_envelope e))) tail a = a" for a
    using tail by (induction tail) (simp_all add: assms)
  then show ?thesis by (simp add: replay_state_def ev push_event_stored)
qed

lemma turn_states:
  "map_option sess_state (session_get i (turn now env s)) =
     session_event i (ev_payload env) (map_option sess_state (session_get i s))"
  "map_option run_state (run_get i (turn now env s)) =
     run_event i (ev_payload env) (map_option run_state (run_get i s))"
  "map_option task_state (task_get i (turn now env s)) =
     task_event i (ev_payload env) (map_option task_state (task_get i s))"
  by (cases rule: turn_cases [of now env s];
      use projection_panics [of "fst (push_event now env s)" "snd (push_event now env s)"] in
      \<open>auto simp: push_event_stored push_event_frame session_get_def run_get_def task_get_def
        dest: projection_sessions [of _ _ _ i] projection_runs [of _ _ _ i]
          projection_tasks [of _ _ _ i]\<close>)+

lemma replay_state_empty: "replay_state step i [] = None"
  by (simp add: replay_state_def)

lemma store_new_empty: "s_events store_new = []" "s_sessions store_new = []" "s_runs store_new = []"
  "s_tasks store_new = []"
  by (simp_all add: store_new_def)

lemma usage_states:
  "session_get i (increment_usage_for_project p f s) = session_get i s"
  "run_get i (increment_usage_for_project p f s) = run_get i s"
  "task_get i (increment_usage_for_project p f s) = task_get i s"
  "s_events (increment_usage_for_project p f s) = s_events s"
  by (simp_all add: session_get_def run_get_def task_get_def increment_usage_for_project_def)

lemma new_states: "session_get i store_new = None" "run_get i store_new = None"
  "task_get i store_new = None"
  by (simp_all add: session_get_def run_get_def task_get_def store_new_def)

lemma reachable_states:
  assumes "store_reachable s"
  shows "map_option sess_state (session_get i s) = replay_state session_event i (s_events s) \<and>
    map_option run_state (run_get i s) = replay_state run_event i (s_events s) \<and>
    map_option task_state (task_get i s) = replay_state task_event i (s_events s)" (is "?P s")
  by (rule store_reachable_inv [OF assms, of ?P])
    (simp_all add: store_new_empty replay_state_empty new_states usage_states turn_states
      replay_state_turn cost_event_states)

section \<open>Checkpoints\<close>

definition one_latest :: "'j store \<Rightarrow> bool" where
  "one_latest s \<longleftrightarrow> hwf (s_checkpoints s) \<and>
     (\<forall>i j c d. hget (s_checkpoints s) i = Some c \<longrightarrow> hget (s_checkpoints s) j = Some d \<longrightarrow>
        ckpt_disposition c = Latest \<longrightarrow> ckpt_disposition d = Latest \<longrightarrow>
        ckpt_run_id c = ckpt_run_id d \<longrightarrow> i = j)"

lemma supersede_simps [simp]:
  "ckpt_run_id (supersede rid c) = ckpt_run_id c"
  "ckpt_disposition (supersede rid c) = Latest \<longleftrightarrow> ckpt_disposition c = Latest \<and> ckpt_run_id c \<noteq> rid"
  by (auto simp: supersede_def)

lemma one_latest_recorded:
  "one_latest s \<Longrightarrow> one_latest (apply_checkpoint_recorded now e s)"
  unfolding one_latest_def apply_checkpoint_recorded_def Let_def
  by (auto simp: hmap_simps hmap_wf split: if_splits)

lemma checkpoints_frame:
  "apply_projection ev s = Some s' \<Longrightarrow> \<forall>e. ev_payload (se_envelope ev) \<noteq> CheckpointRecorded e \<Longrightarrow>
     s_checkpoints s' = s_checkpoints s"
  by (cases "ev_payload (se_envelope ev)")
    (auto simp: apply_projection_def arms Let_def split: option.splits sum.splits if_splits)

lemma one_latest_projection:
  assumes "apply_projection ev s = Some s'" and "one_latest s"
  shows "one_latest s'"
proof (cases "\<exists>e. ev_payload (se_envelope ev) = CheckpointRecorded e")
  case True
  then show ?thesis using assms by (auto simp: apply_projection_def one_latest_recorded)
next
  case False
  then show ?thesis using checkpoints_frame [OF assms(1)] assms(2) by (simp add: one_latest_def)
qed

lemma one_latest_push: "one_latest s \<Longrightarrow> one_latest (snd (push_event now env s))"
  by (simp add: one_latest_def push_event_frame)

lemma reachable_one_latest: "store_reachable s \<Longrightarrow> one_latest s"
proof (rule store_reachable_inv [of s one_latest])
  show "one_latest store_new" by (simp add: one_latest_def store_new_def)
  show "one_latest s \<Longrightarrow> one_latest (increment_usage_for_project p f s)" for p f and s :: "'a store"
    by (simp add: one_latest_def increment_usage_for_project_def)
  show "one_latest (turn now env s)" if "one_latest s" for now env and s :: "'a store"
    by (rule turn_inv [where I = one_latest, OF one_latest_push [OF that]])
      (erule one_latest_projection, rule one_latest_push [OF that])
qed

section \<open>Tool invocations\<close>

definition invocations_ok :: "'j store \<Rightarrow> bool" where
  "invocations_ok s \<longleftrightarrow> (\<forall>i r. hget (s_tool_invocations s) i = Some r \<longrightarrow> valid_invocation r)"

lemma started_ok: "apply_tool_invocation_started e s = Some s' \<Longrightarrow> invocations_ok s \<Longrightarrow> invocations_ok s'"
  by (auto simp: apply_tool_invocation_started_def invocations_ok_def Let_def hmap_simps
      split: sum.splits if_splits dest: mark_started_valid)

lemma finish_ok: "finish_invocation i k err at s = Some s' \<Longrightarrow> invocations_ok s \<Longrightarrow> invocations_ok s'"
  by (auto simp: finish_invocation_def invocations_ok_def hmap_simps
      split: option.splits sum.splits if_splits dest: mark_finished_valid)

lemma invocations_frame:
  "apply_projection ev s = Some s' \<Longrightarrow> \<forall>e. ev_payload (se_envelope ev) \<noteq> ToolInvocationStarted e \<Longrightarrow>
     \<forall>e. ev_payload (se_envelope ev) \<noteq> ToolInvocationCompleted e \<Longrightarrow>
     \<forall>e. ev_payload (se_envelope ev) \<noteq> ToolInvocationFailed e \<Longrightarrow>
     s_tool_invocations s' = s_tool_invocations s"
  by (cases "ev_payload (se_envelope ev)")
    (auto simp: apply_projection_def session_arms record_arms cost_arms Let_def
      split: option.splits sum.splits if_splits)

lemma invocations_ok_projection:
  assumes "apply_projection ev s = Some s'" and "invocations_ok s"
  shows "invocations_ok s'"
proof (cases "ev_payload (se_envelope ev)")
  case (ToolInvocationStarted e)
  then show ?thesis using assms started_ok by (auto simp: apply_projection_def)
next
  case (ToolInvocationCompleted e)
  then show ?thesis
    using assms finish_ok by (auto simp: apply_projection_def apply_tool_invocation_completed_def)
next
  case (ToolInvocationFailed e)
  then show ?thesis
    using assms finish_ok by (auto simp: apply_projection_def apply_tool_invocation_failed_def)
qed (use assms invocations_frame [OF assms(1)] in \<open>auto simp: invocations_ok_def\<close>)

lemma reachable_invocations: "store_reachable s \<Longrightarrow> invocations_ok s"
proof (rule store_reachable_inv [of s invocations_ok])
  show "invocations_ok store_new" by (simp add: invocations_ok_def store_new_def)
  show "invocations_ok s \<Longrightarrow> invocations_ok (increment_usage_for_project p f s)"
    for p f and s :: "'a store"
    by (simp add: invocations_ok_def increment_usage_for_project_def)
  show "invocations_ok (turn now env s)" if "invocations_ok s" for now env and s :: "'a store"
  proof -
    have ok: "invocations_ok (snd (push_event now env s))"
      using that by (simp add: invocations_ok_def push_event_frame)
    show ?thesis by (rule turn_inv [where I = invocations_ok, OF ok]) (erule invocations_ok_projection, rule ok)
  qed
qed

lemma started_never_panics: "apply_tool_invocation_started e s \<noteq> None"
proof -
  obtain r where "mark_started (new_requested (tis_invocation_id e) (tis_project e)
      (tis_session_id e) (tis_run_id e) (tis_task_id e) (tis_target e) (tis_execution_class e)
      (tis_requested_at_ms e)) (tis_started_at_ms e) = Inr r"
    using new_requested_started by blast
  then show ?thesis by (simp add: apply_tool_invocation_started_def)
qed

lemma finish_panics_iff:
  "finish_invocation i k err at s = None \<longleftrightarrow>
     (\<exists>r. hget (s_tool_invocations s) i = Some r \<and>
          \<not> (can_transition_tool_invocation (ti_state r) (terminal_state k) \<and>
             (err = None \<longleftrightarrow> outcome_is_success k)))"
proof (cases "hget (s_tool_invocations s) i")
  case None
  then show ?thesis by (simp add: finish_invocation_def)
next
  case (Some r)
  then show ?thesis
    using mark_finished_iff [of r k err at]
    by (cases "mark_finished r k err at") (simp_all add: finish_invocation_def)
qed

section \<open>Costs\<close>

definition session_total :: "'j store \<Rightarrow> nat" where
  "session_total s = hsum scost_total_cost_micros (s_session_costs s)"

definition project_total :: "'j store \<Rightarrow> nat" where
  "project_total s = hsum pcost_total_cost_micros (s_project_costs s)"

definition workspace_total :: "'j store \<Rightarrow> nat" where
  "workspace_total s = hsum wcost_total_cost_micros (s_workspace_costs s)"

definition costs_wf :: "'j store \<Rightarrow> bool" where
  "costs_wf s \<longleftrightarrow> hwf (s_session_costs s) \<and> hwf (s_project_costs s) \<and> hwf (s_workspace_costs s)"

text \<open>While the workspace totals stay in range the three sums are one.\<close>

definition costs_agree :: "'j store \<Rightarrow> bool" where
  "costs_agree s \<longleftrightarrow> costs_wf s \<and>
     (workspace_total s < u64_max \<longrightarrow>
        session_total s = workspace_total s \<and> project_total s = workspace_total s)"

lemma hsum_hget_le: "hget m k = Some v \<Longrightarrow> f v \<le> hsum f m"
  using hget_set [of m k v]
  by (force simp: hsum_def hvals_def intro!: member_le_sum_list)

text \<open>Adding \<open>c\<close> to one row with saturation: exact while the new sum is in range.\<close>

lemma hsum_hentry_sat:
  assumes "hwf m" and "\<And>r. f (g r) = sat_add64 (f r) c" and "f d = 0"
  shows "hsum f (hentry k d g m) \<le> hsum f m + c"
    and "hsum f m + c < u64_max \<or> hsum f (hentry k d g m) < u64_max \<Longrightarrow>
           hsum f (hentry k d g m) = hsum f m + c"
proof -
  define old where "old = (case hget m k of None \<Rightarrow> d | Some v \<Rightarrow> v)"
  have eq: "hsum f (hentry k d g m) + f old = hsum f m + sat_add64 (f old) c"
    using hsum_hput [OF assms(1), of f k "g old"] assms(2,3)
    by (cases "hget m k") (simp_all add: hentry_def old_def)
  have le_old: "f old \<le> hsum f m"
    using hsum_hget_le [of m k _ f] assms(3) by (cases "hget m k") (simp_all add: old_def)
  have new: "sat_add64 (f old) c \<le> hsum f (hentry k d g m)"
    using eq le_old by simp
  show "hsum f (hentry k d g m) \<le> hsum f m + c"
    using eq by (simp add: sat_add64_def)
  assume "hsum f m + c < u64_max \<or> hsum f (hentry k d g m) < u64_max"
  then have "sat_add64 (f old) c < u64_max"
    using new le_old by (auto simp: sat_add64_def)
  then have "sat_add64 (f old) c = f old + c"
    by (simp add: sat_add64_def min_def split: if_splits)
  then show "hsum f (hentry k d g m) = hsum f m + c"
    using eq by simp
qed

lemma costs_agree_add:
  assumes "costs_agree s"
  shows "costs_agree (add_session_costs count now sid t p cost tin tout s)"
proof -
  let ?s = "add_session_costs count now sid t p cost tin tout s"
  have wf: "hwf (s_session_costs s)" "hwf (s_project_costs s)" "hwf (s_workspace_costs s)"
    using assms by (simp_all add: costs_agree_def costs_wf_def)
  have "costs_wf ?s"
    using wf by (simp add: costs_wf_def add_session_costs_def hmap_wf)
  moreover have "session_total ?s = workspace_total ?s \<and> project_total ?s = workspace_total ?s"
    if range: "workspace_total ?s < u64_max"
  proof -
    note w = hsum_hentry_sat [OF wf(3), of wcost_total_cost_micros
        "add_workspace_cost now cost tin tout" cost "workspace_cost_zero now t (workspace_id p)"
        "(t, workspace_id p)"]
    note q = hsum_hentry_sat [OF wf(2), of pcost_total_cost_micros
        "add_project_cost now cost tin tout" cost
        "project_cost_zero now t (workspace_id p) (project_id p)"
        "(t, workspace_id p, project_id p)"]
    note e = hsum_hentry_sat [OF wf(1), of scost_total_cost_micros
        "add_session_cost count now cost tin tout" cost "session_cost_zero now sid t" sid]
    have W: "workspace_total ?s = workspace_total s + cost"
      using w(2) range
      by (simp add: workspace_total_def add_session_costs_def add_workspace_cost_def
          workspace_cost_zero_def)
    then have old: "session_total s = workspace_total s" "project_total s = workspace_total s"
      using assms range by (auto simp: costs_agree_def)
    have "session_total ?s = session_total s + cost"
      using e(2) old W range
      by (simp add: session_total_def add_session_costs_def add_session_cost_def
          session_cost_zero_def Let_def)
    moreover have "project_total ?s = project_total s + cost"
      using q(2) old W range
      by (simp add: project_total_def add_session_costs_def add_project_cost_def
          project_cost_zero_def)
    ultimately show ?thesis using W old by simp
  qed
  ultimately show ?thesis by (simp add: costs_agree_def)
qed

lemma costs_agree_same:
  "costs_agree s \<Longrightarrow> s_session_costs s' = s_session_costs s \<Longrightarrow> s_project_costs s' = s_project_costs s \<Longrightarrow>
     s_workspace_costs s' = s_workspace_costs s \<Longrightarrow> costs_agree s'"
  by (simp add: costs_agree_def costs_wf_def session_total_def project_total_def workspace_total_def)

lemma costs_frame:
  "apply_projection ev s = Some s' \<Longrightarrow> \<forall>e. ev_payload (se_envelope ev) \<noteq> SessionCostUpdated e \<Longrightarrow>
     \<forall>e. ev_payload (se_envelope ev) \<noteq> ProviderCallCompleted e \<Longrightarrow>
     s_session_costs s' = s_session_costs s \<and> s_project_costs s' = s_project_costs s \<and>
     s_workspace_costs s' = s_workspace_costs s"
  by (cases "ev_payload (se_envelope ev)")
    (auto simp: apply_projection_def session_arms record_arms invocation_arms
      apply_run_cost_updated_def check_run_alert_def push_derived_def Let_def
      split: option.splits sum.splits if_splits)

lemma costs_agree_push_derived: "costs_agree s \<Longrightarrow> costs_agree (push_derived now i p payload s)"
  by (erule costs_agree_same) (simp_all add: push_derived_def)

lemma costs_agree_charge_run: "costs_agree s \<Longrightarrow> costs_agree (charge_run now e rid s)"
  unfolding charge_run_def Let_def
  by (rule costs_agree_push_derived) (erule costs_agree_same, simp_all)

lemma costs_agree_charge_session: "costs_agree s \<Longrightarrow> costs_agree (charge_session now e sid s)"
  unfolding charge_session_def Let_def
  by (rule costs_agree_push_derived) (rule costs_agree_add)

lemma costs_agree_projection:
  assumes "apply_projection ev s = Some s'" and "costs_agree s"
  shows "costs_agree s'"
proof -
  consider (u) e where "ev_payload (se_envelope ev) = SessionCostUpdated e"
    | (p) e where "ev_payload (se_envelope ev) = ProviderCallCompleted e"
    | (other) "\<forall>e. ev_payload (se_envelope ev) \<noteq> SessionCostUpdated e"
        "\<forall>e. ev_payload (se_envelope ev) \<noteq> ProviderCallCompleted e" by blast
  then show ?thesis
  proof cases
    case u
    then have "s' = apply_session_cost_updated (se_stored_at ev) e s"
      using assms(1) by (simp add: apply_projection_def)
    then show ?thesis
      by (simp add: apply_session_cost_updated_def Let_def)
        (rule costs_agree_same [OF costs_agree_add [OF assms(2)]], simp_all)
  next
    case p
    let ?s = "s\<lparr>s_provider_calls := hput (pc_provider_call_id e) (call_record e) (s_provider_calls s),
                s_llm_traces := s_llm_traces s @ [call_trace e]\<rparr>"
    have "costs_agree ?s" by (rule costs_agree_same [OF assms(2)]) simp_all
    moreover have "s' = apply_provider_call_completed (se_stored_at ev) e s"
      using assms(1) p by (simp add: apply_projection_def)
    ultimately show ?thesis
      by (auto simp: apply_provider_call_completed_def Let_def costs_agree_charge_run
          costs_agree_charge_session split: option.split)
  next
    case other
    then show ?thesis using costs_frame [OF assms(1)] costs_agree_same [OF assms(2)] by blast
  qed
qed

lemma reachable_costs: "store_reachable s \<Longrightarrow> costs_agree s"
proof (rule store_reachable_inv [of s costs_agree])
  show "costs_agree store_new"
    by (simp add: costs_agree_def costs_wf_def session_total_def project_total_def
        workspace_total_def store_new_def)
  show "costs_agree s \<Longrightarrow> costs_agree (increment_usage_for_project p f s)"
    for p f and s :: "'a store"
    by (erule costs_agree_same) (simp_all add: increment_usage_for_project_def)
  show "costs_agree (turn now env s)" if "costs_agree s" for now env and s :: "'a store"
  proof -
    have ok: "costs_agree (snd (push_event now env s))"
      by (rule costs_agree_same [OF that]) (simp_all add: push_event_frame)
    show ?thesis by (rule turn_inv [where I = costs_agree, OF ok]) (erule costs_agree_projection, rule ok)
  qed
qed

section \<open>Keys of the tables\<close>

definition rows_keyed :: "'j store \<Rightarrow> bool" where
  "rows_keyed s \<longleftrightarrow> keyed sess_session_id (s_sessions s) \<and> keyed run_run_id (s_runs s) \<and>
     keyed task_task_id (s_tasks s)"

lemma rows_keyed_projection: "apply_projection ev s = Some s' \<Longrightarrow> rows_keyed s \<Longrightarrow> rows_keyed s'"
  by (cases "ev_payload (se_envelope ev)")
    (auto simp: apply_projection_def arms rows_keyed_def task_changed_def Let_def
      intro!: keyed_hput keyed_hmodify split: option.splits sum.splits if_splits)

lemma reachable_keyed: "store_reachable s \<Longrightarrow> rows_keyed s"
proof (rule store_reachable_inv [of s rows_keyed])
  show "rows_keyed store_new" by (simp add: rows_keyed_def store_new_def)
  show "rows_keyed s \<Longrightarrow> rows_keyed (increment_usage_for_project p f s)"
    for p f and s :: "'a store"
    by (simp add: rows_keyed_def increment_usage_for_project_def)
  show "rows_keyed (turn now env s)" if "rows_keyed s" for now env and s :: "'a store"
  proof -
    have ok: "rows_keyed (snd (push_event now env s))"
      using that by (simp add: rows_keyed_def push_event_frame)
    show ?thesis by (rule turn_inv [where I = rows_keyed, OF ok]) (erule rows_keyed_projection, rule ok)
  qed
qed

section \<open>Quotas\<close>

text \<open>What the session quota is computed from, and the events that can change it.\<close>

definition session_tenants :: "'j store \<Rightarrow> ident list" where
  "session_tenants s = map (\<lambda>r. tenant_id (sess_project r)) (hvals (s_sessions s))"

fun moves_session_quota :: "'j runtime_event \<Rightarrow> bool" where
  "moves_session_quota (SessionCreated _) = True"
| "moves_session_quota (TenantQuotaSet _) = True"
| "moves_session_quota _ = False"

definition session_limit :: "ident \<Rightarrow> 'j store \<Rightarrow> u32 option" where
  "session_limit t s = map_option quota_max_sessions_per_hour (hget (s_quotas s) t)"

lemma session_quota_frame:
  assumes "apply_projection ev s = Some s'" and "\<not> moves_session_quota (ev_payload (se_envelope ev))"
  shows "session_tenants s' = session_tenants s \<and> session_limit t s' = session_limit t s"
  using assms
  by (cases "ev_payload (se_envelope ev)")
    (auto simp: apply_projection_def arms session_tenants_def session_limit_def Let_def
      map_hvals_hmodify hmap_simps map_option_case split: option.splits sum.splits if_splits)

lemma session_quota_turn:
  "\<not> moves_session_quota (ev_payload env) \<Longrightarrow>
     session_tenants (turn now env s) = session_tenants s \<and>
     session_limit t (turn now env s) = session_limit t s"
  by (cases rule: turn_cases [of now env s])
    (auto simp: session_tenants_def session_limit_def push_event_frame push_event_stored
      dest: session_quota_frame [of _ _ _ t])

lemma session_quota_append:
  assumes "list_all (\<lambda>env. \<not> moves_session_quota (ev_payload env)) envs"
  shows "session_tenants (snd (append_loop now envs ps s)) = session_tenants s \<and>
    session_limit t (snd (append_loop now envs ps s)) = session_limit t s"
  using assms
proof (induction envs arbitrary: ps s)
  case Nil
  then show ?case by simp
next
  case (Cons env envs)
  then show ?case using session_quota_turn [of env now s t] by (simp add: append_loop_Cons)
qed

end
