(* ===== verification/Decision_Laws.thy ===== *)
theory Decision_Laws
  imports Decision_Service
begin

text \<open>
  What the decision service promises. \<open>answer\<close> is what the cache would answer for a key at a
  time; the locale \<open>answering\<close> is the contract the service needs of its cache, and the
  interpretation discharges it for \<open>DecisionCache\<close>. \<open>verdict\<close> is the decision procedure
  \<open>evaluate\<close> implements: the first failing check, else the cached answer, else the resolver
  when the guardrail escalates.
\<close>

section \<open>The contract of the cache\<close>

type_synonym cached_answer = "ident \<times> decision_outcome \<times> u64"

definition answer :: "u64 \<Rightarrow> string \<Rightarrow> 'j decision_cache \<Rightarrow> cached_answer option" where
  "answer now ck c =
     (case hget (dc_entries c) ck of
        None \<Rightarrow> None
      | Some e \<Rightarrow>
          if \<not> ce_is_pending e \<and> now < ce_expires_at e
          then Some (ce_decision_id e,
                     (case ce_outcome e of Some out \<Rightarrow> out | None \<Rightarrow> Allowed), ce_expires_at e)
          else None)"

datatype 'k cache_op =
    OpPend 'k ident u64
  | OpPut 'k ident decision_outcome u64 u64

fun op_key :: "'k cache_op \<Rightarrow> 'k" where
  "op_key (OpPend k _ _) = k"
| "op_key (OpPut k _ _ _ _) = k"

locale answering =
  fixes name_of :: "'k \<Rightarrow> string"
    and ans :: "u64 \<Rightarrow> 'k \<Rightarrow> 'c \<Rightarrow> cached_answer option"
    and pend :: "'k \<Rightarrow> ident \<Rightarrow> u64 \<Rightarrow> 'c \<Rightarrow> 'c"
    and put :: "'k \<Rightarrow> ident \<Rightarrow> decision_outcome \<Rightarrow> u64 \<Rightarrow> u64 \<Rightarrow> 'c \<Rightarrow> 'c"
  assumes ans_pend: "ans now k (pend k' did at c) =
           (if name_of k = name_of k' then None else ans now k c)"
    and ans_put: "ans now k (put k' did out exp at c) =
           (if name_of k = name_of k' then if now < exp then Some (did, out, exp) else None
            else ans now k c)"
begin

definition run_op :: "'k cache_op \<Rightarrow> 'c \<Rightarrow> 'c" where
  "run_op op = (case op of OpPend k did at \<Rightarrow> pend k did at
                         | OpPut k did out exp at \<Rightarrow> put k did out exp at)"

lemma ans_run_op:
  "name_of (op_key op) \<noteq> name_of k \<Longrightarrow> ans now k (run_op op c) = ans now k c"
  by (cases op) (auto simp: run_op_def ans_pend ans_put)

text \<open>Insertions and pending marks under other keys leave an answer alone.\<close>

lemma ans_other_keys:
  "\<forall>op \<in> set ops. name_of (op_key op) \<noteq> name_of k \<Longrightarrow>
     ans now k (fold run_op ops c) = ans now k c"
  by (induction ops arbitrary: c) (simp_all add: ans_run_op)

lemma ans_put_stays:
  assumes "\<forall>op \<in> set ops. name_of (op_key op) \<noteq> name_of k" and "now < exp"
  shows "ans now k (fold run_op ops (put k did out exp at c)) = Some (did, out, exp)"
  using assms by (simp add: ans_other_keys ans_put)

lemma ans_pending_put:
  "now < exp \<Longrightarrow> ans now k (put k did out exp at (pend k did' at' c)) = Some (did, out, exp)"
  by (simp add: ans_put)

end

interpretation cache: answering cache_key_string
  "\<lambda>now key. answer now (cache_key_string key)"
  "\<lambda>key did at. install_pending at key did"
  "\<lambda>key did out exp at. insert_resolved (cache_key_string key) did out exp at"
  by unfold_locales (auto simp: answer_def insert_resolved_def install_pending_def hmap_simps)

lemma lookup_cases:
  obtains (hit) did out exp where "answer now (cache_key_string key) c = Some (did, out, exp)"
      and "lookup now key c = (Resolved did out exp, c)"
  | (pending) owner at where "answer now (cache_key_string key) c = None"
      and "lookup now key c = (Pending owner at, c)"
  | (miss) c' where "answer now (cache_key_string key) c = None"
      and "lookup now key c = (Miss, c')"
  by (cases "hget (dc_entries c) (cache_key_string key)")
    (fastforce simp: answer_def lookup_def Let_def split: if_splits)+

lemma answer_store_event [simp]: "answer now ck (store_event did ev c) = answer now ck c"
  by (simp add: answer_def store_event_def)

lemma answer_index_rules [simp]: "answer now ck (index_rules k rids c) = answer now ck c"
  by (simp add: answer_def index_rules_def)

lemma answer_promote:
  "promote_to_resolved at key did out chain ttl c = (exp, c') \<Longrightarrow> now < exp \<Longrightarrow>
     answer now (cache_key_string key) c' = Some (did, out, exp)"
  using cache.ans_put [of now key key did out exp at]
  by (auto simp: promote_to_resolved_def Let_def)

section \<open>The decision procedure\<close>

text \<open>The first check that refuses, with its reason.\<close>

definition scope_refusal :: "'j services \<Rightarrow> 'j decision_request \<Rightarrow> string option" where
  "scope_refusal sv rq = (case sv_scope sv rq of ScopeDenied r \<Rightarrow> Some r | _ \<Rightarrow> None)"

definition visibility_refusal :: "'j services \<Rightarrow> 'j decision_request \<Rightarrow> string option" where
  "visibility_refusal sv rq = (case sv_visibility sv rq of NotInContext r \<Rightarrow> Some r | _ \<Rightarrow> None)"

definition guardrail_refusal :: "'j services \<Rightarrow> 'j decision_request \<Rightarrow> string option" where
  "guardrail_refusal sv rq =
     (case gr_outcome (sv_guardrail sv rq) of GuardDeny r \<Rightarrow> Some r | _ \<Rightarrow> None)"

definition budget_refusal :: "'j services \<Rightarrow> 'j decision_request \<Rightarrow> string option" where
  "budget_refusal sv rq = (case sv_budget sv rq of Exceeded r \<Rightarrow> Some r | _ \<Rightarrow> None)"

definition first_refusal :: "'j services \<Rightarrow> 'j decision_request \<Rightarrow> (u8 \<times> string) option" where
  "first_refusal sv rq =
     map_option (\<lambda>(k, r). (k, the r))
       (find (\<lambda>(k, r). r \<noteq> None)
         [(1, scope_refusal sv rq), (2, visibility_refusal sv rq),
          (3, guardrail_refusal sv rq), (4, budget_refusal sv rq)])"

definition escalates :: "'j services \<Rightarrow> 'j decision_request \<Rightarrow> bool" where
  "escalates sv rq = (gr_outcome (sv_guardrail sv rq) = GuardEscalate)"


lemmas refusal_defs = scope_refusal_def visibility_refusal_def guardrail_refusal_def
  budget_refusal_def escalates_def

lemmas gate_defs = run_checks_def guardrail_gate_def budget_gate_def Let_def

lemma run_checks_denied_iff:
  "(\<exists>chain. run_checks sv rq = GateDenied k reason chain) \<longleftrightarrow> first_refusal sv rq = Some (k, reason)"
  by (auto simp: gate_defs first_refusal_def refusal_defs
      split: scope_check_result.splits visibility_check_result.splits
        guardrail_check_outcome.splits budget_check_result.splits)

lemma run_checks_passed_iff:
  "(\<exists>chain. run_checks sv rq = GatePassed esc rules chain) \<longleftrightarrow>
     first_refusal sv rq = None \<and> esc = escalates sv rq \<and> rules = gr_rule_ids (sv_guardrail sv rq)"
  by (auto simp: gate_defs first_refusal_def refusal_defs
      split: scope_check_result.splits visibility_check_result.splits
        guardrail_check_outcome.splits budget_check_result.splits)

lemma run_checks_steps:
  "run_checks sv rq = GateDenied k reason chain \<Longrightarrow>
     map sr_step chain = [1 ..< Suc k] \<and> k \<in> {1, 2, 3, 4}"
  "run_checks sv rq = GatePassed esc rules chain \<Longrightarrow> map sr_step chain = [1 ..< 5]"
  by (auto simp: gate_defs row_def upt_rec
      split: scope_check_result.splits visibility_check_result.splits
        guardrail_check_outcome.splits budget_check_result.splits)

section \<open>The three ways through evaluate\<close>

fun event_record :: "'j decision_event \<Rightarrow> 'j recorded_decision option" where
  "event_record (DecisionRecordedEvent r) = Some r"
| "event_record _ = None"

definition result_record :: "'j decision_result \<Rightarrow> 'j recorded_decision" where
  "result_record r = the (event_record (dr_event r))"

definition result_chain :: "'j decision_result \<Rightarrow> step_result list" where
  "result_chain r = rec_reasoning_chain (result_record r)"

definition result_source :: "'j decision_result \<Rightarrow> decision_source" where
  "result_source r = rec_source (result_record r)"

definition result_cached :: "'j decision_result \<Rightarrow> cached_decision_ref option" where
  "result_cached r = rec_cached_for (result_record r)"

lemmas result_defs = result_of_def result_chain_def result_source_def result_cached_def
  result_record_def recorded_def

lemma evaluate_cases:
  obtains (denied) k reason chain where "run_checks sv rq = GateDenied k reason chain"
      and "evaluate sv ps log clk rq c =
             (let h = build_denied_result (ec_decided clk) (decision_id_for (ec_now clk) rq) rq
                (request_key sv ps rq) chain k reason c
              in (fst h, snd h, None))"
  | (hit) esc rules chain cid out exp where "run_checks sv rq = GatePassed esc rules chain"
      and "answer (ec_lookup clk) (cache_key_string (request_key sv ps rq)) c = Some (cid, out, exp)"
      and "evaluate sv ps log clk rq c =
             (let h = evaluate_hit (ec_now clk) (decision_id_for (ec_now clk) rq) rq
                (request_key sv ps rq) chain cid out exp c
              in (fst h, snd h, None))"
  | (fresh) esc rules chain row5 c' where "run_checks sv rq = GatePassed esc rules chain"
      and "answer (ec_lookup clk) (cache_key_string (request_key sv ps rq)) c = None"
      and "sr_step row5 = 5" and "sr_rule_ids row5 = [] \<and> sr_outcome row5 \<noteq> ''cache_hit''"
      and "c' = snd (lookup (ec_lookup clk) (request_key sv ps rq) c)"
      and "evaluate sv ps log clk rq c =
             evaluate_fresh sv (resolve_policy ps (rq_kind rq)) log clk
               (decision_id_for (ec_now clk) rq) rq (request_key sv ps rq) esc rules
               (chain @ [row5]) c'"
proof (cases "run_checks sv rq")
  case (GateDenied k reason chain)
  then show thesis using denied by (simp add: evaluate_def Let_def case_prod_beta)
next
  case (GatePassed esc rules chain)
  show thesis
  proof (cases rule: lookup_cases [of "ec_lookup clk" "request_key sv ps rq" c])
    case (hit did out exp)
    then show thesis using that(2) GatePassed by (simp add: evaluate_def Let_def case_prod_beta)
  next
    case (pending owner at)
    show thesis
      by (rule fresh [of esc rules chain "row 5 ''cache'' ''pending''
            (Some (''concurrent eval by '' @ owner @ '', proceeding fresh'')) []"])
        (simp_all add: GatePassed pending evaluate_def Let_def row_def)
  next
    case (miss c')
    show thesis
      by (rule fresh [of esc rules chain "row 5 ''cache'' ''cache_miss'' None []"])
        (simp_all add: GatePassed miss evaluate_def Let_def row_def)
  qed
qed

text \<open>The rows of steps 6 and 7, and the fresh branch in terms of them.\<close>

lemma resolution_row:
  "resolution sv esc rq = (out, src, r6) \<Longrightarrow>
     sr_step r6 = 6 \<and> sr_rule_ids r6 = [] \<and> out = (if esc then fst (sv_resolve sv rq) else Allowed)"
  by (auto simp: resolution_def row_def Let_def split: if_splits prod.splits)

lemma cache_write_row:
  "cache_write p at key did out chain rules c = (cached_for, r7, c') \<Longrightarrow> sr_step r7 = 7"
  by (auto simp: cache_write_def row_def split: if_splits prod.splits)

lemma fresh_cases:
  obtains out src r6 cached_for r7 c' ev where
    "resolution sv esc rq = (out, src, r6)"
    and "cache_write p (ec_promote clk) key did out (chain @ [r6]) rules
           (install_pending (ec_pending clk) key did c) = (cached_for, r7, c')"
    and "ev = recorded did rq out (chain @ [r6, r7, row 8 ''return'' (verdict_word out) None []])
           src cached_for (ec_decided clk)"
    and "evaluate_fresh sv p log clk did rq key esc rules chain c =
           (result_of did out key ev, store_event did ev c',
            if log then persisted_event sv rq did key out (ec_decided clk) cached_for ev else None)"
proof -
  let ?c = "install_pending (ec_pending clk) key did c"
  obtain out src r6 where r6: "resolution sv esc rq = (out, src, r6)"
    by (cases "resolution sv esc rq")
  obtain cached_for r7 c' where r7:
    "cache_write p (ec_promote clk) key did out (chain @ [r6]) rules ?c = (cached_for, r7, c')"
    by (cases "cache_write p (ec_promote clk) key did out (chain @ [r6]) rules ?c")
  show thesis
    by (rule that [OF r6 r7 refl]) (simp add: evaluate_fresh_def Let_def r6 r7)
qed

lemma denied_fill_steps: "map sr_step (denied_fill k) = [Suc k ..< 9]"
  by (simp add: denied_fill_def row_def comp_def)

lemma denied_result_chain:
  assumes "run_checks sv rq = GateDenied k reason chain"
  shows "map sr_step (result_chain (fst (build_denied_result at did rq key chain k reason c))) =
           [1 ..< 9]"
proof -
  have "map sr_step chain = [1 ..< Suc k]" and "k \<in> {1, 2, 3, 4}"
    using run_checks_steps(1) [OF assms] by simp_all
  then show ?thesis
    by (auto simp: build_denied_result_def Let_def result_defs denied_fill_steps upt_rec)
qed

lemma hit_result_chain:
  "map sr_step chain = [1 ..< 5] \<Longrightarrow>
     map sr_step (result_chain (fst (evaluate_hit now did rq key chain cid out exp c))) = [1 ..< 9]"
  by (simp add: evaluate_hit_def Let_def result_defs row_def upt_rec)

lemma fresh_result_chain:
  "map sr_step chain = [1 ..< 6] \<Longrightarrow>
     map sr_step (result_chain (fst (evaluate_fresh sv p log clk did rq key esc rules chain c))) =
       [1 ..< 9]"
  by (rule fresh_cases [of sv esc rq p clk key did chain rules c log])
    (auto dest!: resolution_row cache_write_row simp: result_defs row_def upt_rec)


section \<open>What an evaluation does to the cache\<close>

lemma checks_rule_ids:
  "run_checks sv rq = GatePassed esc rules chain \<Longrightarrow> chain_rule_ids chain = rules"
  by (auto simp: gate_defs row_def chain_rule_ids_def
      split: scope_check_result.splits visibility_check_result.splits
        guardrail_check_outcome.splits budget_check_result.splits)


lemma index_rules_get:
  "hget (dc_rule_index (index_rules ck rids c)) rid =
     (if rid \<in> set rids
      then Some ((case hget (dc_rule_index c) rid of None \<Rightarrow> [] | Some ks \<Rightarrow> ks) @
                 replicate (count_list rids rid) ck)
      else hget (dc_rule_index c) rid)"
proof -
  have "hget (fold (\<lambda>rid idx. hentry rid [] (\<lambda>ks. ks @ [ck]) idx) rids m) rid =
     (if rid \<in> set rids
      then Some ((case hget m rid of None \<Rightarrow> [] | Some ks \<Rightarrow> ks) @ replicate (count_list rids rid) ck)
      else hget m rid)" for m
    by (induction rids arbitrary: m) (auto simp: hmap_simps replicate_append_same count_list_0_iff split: option.splits)
  then show ?thesis by (simp add: index_rules_def)
qed

text \<open>A fresh evaluation that caches: the entry it leaves.\<close>

lemma fresh_cached:
  assumes "result_cached (fst (evaluate_fresh sv p log clk did rq key esc rules chain c)) = Some ref"
  shows "should_cache p (dr_outcome (fst (evaluate_fresh sv p log clk did rq key esc rules chain c)))
      \<and> 0 < dp_default_ttl_secs p
      \<and> ref = \<lparr>cr_decision_key = key, cr_expires_at = expiry (ec_promote clk) (dp_default_ttl_secs p)\<rparr>
      \<and> (\<forall>now < cr_expires_at ref.
           answer now (cache_key_string key)
             (fst (snd (evaluate_fresh sv p log clk did rq key esc rules chain c))) =
           Some (did, dr_outcome (fst (evaluate_fresh sv p log clk did rq key esc rules chain c)),
                 cr_expires_at ref))"
proof (rule fresh_cases [of sv esc rq p clk key did chain rules c log], goal_cases)
  case (1 out src r6 cached_for r7 c' ev)
  then have cached: "cached_for = Some ref"
    using assms by (simp add: result_defs)
  then have "should_cache p out" and ttl: "0 < dp_default_ttl_secs p"
    and prom: "promote_to_resolved (ec_promote clk) key did out (chain @ [r6])
           (dp_default_ttl_secs p) (install_pending (ec_pending clk) key did c) =
         (cr_expires_at ref, c')"
    and ref: "cr_decision_key ref = key"
    using 1(2) by (auto simp: cache_write_def split: if_splits prod.splits)
  moreover have "cr_expires_at ref = expiry (ec_promote clk) (dp_default_ttl_secs p)"
    using prom by (auto simp: promote_to_resolved_def Let_def)
  ultimately show ?case
    using answer_promote [OF prom] 1(4) ref
    by (cases ref) (simp add: result_defs)
qed

text \<open>Whatever is cached by an evaluation was cached by a fresh one.\<close>

lemma evaluate_cached:
  assumes "result_cached (fst (evaluate sv ps log clk rq c)) = Some ref"
  shows "first_refusal sv rq = None"
    and "dr_decision_id (fst (evaluate sv ps log clk rq c)) = decision_id_for (ec_now clk) rq"
    and "should_cache (resolve_policy ps (rq_kind rq)) (dr_outcome (fst (evaluate sv ps log clk rq c)))"
    and "0 < dp_default_ttl_secs (resolve_policy ps (rq_kind rq))"
    and "cr_expires_at ref =
           expiry (ec_promote clk) (dp_default_ttl_secs (resolve_policy ps (rq_kind rq)))"
    and "now < cr_expires_at ref \<Longrightarrow>
           answer now (cache_key_string (request_key sv ps rq))
             (fst (snd (evaluate sv ps log clk rq c))) =
           Some (dr_decision_id (fst (evaluate sv ps log clk rq c)),
                 dr_outcome (fst (evaluate sv ps log clk rq c)), cr_expires_at ref)"
proof -
  have *: "\<exists>esc rules chain row5 c'. run_checks sv rq = GatePassed esc rules chain \<and>
      evaluate sv ps log clk rq c =
        evaluate_fresh sv (resolve_policy ps (rq_kind rq)) log clk
          (decision_id_for (ec_now clk) rq) rq (request_key sv ps rq) esc rules (chain @ [row5]) c'"
    using assms
    by (cases rule: evaluate_cases [of sv rq ps log clk c])
      (auto simp: Let_def build_denied_result_def evaluate_hit_def result_defs)
  then obtain esc rules chain row5 c' where
    checks: "run_checks sv rq = GatePassed esc rules chain"
    and ev: "evaluate sv ps log clk rq c =
        evaluate_fresh sv (resolve_policy ps (rq_kind rq)) log clk
          (decision_id_for (ec_now clk) rq) rq (request_key sv ps rq) esc rules (chain @ [row5]) c'"
    by blast
  show "first_refusal sv rq = None"
    using checks run_checks_passed_iff by blast
  show did: "dr_decision_id (fst (evaluate sv ps log clk rq c)) = decision_id_for (ec_now clk) rq"
    by (simp add: ev evaluate_fresh_def Let_def result_of_def split: prod.split)
  note fc = fresh_cached [OF assms [unfolded ev]]
  show "should_cache (resolve_policy ps (rq_kind rq)) (dr_outcome (fst (evaluate sv ps log clk rq c)))"
    "0 < dp_default_ttl_secs (resolve_policy ps (rq_kind rq))"
    "cr_expires_at ref =
       expiry (ec_promote clk) (dp_default_ttl_secs (resolve_policy ps (rq_kind rq)))"
    using fc by (auto simp: ev)
  show "answer now (cache_key_string (request_key sv ps rq))
          (fst (snd (evaluate sv ps log clk rq c))) =
        Some (dr_decision_id (fst (evaluate sv ps log clk rq c)),
              dr_outcome (fst (evaluate sv ps log clk rq c)), cr_expires_at ref)"
    if "now < cr_expires_at ref"
    unfolding did using fc that by (simp add: ev)
qed

lemma evaluate_answered:
  assumes "first_refusal sv rq = None"
    and "answer (ec_lookup clk) (cache_key_string (request_key sv ps rq)) c = Some (cid, out, exp)"
  shows "dr_outcome (fst (evaluate sv ps log clk rq c)) = out
      \<and> result_source (fst (evaluate sv ps log clk rq c)) = CacheHit cid
      \<and> result_cached (fst (evaluate sv ps log clk rq c)) = None
      \<and> snd (snd (evaluate sv ps log clk rq c)) = None"
proof (cases rule: evaluate_cases [of sv rq ps log clk c])
  case (denied k reason chain)
  then show ?thesis using assms run_checks_denied_iff [of sv rq k reason] by auto
next
  case (hit esc rules chain cid' out' exp')
  then show ?thesis using assms by (simp add: Let_def evaluate_hit_def result_defs)
next
  case fresh
  then show ?thesis using assms by simp
qed


lemma remove_by_decision_id_get:
  assumes "hwf (dc_entries c)" and "hget (dc_entries c) ck = Some e" and "ce_decision_id e = did"
    and "\<forall>k e. hget (dc_entries c) k = Some e \<longrightarrow> k \<noteq> ck \<longrightarrow> ce_decision_id e \<noteq> did"
  shows "dc_entries (snd (remove_by_decision_id did c)) = hdel ck (dc_entries c)"
proof -
  have "find (\<lambda>(k, v). ce_decision_id v = did) (dc_entries c) \<noteq> None"
    using hget_set [OF assms(2)] assms(3) by (auto simp: find_None_iff2 find_None_iff)
  then obtain p where p: "find (\<lambda>(k, v). ce_decision_id v = did) (dc_entries c) = Some p"
    by blast
  obtain k v where "p = (k, v)" by (cases p)
  then have "ce_decision_id v = did" and "(k, v) \<in> set (dc_entries c)"
    using p by (auto simp: find_Some_iff) (metis nth_mem)
  then have "k = ck"
    using assms(1,4) set_hget by fastforce
  then show ?thesis
    using p \<open>p = (k, v)\<close> by (simp add: remove_by_decision_id_def)
qed

lemma fresh_uncached:
  assumes "hwf (dc_entries c)"
    and "\<forall>k e. hget (dc_entries c) k = Some e \<longrightarrow> ce_decision_id e \<noteq> did"
    and "result_cached (fst (evaluate_fresh sv p log clk did rq key esc rules chain c)) = None"
  shows "hget (dc_entries (fst (snd (evaluate_fresh sv p log clk did rq key esc rules chain c)))) k =
    (if k = cache_key_string key then None else hget (dc_entries c) k)"
proof (rule fresh_cases [of sv esc rq p clk key did chain rules c log], goal_cases)
  case (1 out src r6 cached_for r7 c' ev)
  let ?c = "install_pending (ec_pending clk) key did c"
  have "cached_for = None" using assms(3) 1 by (simp add: result_defs)
  then have c': "c' = snd (remove_by_decision_id did ?c)"
    using 1(2) by (auto simp: cache_write_def split: if_splits prod.splits)
  have "dc_entries c' = hdel (cache_key_string key) (dc_entries ?c)"
    unfolding c'
    by (rule remove_by_decision_id_get)
      (use assms in \<open>auto simp: install_pending_def hmap_simps hmap_wf split: if_splits\<close>)
  then show ?case
    using 1(4) by (simp add: store_event_def install_pending_def hmap_simps)
qed

lemma lookup_other_keys:
  "k \<noteq> cache_key_string key \<Longrightarrow>
     hget (dc_entries (snd (lookup now key c))) k = hget (dc_entries c) k"
  by (auto simp: lookup_def Let_def hmap_simps split: option.split)

lemma fresh_rule_indexed:
  assumes "result_cached (fst (evaluate_fresh sv p log clk did rq key esc rules chain c)) = Some ref"
    and "rid \<in> set (chain_rule_ids chain)"
  shows "\<exists>ks. hget (dc_rule_index
             (fst (snd (evaluate_fresh sv p log clk did rq key esc rules chain c)))) rid = Some ks
          \<and> cache_key_string key \<in> set ks"
proof (rule fresh_cases [of sv esc rq p clk key did chain rules c log], goal_cases)
  case (1 out src r6 cached_for r7 c' ev)
  let ?c = "install_pending (ec_pending clk) key did c"
  have "cached_for = Some ref" using assms(1) 1 by (simp add: result_defs)
  then have "c' = snd (promote_to_resolved (ec_promote clk) key did out (chain @ [r6])
                         (dp_default_ttl_secs p) ?c)"
    using 1(2) by (auto simp: cache_write_def split: if_splits prod.splits)
  moreover have "rid \<in> set (chain_rule_ids (chain @ [r6]))"
    using assms(2) by (simp add: chain_rule_ids_def)
  moreover from this have "count_list (chain_rule_ids (chain @ [r6])) rid \<noteq> 0"
    by (simp add: count_list_0_iff)
  ultimately show ?case
    using 1(4) by (simp add: promote_to_resolved_def Let_def insert_resolved_def store_event_def
        index_rules_get)
qed

section \<open>Cache keys\<close>

text \<open>Identifiers without the separators of the key string.\<close>

definition plain :: "string \<Rightarrow> bool" where
  "plain s \<longleftrightarrow> CHR '':'' \<notin> set s \<and> CHR ''/'' \<notin> set s"

definition plain_project :: "project_key \<Rightarrow> bool" where
  "plain_project p \<longleftrightarrow> plain (tenant_id p) \<and> plain (workspace_id p) \<and> plain (project_id p)"

fun plain_scope :: "decision_scope_ref \<Rightarrow> bool" where
  "plain_scope (RunScope run_id p) = (plain run_id \<and> plain_project p)"
| "plain_scope (ProjectScope p) = plain_project p"
| "plain_scope (WorkspaceScope t w) = (plain t \<and> plain w)"
| "plain_scope (TenantScope t) = plain t"

lemma project_path_cut:
  assumes "plain_project p" and "plain_project q"
    and "project_path p @ CHR '':'' # a = project_path q @ CHR '':'' # b"
  shows "p = q \<and> a = b"
proof -
  have "tenant_id p = tenant_id q"
    and 1: "workspace_id p @ CHR ''/'' # project_id p @ CHR '':'' # a =
            workspace_id q @ CHR ''/'' # project_id q @ CHR '':'' # b"
    using cut_unique [of "tenant_id p" "CHR ''/''" _ "tenant_id q"] assms
    by (auto simp: project_path_def plain_project_def plain_def)
  moreover have "workspace_id p = workspace_id q"
    and 2: "project_id p @ CHR '':'' # a = project_id q @ CHR '':'' # b"
    using cut_unique [OF 1] assms by (auto simp: plain_project_def plain_def)
  moreover have "project_id p = project_id q" and "a = b"
    using cut_unique [OF 2] assms by (auto simp: plain_project_def plain_def)
  ultimately show ?thesis by (cases p; cases q) simp
qed

lemma workspace_path_cut:
  assumes "plain t" "plain w" "plain t'" "plain w'"
    and "t @ CHR ''/'' # w @ CHR '':'' # a = t' @ CHR ''/'' # w' @ CHR '':'' # b"
  shows "t = t' \<and> w = w' \<and> a = b"
  using cut_unique [OF assms(5)] cut_unique [of w "CHR '':''" a w' b] assms(1-4)
  by (auto simp: plain_def)

lemma scope_string_cut:
  assumes "plain_scope s" and "plain_scope s'"
    and "scope_ref_string s @ CHR '':'' # a = scope_ref_string s' @ CHR '':'' # b"
  shows "s = s' \<and> a = b"
proof (cases s; cases s')
  fix r p r' p' assume [simp]: "s = RunScope r p" "s' = RunScope r' p'"
  have e: "r @ CHR '':'' # (project_path p @ CHR '':'' # a) =
      r' @ CHR '':'' # (project_path p' @ CHR '':'' # b)"
    using assms(3) by simp
  from cut_unique [OF e] project_path_cut [of p p' a b] assms(1,2) show ?thesis
    by (auto simp: plain_def)
next
  fix p p' assume "s = ProjectScope p" "s' = ProjectScope p'"
  then show ?thesis using project_path_cut [of p p' a b] assms by simp
next
  fix t w t' w' assume "s = WorkspaceScope t w" "s' = WorkspaceScope t' w'"
  then show ?thesis using workspace_path_cut [of t w t' w' a b] assms by simp
next
  fix t t' assume "s = TenantScope t" "s' = TenantScope t'"
  then show ?thesis using cut_unique [of t "CHR '':''" a t' b] assms by (simp add: plain_def)
qed (use assms(3) in simp_all)

section \<open>Properties\<close>

lemma evaluate_chain:
  "map sr_step (result_chain (fst (evaluate sv ps log clk rq c))) = [1 ..< 9]"
proof (cases rule: evaluate_cases [of sv rq ps log clk c])
  case (denied k reason chain)
  then show ?thesis
    using denied_result_chain [OF denied(1)] by (simp add: Let_def del: upt_Suc upt_rec_numeral)
next
  case (hit esc rules chain cid out exp)
  then show ?thesis
    using hit_result_chain [OF run_checks_steps(2) [OF hit(1)]]
    by (simp add: Let_def del: upt_Suc upt_rec_numeral)
next
  case (fresh esc rules chain row5 c')
  have "map sr_step (chain @ [row5]) = [1 ..< 6]"
    using run_checks_steps(2) [OF fresh(1)] fresh(3) by (simp add: upt_rec)
  from fresh_result_chain [OF this] show ?thesis
    by (simp only: fresh(6))
qed

text \<open>
  Every evaluation records the eight steps, each exactly once and in order,
  whichever check refuses, whether the cache answers or not.
\<close>

theorem evaluate_eight_steps:
  "map sr_step (result_chain (fst (evaluate sv ps log clk rq c))) = [1, 2, 3, 4, 5, 6, 7, 8]"
  using evaluate_chain [of sv ps log clk rq c] by (simp add: upt_rec)



text \<open>
  A cached decision is reused. After an evaluation that cached its outcome, and after any
  insertions and pending marks made meanwhile under other keys, a second evaluation with the
  same cache key whose checks pass and whose look-up happens before the expiry returns the
  same outcome, attributed to the first decision, caches and persists nothing, and does so
  whatever the resolver would have said: an approval is asked for once per lifetime.
\<close>

theorem cached_decision_reused:
  assumes "result_cached (fst (evaluate sv ps log clk rq c)) = Some ref"
    and "\<forall>op \<in> set ops.
           cache_key_string (op_key op) \<noteq> cache_key_string (request_key sv ps rq)"
    and "c2 = fold cache.run_op ops (fst (snd (evaluate sv ps log clk rq c)))"
    and "cache_key_string (request_key sv2 ps rq2) = cache_key_string (request_key sv ps rq)"
    and "first_refusal sv2 rq2 = None"
    and "ec_lookup clk2 < cr_expires_at ref"
  shows "dr_outcome (fst (evaluate sv2 ps log clk2 rq2 c2)) =
           dr_outcome (fst (evaluate sv ps log clk rq c))
      \<and> result_source (fst (evaluate sv2 ps log clk2 rq2 c2)) =
           CacheHit (dr_decision_id (fst (evaluate sv ps log clk rq c)))
      \<and> result_cached (fst (evaluate sv2 ps log clk2 rq2 c2)) = None
      \<and> snd (snd (evaluate sv2 ps log clk2 rq2 c2)) = None"
proof -
  have "answer (ec_lookup clk2) (cache_key_string (request_key sv2 ps rq2)) c2 =
      Some (dr_decision_id (fst (evaluate sv ps log clk rq c)),
            dr_outcome (fst (evaluate sv ps log clk rq c)), cr_expires_at ref)"
    using cache.ans_other_keys [OF assms(2), where now = "ec_lookup clk2"
        and c = "fst (snd (evaluate sv ps log clk rq c))"]
      evaluate_cached(6) [OF assms(1,6)]
    by (simp add: assms(3,4))
  then show ?thesis
    using evaluate_answered assms(5) by blast
qed


text \<open>
  An evaluation that was neither refused nor answered from the cache and whose outcome is
  not cacheable leaves no entry under its key, not even the pending mark it installed, and
  leaves every other entry as it was, provided its decision id is not the id of an entry
  already in the cache (the id is made of the clock and the correlation id).
\<close>

theorem uncacheable_leaves_no_entry:
  assumes "cache_reachable t (c, G)"
    and "\<forall>k e. hget (dc_entries c) k = Some e \<longrightarrow>
           ce_decision_id e \<noteq> decision_id_for (ec_now clk) rq"
    and "first_refusal sv rq = None"
    and "answer (ec_lookup clk) (cache_key_string (request_key sv ps rq)) c = None"
    and "result_cached (fst (evaluate sv ps log clk rq c)) = None"
  shows "hget (dc_entries (fst (snd (evaluate sv ps log clk rq c)))) k =
    (if k = cache_key_string (request_key sv ps rq) then None else hget (dc_entries c) k)"
proof (cases rule: evaluate_cases [of sv rq ps log clk c])
  case (denied k reason chain)
  then show ?thesis using assms(3) run_checks_denied_iff [of sv rq k reason] by auto
next
  case hit
  then show ?thesis using assms(4) by simp
next
  case (fresh esc rules chain row5 c')
  have wf: "hwf (dc_entries c')"
    using cache_reachable_inv [OF assms(1)] fresh(5) by (simp add: cache_inv_def hwf_lookup)
  have ids: "\<forall>k e. hget (dc_entries c') k = Some e \<longrightarrow>
      ce_decision_id e \<noteq> decision_id_for (ec_now clk) rq"
    using assms(2) lookup_entries fresh(5) by blast
  show ?thesis
    using fresh_uncached [OF wf ids assms(5) [unfolded fresh(6)], of k] fresh(5)
    by (simp add: fresh(6) lookup_other_keys)
qed

text \<open>
  Invalidation by rule reaches what the rule decided. When an evaluation cached its outcome
  and the guardrail named rule \<open>rid\<close> among those that contributed, invalidating by \<open>rid\<close> leaves no
  entry under the key of the request, so nothing cached under it answers any more.
\<close>

theorem rule_invalidation_reaches:
  assumes "result_cached (fst (evaluate sv ps log clk rq c)) = Some ref"
    and "rid \<in> set (gr_rule_ids (sv_guardrail sv rq))"
  shows "hget (dc_entries (snd (invalidate_by_rule rid why who
           (fst (snd (evaluate sv ps log clk rq c)))))) (cache_key_string (request_key sv ps rq)) = None"
proof (cases rule: evaluate_cases [of sv rq ps log clk c])
  case (denied k reason chain)
  then show ?thesis
    using assms(1) by (simp add: Let_def build_denied_result_def result_defs)
next
  case (hit esc rules chain cid out exp)
  then show ?thesis
    using assms(1) by (simp add: Let_def evaluate_hit_def result_defs)
next
  case (fresh esc rules chain row5 c')
  have "rules = gr_rule_ids (sv_guardrail sv rq)"
    using run_checks_passed_iff [of sv rq esc rules] fresh(1) by blast
  then have "rid \<in> set (chain_rule_ids (chain @ [row5]))"
    using checks_rule_ids [OF fresh(1)] assms(2) by (simp add: chain_rule_ids_def)
  from fresh_rule_indexed [OF assms(1) [unfolded fresh(6)] this] show ?thesis
    by (auto simp: fresh(6) invalidate_by_rule_def remove_by_rule_id_entries)
qed

text \<open>
  Invalidation by scope removes nothing, whatever the cache, the scope and the kind filter:
  the middle piece of a key split at its first two colons has no colon, and every scope
  string has one. The operator's request to forget a scope always answers 0.
\<close>

theorem scope_invalidation_removes_nothing:
  "invalidate_by_scope scope_ref kind_filter why who c = (0, c)"
proof -
  have colon: "CHR '':'' \<in> set (scope_ref_string scope_ref)"
    by (cases scope_ref) simp_all
  have "\<not> scope_filter (scope_ref_string scope_ref) kind_filter k" for k
    using splitn_middle_no_sep [of 1 3 "CHR '':''" k] colon
    by (auto simp: scope_filter_def Let_def)
  then have "filter (scope_filter (scope_ref_string scope_ref) kind_filter) (map fst (dc_entries c)) = []"
    by (simp only: filter_empty_conv) blast
  then show ?thesis
    by (simp only: invalidate_by_scope_def remove_by_scope_def Let_def as_u32_def) simp
qed

text \<open>
  Under the policy table of the service, an entry an evaluation caches lives for the default
  lifetime of the kind's policy, at most its maximum and at most seven days, from the moment of
  the write; a policy that caches approvals only caches an allow; and plugin enablements,
  destructive actions and unlisted kinds are never cached.
\<close>

theorem default_lifetimes:
  assumes "result_cached (fst (evaluate sv default_policies log clk rq c)) = Some ref"
    and "ec_promote clk < 2 ^ 63"
  shows "cr_expires_at ref = ec_promote clk +
           1000 * dp_default_ttl_secs (resolve_policy default_policies (rq_kind rq))
      \<and> dp_default_ttl_secs (resolve_policy default_policies (rq_kind rq)) \<le>
           dp_max_ttl_secs (resolve_policy default_policies (rq_kind rq))
      \<and> dp_max_ttl_secs (resolve_policy default_policies (rq_kind rq)) \<le> 7 * 86400
      \<and> (dp_cache_policy (resolve_policy default_policies (rq_kind rq)) = AlwaysCache
          \<or> dr_outcome (fst (evaluate sv default_policies log clk rq c)) = Allowed)
      \<and> kind_tag_for (rq_kind rq) \<notin> {''plugin_enablement'', ''destructive_action''}
      \<and> (\<forall>s. rq_kind rq \<noteq> OtherKind s)"
proof -
  let ?p = "resolve_policy default_policies (rq_kind rq)"
  note cached = evaluate_cached [OF assms(1)]
  have table: "dp_default_ttl_secs ?p \<le> dp_max_ttl_secs ?p \<and> dp_max_ttl_secs ?p \<le> 7 * 86400"
    and kinds: "0 < dp_default_ttl_secs ?p \<longrightarrow>
      kind_tag_for (rq_kind rq) \<notin> {''plugin_enablement'', ''destructive_action''} \<and>
      (\<forall>s. rq_kind rq \<noteq> OtherKind s)"
    and pol: "dp_cache_policy ?p \<noteq> CacheIfDenied"
    by (cases "rq_kind rq"; auto simp: resolve_policy_def policy_key_def default_policies_def
          hget_def policy_def elim: effect_str.elims split: tool_effect.splits)+
  have "dp_default_ttl_secs ?p * 1000 < 2 ^ 62"
    using table by simp
  then have "expiry (ec_promote clk) (dp_default_ttl_secs ?p) =
      ec_promote clk + 1000 * dp_default_ttl_secs ?p"
    using assms(2) by (simp add: expiry_def wrap_mul64_exact wrap_add64_exact)
  then show ?thesis
    using cached(3,4,5) table kinds pol
    by (auto simp: should_cache_def split: cache_policy.splits)
qed

text \<open>
  Cache keys are told apart. When the kind tag has no colon and the identifiers in the scope
  have neither a colon nor a slash, two decision keys have the same cache key string only when
  they are the same key: no decision is served to another kind, scope or request.
\<close>

theorem cache_key_injective:
  assumes "CHR '':'' \<notin> set (dk_kind_tag k)" and "CHR '':'' \<notin> set (dk_kind_tag k')"
    and "plain_scope (dk_scope_ref k)" and "plain_scope (dk_scope_ref k')"
    and "cache_key_string k = cache_key_string k'"
  shows "k = k'"
proof -
  have e: "dk_kind_tag k @ CHR '':'' # (scope_ref_string (dk_scope_ref k) @ CHR '':'' # dk_semantic_hash k) =
      dk_kind_tag k' @ CHR '':'' # (scope_ref_string (dk_scope_ref k') @ CHR '':'' # dk_semantic_hash k')"
    using assms(5) by (simp add: cache_key_string_def)
  from cut_unique [OF e assms(1,2)] scope_string_cut [OF assms(3,4)] show ?thesis
    by (cases k; cases k') auto
qed

text \<open>
  Identifiers with a slash break the isolation of tenants. A decision cached for project
  \<open>p\<close> of workspace \<open>w\<close> of tenant \<open>t/x\<close> answers, until it expires, the same kind of request of
  project \<open>p\<close> of workspace \<open>x/w\<close> of the other tenant \<open>t\<close>, under every policy that caches per
  project: the two keys have the same string.
\<close>

theorem slash_crosses_tenants:
  assumes "result_cached (fst (evaluate sv ps log clk rq c)) = Some ref"
    and "dp_default_scope (resolve_policy ps (rq_kind rq)) = CacheProject"
    and "rq_scope rq = project_key_new (t @ ''/'' @ x) w p"
    and "rq_kind rq2 = rq_kind rq" and "rq_scope rq2 = project_key_new t (x @ ''/'' @ w) p"
    and "first_refusal sv rq2 = None"
    and "ec_lookup clk2 < cr_expires_at ref"
  shows "tenant_id (rq_scope rq2) \<noteq> tenant_id (rq_scope rq)
      \<and> result_source (fst (evaluate sv ps log clk2 rq2 (fst (snd (evaluate sv ps log clk rq c))))) =
          CacheHit (dr_decision_id (fst (evaluate sv ps log clk rq c)))"
proof -
  have "cache_key_string (request_key sv ps rq2) = cache_key_string (request_key sv ps rq)"
    using assms(2-5)
    by (simp add: cache_key_string_def request_key_def derive_scope_ref_def project_path_def
        project_key_new_def)
  then have "answer (ec_lookup clk2) (cache_key_string (request_key sv ps rq2))
        (fst (snd (evaluate sv ps log clk rq c))) =
      Some (dr_decision_id (fst (evaluate sv ps log clk rq c)),
            dr_outcome (fst (evaluate sv ps log clk rq c)), cr_expires_at ref)"
    using evaluate_cached(6) [OF assms(1,7)] by simp
  from evaluate_answered [OF assms(6) this] show ?thesis
    using assms(3,5) by (simp add: project_key_new_def)
qed

section \<open>Concrete evaluations\<close>

definition sample_services :: "unit services" where
  "sample_services = (allow_all_services (\<lambda>_. ''5f'') (\<lambda>_. None))
     \<lparr>sv_guardrail := \<lambda>_. \<lparr>gr_outcome = GuardEscalate, gr_rule_ids = [''r1'']\<rparr>\<rparr>"

definition sample_request :: "decision_kind \<Rightarrow> project_key \<Rightarrow> unit decision_request" where
  "sample_request kind p =
     \<lparr>rq_kind = kind, rq_principal = SystemPrincipal, rq_subject = Resource ''file'' ''f'',
      rq_scope = p, rq_cost_estimate = None, rq_requested_at = 1, rq_correlation_id = ''c1''\<rparr>"

definition sample_kind :: decision_kind where
  "sample_kind = ToolInvocationKind ''rm'' External"

definition sample_clock :: "u64 \<Rightarrow> eval_clock" where
  "sample_clock n = \<lparr>ec_now = n, ec_lookup = n, ec_pending = n, ec_promote = n, ec_decided = n\<rparr>"

lemmas sample_defs = sample_services_def sample_request_def sample_kind_def sample_clock_def
  allow_all_services_def project_key_new_def default_policies_def policy_def
  decision_cache_new_def

lemmas run_defs = evaluate_def evaluate_hit_def evaluate_fresh_def build_denied_result_def Let_def
  run_checks_def guardrail_gate_def budget_gate_def resolution_def cache_write_def
  persisted_event_def result_defs row_def request_key_def resolve_policy_def policy_key_def
  derive_scope_ref_def should_cache_def decision_id_for_def lookup_def install_pending_def
  promote_to_resolved_def index_rules_def insert_resolved_def store_event_def
  chain_rule_ids_def expiry_def wrap_add64_def wrap_mul64_def hget_def hput_def hdel_def
  hentry_def cache_key_string_def project_path_def verdict_word_def first_refusal_def
  refusal_defs show_nat.simps sample_defs

definition sample_project :: project_key where
  "sample_project = project_key_new ''t/x'' ''w'' ''p''"

definition sample_result ::
  "unit decision_result \<times> unit decision_cache \<times> decision_recorded_evt option" where
  "sample_result = evaluate sample_services default_policies True (sample_clock 5)
     (sample_request sample_kind sample_project) (decision_cache_new 60000)"

lemma sample_cached:
  "result_cached (fst sample_result) =
     Some \<lparr>cr_decision_key = request_key sample_services default_policies
             (sample_request sample_kind sample_project),
           cr_expires_at = 14400005\<rparr>"
  by (simp add: sample_result_def sample_project_def run_defs)

lemma sample_id: "dr_decision_id (fst sample_result) = ''dec_5_c1''"
  by (simp add: sample_result_def sample_project_def run_defs)

lemma sample_passes: "first_refusal sample_services rq = None"
  by (simp add: first_refusal_def refusal_defs sample_defs)

lemma sample_lookup: "ec_lookup (sample_clock n) = n" "ec_promote (sample_clock n) = n"
  by (simp_all add: sample_clock_def)

theorem cached_decision_reused_witness:
  "result_source (fst (evaluate sample_services default_policies True (sample_clock 9)
      (sample_request sample_kind sample_project) (fst (snd sample_result)))) = CacheHit ''dec_5_c1''"
  using cached_decision_reused [OF sample_cached [unfolded sample_result_def],
      where ops = "[]" and ?clk2.0 = "sample_clock 9" and ?sv2.0 = sample_services
        and ?rq2.0 = "sample_request sample_kind sample_project"]
    sample_passes sample_id
  by (simp add: sample_lookup sample_result_def)

theorem rule_invalidation_reaches_witness:
  "hget (dc_entries (snd (invalidate_by_rule ''r1'' ''why'' SystemPolicyChange (fst (snd sample_result)))))
     (cache_key_string (request_key sample_services default_policies
        (sample_request sample_kind sample_project))) = None"
  unfolding sample_result_def
  by (rule rule_invalidation_reaches [OF sample_cached [unfolded sample_result_def]])
    (simp add: sample_defs)

theorem default_lifetimes_witness:
  "(14400005 :: nat) = 5 + 1000 * dp_default_ttl_secs (resolve_policy default_policies sample_kind)"
  using default_lifetimes [OF sample_cached [unfolded sample_result_def]]
  by (simp add: sample_lookup) (simp add: sample_request_def)

theorem slash_crosses_tenants_witness:
  "result_source (fst (evaluate sample_services default_policies True (sample_clock 9)
      (sample_request sample_kind (project_key_new ''t'' ''x/w'' ''p'')) (fst (snd sample_result)))) =
     CacheHit ''dec_5_c1''"
proof -
  have "dp_default_scope (resolve_policy default_policies (rq_kind
      (sample_request sample_kind sample_project))) = CacheProject"
    by (simp add: run_defs)
  from slash_crosses_tenants [OF sample_cached [unfolded sample_result_def] this,
      of "''t''" "''x''" "''w''" "''p''" "sample_request sample_kind (project_key_new ''t'' ''x/w'' ''p'')"
        "sample_clock 9"]
  show ?thesis
    using sample_passes sample_id
    by (simp add: sample_lookup sample_request_def sample_project_def sample_result_def)
qed

theorem cache_key_injective_witness:
  "request_key sample_services default_policies (sample_request sample_kind sample_project) =
   \<lparr>dk_kind_tag = ''tool_invocation'',
    dk_scope_ref = ProjectScope sample_project, dk_semantic_hash = ''5f''\<rparr>
   \<and> \<lparr>dk_kind_tag = ''k'', dk_scope_ref = TenantScope ''t'', dk_semantic_hash = ''h''\<rparr> =
     \<lparr>dk_kind_tag = ''k'', dk_scope_ref = TenantScope ''t'', dk_semantic_hash = ''h''\<rparr>"
  using cache_key_injective [of "\<lparr>dk_kind_tag = ''k'', dk_scope_ref = TenantScope ''t'', dk_semantic_hash = ''h''\<rparr>"
      "\<lparr>dk_kind_tag = ''k'', dk_scope_ref = TenantScope ''t'', dk_semantic_hash = ''h''\<rparr>"]
  by (simp add: run_defs plain_def)

theorem uncacheable_leaves_no_entry_witness:
  "hget (dc_entries (fst (snd (evaluate sample_services default_policies True (sample_clock 5)
     (sample_request (OtherKind ''x'') sample_project) (decision_cache_new 60000)))))
     (cache_key_string (request_key sample_services default_policies
        (sample_request (OtherKind ''x'') sample_project))) = None"
proof -
  let ?rq = "sample_request (OtherKind ''x'') sample_project"
  have 1: "result_cached (fst (evaluate sample_services default_policies True (sample_clock 5) ?rq
      (decision_cache_new 60000))) = None"
    by (simp add: run_defs remove_by_decision_id_def)
  show ?thesis
    using uncacheable_leaves_no_entry [OF reach_new _ _ _ 1] sample_passes
    by (simp add: decision_cache_new_def answer_def)
qed


end
