(* ===== verification/Startup_Laws.thy ===== *)
theory Startup_Laws
  imports Startup Store_Invariants Decision_Laws
begin

text \<open>
  What a restart preserves and what it loses. The replays are folds over the whole log
  (\<open>log.paged_fold_all\<close>); the decision cache after one holds, for each key, the last record of
  the log under that key that is still alive, and nothing else.
\<close>

section \<open>The records of a log\<close>

fun decision_record :: "'j runtime_event \<Rightarrow> decision_recorded_evt option" where
  "decision_record (DecisionRecorded rec) = Some rec"
| "decision_record _ = None"

definition decision_records :: "'j stored_event list \<Rightarrow> decision_recorded_evt list" where
  "decision_records es = List.map_filter (\<lambda>ev. decision_record (ev_payload (se_envelope ev))) es"

definition live_records :: "u64 \<Rightarrow> 'j stored_event list \<Rightarrow> decision_recorded_evt list" where
  "live_records now es =
     filter (\<lambda>r. de_cached r \<and> now < de_expires_at r) (decision_records es)"

definition dead_records :: "u64 \<Rightarrow> 'j stored_event list \<Rightarrow> decision_recorded_evt list" where
  "dead_records now es =
     filter (\<lambda>r. de_cached r \<and> de_expires_at r \<le> now) (decision_records es)"

definition record_key :: "decision_recorded_evt \<Rightarrow> string" where
  "record_key r = cache_key_string (de_decision_key r)"

definition record_entry :: "decision_recorded_evt \<Rightarrow> cache_entry" where
  "record_entry r =
     \<lparr>ce_decision_id = de_decision_id r, ce_outcome = Some (de_outcome r),
      ce_expires_at = de_expires_at r, ce_created_at = de_decided_at r, ce_hit_count = 0,
      ce_is_pending = False\<rparr>"

definition seed_record :: "(string \<Rightarrow> 'd decision_event option) \<Rightarrow> decision_recorded_evt \<Rightarrow>
    'd decision_cache \<Rightarrow> 'd decision_cache" where
  "seed_record decode r =
     seed_cache_entry (de_decision_id r) (de_decision_key r) (de_outcome r) (de_expires_at r)
       (de_decided_at r) (decode (de_event_json r))"

lemma records_Cons:
  "decision_records (ev # es) =
     (case decision_record (ev_payload (se_envelope ev)) of
        None \<Rightarrow> decision_records es | Some r \<Rightarrow> r # decision_records es)"
  by (simp add: decision_records_def map_filter_simps split: option.split)

lemma records_append: "decision_records (es @ es') = decision_records es @ decision_records es'"
  by (simp add: decision_records_def map_filter_def)

lemma live_append: "live_records now (es @ es') = live_records now es @ live_records now es'"
  by (simp add: live_records_def records_append)

lemma replay_stored_record:
  "replay_stored decode now ev acc =
     (case decision_record (ev_payload (se_envelope ev)) of
        None \<Rightarrow> acc | Some r \<Rightarrow> replay_record decode now r acc)"
  by (cases "ev_payload (se_envelope ev)") (simp_all add: replay_stored_def)

lemma replay_fold:
  assumes "rp_restored rep \<le> u32_max" and "rp_expired rep \<le> u32_max"
  shows "fold (replay_stored decode now) es (rep, c) =
    (\<lparr>rp_restored = min u32_max (rp_restored rep + length (live_records now es)),
      rp_expired = min u32_max (rp_expired rep + length (dead_records now es))\<rparr>,
     fold (seed_record decode) (live_records now es) c)"
  using assms
proof (induction es arbitrary: rep c)
  case Nil
  then show ?case
    by (simp add: live_records_def dead_records_def decision_records_def map_filter_simps min_def)
next
  case (Cons ev es)
  show ?case
  proof (cases "decision_record (ev_payload (se_envelope ev))")
    case None
    then show ?thesis
      using Cons.IH [OF Cons.prems]
      by (simp add: replay_stored_record [of _ _ ev] live_records_def dead_records_def records_Cons)
  next
    case (Some r)
    have le: "sat_add32 n 1 \<le> u32_max" for n by (simp add: sat_add32_def)
    have min_le: "min u32_max (sat_add32 a 1 + n) = min u32_max (Suc (a + n))" for a n
      by (auto simp: sat_add32_def)
    have step: "replay_stored decode now ev (rep, c) = replay_record decode now r (rep, c)"
      by (simp add: replay_stored_record Some)
    consider "\<not> de_cached r" | "de_cached r" "de_expires_at r \<le> now"
      | "de_cached r" "now < de_expires_at r" by linarith
    then show ?thesis
    proof cases
      case 1
      then show ?thesis
        using Cons.IH [OF Cons.prems]
        by (simp add: step replay_record_def live_records_def dead_records_def records_Cons Some)
    next
      case 2
      then show ?thesis
        using Cons.IH [of "rep\<lparr>rp_expired := sat_add32 (rp_expired rep) 1\<rparr>" c] Cons.prems le min_le
        by (simp add: step replay_record_def live_records_def dead_records_def records_Cons Some)
    next
      case 3
      then show ?thesis
        using Cons.IH [of "rep\<lparr>rp_restored := sat_add32 (rp_restored rep) 1\<rparr>" "seed_record decode r c"]
          Cons.prems le min_le
        by (simp add: step replay_record_def live_records_def dead_records_def records_Cons Some
            seed_record_def [of decode r, symmetric])
    qed
  qed
qed

lemma seed_record_entries:
  "dc_entries (seed_record decode r c) = hput (record_key r) (record_entry r) (dc_entries c)"
  "dc_rule_index (seed_record decode r c) = dc_rule_index c"
  by (simp_all add: seed_record_def seed_cache_entry_def insert_resolved_def record_key_def
      record_entry_def store_event_def Let_def split: option.split)

lemma seeded_entries:
  "hget (dc_entries (fold (seed_record decode) rs c)) ck =
     (case find (\<lambda>r. record_key r = ck) (rev rs) of
        Some r \<Rightarrow> Some (record_entry r) | None \<Rightarrow> hget (dc_entries c) ck)"
proof (induction rs rule: rev_induct)
  case Nil
  then show ?case by simp
next
  case (snoc r rs)
  then show ?case by (simp add: seed_record_entries hmap_simps)
qed

lemma seeded_rules: "dc_rule_index (fold (seed_record decode) rs c) = dc_rule_index c"
  by (induction rs arbitrary: c) (simp_all add: seed_record_entries)

text \<open>The replay of the decision cache, as a function of the log.\<close>

lemma replay_decisions:
  assumes "log_in_range s" and "length (s_events s) < fuel"
  obtains counter' s' where
    "replay_decision_cache decode fuel now ts at trace_id secondary counter s c =
       Some (\<lparr>rp_restored = min u32_max (length (live_records now (s_events s))),
              rp_expired = min u32_max (length (dead_records now (s_events s)))\<rparr>,
             fold (seed_record decode) (live_records now (s_events s)) c, counter', s')"
    and "s' = snd (append_events at secondary
       [fst (make_envelope ts trace_id counter
          (DecisionCacheWarmup
             \<lparr>cw_cached = min u32_max (length (live_records now (s_events s))),
              cw_expired_and_dropped = min u32_max (length (dead_records now (s_events s))),
              cw_warmed_at = now\<rparr>))] s)"
  using log.paged_fold_all [OF assms(1), of 500 fuel "replay_stored decode now"
      "(\<lparr>rp_restored = 0, rp_expired = 0\<rparr>, c)"] assms(2)
  by (simp add: replay_decision_cache_def replay_fold case_prod_beta Let_def)

text \<open>What a fresh evaluation persists is what it answered and cached.\<close>

lemma evaluate_persisted:
  assumes "evaluate sv ps True clk rq c = (res, c1, Some evt)"
  shows "de_cached evt \<and> record_key evt = cache_key_string (request_key sv ps rq) \<and>
    de_decision_id evt = dr_decision_id res \<and> de_outcome evt = dr_outcome res"
proof (cases rule: evaluate_cases [of sv rq ps True clk c])
  case (fresh esc rules chain row5 c')
  show ?thesis
    by (rule fresh_cases [of sv esc rq "resolve_policy ps (rq_kind rq)" clk "request_key sv ps rq"
          "decision_id_for (ec_now clk) rq" "chain @ [row5]" rules c' True])
      (use assms fresh(6) in \<open>auto simp: persisted_event_def result_of_def record_key_def\<close>)
qed (use assms in \<open>simp_all add: Let_def\<close>)

text \<open>An entry seeded by the replay answers until it expires.\<close>

lemma seeded_answer:
  assumes "find (\<lambda>r. record_key r = ck) (rev rs) = Some r" and "later < de_expires_at r"
  shows "answer later ck (fold (seed_record decode) rs c) =
    Some (de_decision_id r, de_outcome r, de_expires_at r)"
  using assms by (simp add: answer_def seeded_entries record_entry_def)

lemma last_live_record:
  assumes "es = before @ ev # after" and "ev_payload (se_envelope ev) = DecisionRecorded evt"
    and "\<forall>r \<in> set (decision_records after). record_key r \<noteq> record_key evt"
    and "de_cached evt" and "now < de_expires_at evt"
  shows "find (\<lambda>r. record_key r = record_key evt) (rev (live_records now es)) = Some evt"
proof -
  have "\<forall>r \<in> set (live_records now after). record_key r \<noteq> record_key evt"
    using assms(3) by (simp add: live_records_def)
  then have "find (\<lambda>r. record_key r = record_key evt) (rev (live_records now after)) = None"
    by (simp add: find_None_iff)
  moreover have "live_records now (ev # after) = evt # live_records now after"
    using assms(2,4,5) by (simp add: live_records_def records_Cons)
  ultimately show ?thesis by (simp add: assms(1) live_append find_append)
qed

section \<open>Tool results\<close>

fun tool_result :: "'j runtime_event \<Rightarrow> 'j cached_tool_result option" where
  "tool_result (ToolInvocationCompleted e) =
     (case (tic_tool_call_id e, tic_result_json e) of
        (Some i, Some result) \<Rightarrow>
          Some \<lparr>ctr_tool_call_id = i, ctr_tool_name = tic_tool_name e, ctr_result_json = result,
                ctr_completed_at = tic_finished_at_ms e\<rparr>
      | _ \<Rightarrow> None)"
| "tool_result _ = None"

definition tool_results :: "'j stored_event list \<Rightarrow> 'j cached_tool_result list" where
  "tool_results es = List.map_filter (\<lambda>ev. tool_result (ev_payload (se_envelope ev))) es"

lemma replay_tool_result_step:
  "replay_tool_result ev (n, c) =
     (case tool_result (ev_payload (se_envelope ev)) of
        None \<Rightarrow> (n, c)
      | Some r \<Rightarrow> (n + 1, hput (ctr_tool_call_id r) r c))"
  by (cases "ev_payload (se_envelope ev)")
    (simp_all add: replay_tool_result_def insert_raw_def split: option.split)

lemma tool_results_fold:
  "fold replay_tool_result es (n, c) =
     (n + length (tool_results es), fold (\<lambda>r. hput (ctr_tool_call_id r) r) (tool_results es) c)"
proof (induction es arbitrary: n c)
  case Nil
  then show ?case by (simp add: tool_results_def map_filter_simps)
next
  case (Cons ev es)
  then show ?case
    by (simp add: replay_tool_result_step tool_results_def map_filter_simps split: option.split)
qed

lemma get_folded_result:
  "get_result i (fold (\<lambda>r. hput (ctr_tool_call_id r) r) rs c) =
     (case find (\<lambda>r. ctr_tool_call_id r = i) (rev rs) of
        Some r \<Rightarrow> Some r | None \<Rightarrow> get_result i c)"
  by (induction rs rule: rev_induct) (simp_all add: get_result_def hmap_simps)

section \<open>The store\<close>

text \<open>
  A run of the store is a list of events, each with the clock reading of its append. Two runs
  of the same events at different readings stay in step: they panic together, and the
  invocation rows and the states of sessions, runs and tasks are the same after every event.
\<close>

fun run_turns :: "(u64 \<times> 'j event_envelope) list \<Rightarrow> 'j store \<Rightarrow> 'j store option" where
  "run_turns [] s = Some s"
| "run_turns (x # xs) s =
     (if apply_projection (fst (push_event (fst x) (snd x) s)) (snd (push_event (fst x) (snd x) s)) = None
      then None else run_turns xs (turn (fst x) (snd x) s))"

lemma run_turns_append: "run_turns (xs @ ys) s = Option.bind (run_turns xs s) (run_turns ys)"
  by (induction xs arbitrary: s) simp_all

lemma append_loop_turns:
  "(case run_turns (map (Pair now) envs) s of
      None \<Rightarrow> fst (append_loop now envs ps s) = Panicked
    | Some s' \<Rightarrow> \<exists>qs. append_loop now envs ps s = (Appended qs, s'))"
proof (induction envs arbitrary: ps s)
  case Nil
  then show ?case by simp
next
  case (Cons env envs)
  show ?case
    using Cons.IH [where s = "turn now env s"]
    by (cases "run_turns (map (Pair now) envs) (turn now env s)") (auto simp: append_loop_Cons)
qed

definition same_states :: "'j store \<Rightarrow> 'j store \<Rightarrow> bool" where
  "same_states s s' \<longleftrightarrow> s_tool_invocations s = s_tool_invocations s' \<and>
     (\<forall>i. map_option sess_state (session_get i s) = map_option sess_state (session_get i s') \<and>
          map_option run_state (run_get i s) = map_option run_state (run_get i s') \<and>
          map_option task_state (task_get i s) = map_option task_state (task_get i s'))"

fun invocation_event :: "'j runtime_event \<Rightarrow> (string, tool_invocation_record) hmap \<Rightarrow>
    (string, tool_invocation_record) hmap option" where
  "invocation_event (ToolInvocationStarted e) m =
     map_option s_tool_invocations
       (apply_tool_invocation_started e (store_new\<lparr>s_tool_invocations := m\<rparr> :: unit store))"
| "invocation_event (ToolInvocationCompleted e) m =
     map_option s_tool_invocations
       (finish_invocation (tic_invocation_id e) (tic_outcome e) None (tic_finished_at_ms e)
         (store_new\<lparr>s_tool_invocations := m\<rparr> :: unit store))"
| "invocation_event (ToolInvocationFailed e) m =
     map_option s_tool_invocations
       (apply_tool_invocation_failed e (store_new\<lparr>s_tool_invocations := m\<rparr> :: unit store))"
| "invocation_event _ m = Some m"

lemma projection_invocations:
  "map_option s_tool_invocations (apply_projection ev s) =
     invocation_event (ev_payload (se_envelope ev)) (s_tool_invocations s)"
proof (cases "apply_projection ev s")
  case None
  then show ?thesis
    using projection_panics [OF None]
    by (auto simp: apply_projection_def invocation_arms Let_def split: option.splits sum.splits if_splits)
next
  case (Some s')
  show ?thesis
  proof (cases "ev_payload (se_envelope ev)")
    case (ToolInvocationStarted e)
    then show ?thesis
      by (simp add: apply_projection_def apply_tool_invocation_started_def Let_def split: sum.split)
  next
    case (ToolInvocationCompleted e)
    then show ?thesis
      by (simp add: apply_projection_def apply_tool_invocation_completed_def finish_invocation_def
          split: sum.split option.split)
  next
    case (ToolInvocationFailed e)
    then show ?thesis
      by (simp add: apply_projection_def apply_tool_invocation_failed_def finish_invocation_def
          split: sum.split option.split)
  qed (use invocations_frame [OF Some] Some in simp_all)
qed

lemma turn_invocations:
  "apply_projection (fst (push_event now env s)) (snd (push_event now env s)) = None \<longleftrightarrow>
     invocation_event (ev_payload env) (s_tool_invocations s) = None"
  "apply_projection (fst (push_event now env s)) (snd (push_event now env s)) \<noteq> None \<Longrightarrow>
     Some (s_tool_invocations (turn now env s)) =
       invocation_event (ev_payload env) (s_tool_invocations s)"
proof -
  have eq: "map_option s_tool_invocations
      (apply_projection (fst (push_event now env s)) (snd (push_event now env s))) =
      invocation_event (ev_payload env) (s_tool_invocations s)"
    by (simp only: projection_invocations push_event_stored push_event_frame)
  then show "apply_projection (fst (push_event now env s)) (snd (push_event now env s)) = None \<longleftrightarrow>
     invocation_event (ev_payload env) (s_tool_invocations s) = None"
    by (metis map_option_is_None)
  assume "apply_projection (fst (push_event now env s)) (snd (push_event now env s)) \<noteq> None"
  then show "Some (s_tool_invocations (turn now env s)) =
       invocation_event (ev_payload env) (s_tool_invocations s)"
    using eq by (auto simp: turn_def case_prod_beta Let_def)
qed

lemma same_states_turn:
  assumes "same_states s s'"
  shows "same_states (turn now env s) (turn now' env s') \<or>
      apply_projection (fst (push_event now env s)) (snd (push_event now env s)) = None"
    and "apply_projection (fst (push_event now env s)) (snd (push_event now env s)) = None \<longleftrightarrow>
      apply_projection (fst (push_event now' env s')) (snd (push_event now' env s')) = None"
proof -
  show iff: "apply_projection (fst (push_event now env s)) (snd (push_event now env s)) = None \<longleftrightarrow>
      apply_projection (fst (push_event now' env s')) (snd (push_event now' env s')) = None"
    using assms by (simp add: turn_invocations(1) same_states_def)
  show "same_states (turn now env s) (turn now' env s') \<or>
      apply_projection (fst (push_event now env s)) (snd (push_event now env s)) = None"
  proof (rule disjCI)
    assume ok: "apply_projection (fst (push_event now env s)) (snd (push_event now env s)) \<noteq> None"
    have "Some (s_tool_invocations (turn now env s)) = Some (s_tool_invocations (turn now' env s'))"
      using assms turn_invocations(2) [OF ok] turn_invocations(2) [OF ok [unfolded iff]]
      by (simp add: same_states_def)
    then show "same_states (turn now env s) (turn now' env s')"
      using assms by (simp add: same_states_def turn_states)
  qed
qed

lemma run_turns_sim:
  assumes "same_states s s'" and "map snd xs = map snd ys"
  shows "rel_option same_states (run_turns xs s) (run_turns ys s')"
  using assms
proof (induction xs arbitrary: ys s s')
  case Nil
  then show ?case by simp
next
  case (Cons x xs)
  obtain y ys' where ys: "ys = y # ys'" "snd y = snd x" "map snd xs = map snd ys'"
    using Cons.prems(2) by (cases ys) auto
  note sim = same_states_turn [OF Cons.prems(1), of "fst x" "snd x" "fst y"]
  show ?case
  proof (cases "apply_projection (fst (push_event (fst x) (snd x) s)) (snd (push_event (fst x) (snd x) s)) = None")
    case True
    then show ?thesis using sim(2) by (simp add: ys(1,2))
  next
    case False
    then have "same_states (turn (fst x) (snd x) s) (turn (fst y) (snd x) s')" using sim(1) by metis
    from Cons.IH [OF this ys(3)] show ?thesis using False sim(2) by (auto simp: ys(1,2))
  qed
qed

end
