(* ===== verification/Store_Correctness.thy ===== *)
theory Store_Correctness
  imports Store_Invariants "HOL-Library.Multiset"
begin

text \<open>
  The properties of the event store: the log and its readers, the tables as functions of the
  log, the rows that must stay consistent, and the events whose effects differ. The witnesses
  run the properties on small stores built by \<open>append_events\<close> from the sample events below.
\<close>

section \<open>Sample events\<close>

definition demo_project :: project_key where
  "demo_project = \<lparr>tenant_id = ''t'', workspace_id = ''w'', project_id = ''p''\<rparr>"

definition sample_envelope :: "string \<Rightarrow> string option \<Rightarrow> 'j runtime_event \<Rightarrow> 'j event_envelope" where
  "sample_envelope i cause payload =
     (event_envelope_new i RuntimeSource (OwnProject demo_project) payload)
       \<lparr>ev_causation_id := cause\<rparr>"

definition sample_session_created :: session_created where
  "sample_session_created = \<lparr>sc_project = demo_project, sc_session_id = ''s''\<rparr>"

definition sample_run_created :: run_created where
  "sample_run_created =
     \<lparr>rc_project = demo_project, rc_session_id = ''s'', rc_run_id = ''r'',
      rc_parent_run_id = None, rc_prompt_release_id = None, rc_agent_role_id = None\<rparr>"

definition sample_run_started :: run_state_changed where
  "sample_run_started =
     \<lparr>rsc_project = demo_project, rsc_run_id = ''r'',
      rsc_transition = \<lparr>st_from = Some run_state.Pending, st_to = run_state.Running\<rparr>,
      rsc_failure_class = None, rsc_pause_reason = None, rsc_resume_trigger = None\<rparr>"

definition sample_call :: provider_call_completed where
  "sample_call =
     \<lparr>pc_project = demo_project, pc_provider_call_id = ''k'', pc_route_decision_id = ''d'',
      pc_route_attempt_id = ''a'', pc_provider_binding_id = ''b'',
      pc_provider_connection_id = ''n'', pc_provider_model_id = ''m'',
      pc_operation_kind = Generate, pc_status = Succeeded, pc_latency_ms = Some 7,
      pc_input_tokens = Some 10, pc_output_tokens = Some 20, pc_cost_micros = Some 30,
      pc_completed_at = 5, pc_session_id = None, pc_run_id = Some ''r'', pc_error_class = None,
      pc_raw_error_message = None, pc_retry_count = 0, pc_task_id = None,
      pc_prompt_release_id = None, pc_fallback_position = 0, pc_started_at = 1,
      pc_finished_at = 4\<rparr>"

definition sample_session :: "nat event_envelope" where
  "sample_session = sample_envelope ''e1'' (Some ''c1'') (SessionCreated sample_session_created)"

definition sample_run :: "nat event_envelope" where
  "sample_run = sample_envelope ''e2'' (Some ''c1'') (RunCreated sample_run_created)"

definition sample_running :: "nat event_envelope" where
  "sample_running = sample_envelope ''e3'' None (RunStateChanged sample_run_started)"

definition sample_called :: "nat event_envelope" where
  "sample_called = sample_envelope ''e4'' None (ProviderCallCompleted sample_call)"

definition sample_envelopes :: "nat event_envelope list" where
  "sample_envelopes = [sample_session, sample_run, sample_running, sample_called]"

definition sample_store :: "nat store" where
  "sample_store = snd (append_events 100 None sample_envelopes store_new)"

lemma sample_store_reachable: "store_reachable sample_store"
  unfolding sample_store_def by (rule reach_append [OF reach_empty])

lemma demo_project_sel:
  "tenant_id demo_project = ''t''" "workspace_id demo_project = ''w''"
  "project_id demo_project = ''p''"
  by (simp_all add: demo_project_def)

lemma sample_payload_sel:
  "sc_project sample_session_created = demo_project"
  "sc_session_id sample_session_created = ''s''"
  "rc_project sample_run_created = demo_project" "rc_session_id sample_run_created = ''s''"
  "rc_run_id sample_run_created = ''r''"
  "rsc_project sample_run_started = demo_project" "rsc_run_id sample_run_started = ''r''"
  "st_to (rsc_transition sample_run_started) = run_state.Running"
  by (simp_all add: sample_session_created_def sample_run_created_def sample_run_started_def)

lemma sample_call_sel:
  "pc_project sample_call = demo_project" "pc_provider_call_id sample_call = ''k''"
  "pc_cost_micros sample_call = Some 30" "pc_input_tokens sample_call = Some 10"
  "pc_output_tokens sample_call = Some 20" "pc_session_id sample_call = None"
  "pc_run_id sample_call = Some ''r''"
  by (simp_all add: sample_call_def)

lemma sample_envelope_sel:
  "ev_payload (sample_envelope i c p) = p" "ev_causation_id (sample_envelope i c p) = c"
  "ev_event_id (sample_envelope i c p) = i"
  by (simp_all add: sample_envelope_def event_envelope_new_def)

lemmas sample_sel = demo_project_sel sample_payload_sel sample_call_sel sample_envelope_sel
  sample_session_def sample_run_def sample_running_def sample_called_def

lemmas run_store = append_events_def append_loop_Cons turn_def push_event_def count_event_def
  increment_usage_for_project_def apply_projection_def arms wrap_add64_def hmap_simps
  hget_def hput_def hentry_def hmodify_def hmap_values_def bump_def Let_def store_new_def
  default_usage_counters_def envelope_project_def task_changed_def or_zero_def
  add_run_cost_def add_session_cost_def add_project_cost_def add_workspace_cost_def
  run_cost_zero_def session_cost_zero_def project_cost_zero_def workspace_cost_zero_def
  charge_budget_def event_envelope_new_def
  sat_add64_def sat_add32_def u64_max_def u32_max_def

lemma sample_store_run:
  "fst (append_events 100 None sample_envelopes store_new) = Appended [1, 2, 3, 4]"
  "map se_position (s_events sample_store) = [1, 2, 3, 4, 5, 6]"
  by (simp_all add: sample_store_def sample_envelopes_def sample_sel run_store cong: let_weak_cong)

section \<open>Properties\<close>

text \<open>
  C9: The log is append-only and its positions are 1, 2, 3 and so on without a gap. An append,
  whatever events it carries and however it ends, keeps every earlier event in place; when it
  succeeds it returns one position per event, strictly increasing and past the old end, and
  the event at each returned position is the one that was passed, derived events
  notwithstanding.
\<close>

theorem append_positions:
  assumes "store_reachable s" and "append_events now secondary envs s = (r, s')"
    and "length (s_events s') < 2 ^ 64 - 1"
  shows "take (length (s_events s)) (s_events s') = s_events s
      \<and> map se_position (s_events s') = [1 ..< Suc (length (s_events s'))]
      \<and> (\<forall>qs. r = Appended qs \<longrightarrow>
           sorted_wrt (<) qs \<and> length qs = length envs \<and>
           (\<forall>i < length envs. length (s_events s) < qs ! i \<and>
              se_position (s_events s' ! (qs ! i - 1)) = qs ! i \<and>
              se_envelope (s_events s' ! (qs ! i - 1)) = envs ! i))"
proof -
  obtain new where new: "s_events s' = s_events s @ new"
    and ok: "\<forall>qs. r = Appended qs \<longrightarrow>
       (\<exists>es. subseq es new \<and> map se_envelope es = envs \<and> qs = map se_position es)"
    using append_events_grows [OF assms(2)] by blast
  have "s' = snd (append_events now secondary envs s)" by (simp add: assms(2))
  then have "store_reachable s'" using reach_append [OF assms(1)] by simp
  then have pos: "map se_position (s_events s') = [1 ..< Suc (length (s_events s'))]"
    using positions_exact [OF reachable_positions assms(3)] by blast
  have at: "se_position (s_events s' ! k) = Suc k" if "k < length (s_events s')" for k
  proof -
    have "se_position (s_events s' ! k) = map se_position (s_events s') ! k" using that by simp
    then show ?thesis using that by (simp add: pos del: upt_Suc)
  qed
  have "sorted_wrt (<) qs \<and> length qs = length envs \<and>
      (\<forall>i < length envs. length (s_events s) < qs ! i \<and>
         se_position (s_events s' ! (qs ! i - 1)) = qs ! i \<and>
         se_envelope (s_events s' ! (qs ! i - 1)) = envs ! i)" if "r = Appended qs" for qs
  proof -
    have "\<exists>es. subseq es new \<and> map se_envelope es = envs \<and> qs = map se_position es"
      by (rule ok [rule_format, OF that])
    then obtain es where es: "subseq es new" "map se_envelope es = envs" "qs = map se_position es"
      by (elim exE conjE)
    have "sorted_wrt (<) (map se_position (s_events s) @ map se_position new)"
      using pos sorted_wrt_upt [of 1 "Suc (length (s_events s'))"] by (simp only: new map_append)
    then have sorted: "sorted_wrt (<) qs"
      using sorted_wrt_subseq [OF es(1)] by (simp add: es(3) sorted_wrt_append sorted_wrt_map)
    have "length (s_events s) < qs ! i \<and> se_position (s_events s' ! (qs ! i - 1)) = qs ! i \<and>
        se_envelope (s_events s' ! (qs ! i - 1)) = envs ! i" if i: "i < length envs" for i
    proof -
      have "length es = length envs" using es(2) by auto
      then have "es ! i \<in> set new"
        using subseq_set [OF es(1)] i by simp
      then obtain k where k: "k < length new" "new ! k = es ! i"
        by (auto simp: in_set_conv_nth)
      let ?k = "length (s_events s) + k"
      have nth: "s_events s' ! ?k = es ! i" and lt: "?k < length (s_events s')"
        using k by (simp_all add: new nth_append)
      have q: "qs ! i = Suc ?k"
        using at [OF lt] nth es(2,3) i by auto
      show ?thesis
        using at [OF lt] nth es(2) i by (auto simp: q)
    qed
    then show ?thesis using sorted es(2,3) by auto
  qed
  then show ?thesis using new pos by simp
qed

theorem append_positions_witness:
  "map se_position (s_events sample_store) = [1 ..< Suc (length (s_events sample_store))] \<and>
   se_envelope (s_events sample_store ! 3) = sample_called"
proof -
  have run: "append_events 100 None sample_envelopes store_new = (Appended [1, 2, 3, 4], sample_store)"
    by (rule prod_eqI) (simp_all only: sample_store_run sample_store_def fst_conv snd_conv)
  have len: "length (s_events sample_store) = 6"
    using arg_cong [OF sample_store_run(2), of length] by simp
  have range: "length (s_events sample_store) < 2 ^ 64 - 1" by (simp add: len)
  note a = append_positions [OF reach_empty run range]
  then have "3 < length sample_envelopes \<longrightarrow>
      se_envelope (s_events sample_store ! ([1, 2, 3, 4] ! 3 - 1)) = sample_envelopes ! 3"
    by blast
  then show ?thesis using a by (simp add: sample_envelopes_def del: upt_Suc)
qed

text \<open>
  C22: Reading the log page by page is reading the log. The loop that asks for a page after the
  last position it saw, and stops at an empty or a short page, handles every event of the log
  exactly once and in order, whatever the page size, and ends within as many pages as the log
  has events and one more.
\<close>

theorem paged_read_complete:
  assumes "store_reachable s" and "length (s_events s) < 2 ^ 64 - 1"
    and "0 < n" and "length (s_events s) < fuel"
  shows "paged_fold (\<lambda>after k. read_stream after k s) se_position handle n fuel None acc =
    Some (fold handle (s_events s) acc)"
  by (rule log.paged_fold_all) (use assms in \<open>simp_all add: log_in_range_def\<close>)

theorem paged_read_complete_witness:
  "paged_fold (\<lambda>after k. read_stream after k sample_store) se_position
     (\<lambda>e ps. ps @ [se_position e]) 4 7 None [] = Some [1, 2, 3, 4, 5, 6]"
proof -
  have len: "length (s_events sample_store) = 6"
    using arg_cong [OF sample_store_run(2), of length] by simp
  have "fold (\<lambda>e ps. ps @ [se_position e]) es acc = acc @ map se_position es"
    for es :: "nat stored_event list" and acc
    by (induction es arbitrary: acc) simp_all
  then show ?thesis
    using paged_read_complete [OF sample_store_reachable, of 4 7 "\<lambda>e ps. ps @ [se_position e]" "[]"]
    by (simp add: len sample_store_run)
qed

text \<open>
  The causation index answers what a search of the whole log would: the position of the
  first event a command caused, and nothing when no event carries that causation id. A second
  event with the same causation id never moves the entry, which is what makes a retried
  command find the event of its first attempt.
\<close>

theorem causation_index_first:
  assumes "store_reachable s"
  shows "find_by_causation_id c s =
    map_option se_position (find (\<lambda>e. ev_causation_id (se_envelope e) = Some c) (s_events s))"
  using reachable_index [OF assms] by (simp add: index_ok_def first_caused_def)

theorem causation_index_first_witness: "find_by_causation_id ''c1'' sample_store = Some 1"
proof -
  have "map (\<lambda>e. ev_causation_id (se_envelope e)) (s_events sample_store) =
      [Some ''c1'', Some ''c1'', None, None, None, None]"
    by (simp add: sample_store_def sample_envelopes_def sample_sel run_store cong: let_weak_cong)
  then have "find (\<lambda>e. ev_causation_id (se_envelope e) = Some ''c1'') (s_events sample_store) =
      Some (hd (s_events sample_store)) \<and> se_position (hd (s_events sample_store)) = 1"
    using sample_store_run(2) by (auto simp: Cons_eq_map_conv map_eq_Cons_conv)
  then show ?thesis using causation_index_first [OF sample_store_reachable, of "''c1''"] by simp
qed

text \<open>
  C8: The states of sessions, runs and tasks are a fold over the log. In every store the
  program can reach, also one a panicking append left behind, the stored state is the one the
  events of the entity spell out in order: created means open, pending or queued, a change
  moves an existing row to its target, and no other event moves it.
\<close>

theorem states_follow_log:
  assumes "store_reachable s"
  shows "map_option sess_state (session_get i s) = replay_state session_event i (s_events s) \<and>
    map_option run_state (run_get i s) = replay_state run_event i (s_events s) \<and>
    map_option task_state (task_get i s) = replay_state task_event i (s_events s)"
  by (rule reachable_states [OF assms])

theorem states_follow_log_witness:
  "replay_state run_event ''r'' (s_events sample_store) = Some run_state.Running"
proof -
  have "map_option run_state (run_get ''r'' sample_store) = Some run_state.Running"
    by (simp add: run_get_def sample_store_def sample_envelopes_def sample_sel run_store
        cong: let_weak_cong)
  then show ?thesis using states_follow_log [OF sample_store_reachable, of "''r''"] by simp
qed

text \<open>
  C23: A run has at most one latest checkpoint and the store finds it. \<open>latest_for_run\<close> takes the
  first match in the order of the hash map; in a reachable store that is the latest checkpoint
  of the run, whatever that order is, since recording a new latest one supersedes the others.
\<close>

theorem latest_checkpoint_unique:
  assumes "store_reachable s"
  shows "latest_for_run rid s = Some c \<longleftrightarrow>
    (\<exists>i. hget (s_checkpoints s) i = Some c) \<and> ckpt_run_id c = rid \<and> ckpt_disposition c = Latest"
    (is "?l \<longleftrightarrow> ?r")
proof
  note inv = reachable_one_latest [OF assms]
  then have wf: "hwf (s_checkpoints s)" by (simp add: one_latest_def)
  assume ?l
  then have "c \<in> set (hvals (s_checkpoints s))" "ckpt_run_id c = rid \<and> ckpt_disposition c = Latest"
    by (auto simp: latest_for_run_def find_Some_iff)
  then show ?r by (simp add: set_hvals [OF wf])
next
  note inv = reachable_one_latest [OF assms]
  then have wf: "hwf (s_checkpoints s)" by (simp add: one_latest_def)
  assume r: ?r
  then have "latest_for_run rid s \<noteq> None"
    using set_hvals [OF wf, of c] by (auto simp: latest_for_run_def find_None_iff)
  then obtain d where d: "latest_for_run rid s = Some d" by blast
  then have "d \<in> set (hvals (s_checkpoints s))" "ckpt_run_id d = rid" "ckpt_disposition d = Latest"
    by (auto simp: latest_for_run_def find_Some_iff)
  then have "d = c" using r inv unfolding one_latest_def set_hvals [OF wf] by (metis option.inject)
  then show ?l using d by simp
qed

definition sample_checkpoint :: "ident \<Rightarrow> nat event_envelope" where
  "sample_checkpoint i = sample_envelope i None
     (CheckpointRecorded \<lparr>cp_project = demo_project, cp_run_id = ''r'', cp_checkpoint_id = i,
        cp_disposition = Latest, cp_data = None, cp_kind = None,
        cp_message_history_size = None, cp_tool_call_ids = []\<rparr>)"

theorem latest_checkpoint_unique_witness:
  "map_option ckpt_checkpoint_id
     (latest_for_run ''r''
       (snd (append_events 100 None [sample_checkpoint ''k1'', sample_checkpoint ''k2''] store_new))) =
   Some ''k2''"
proof -
  let ?s = "snd (append_events 100 None [sample_checkpoint ''k1'', sample_checkpoint ''k2''] store_new)"
  let ?c = "\<lparr>ckpt_checkpoint_id = ''k2'', ckpt_project = demo_project, ckpt_run_id = ''r'',
             ckpt_disposition = Latest, ckpt_data = None :: nat option, ckpt_version = 1,
             ckpt_created_at = 100\<rparr>"
  have "hget (s_checkpoints ?s) ''k2'' = Some ?c"
    by (simp add: sample_checkpoint_def sample_sel run_store cong: let_weak_cong)
  then have "(\<exists>i. hget (s_checkpoints ?s) i = Some ?c) \<and> ckpt_run_id ?c = ''r'' \<and>
      ckpt_disposition ?c = Latest"
    by auto
  then have "latest_for_run ''r'' ?s = Some ?c"
    using latest_checkpoint_unique [OF reach_append [OF reach_empty]] by blast
  then show ?thesis by simp
qed





fun finishing :: "'j runtime_event \<Rightarrow> (ident \<times> tool_invocation_outcome_kind \<times> string option) option"
  where
  "finishing (ToolInvocationCompleted e) = Some (tic_invocation_id e, tic_outcome e, None)"
| "finishing (ToolInvocationFailed e) =
     Some (tif_invocation_id e, tif_outcome e, tif_error_message e)"
| "finishing _ = None"

lemma projection_panics_iff:
  "apply_projection ev s = None \<longleftrightarrow>
     (\<exists>i k err r. finishing (ev_payload (se_envelope ev)) = Some (i, k, err) \<and>
        hget (s_tool_invocations s) i = Some r \<and>
        \<not> (can_transition_tool_invocation (ti_state r) (terminal_state k) \<and>
           (err = None \<longleftrightarrow> outcome_is_success k)))"
  by (cases "ev_payload (se_envelope ev)")
    (simp_all add: apply_projection_def started_never_panics apply_tool_invocation_completed_def
      apply_tool_invocation_failed_def finish_panics_iff)

text \<open>
  C25: Only the two finishing events can panic the store, and exactly when the stored
  invocation may not finish that way: its state has no step to the outcome, as when it has
  finished already, or the error message does not fit the outcome. A start and every other
  event are always applied. Panicking or not, the event is in the log.
\<close>

theorem append_panics_iff:
  "(fst (append_events now secondary [env] s) = Panicked \<longleftrightarrow>
      (\<exists>i k err r. finishing (ev_payload env) = Some (i, k, err) \<and>
         hget (s_tool_invocations s) i = Some r \<and>
         \<not> (can_transition_tool_invocation (ti_state r) (terminal_state k) \<and>
            (err = None \<longleftrightarrow> outcome_is_success k)))) \<and>
   (\<exists>tail. s_events (snd (append_events now secondary [env] s)) =
      s_events s @ \<lparr>se_position = s_next_position s, se_envelope = env, se_stored_at = now\<rparr> # tail)"
proof
  have "fst (append_events now secondary [env] s) = Panicked \<longleftrightarrow>
      apply_projection (fst (push_event now env s)) (snd (push_event now env s)) = None"
    by (simp add: append_events_def append_loop_Cons split: option.split)
  then show "fst (append_events now secondary [env] s) = Panicked \<longleftrightarrow>
      (\<exists>i k err r. finishing (ev_payload env) = Some (i, k, err) \<and>
         hget (s_tool_invocations s) i = Some r \<and>
         \<not> (can_transition_tool_invocation (ti_state r) (terminal_state k) \<and>
            (err = None \<longleftrightarrow> outcome_is_success k)))"
    by (simp only: projection_panics_iff push_event_stored push_event_frame)
  have "fst (push_event now env s) =
      \<lparr>se_position = s_next_position s, se_envelope = env, se_stored_at = now\<rparr>"
    by (rule stored_event.equality) (simp_all add: push_event_stored)
  moreover obtain tail where
    "s_events (turn now env s) = s_events s @ fst (push_event now env s) # tail"
    by (rule turn_events)
  moreover have "snd (append_events now secondary [env] s) = turn now env s"
    by (simp add: append_events_state append_loop_Cons)
  ultimately show "\<exists>tail. s_events (snd (append_events now secondary [env] s)) =
      s_events s @ \<lparr>se_position = s_next_position s, se_envelope = env, se_stored_at = now\<rparr> # tail"
    by simp
qed

text \<open>
  C26: The three books of the costs agree. In every reachable store whose total is below the
  saturation bound, the costs summed over the sessions, over the projects and over the
  workspaces are one number: no append charges one book and not the others, whichever of the
  two cost arms did the charging.
\<close>

theorem cost_books_agree:
  assumes "store_reachable s"
    and "hsum wcost_total_cost_micros (s_workspace_costs s) < u64_max"
  shows "hsum scost_total_cost_micros (s_session_costs s) =
      hsum wcost_total_cost_micros (s_workspace_costs s) \<and>
    hsum pcost_total_cost_micros (s_project_costs s) =
      hsum wcost_total_cost_micros (s_workspace_costs s)"
  using reachable_costs [OF assms(1)] assms(2)
  by (simp_all add: costs_agree_def session_total_def project_total_def workspace_total_def)

theorem cost_books_agree_witness:
  "hsum scost_total_cost_micros (s_session_costs sample_store) = 30"
proof -
  have "hsum wcost_total_cost_micros (s_workspace_costs sample_store) = 30"
    by (simp add: hsum_def hvals_def sample_store_def sample_envelopes_def sample_sel run_store
        cong: let_weak_cong)
  then show ?thesis
    using cost_books_agree [OF sample_store_reachable] by (simp add: u64_max_def)
qed

text \<open>
  A provider call never reaches the provider budgets or the alert on its run. Appending a
  completed call charges the session books and writes the derived cost events to the log
  behind it, but their projections never run: every budget and every alert is as before. The
  same cost appended as a \<open>SessionCostUpdated\<close> event does charge the budgets of the tenant.
\<close>

theorem provider_calls_bypass_budgets:
  "s_provider_budgets (snd (append_events now secondary
       [env\<lparr>ev_payload := ProviderCallCompleted e\<rparr>] s)) = s_provider_budgets s \<and>
   s_run_cost_alerts (snd (append_events now secondary
       [env\<lparr>ev_payload := ProviderCallCompleted e\<rparr>] s)) = s_run_cost_alerts s \<and>
   map (\<lambda>ev. ev_payload (se_envelope ev)) (s_events (snd (append_events now secondary
       [env\<lparr>ev_payload := ProviderCallCompleted e\<rparr>] s))) =
     map (\<lambda>ev. ev_payload (se_envelope ev)) (s_events s) @ ProviderCallCompleted e #
       (case pc_run_id e of None \<Rightarrow> [] | Some rid \<Rightarrow>
          [RunCostUpdated
             \<lparr>rcu_project = pc_project e, rcu_run_id = rid,
              rcu_delta_cost_micros = or_zero (pc_cost_micros e),
              rcu_delta_tokens_in = or_zero (pc_input_tokens e),
              rcu_delta_tokens_out = or_zero (pc_output_tokens e),
              rcu_provider_call_id = pc_provider_call_id e, rcu_updated_at_ms = now,
              rcu_session_id = None, rcu_tenant_id = None\<rparr>]) @
       (case call_session e s of None \<Rightarrow> [] | Some sid \<Rightarrow>
          [SessionCostUpdated
             \<lparr>scu_project = pc_project e, scu_session_id = sid,
              scu_tenant_id = tenant_id (pc_project e),
              scu_delta_cost_micros = or_zero (pc_cost_micros e),
              scu_delta_tokens_in = or_zero (pc_input_tokens e),
              scu_delta_tokens_out = or_zero (pc_output_tokens e),
              scu_provider_call_id = pc_provider_call_id e, scu_updated_at_ms = now\<rparr>]) \<and>
   s_provider_budgets (snd (append_events now secondary
       [env\<lparr>ev_payload := SessionCostUpdated u\<rparr>] s)) =
     hmap_values (charge_budget now (scu_tenant_id u) (scu_delta_cost_micros u))
       (s_provider_budgets s)"
  by (simp add: append_events_state append_loop_Cons turn_def case_prod_beta push_event_def
      count_event_def increment_usage_for_project_def apply_projection_def cost_arms
      event_envelope_new_def Let_def split: option.split)

text \<open>
  A repeated request does not treat an answered one alike. A second \<open>ToolCallProposed\<close> for
  a call that is on record changes nothing about it, so the operator's decision stands; a
  second \<open>ApprovalRequested\<close> for an approval overwrites the row and the approval is pending
  again.
\<close>

theorem repeated_requests:
  "tool_call_get (tp_call_id e) (snd (append_events now secondary
       [env\<lparr>ev_payload := ToolCallProposed e\<rparr>] s)) =
     (case tool_call_get (tp_call_id e) s of
        None \<Rightarrow> Some (proposed_record now e)
      | Some r \<Rightarrow> Some r) \<and>
   map_option appr_decision (approval_get (aq_approval_id q) (snd (append_events now secondary
       [env\<lparr>ev_payload := ApprovalRequested q\<rparr>] s))) = Some None"
  by (simp add: append_events_state append_loop_Cons turn_def case_prod_beta push_event_def
      count_event_def increment_usage_for_project_def apply_projection_def
      apply_tool_call_proposed_def apply_approval_requested_def tool_call_get_def approval_get_def
      hmap_simps Let_def split: option.split)

section \<open>Listings\<close>

text \<open>
  The pages of the listings keyed by creation time and id do not depend on the order in
  which the hash map yields its rows. Two tables with the same rows in any order give the same
  page of the runs of a session, of the children of a run, of the sessions of a project and of
  the tasks in a state, since the id breaks the ties of the time.
\<close>

theorem listings_ignore_hash_order:
  assumes "store_reachable s"
    and "mset (s_runs s') = mset (s_runs s)" and "mset (s_sessions s') = mset (s_sessions s)"
    and "mset (s_tasks s') = mset (s_tasks s)"
  shows "runs_by_session sid limit offset s' = runs_by_session sid limit offset s \<and>
    runs_by_parent rid limit s' = runs_by_parent rid limit s \<and>
    sessions_by_project p limit offset s' = sessions_by_project p limit offset s \<and>
    tasks_by_state p st limit s' = tasks_by_state p st limit s \<and>
    list_expired_leases now limit s' = list_expired_leases now limit s"
proof -
  note keys = reachable_keyed [OF assms(1), unfolded rows_keyed_def]
  have same: "sort_key f (filter P (hvals m')) = sort_key f (filter P (hvals m))"
    if "mset m' = mset m" and "inj_on f (set (hvals m))"
    for f :: "'v \<Rightarrow> 'w :: linorder" and P and m m' :: "(string \<times> 'v) list"
  proof (rule sort_key_inj_key_eq)
    have mset: "mset (hvals m') = mset (hvals m)"
      using that(1) by (simp add: hvals_def)
    then show "mset (filter P (hvals m')) = mset (sort_key f (filter P (hvals m)))" by simp
    show "inj_on f (set (filter P (hvals m')))"
      using that(2) mset_eq_setD [OF mset] by (auto simp: inj_on_def)
  qed simp
  have inj: "inj_on (\<lambda>r. (g r, f r)) A" if "inj_on f A" for g :: "'x \<Rightarrow> 'y" and f :: "'x \<Rightarrow> string" and A
    using that by (auto simp: inj_on_def)
  have "inj_on run_run_id (set (hvals (s_runs s)))" "inj_on sess_session_id (set (hvals (s_sessions s)))"
    "inj_on task_task_id (set (hvals (s_tasks s)))"
    using keys by (simp_all add: keyed_inj)
  note i = this [THEN inj]
  show ?thesis
    unfolding runs_by_session_def runs_by_parent_def sessions_by_project_def tasks_by_state_def
      list_expired_leases_def
    by (simp only: same [OF assms(2) i(1)] same [OF assms(3) i(2)] same [OF assms(4) i(3)])
qed

theorem listings_ignore_hash_order_witness:
  "runs_by_session ''s'' 10 0 (sample_store\<lparr>s_runs := rev (s_runs sample_store)\<rparr>) =
   runs_by_session ''s'' 10 0 sample_store"
  using listings_ignore_hash_order [OF sample_store_reachable,
      of "sample_store\<lparr>s_runs := rev (s_runs sample_store)\<rparr>"] by simp

end
