(* ===== verification/Startup_Correctness.thy ===== *)
theory Startup_Correctness
  imports Startup_Laws Store_Correctness
begin

text \<open>
  The properties of a restart: what the decision cache, the tool results and the store hold
  after their replays.
\<close>

section \<open>The durable log\<close>

definition rows_ok :: "'j stored_event list \<Rightarrow> bool" where
  "rows_ok rows \<longleftrightarrow> sorted_wrt (<) (map se_position rows) \<and> (\<forall>e \<in> set rows. 0 < se_position e)"

interpretation durable: event_log "\<lambda>rows. rows" se_position
  "\<lambda>after n rows. durable_read rows after n" rows_ok
  by unfold_locales (auto simp: rows_ok_def durable_read_def min_pos_def)

text \<open>
  A replay of rows whose events ran without a panic from a store with the same states ends,
  has handled all of them, and is in the same states as that run.
\<close>

lemma replay_store_run:
  assumes "rows_ok rows" and "0 < batch" and "length (durable.rest after rows) < fuel"
    and "map snd xs = map se_envelope (durable.rest after rows)"
    and "run_turns xs s0 = Some s1" and "same_states s s0"
  shows "\<exists>s'. replay_store (durable_read rows) batch clock fuel after k s =
      Some (Replayed (k + length (durable.rest after rows)) s') \<and> same_states s' s1"
  using assms(3-)
proof (induction fuel arbitrary: after k s s0 xs)
  case 0
  then show ?case by simp
next
  case (Suc fuel)
  let ?r = "durable.rest after rows"
  let ?now = "clock (k + length (take batch ?r))"
  have read: "durable_read rows after batch = take batch ?r"
    by (rule durable.read_rest)
  show ?case
  proof (cases "?r = []")
    case True
    then show ?thesis using Suc.prems by (simp add: read)
  next
    case False
    then have ne: "take batch ?r \<noteq> []" using assms(2) by simp
    define ya yb where "ya = take batch xs" and "yb = drop batch xs"
    have ya: "map snd ya = map se_envelope (take batch ?r)"
      and yb: "map snd yb = map se_envelope (drop batch ?r)"
      using Suc.prems(2) by (simp_all add: ya_def yb_def flip: take_map drop_map)
    have "Option.bind (run_turns ya s0) (run_turns yb) = Some s1"
      using Suc.prems(3) run_turns_append [of ya yb s0] by (simp add: ya_def yb_def)
    then obtain m where m: "run_turns ya s0 = Some m" and mb: "run_turns yb m = Some s1"
      by (auto simp: bind_eq_Some_conv)
    have "rel_option same_states
        (run_turns (map (Pair ?now) (map se_envelope (take batch ?r))) s) (run_turns ya s0)"
      by (rule run_turns_sim [OF Suc.prems(4)]) (simp add: ya comp_def)
    then obtain m' where m': "run_turns (map (Pair ?now) (map se_envelope (take batch ?r))) s = Some m'"
      and same: "same_states m' m"
      by (auto simp: m option_rel_Some2)
    obtain qs where "append_loop ?now (map se_envelope (take batch ?r)) [] s = (Appended qs, m')"
      using append_loop_turns [where now = ?now and envs = "map se_envelope (take batch ?r)" and s = s] m' by auto
    then have app: "append_events ?now None (map se_envelope (take batch ?r)) s = (Appended qs, m')"
      by (simp add: append_events_def)
    note step = read ne app
    show ?thesis
    proof (cases "length (take batch ?r) < batch")
      case True
      then have all: "take batch ?r = ?r" and "drop batch ?r = []" by simp_all
      then have "s1 = m" using yb mb by simp
      then show ?thesis using True same ne app by (simp add: read Let_def all)
    next
      case False
      have next_rest: "durable.rest (Some (se_position (last (take batch ?r)))) rows = drop batch ?r"
        by (rule durable.rest_after_page [OF assms(1) ne])
      have "length (drop batch ?r) < fuel"
        using Suc.prems(1) assms(2) False by simp
      moreover have len: "length (take batch ?r) = batch" and "batch \<le> length ?r"
        using False by simp_all
      ultimately obtain s' where "replay_store (durable_read rows) batch clock fuel
          (Some (se_position (last (take batch ?r)))) (k + batch) m' =
          Some (Replayed (k + batch + length (drop batch ?r)) s')" and "same_states s' s1"
        using Suc.IH [of "Some (se_position (last (take batch ?r)))", unfolded next_rest,
            OF _ yb mb same, where k = "k + batch"] by blast
      then show ?thesis
        using ne app \<open>batch \<le> length ?r\<close> by (simp add: read len Let_def)
    qed
  qed
qed

text \<open>The calls of a live process, none of which failed.\<close>

fun append_calls :: "(u64 \<times> 'j event_envelope list) list \<Rightarrow> 'j store \<Rightarrow> 'j store option" where
  "append_calls [] s = Some s"
| "append_calls (c # cs) s =
     (case append_events (fst c) None (snd c) s of
        (Appended _, s') \<Rightarrow> append_calls cs s'
      | _ \<Rightarrow> None)"

lemma append_calls_turns:
  "append_calls calls s = Some s' \<Longrightarrow>
     \<exists>xs. map snd xs = concat (map snd calls) \<and> run_turns xs s = Some s'"
proof (induction calls arbitrary: s)
  case Nil
  then show ?case by (intro exI [of _ "[]"]) simp
next
  case (Cons c calls)
  obtain qs m where app: "append_events (fst c) None (snd c) s = (Appended qs, m)"
    and rest: "append_calls calls m = Some s'"
    using Cons.prems by (auto split: prod.splits append_result.splits)
  have "run_turns (map (Pair (fst c)) (snd c)) s = Some m"
    using append_loop_turns [where now = "fst c" and envs = "snd c" and s = s and ps = "[]"] app
    by (auto simp: append_events_def split: option.splits prod.splits append_result.splits)
  moreover obtain xs where "map snd xs = concat (map snd calls)" "run_turns xs m = Some s'"
    using Cons.IH [OF rest] by blast
  ultimately show ?case
    by (intro exI [of _ "map (Pair (fst c)) (snd c) @ xs"]) (simp add: run_turns_append comp_def)
qed

section \<open>Properties\<close>

text \<open>
  C14: A restart rebuilds the states. When the calls of a live process all succeeded and the
  durable log holds their events in order, the replay of the log at startup ends for every
  batch size, handles every row, does not panic, and leaves the same tool invocations and the
  same states of sessions, runs and tasks as the live store had, whatever the clock shows.
\<close>

theorem restart_rebuilds_states:
  assumes "append_calls calls store_new = Some s"
    and "rows_ok rows" and "map se_envelope rows = concat (map snd calls)"
    and "0 < batch" and "length rows < fuel"
  shows "\<exists>s'. replay_store (durable_read rows) batch clock fuel None 0 store_new =
      Some (Replayed (length rows) s') \<and>
    s_tool_invocations s' = s_tool_invocations s \<and>
    map_option sess_state (session_get i s') = map_option sess_state (session_get i s) \<and>
    map_option run_state (run_get i s') = map_option run_state (run_get i s) \<and>
    map_option task_state (task_get i s') = map_option task_state (task_get i s)"
proof -
  obtain xs where xs: "map snd xs = map se_envelope rows" "run_turns xs store_new = Some s"
    using append_calls_turns [OF assms(1)] assms(3) by auto
  have all: "durable.rest None rows = rows"
    by (rule durable.rest_none [OF assms(2)])
  have "same_states store_new store_new" by (simp add: same_states_def)
  from replay_store_run [of rows batch None fuel xs store_new s store_new clock 0, unfolded all,
      OF assms(2,4,5) xs this]
  show ?thesis by (auto simp: same_states_def)
qed

definition sample_call_list :: "(u64 \<times> nat event_envelope list) list" where
  "sample_call_list = [(100, [sample_session]), (200, [sample_run, sample_running])]"

definition sample_rows :: "nat stored_event list" where
  "sample_rows =
     [\<lparr>se_position = 1, se_envelope = sample_session, se_stored_at = 100\<rparr>,
      \<lparr>se_position = 2, se_envelope = sample_run, se_stored_at = 200\<rparr>,
      \<lparr>se_position = 5, se_envelope = sample_running, se_stored_at = 200\<rparr>]"

theorem restart_rebuilds_states_witness:
  "\<exists>s'. replay_store (durable_read sample_rows) 2 (\<lambda>_. 900) 4 None 0 store_new =
      Some (Replayed 3 s') \<and> map_option run_state (run_get ''r'' s') = Some run_state.Running"
proof -
  obtain s where calls: "append_calls sample_call_list store_new = Some s"
    and run: "map_option run_state (run_get ''r'' s) = Some run_state.Running"
    by (simp add: sample_call_list_def run_get_def sample_sel run_store cong: let_weak_cong)
  have "rows_ok sample_rows" "map se_envelope sample_rows = concat (map snd sample_call_list)"
    by (simp_all add: rows_ok_def sample_rows_def sample_call_list_def)
  from restart_rebuilds_states [OF calls this, of 2 4 "\<lambda>_. 900" "''r''"] show ?thesis
    using run by (auto simp: sample_rows_def)
qed

text \<open>
  C15: The replay of the decision cache restores, for every key, the last decision of the log
  recorded under it that has not expired, and nothing else. It reports how many records it
  restored and how many it dropped, up to the saturation of its counters, and appends the
  warm-up event with those numbers behind the log.
\<close>

theorem decision_replay_restores:
  assumes "store_reachable s" and "length (s_events s) < 2 ^ 64 - 1"
    and "length (s_events s) < fuel"
  shows "\<exists>c counter' s'.
    replay_decision_cache decode fuel now ts at trace_id secondary counter s (decision_cache_new t) =
      Some (\<lparr>rp_restored = min u32_max (length (live_records now (s_events s))),
             rp_expired = min u32_max (length (dead_records now (s_events s)))\<rparr>, c, counter', s') \<and>
    hget (dc_entries c) ck =
      map_option record_entry (find (\<lambda>r. record_key r = ck) (rev (live_records now (s_events s)))) \<and>
    map (\<lambda>ev. ev_payload (se_envelope ev)) (s_events s') =
      map (\<lambda>ev. ev_payload (se_envelope ev)) (s_events s) @
        [DecisionCacheWarmup
           \<lparr>cw_cached = min u32_max (length (live_records now (s_events s))),
            cw_expired_and_dropped = min u32_max (length (dead_records now (s_events s))),
            cw_warmed_at = now\<rparr>]"
proof -
  have range: "log_in_range s" using assms(1,2) by (simp add: log_in_range_def)
  have warm: "map (\<lambda>ev. ev_payload (se_envelope ev)) (s_events (snd (append_events at secondary
      [fst (make_envelope ts trace_id counter (DecisionCacheWarmup w))] s))) =
      map (\<lambda>ev. ev_payload (se_envelope ev)) (s_events s) @ [DecisionCacheWarmup w]" for w
    by (simp add: append_events_state append_loop_Cons turn_def case_prod_beta push_event_def
        count_event_def increment_usage_for_project_def apply_projection_def make_envelope_def
        for_runtime_event_def event_envelope_new_def with_correlation_id_def Let_def
        split: option.split)
  show ?thesis
    by (rule replay_decisions [OF range assms(3), of decode now ts at trace_id secondary counter
          "decision_cache_new t"])
      (simp add: seeded_entries warm decision_cache_new_def split: option.split)
qed

definition sample_decision :: decision_recorded_evt where
  "sample_decision =
     \<lparr>de_project = sample_project, de_decision_id = ''dec_5_c1'',
      de_decision_key = request_key sample_services default_policies
        (sample_request sample_kind sample_project),
      de_outcome = Allowed, de_cached = True, de_expires_at = 14400005, de_decided_at = 5,
      de_event_json = ''{}''\<rparr>"

definition sample_decided :: "nat event_envelope" where
  "sample_decided = sample_envelope ''e9'' None (DecisionRecorded sample_decision)"

definition decided_store :: "nat store" where
  "decided_store = snd (append_events 100 None [sample_decided] store_new)"

lemma decided_store_events:
  "s_events decided_store =
     [\<lparr>se_position = 1, se_envelope = sample_decided, se_stored_at = 100\<rparr>]"
  by (simp add: decided_store_def sample_decided_def sample_sel run_store cong: let_weak_cong)

lemma decided_store_ok: "store_reachable decided_store" "length (s_events decided_store) < 2 ^ 64 - 1"
  "length (s_events decided_store) < 2"
  by (simp_all add: decided_store_events)
    (simp add: decided_store_def reach_append [OF reach_empty])

lemma decided_live: "live_records 1000 (s_events decided_store) = [sample_decision]"
  "dead_records 1000 (s_events decided_store) = []"
  by (simp_all add: decided_store_events live_records_def dead_records_def decision_records_def
      map_filter_simps sample_decided_def sample_sel sample_decision_def)

theorem decision_replay_restores_witness:
  "\<exists>c counter' s'. replay_decision_cache (\<lambda>_. None :: unit decision_event option) 2 1000 1000 1001 []
      None 7 decided_store (decision_cache_new 60000) =
      Some (\<lparr>rp_restored = 1, rp_expired = 0\<rparr>, c, counter', s') \<and>
    hget (dc_entries c) (record_key sample_decision) = Some (record_entry sample_decision)"
  using decision_replay_restores [OF decided_store_ok, of "\<lambda>_. None :: unit decision_event option" 1000 1000
      1001 "[]" None 7 60000 "record_key sample_decision"]
  by (auto simp: decided_live u32_max_def)

text \<open>
  C27: A cached decision survives a restart. If an evaluation persisted its decision, the log
  holds the record and no later record under the same cache key, then after the replay, for as
  long as the decision has not expired, a request with that cache key whose checks pass is
  answered with the outcome of the decision and attributed to it, without asking the resolver.
  Nothing that was invalidated in the meantime is missing: an invalidation leaves no trace in
  the log.
\<close>

theorem restart_keeps_decisions:
  assumes "store_reachable s" and "length (s_events s) < 2 ^ 64 - 1"
    and "length (s_events s) < fuel"
    and "evaluate sv ps True clk rq c = (res, c1, Some evt)"
    and "s_events s = before @ ev # after"
    and "ev_payload (se_envelope ev) = DecisionRecorded evt"
    and "\<forall>r \<in> set (decision_records after). record_key r \<noteq> record_key evt"
    and "now \<le> ec_lookup clk2" and "ec_lookup clk2 < de_expires_at evt"
    and "cache_key_string (request_key sv2 ps rq2) = cache_key_string (request_key sv ps rq)"
    and "first_refusal sv2 rq2 = None"
  shows "\<exists>report c2 counter' s'.
    replay_decision_cache decode fuel now ts at trace_id secondary counter s (decision_cache_new t) =
      Some (report, c2, counter', s') \<and>
    dr_outcome (fst (evaluate sv2 ps log2 clk2 rq2 c2)) = dr_outcome res \<and>
    result_source (fst (evaluate sv2 ps log2 clk2 rq2 c2)) = CacheHit (dr_decision_id res)"
proof -
  have range: "log_in_range s" using assms(1,2) by (simp add: log_in_range_def)
  note evt = evaluate_persisted [OF assms(4)]
  let ?c = "fold (seed_record decode) (live_records now (s_events s)) (decision_cache_new t)"
  have "find (\<lambda>r. record_key r = record_key evt) (rev (live_records now (s_events s))) = Some evt"
    by (rule last_live_record [OF assms(5,6,7)]) (use evt assms(8,9) in auto)
  then have "answer (ec_lookup clk2) (cache_key_string (request_key sv2 ps rq2)) ?c =
      Some (de_decision_id evt, de_outcome evt, de_expires_at evt)"
    using seeded_answer [OF _ assms(9)] evt assms(10) by simp
  from evaluate_answered [OF assms(11) this]
  have "dr_outcome (fst (evaluate sv2 ps log2 clk2 rq2 ?c)) = dr_outcome res \<and>
      result_source (fst (evaluate sv2 ps log2 clk2 rq2 ?c)) = CacheHit (dr_decision_id res)"
    using evt by simp
  then show ?thesis
    by (rule_tac replay_decisions [OF range assms(3), of decode now ts at trace_id secondary counter
          "decision_cache_new t"]) blast
qed

lemma sample_evaluation:
  "evaluate sample_services default_policies True (sample_clock 5)
     (sample_request sample_kind sample_project) (decision_cache_new 60000) =
   (fst sample_result, fst (snd sample_result), Some sample_decision)"
proof -
  have "snd (snd sample_result) = Some sample_decision"
    by (simp add: sample_result_def sample_decision_def sample_project_def run_defs)
  then show ?thesis by (simp add: sample_result_def prod_eq_iff)
qed

theorem restart_keeps_decisions_witness:
  "\<exists>report c2 counter' s'.
    replay_decision_cache (\<lambda>_. None) 2 1000 1000 1001 [] None 7 decided_store
      (decision_cache_new 60000) = Some (report, c2, counter', s') \<and>
    result_source (fst (evaluate sample_services default_policies True (sample_clock 2000)
      (sample_request sample_kind sample_project) c2)) = CacheHit ''dec_5_c1''"
proof -
  have "s_events decided_store =
      [] @ \<lparr>se_position = 1, se_envelope = sample_decided, se_stored_at = 100\<rparr> # []"
    by (simp add: decided_store_events)
  note keeps = restart_keeps_decisions [OF decided_store_ok sample_evaluation this,
      where decode = "\<lambda>_. None" and now = 1000 and ts = 1000 and at = 1001 and trace_id = "[]"
        and secondary = None and counter = 7 and t = 60000 and ?clk2.0 = "sample_clock 2000"
        and ?sv2.0 = sample_services and ?rq2.0 = "sample_request sample_kind sample_project"
        and ?log2.0 = True]
  show ?thesis
    using keeps sample_passes sample_id
    by (auto simp: sample_lookup sample_decided_def sample_sel sample_decision_def
        decision_records_def map_filter_simps)
qed

text \<open>
  Invalidation by rule misses every restored decision. The replay does not rebuild the index
  from rules to cache keys, so whatever the log holds and whichever rule is named,
  invalidating by it right after a restart answers 0 and leaves the cache as it is.
\<close>

theorem rule_invalidation_misses_restored:
  assumes "store_reachable s" and "length (s_events s) < 2 ^ 64 - 1"
    and "length (s_events s) < fuel"
  shows "\<exists>report c counter' s'.
    replay_decision_cache decode fuel now ts at trace_id secondary counter s (decision_cache_new t) =
      Some (report, c, counter', s') \<and>
    invalidate_by_rule rid why who c = (0, c)"
proof -
  have range: "log_in_range s" using assms(1,2) by (simp add: log_in_range_def)
  let ?c = "fold (seed_record decode) (live_records now (s_events s)) (decision_cache_new t)"
  have "dc_rule_index ?c = []" by (simp add: seeded_rules decision_cache_new_def)
  then have "invalidate_by_rule rid why who ?c = (0, ?c)"
    by (simp add: invalidate_by_rule_def remove_by_rule_id_def hdel_def)
  then show ?thesis
    by (rule_tac replay_decisions [OF range assms(3), of decode now ts at trace_id secondary counter
          "decision_cache_new t"]) blast
qed

theorem rule_invalidation_misses_restored_witness:
  "\<exists>report c counter' s'.
    replay_decision_cache (\<lambda>_. None :: unit decision_event option) 2 1000 1000 1001 [] None 7
      decided_store (decision_cache_new 60000) = Some (report, c, counter', s') \<and>
    invalidate_by_rule ''r1'' ''why'' SystemPolicyChange c = (0, c)"
  by (rule rule_invalidation_misses_restored [OF decided_store_ok])

text \<open>
  C28: A tool call that completed before a restart is not dispatched again. After the replay of
  the tool results a recovered call hits the cache exactly when the log holds a completion of
  it with its result, and is answered with the last of them; otherwise it runs again, unless
  the tool is marked dangerous, in which case the run pauses.
\<close>

theorem recovered_call_decision:
  assumes "store_reachable s" and "length (s_events s) < 2 ^ 64 - 1"
    and "length (s_events s) < fuel"
  shows "\<exists>cache. replay_tool_result_cache fuel s [] = Some (length (tool_results (s_events s)), cache) \<and>
    get_result i cache = find (\<lambda>r. ctr_tool_call_id r = i) (rev (tool_results (s_events s))) \<and>
    recovery_dispatch_decision cache i name safety True =
      (if \<exists>r \<in> set (tool_results (s_events s)). ctr_tool_call_id r = i then DispatchCacheHit
       else if safety = DangerousPause
       then Pause name ''DangerousPause tool with no cached result on recovery''
       else Dispatch)"
proof -
  have range: "log_in_range s" using assms(1,2) by (simp add: log_in_range_def)
  let ?cache = "fold (\<lambda>r. hput (ctr_tool_call_id r) r) (tool_results (s_events s)) []"
  have "replay_tool_result_cache fuel s [] = Some (length (tool_results (s_events s)), ?cache)"
    using log.paged_fold_all [OF range, of 500 fuel replay_tool_result "(0, [])"] assms(3)
    by (simp add: replay_tool_result_cache_def tool_results_fold)
  moreover have get: "get_result i ?cache =
      find (\<lambda>r. ctr_tool_call_id r = i) (rev (tool_results (s_events s)))"
    unfolding get_folded_result by (simp add: get_result_def split: option.split)
  moreover have "get_result i ?cache = None \<longleftrightarrow>
      \<not> (\<exists>r \<in> set (tool_results (s_events s)). ctr_tool_call_id r = i)"
    unfolding get by (auto simp: find_None_iff)
  ultimately show ?thesis
    by (intro exI [of _ ?cache]) (cases safety; auto simp: recovery_dispatch_decision_def)
qed

theorem recovered_call_decision_witness:
  "\<exists>cache. replay_tool_result_cache 9 sample_store [] = Some (0, cache) \<and>
     recovery_dispatch_decision cache ''tc_1'' ''rm'' DangerousPause True =
       Pause ''rm'' ''DangerousPause tool with no cached result on recovery''"
proof -
  have len: "length (s_events sample_store) = 6"
    using arg_cong [OF sample_store_run(2), of length] by simp
  have none: "tool_results (s_events sample_store) = []"
    by (simp add: tool_results_def map_filter_simps sample_store_def sample_envelopes_def sample_sel
        run_store cong: let_weak_cong)
  have "length (s_events sample_store) < 2 ^ 64 - 1" "length (s_events sample_store) < 9"
    by (simp_all add: len)
  from recovered_call_decision [OF sample_store_reachable this, of "''tc_1''" "''rm''" DangerousPause]
  show ?thesis by (auto simp: none)
qed

end
