(* ===== verification/Limit_Services.thy ===== *)
theory Limit_Services
  imports Read_Models
begin

text \<open>
  The services that hold a tenant to its limits
  (\<open>crates/cairn-runtime/src/services/quota_impl.rs\<close>, \<open>budget_impl.rs\<close>,
  \<open>run_cost_alert_impl.rs\<close>), and what every service of the runtime shares: its errors and the
  way it emits an event. A service runs on a world, the store and the counter of
  \<open>make_envelope\<close>; the clock readings, the trace id of the task and the answer of the secondary
  log are the environment of one call.
\<close>

section \<open>Errors and effects\<close>

record dependency_conflict_detail =
  dcd_dependent_task_id :: string
  dcd_prerequisite_task_id :: string
  dcd_existing_kind :: string
  dcd_existing_data_passing_ref :: "string option"
  dcd_requested_kind :: string
  dcd_requested_data_passing_ref :: "string option"

datatype runtime_error =
    NotFound string string
  | InvalidTransition string string string
  | PolicyDenied string
  | Conflict string string
  | DependencyConflict dependency_conflict_detail
  | LeaseExpired string
  | StoreFailure string
  | InternalError string
  | QuotaExceeded string string u32 u32
  | ValidationError string

text \<open>What a call ends with; \<open>Crashed\<close> is a panic.\<close>

datatype 'a reply = Done (done_value: 'a) | Failed runtime_error | Crashed

record 'j world =
  w_store :: "'j store"
  w_counter :: u64

record svc_env =
  se_ts_ms :: u64
  se_trace_id :: string
  se_append_at :: u64
  se_secondary :: "string option"

text \<open>\<open>store.append(&[make_envelope(payload)]).await?\<close>.\<close>

definition emit :: "svc_env \<Rightarrow> 'j runtime_event \<Rightarrow> 'j world \<Rightarrow> unit reply \<times> 'j world" where
  "emit env payload w =
     (let (e, counter) = make_envelope (se_ts_ms env) (se_trace_id env) (w_counter w) payload;
          (r, s) = append_events (se_append_at env) (se_secondary env) [e] (w_store w);
          w = w\<lparr>w_store := s, w_counter := counter\<rparr>
      in (case r of
            Appended _ \<Rightarrow> (Done (), w)
          | Panicked \<Rightarrow> (Crashed, w)
          | SecondaryFailed err _ \<Rightarrow> (Failed (StoreFailure err), w)))"

text \<open>The continuation after \<open>?\<close>: an error or a panic ends the call.\<close>

definition and_then :: "'a reply \<times> 'w \<Rightarrow> ('a \<Rightarrow> 'w \<Rightarrow> 'b reply \<times> 'w) \<Rightarrow> 'b reply \<times> 'w" where
  "and_then r f =
     (case r of
        (Done x, w) \<Rightarrow> f x w
      | (Failed e, w) \<Rightarrow> (Failed e, w)
      | (Crashed, w) \<Rightarrow> (Crashed, w))"

section \<open>Tenant quotas\<close>

definition quota_verdict :: "ident \<Rightarrow> string \<Rightarrow> 'j store \<Rightarrow> (u32 \<times> u32) option" where
  "quota_verdict tenant quota_type s =
     (case get_quota tenant s of
        None \<Rightarrow> None
      | Some q \<Rightarrow>
          if quota_type = ''max_concurrent_runs'' then
            Some (quota_current_active_runs q, quota_max_concurrent_runs q)
          else if quota_type = ''max_sessions_per_hour'' then
            Some (quota_sessions_this_hour q, quota_max_sessions_per_hour q)
          else None)"

definition enforce_quota :: "svc_env \<Rightarrow> ident \<Rightarrow> string \<Rightarrow> 'j world \<Rightarrow> unit reply \<times> 'j world" where
  "enforce_quota env tenant quota_type w =
     (case quota_verdict tenant quota_type (w_store w) of
        None \<Rightarrow> (Done (), w)
      | Some (current, limit) \<Rightarrow>
          if limit > 0 \<and> current \<ge> limit then
            and_then (emit env (OtherEvent ''TenantQuotaViolated'' system_key None None) w)
              (\<lambda>_ w. (Failed (QuotaExceeded tenant quota_type current limit), w))
          else (Done (), w))"

definition set_quota :: "svc_env \<Rightarrow> ident \<Rightarrow> u32 \<Rightarrow> u32 \<Rightarrow> u32 \<Rightarrow> 'j world \<Rightarrow>
    tenant_quota reply \<times> 'j world" where
  "set_quota env tenant runs sessions tasks w =
     and_then
       (emit env (TenantQuotaSet
          \<lparr>tq_tenant_id = tenant, tq_max_concurrent_runs = runs,
           tq_max_sessions_per_hour = sessions, tq_max_tasks_per_run = tasks\<rparr>) w)
       (\<lambda>_ w. (case get_quota tenant (w_store w) of
                 None \<Rightarrow> (Failed (InternalError ''tenant quota not found after set''), w)
               | Some q \<Rightarrow> (Done q, w)))"

definition check_run_quota :: "svc_env \<Rightarrow> ident \<Rightarrow> 'j world \<Rightarrow> unit reply \<times> 'j world" where
  "check_run_quota env tenant = enforce_quota env tenant ''max_concurrent_runs''"

definition check_session_quota :: "svc_env \<Rightarrow> ident \<Rightarrow> 'j world \<Rightarrow> unit reply \<times> 'j world" where
  "check_session_quota env tenant = enforce_quota env tenant ''max_sessions_per_hour''"

section \<open>Provider budgets\<close>

definition budget_id_for :: "ident \<Rightarrow> provider_budget_period \<Rightarrow> string" where
  "budget_id_for tenant period =
     ''budget_'' @ tenant @ ''_'' @ (case period of Daily \<Rightarrow> ''daily'' | Monthly \<Rightarrow> ''monthly'')"

definition set_budget :: "svc_env \<Rightarrow> ident \<Rightarrow> provider_budget_period \<Rightarrow> u64 \<Rightarrow> u32 \<Rightarrow> 'j world \<Rightarrow>
    provider_budget reply \<times> 'j world" where
  "set_budget env tenant period limit percent w =
     and_then
       (emit env (ProviderBudgetSet
          \<lparr>pbs_tenant_id = tenant, pbs_budget_id = budget_id_for tenant period,
           pbs_period = period, pbs_limit_micros = limit,
           pbs_alert_threshold_percent = Some percent\<rparr>) w)
       (\<lambda>_ w. (case budget_by_tenant_period tenant period (w_store w) of
                 None \<Rightarrow> (Failed (InternalError ''budget not found after set''), w)
               | Some b \<Rightarrow> (Done b, w)))"

record budget_status =
  bs_remaining_micros :: u64
  bs_percent_used :: u32
  bs_alert_triggered :: bool
  bs_exceeded :: bool

definition sat_mul64 :: "u64 \<Rightarrow> u64 \<Rightarrow> u64" where
  "sat_mul64 a b = min u64_max (a * b)"

definition percent_used :: "provider_budget \<Rightarrow> u32" where
  "percent_used b =
     (if budget_limit_micros b = 0 then 100
      else as_u32 (sat_mul64 (budget_current_spend_micros b) 100 div budget_limit_micros b))"

definition add_budget :: "provider_budget \<Rightarrow> budget_status \<Rightarrow> budget_status" where
  "add_budget b st =
     \<lparr>bs_remaining_micros =
        min (bs_remaining_micros st) (budget_limit_micros b - budget_current_spend_micros b),
      bs_percent_used =
        (if percent_used b > bs_percent_used st then percent_used b else bs_percent_used st),
      bs_alert_triggered =
        (if percent_used b \<ge> budget_alert_threshold_percent b then True
         else bs_alert_triggered st),
      bs_exceeded =
        (if budget_current_spend_micros b > budget_limit_micros b then True else bs_exceeded st)\<rparr>"

definition check_budget :: "ident \<Rightarrow> 'j world \<Rightarrow> budget_status" where
  "check_budget tenant w =
     (let budgets = budgets_by_tenant tenant (w_store w)
      in if budgets = []
         then \<lparr>bs_remaining_micros = 0, bs_percent_used = 0, bs_alert_triggered = False,
               bs_exceeded = False\<rparr>
         else fold add_budget budgets
           \<lparr>bs_remaining_micros = u64_max, bs_percent_used = 0, bs_alert_triggered = False,
            bs_exceeded = False\<rparr>)"

section \<open>Run cost alerts\<close>

definition set_alert :: "svc_env \<Rightarrow> u64 \<Rightarrow> ident \<Rightarrow> ident \<Rightarrow> u64 \<Rightarrow> 'j world \<Rightarrow> unit reply \<times> 'j world"
  where
  "set_alert env now run_id tenant threshold w =
     emit env (RunCostAlertSet
       \<lparr>ras_run_id = run_id, ras_tenant_id = tenant, ras_threshold_micros = threshold,
        ras_set_at_ms = now\<rparr>) w"

definition check_and_trigger :: "svc_env \<Rightarrow> u64 \<Rightarrow> ident \<Rightarrow> 'j world \<Rightarrow> bool reply \<times> 'j world" where
  "check_and_trigger env now run_id w =
     (case get_alert run_id (w_store w) of
        None \<Rightarrow> (Done False, w)
      | Some alert \<Rightarrow>
          if alert_triggered_at_ms alert > 0 then (Done False, w)
          else
            (let total = (case get_run_cost run_id (w_store w) of
                            None \<Rightarrow> 0 | Some c \<Rightarrow> rcost_total_cost_micros c)
             in if total \<ge> alert_threshold_micros alert then
                  and_then
                    (emit env (RunCostAlertTriggered
                       \<lparr>rat_run_id = run_id, rat_tenant_id = alert_tenant_id alert,
                        rat_threshold_micros = alert_threshold_micros alert,
                        rat_actual_cost_micros = total, rat_triggered_at_ms = now\<rparr>) w)
                    (\<lambda>_ w. (Done True, w))
                else (Done False, w)))"

end
