(* ===== verification/Limit_Laws.thy ===== *)
theory Limit_Laws
  imports Limit_Services Store_Correctness
begin

text \<open>
  The properties of the limit services: what each check answers, what a check writes, and how
  the answers move with the events of the store.
\<close>

section \<open>Emitting an event\<close>

text \<open>An event outside the table of finishing events is always applied.\<close>

lemma emit_once:
  assumes "finishing payload = None" and "se_secondary env = None"
  shows "emit env payload w =
    (Done (), w\<lparr>w_store := turn (se_append_at env)
         (fst (make_envelope (se_ts_ms env) (se_trace_id env) (w_counter w) payload)) (w_store w),
       w_counter := wrap_add64 (w_counter w) 1\<rparr>)"
proof -
  obtain e c where m: "make_envelope (se_ts_ms env) (se_trace_id env) (w_counter w) payload = (e, c)"
    by fastforce
  then have e: "ev_payload e = payload" and c: "c = wrap_add64 (w_counter w) 1"
    by (auto simp: make_envelope_def next_event_id_def for_runtime_event_def
        event_envelope_new_def with_correlation_id_def Let_def split: if_splits)
  have "apply_projection (fst (push_event (se_append_at env) e (w_store w)))
      (snd (push_event (se_append_at env) e (w_store w))) \<noteq> None"
    using assms(1) by (simp add: projection_panics_iff push_event_stored e)
  then show ?thesis
    using assms(2)
    by (auto simp: emit_def m append_events_def append_loop_Cons turn_def case_prod_beta c
        split: option.split)
qed

lemma turn_other_event:
  assumes "ev_payload env = OtherEvent i p r j"
  shows "turn now env s = snd (push_event now env s)"
  using assms by (simp add: turn_def case_prod_beta apply_projection_def push_event_stored)

section \<open>Quotas\<close>

lemma quota_session_verdict:
  "quota_verdict t ''max_sessions_per_hour'' s =
     map_option (\<lambda>m. (as_u32 (length (filter (\<lambda>x. x = t) (session_tenants s))), m)) (session_limit t s)"
  by (simp add: quota_verdict_def get_quota_def session_limit_def session_tenants_def filter_map
      comp_def split: option.split)

lemma enforce_reads:
  "se_secondary env = None \<Longrightarrow>
     fst (enforce_quota env t q w) =
       (case quota_verdict t q (w_store w) of
          None \<Rightarrow> Done ()
        | Some (current, limit) \<Rightarrow>
            if limit > 0 \<and> current \<ge> limit then Failed (QuotaExceeded t q current limit)
            else Done ())"
  by (simp add: enforce_quota_def and_then_def emit_once split: option.split)

text \<open>
  A check of the run quota lets a tenant start a run exactly while it has no quota, an
  unlimited one, or fewer runs in progress than its limit; a run in progress is one whose
  state is not terminal. An admission writes nothing. A refusal names the count and the limit
  and appends one event, the record of the violation, and changes no run and no quota.
\<close>

theorem run_quota_admits_below_limit:
  assumes "se_secondary env = None" and "check_run_quota env t w = (r, w')"
    and "active = as_u32 (length (filter
           (\<lambda>r. tenant_id (run_project r) = t \<and> \<not> run_is_terminal (run_state r))
           (hvals (s_runs (w_store w)))))"
  shows "case hget (s_quotas (w_store w)) t of
      None \<Rightarrow> r = Done () \<and> w' = w
    | Some q \<Rightarrow>
        (if quota_max_concurrent_runs q = 0 \<or> active < quota_max_concurrent_runs q
         then r = Done () \<and> w' = w
         else r = Failed (QuotaExceeded t ''max_concurrent_runs'' active (quota_max_concurrent_runs q))
            \<and> s_runs (w_store w') = s_runs (w_store w)
            \<and> s_quotas (w_store w') = s_quotas (w_store w)
            \<and> (\<exists>e. s_events (w_store w') = s_events (w_store w) @ [e]
                \<and> ev_payload (se_envelope e) = OtherEvent ''TenantQuotaViolated'' system_key None None))"
proof (cases "hget (s_quotas (w_store w)) t")
  case None
  then show ?thesis
    using assms(2) by (simp add: check_run_quota_def enforce_quota_def quota_verdict_def get_quota_def)
next
  case (Some q)
  have v: "quota_verdict t ''max_concurrent_runs'' (w_store w) = Some (active, quota_max_concurrent_runs q)"
    by (simp add: quota_verdict_def get_quota_def Some assms(3))
  show ?thesis
  proof (cases "quota_max_concurrent_runs q = 0 \<or> active < quota_max_concurrent_runs q")
    case True
    then show ?thesis
      using assms(2) by (auto simp: check_run_quota_def enforce_quota_def v Some)
  next
    case False
    let ?e = "fst (make_envelope (se_ts_ms env) (se_trace_id env) (w_counter w)
        (OtherEvent ''TenantQuotaViolated'' system_key None None))"
    have p: "ev_payload ?e = OtherEvent ''TenantQuotaViolated'' system_key None None"
      by (simp add: make_envelope_def next_event_id_def for_runtime_event_def
          event_envelope_new_def with_correlation_id_def Let_def)
    have "r = Failed (QuotaExceeded t ''max_concurrent_runs'' active (quota_max_concurrent_runs q))"
      and w': "w_store w' = snd (push_event (se_append_at env) ?e (w_store w))"
      using assms(1,2) False
      by (auto simp: check_run_quota_def enforce_quota_def v and_then_def emit_once
          turn_other_event [OF p])
    then show ?thesis
      using False Some p by (simp add: push_event_frame push_event_stored push_event_events)
  qed
qed

definition sample_quota :: "nat event_envelope" where
  "sample_quota = sample_envelope ''e0'' None
     (TenantQuotaSet \<lparr>tq_tenant_id = ''t'', tq_max_concurrent_runs = 1,
        tq_max_sessions_per_hour = 1, tq_max_tasks_per_run = 1\<rparr>)"

definition sample_archive :: "nat event_envelope" where
  "sample_archive = sample_envelope ''e7'' None
     (SessionStateChanged \<lparr>ssc_project = demo_project, ssc_session_id = ''s'',
        ssc_transition = \<lparr>st_from = Some session_state.Open, st_to = Archived\<rparr>\<rparr>)"

definition sample_env :: svc_env where
  "sample_env = \<lparr>se_ts_ms = 200, se_trace_id = [], se_append_at = 200, se_secondary = None\<rparr>"

definition quota_world :: "nat world" where
  "quota_world =
     \<lparr>w_store = snd (append_events 100 None [sample_quota, sample_session, sample_run] store_new),
      w_counter = 9\<rparr>"

lemma quota_world_tables:
  "map_option quota_max_concurrent_runs (hget (s_quotas (w_store quota_world)) ''t'') = Some 1"
  "map_option quota_max_sessions_per_hour (hget (s_quotas (w_store quota_world)) ''t'') = Some 1"
  "map (\<lambda>r. (tenant_id (run_project r), run_is_terminal (run_state r)))
     (hvals (s_runs (w_store quota_world))) = [(''t'', False)]"
  "session_tenants (w_store quota_world) = [''t'']"
  by (simp_all add: quota_world_def session_tenants_def sample_quota_def sample_sel hvals_def
      run_is_terminal_def run_store cong: let_weak_cong)

theorem run_quota_admits_below_limit_witness:
  "fst (check_run_quota sample_env ''t'' quota_world) =
     Failed (QuotaExceeded ''t'' ''max_concurrent_runs'' 1 1)"
proof -
  let ?active = "as_u32 (length (filter
      (\<lambda>r. tenant_id (run_project r) = ''t'' \<and> \<not> run_is_terminal (run_state r))
      (hvals (s_runs (w_store quota_world)))))"
  have active: "?active = 1"
    using quota_world_tables(3) by (auto simp: map_eq_Cons_conv as_u32_def)
  obtain q where q: "hget (s_quotas (w_store quota_world)) ''t'' = Some q"
      "quota_max_concurrent_runs q = 1"
    using quota_world_tables(1) by auto
  have "se_secondary sample_env = None" by (simp add: sample_env_def)
  from run_quota_admits_below_limit [OF this _ refl,
      of "''t''" quota_world "fst (check_run_quota sample_env ''t'' quota_world)"
        "snd (check_run_quota sample_env ''t'' quota_world)"]
  show ?thesis by (simp add: q active)
qed

text \<open>
  A tenant that has reached its limit of sessions per hour never gets below it again by
  waiting. Whatever is appended, at whatever clock reading, short of a new session or a new
  quota (closing every session included), the check of the session quota answers the same: it
  counts every session the tenant ever had.
\<close>

theorem session_quota_never_recovers:
  assumes "se_secondary env = None" and "se_secondary env' = None"
    and "list_all (\<lambda>env. \<not> moves_session_quota (ev_payload env)) envs"
  shows "fst (check_session_quota env' t
      (w\<lparr>w_store := snd (append_events now secondary envs (w_store w))\<rparr>)) =
    fst (check_session_quota env t w)"
  using session_quota_append [OF assms(3), of now "[]" "w_store w" t]
  by (simp add: check_session_quota_def enforce_reads [OF assms(1)] enforce_reads [OF assms(2)]
      quota_session_verdict append_events_state)

theorem session_quota_never_recovers_witness:
  "fst (check_session_quota sample_env ''t''
     (quota_world\<lparr>w_store := snd (append_events 99999999 None [sample_archive] (w_store quota_world))\<rparr>)) =
   Failed (QuotaExceeded ''t'' ''max_sessions_per_hour'' 1 1)"
proof -
  have sec: "se_secondary sample_env = None" by (simp add: sample_env_def)
  have "list_all (\<lambda>env. \<not> moves_session_quota (ev_payload env)) [sample_archive]"
    by (simp add: sample_archive_def sample_sel)
  note session_quota_never_recovers [OF sec sec this, where t = "''t''" and w = quota_world
      and now = 99999999 and secondary = None]
  moreover have "fst (check_session_quota sample_env ''t'' quota_world) =
      Failed (QuotaExceeded ''t'' ''max_sessions_per_hour'' 1 1)"
    using quota_world_tables
    by (auto simp: check_session_quota_def enforce_reads [OF sec] quota_session_verdict
        session_limit_def as_u32_def)
  ultimately show ?thesis by simp
qed

section \<open>Run cost alerts\<close>















section \<open>Provider budgets\<close>

lemma Min_insert_min: "finite A \<Longrightarrow> Min (insert (min x y) A) = min x (Min (insert y A))"
  for x y :: "'a :: linorder"
  by (cases "A = {}") (simp_all add: Min_insert min.assoc)

lemma Max_insert_max: "finite A \<Longrightarrow> Max (insert (max x y) A) = max x (Max (insert y A))"
  for x y :: "'a :: linorder"
  by (cases "A = {}") (simp_all add: Max_insert max.assoc)

lemma fold_add_budget_flags:
  "bs_exceeded (fold add_budget bs st) =
     (bs_exceeded st \<or> (\<exists>b \<in> set bs. budget_current_spend_micros b > budget_limit_micros b))"
  "bs_alert_triggered (fold add_budget bs st) =
     (bs_alert_triggered st \<or> (\<exists>b \<in> set bs. percent_used b \<ge> budget_alert_threshold_percent b))"
  by (induction bs arbitrary: st) (auto simp: add_budget_def)

lemma fold_add_budget_remaining:
  "bs_remaining_micros (fold add_budget bs st) =
     Min (insert (bs_remaining_micros st)
       ((\<lambda>b. budget_limit_micros b - budget_current_spend_micros b) ` set bs))"
proof (induction bs arbitrary: st)
  case (Cons b bs)
  have "bs_remaining_micros (add_budget b st) =
      min (bs_remaining_micros st) (budget_limit_micros b - budget_current_spend_micros b)"
    by (simp add: add_budget_def)
  then show ?case by (simp add: Cons.IH Min_insert_min)
qed simp

lemma fold_add_budget_percent:
  "bs_percent_used (fold add_budget bs st) =
     Max (insert (bs_percent_used st) (percent_used ` set bs))"
proof (induction bs arbitrary: st)
  case (Cons b bs)
  have "bs_percent_used (add_budget b st) = max (bs_percent_used st) (percent_used b)"
    by (simp add: add_budget_def max_def)
  then show ?case by (simp add: Cons.IH Max_insert_max)
qed simp

text \<open>
  C30: The budget status of a tenant sums up its budgets, in whatever order the hash map yields
  them: exceeded when some budget is overspent, the least remainder, the greatest percentage,
  and the alert when the percentage of some budget reaches its threshold. The percentage is
  cut to 32 bits, so a budget overspent more than 42 million times over reads as nearly
  unused: the witness has an exceeded budget at 4 percent without an alert.
\<close>

theorem budget_status_exact:
  assumes "budgets_by_tenant t (w_store w) = bs" and "bs \<noteq> []"
    and "\<forall>b \<in> set bs. budget_limit_micros b \<le> u64_max \<and> budget_current_spend_micros b * 100 \<le> u64_max"
  shows "let st = check_budget t w;
      percent = (\<lambda>b. if budget_limit_micros b = 0 then 100
                     else (budget_current_spend_micros b * 100 div budget_limit_micros b) mod 2 ^ 32)
    in (bs_exceeded st \<longleftrightarrow> (\<exists>b \<in> set bs. budget_limit_micros b < budget_current_spend_micros b))
     \<and> (bs_alert_triggered st \<longleftrightarrow> (\<exists>b \<in> set bs. budget_alert_threshold_percent b \<le> percent b))
     \<and> bs_remaining_micros st =
         Min ((\<lambda>b. budget_limit_micros b - budget_current_spend_micros b) ` set bs)
     \<and> bs_percent_used st = Max (percent ` set bs)"
proof -
  define percent where "percent = (\<lambda>b :: provider_budget. if budget_limit_micros b = 0 then 100
      else (budget_current_spend_micros b * 100 div budget_limit_micros b) mod 2 ^ 32)"
  have p: "percent_used b = percent b" if "b \<in> set bs" for b
    using that assms(3) by (simp add: percent_used_def percent_def sat_mul64_def as_u32_def)
  define rem where "rem = (\<lambda>b :: provider_budget. budget_limit_micros b - budget_current_spend_micros b)"
  obtain b where b: "b \<in> set bs" using assms(2) by (cases bs) auto
  have "Min (rem ` set bs) \<le> rem b" using b by simp
  also have "\<dots> \<le> u64_max" using b assms(3) by (auto simp: rem_def)
  finally have low: "min u64_max (Min (rem ` set bs)) = Min (rem ` set bs)" by simp
  have img: "percent_used ` set bs = percent ` set bs" using p by (simp cong: image_cong)
  have ne: "rem ` set bs \<noteq> {}" "percent ` set bs \<noteq> {}" using assms(2) by simp_all
  show ?thesis
    unfolding Let_def percent_def [symmetric] rem_def [symmetric]
    using assms(1,2) p low [unfolded rem_def] ne
    by (simp add: check_budget_def fold_add_budget_flags fold_add_budget_remaining
        fold_add_budget_percent img rem_def Min_insert Max_insert)
qed

definition budget_world :: "nat world" where
  "budget_world =
     \<lparr>w_store = snd (append_events 100 None
        [sample_envelope ''e0'' None (ProviderBudgetSet
           \<lparr>pbs_tenant_id = ''t'', pbs_budget_id = budget_id_for ''t'' Daily, pbs_period = Daily,
            pbs_limit_micros = 1, pbs_alert_threshold_percent = Some 80\<rparr>),
         sample_envelope ''e1'' None (SessionCostUpdated
           \<lparr>scu_project = demo_project, scu_session_id = ''s'', scu_tenant_id = ''t'',
            scu_delta_cost_micros = 42949673, scu_delta_tokens_in = 0,
            scu_delta_tokens_out = 0, scu_provider_call_id = ''k'', scu_updated_at_ms = 5\<rparr>)]
        store_new),
      w_counter = 9\<rparr>"

theorem budget_status_exact_witness:
  "bs_exceeded (check_budget ''t'' budget_world) \<and>
   \<not> bs_alert_triggered (check_budget ''t'' budget_world) \<and>
   bs_percent_used (check_budget ''t'' budget_world) = 4"
proof -
  obtain b where b: "budgets_by_tenant ''t'' (w_store budget_world) = [b]"
      "budget_limit_micros b = 1" "budget_current_spend_micros b = 42949673"
      "budget_alert_threshold_percent b = 80"
    by (simp add: budget_world_def budgets_by_tenant_def hvals_def sample_sel run_store
        cong: let_weak_cong)
  have "\<forall>b \<in> set [b]. budget_limit_micros b \<le> u64_max \<and> budget_current_spend_micros b * 100 \<le> u64_max"
    by (simp add: b u64_max_def)
  from budget_status_exact [OF b(1) _ this] show ?thesis by (simp add: b Let_def)
qed

end
