(* ===== verification/Workspace_Quota.thy ===== *)
theory Workspace_Quota
  imports Tenancy
begin

text \<open>
  The quota manager of workspaces and the isolation guards
  (\<open>crates/cairn-runtime/src/services/workspace_quota.rs\<close>). Each of the three tables of the
  manager has its own lock; an operation that changes one holds its lock for the whole change,
  so it is one atomic step. The clock is an argument. The counters are \<open>u32\<close> and \<open>u64\<close>; \<open>+= 1\<close>
  wraps in a release build.
\<close>

section \<open>Data\<close>

record workspace_quota_policy =
  wqp_workspace_id :: ident
  wqp_tenant_id :: ident
  wqp_max_runs_per_hour :: u32
  wqp_max_concurrent_runs :: u32
  wqp_max_storage_mb :: u64
  wqp_max_tokens_per_day :: u64

definition workspace_quota_policy_new :: "ident \<Rightarrow> ident \<Rightarrow> workspace_quota_policy" where
  "workspace_quota_policy_new workspace tenant =
     \<lparr>wqp_workspace_id = workspace, wqp_tenant_id = tenant, wqp_max_runs_per_hour = 0,
      wqp_max_concurrent_runs = 0, wqp_max_storage_mb = 0, wqp_max_tokens_per_day = 0\<rparr>"

definition is_unlimited :: "workspace_quota_policy \<Rightarrow> bool" where
  "is_unlimited p \<longleftrightarrow> wqp_max_runs_per_hour p = 0 \<and> wqp_max_concurrent_runs p = 0 \<and>
     wqp_max_storage_mb p = 0 \<and> wqp_max_tokens_per_day p = 0"

record workspace_usage =
  wus_workspace_id :: string
  wus_active_runs :: u32
  wus_runs_this_hour :: u32
  wus_tokens_today :: u64
  wus_storage_mb :: u64
  wus_hour_reset_ms :: u64
  wus_day_reset_ms :: u64

definition usage_for :: "string \<Rightarrow> workspace_usage" where
  "usage_for ws =
     \<lparr>wus_workspace_id = ws, wus_active_runs = 0, wus_runs_this_hour = 0, wus_tokens_today = 0,
      wus_storage_mb = 0, wus_hour_reset_ms = 0, wus_day_reset_ms = 0\<rparr>"

record workspace_usage_report =
  wur_workspace_id :: string
  wur_active_runs :: u32
  wur_max_concurrent_runs :: u32
  wur_runs_this_hour :: u32
  wur_max_runs_per_hour :: u32
  wur_tokens_today :: u64
  wur_max_tokens_per_day :: u64
  wur_storage_mb :: u64
  wur_max_storage_mb :: u64

record tenant_access_policy =
  tap_tenant_id :: ident
  tap_allowed_tenants :: "string list"

definition deny_all :: "ident \<Rightarrow> tenant_access_policy" where
  "deny_all tenant = \<lparr>tap_tenant_id = tenant, tap_allowed_tenants = []\<rparr>"

definition allow_tenant :: "string \<Rightarrow> tenant_access_policy \<Rightarrow> tenant_access_policy" where
  "allow_tenant other p =
     p\<lparr>tap_allowed_tenants := List.insert other (tap_allowed_tenants p)\<rparr>"

definition revoke_tenant :: "string \<Rightarrow> tenant_access_policy \<Rightarrow> tenant_access_policy" where
  "revoke_tenant other p =
     p\<lparr>tap_allowed_tenants := removeAll other (tap_allowed_tenants p)\<rparr>"

definition can_access :: "tenant_access_policy \<Rightarrow> string \<Rightarrow> bool" where
  "can_access p target =
     (if tap_tenant_id p = target then True else target \<in> set (tap_allowed_tenants p))"

datatype isolation_violation =
    WorkspaceMismatch string string
  | TenantAccessDenied string string

definition assert_workspace_scope :: "project_key \<Rightarrow> ident \<Rightarrow> isolation_violation + unit" where
  "assert_workspace_scope p expected =
     (if workspace_id p \<noteq> expected then Inl (WorkspaceMismatch expected (workspace_id p))
      else Inr ())"

definition assert_tenant_access :: "tenant_access_policy \<Rightarrow> ident \<Rightarrow> isolation_violation + unit"
  where
  "assert_tenant_access p target =
     (if \<not> can_access p target then Inl (TenantAccessDenied (tap_tenant_id p) target)
      else Inr ())"

record quota_violation =
  qv_workspace_id :: string
  qv_quota_type :: string
  qv_current :: u64
  qv_limit :: u64

record quota_manager =
  qm_policies :: "(string, workspace_quota_policy) hmap"
  qm_usage :: "(string, workspace_usage) hmap"
  qm_tenant_access :: "(string, tenant_access_policy) hmap"

definition quota_manager_new :: quota_manager where
  "quota_manager_new = \<lparr>qm_policies = [], qm_usage = [], qm_tenant_access = []\<rparr>"

section \<open>Policies and access\<close>

definition set_policy :: "workspace_quota_policy \<Rightarrow> quota_manager \<Rightarrow> quota_manager" where
  "set_policy p m = m\<lparr>qm_policies := hput (wqp_workspace_id p) p (qm_policies m)\<rparr>"

definition get_policy :: "ident \<Rightarrow> quota_manager \<Rightarrow> workspace_quota_policy option" where
  "get_policy ws m = hget (qm_policies m) ws"

definition set_tenant_access :: "tenant_access_policy \<Rightarrow> quota_manager \<Rightarrow> quota_manager" where
  "set_tenant_access p m = m\<lparr>qm_tenant_access := hput (tap_tenant_id p) p (qm_tenant_access m)\<rparr>"

definition get_tenant_access :: "ident \<Rightarrow> quota_manager \<Rightarrow> tenant_access_policy" where
  "get_tenant_access tenant m =
     (case hget (qm_tenant_access m) tenant of Some p \<Rightarrow> p | None \<Rightarrow> deny_all tenant)"

definition check_tenant_access :: "ident \<Rightarrow> ident \<Rightarrow> quota_manager \<Rightarrow> isolation_violation + unit"
  where
  "check_tenant_access source target m =
     assert_tenant_access (get_tenant_access source m) target"

section \<open>Usage\<close>

definition HOUR_MS :: u64 where "HOUR_MS = 3600000"
definition DAY_MS :: u64 where "DAY_MS = 86400000"

definition maybe_reset_counters :: "u64 \<Rightarrow> workspace_usage \<Rightarrow> workspace_usage" where
  "maybe_reset_counters now u =
     (let u = (if now - wus_hour_reset_ms u \<ge> HOUR_MS
               then u\<lparr>wus_runs_this_hour := 0, wus_hour_reset_ms := now\<rparr> else u)
      in if now - wus_day_reset_ms u \<ge> DAY_MS
         then u\<lparr>wus_tokens_today := 0, wus_day_reset_ms := now\<rparr> else u)"

definition record_run_started :: "u64 \<Rightarrow> string \<Rightarrow> quota_manager \<Rightarrow> quota_manager" where
  "record_run_started now ws m =
     m\<lparr>qm_usage := hentry ws (usage_for ws)
         (\<lambda>u. let u = maybe_reset_counters now u
              in u\<lparr>wus_active_runs := wrap_add32 (wus_active_runs u) 1,
                   wus_runs_this_hour := wrap_add32 (wus_runs_this_hour u) 1\<rparr>) (qm_usage m)\<rparr>"

definition record_run_completed :: "string \<Rightarrow> quota_manager \<Rightarrow> quota_manager" where
  "record_run_completed ws m =
     m\<lparr>qm_usage := hmodify ws (\<lambda>u. u\<lparr>wus_active_runs := wus_active_runs u - 1\<rparr>) (qm_usage m)\<rparr>"

definition record_tokens :: "u64 \<Rightarrow> string \<Rightarrow> u64 \<Rightarrow> quota_manager \<Rightarrow> quota_manager" where
  "record_tokens now ws tokens m =
     m\<lparr>qm_usage := hentry ws (usage_for ws)
         (\<lambda>u. let u = maybe_reset_counters now u
              in u\<lparr>wus_tokens_today := sat_add64 (wus_tokens_today u) tokens\<rparr>) (qm_usage m)\<rparr>"

definition record_storage :: "string \<Rightarrow> u64 \<Rightarrow> quota_manager \<Rightarrow> quota_manager" where
  "record_storage ws mb m =
     m\<lparr>qm_usage := hentry ws (usage_for ws)
         (\<lambda>u. u\<lparr>wus_storage_mb := sat_add64 (wus_storage_mb u) mb\<rparr>) (qm_usage m)\<rparr>"

definition get_usage :: "string \<Rightarrow> quota_manager \<Rightarrow> workspace_usage \<times> quota_manager" where
  "get_usage ws m =
     (let usage = hentry ws (usage_for ws) (\<lambda>u. u) (qm_usage m)
      in (case hget usage ws of Some u \<Rightarrow> u | None \<Rightarrow> usage_for ws, m\<lparr>qm_usage := usage\<rparr>))"

section \<open>Checks\<close>

text \<open>The usage a check reads, created and reset under the same lock.\<close>

definition checked_usage :: "u64 \<Rightarrow> string \<Rightarrow> quota_manager \<Rightarrow> workspace_usage \<times> quota_manager" where
  "checked_usage now ws m =
     (let u = maybe_reset_counters now
                (case hget (qm_usage m) ws of Some u \<Rightarrow> u | None \<Rightarrow> usage_for ws)
      in (u, m\<lparr>qm_usage := hput ws u (qm_usage m)\<rparr>))"

definition ws_check_run_quota :: "u64 \<Rightarrow> ident \<Rightarrow> quota_manager \<Rightarrow>
    (quota_violation + unit) \<times> quota_manager" where
  "ws_check_run_quota now ws m =
     (case get_policy ws m of
        None \<Rightarrow> (Inr (), m)
      | Some p \<Rightarrow>
          (let (u, m) = checked_usage now ws m
           in if wqp_max_concurrent_runs p > 0 \<and> wus_active_runs u \<ge> wqp_max_concurrent_runs p then
                (Inl \<lparr>qv_workspace_id = ws, qv_quota_type = ''max_concurrent_runs'',
                      qv_current = wus_active_runs u, qv_limit = wqp_max_concurrent_runs p\<rparr>, m)
              else if wqp_max_runs_per_hour p > 0 \<and> wus_runs_this_hour u \<ge> wqp_max_runs_per_hour p
              then
                (Inl \<lparr>qv_workspace_id = ws, qv_quota_type = ''max_runs_per_hour'',
                      qv_current = wus_runs_this_hour u, qv_limit = wqp_max_runs_per_hour p\<rparr>, m)
              else (Inr (), m)))"

definition check_token_quota :: "u64 \<Rightarrow> ident \<Rightarrow> u64 \<Rightarrow> quota_manager \<Rightarrow>
    (quota_violation + unit) \<times> quota_manager" where
  "check_token_quota now ws additional m =
     (case get_policy ws m of
        None \<Rightarrow> (Inr (), m)
      | Some p \<Rightarrow>
          if wqp_max_tokens_per_day p = 0 then (Inr (), m)
          else
            (let (u, m) = checked_usage now ws m
             in if sat_add64 (wus_tokens_today u) additional > wqp_max_tokens_per_day p then
                  (Inl \<lparr>qv_workspace_id = ws, qv_quota_type = ''max_tokens_per_day'',
                        qv_current = wus_tokens_today u, qv_limit = wqp_max_tokens_per_day p\<rparr>, m)
                else (Inr (), m)))"

definition check_storage_quota :: "ident \<Rightarrow> quota_manager \<Rightarrow> quota_violation + unit" where
  "check_storage_quota ws m =
     (case get_policy ws m of
        None \<Rightarrow> Inr ()
      | Some p \<Rightarrow>
          if wqp_max_storage_mb p = 0 then Inr ()
          else
            (let storage = (case hget (qm_usage m) ws of None \<Rightarrow> 0 | Some u \<Rightarrow> wus_storage_mb u)
             in if storage \<ge> wqp_max_storage_mb p then
                  Inl \<lparr>qv_workspace_id = ws, qv_quota_type = ''max_storage_mb'',
                       qv_current = storage, qv_limit = wqp_max_storage_mb p\<rparr>
                else Inr ()))"

definition usage_report :: "ident \<Rightarrow> quota_manager \<Rightarrow> workspace_usage_report \<times> quota_manager" where
  "usage_report ws m =
     (let (u, m) = get_usage ws m;
          (concurrent, hour, tokens, storage) =
            (case get_policy ws m of
               Some p \<Rightarrow> (wqp_max_concurrent_runs p, wqp_max_runs_per_hour p,
                          wqp_max_tokens_per_day p, wqp_max_storage_mb p)
             | None \<Rightarrow> (0, 0, 0, 0))
      in (\<lparr>wur_workspace_id = ws, wur_active_runs = wus_active_runs u,
           wur_max_concurrent_runs = concurrent, wur_runs_this_hour = wus_runs_this_hour u,
           wur_max_runs_per_hour = hour, wur_tokens_today = wus_tokens_today u,
           wur_max_tokens_per_day = tokens, wur_storage_mb = wus_storage_mb u,
           wur_max_storage_mb = storage\<rparr>, m))"

end
