(* ===== verification/Workspace_Quota_Laws.thy ===== *)
theory Workspace_Quota_Laws
  imports Workspace_Quota
begin

text \<open>
  What the limits of a workspace guarantee. A caller starts a run in two steps, the check and
  the record of the start, each atomic by itself; other callers may run between them. The step
  relation below interleaves any number of callers with every other operation of the manager.
\<close>

section \<open>Interleavings of the callers\<close>

text \<open>
  A state is the manager, the number of callers that hold an admission of the workspace \<open>ws\<close> and
  have not recorded it yet, and the greatest number there ever was.
\<close>

record quota_run =
  qr_manager :: quota_manager
  qr_admitted :: nat
  qr_peak :: nat

inductive quota_step :: "ident \<Rightarrow> quota_run \<Rightarrow> quota_run \<Rightarrow> bool" for ws :: ident where
  admit: "ws_check_run_quota now ws m = (Inr (), m') \<Longrightarrow>
     quota_step ws \<lparr>qr_manager = m, qr_admitted = k, qr_peak = h\<rparr>
       \<lparr>qr_manager = m', qr_admitted = Suc k, qr_peak = max h (Suc k)\<rparr>"
| refuse: "ws_check_run_quota now ws m = (Inl v, m') \<Longrightarrow>
     quota_step ws \<lparr>qr_manager = m, qr_admitted = k, qr_peak = h\<rparr>
       \<lparr>qr_manager = m', qr_admitted = k, qr_peak = h\<rparr>"
| start: "quota_step ws \<lparr>qr_manager = m, qr_admitted = Suc k, qr_peak = h\<rparr>
       \<lparr>qr_manager = record_run_started now ws m, qr_admitted = k, qr_peak = h\<rparr>"
| elsewhere_check: "ws' \<noteq> ws \<Longrightarrow> quota_step ws \<lparr>qr_manager = m, qr_admitted = k, qr_peak = h\<rparr>
       \<lparr>qr_manager = snd (ws_check_run_quota now ws' m), qr_admitted = k, qr_peak = h\<rparr>"
| elsewhere_start: "ws' \<noteq> ws \<Longrightarrow> quota_step ws \<lparr>qr_manager = m, qr_admitted = k, qr_peak = h\<rparr>
       \<lparr>qr_manager = record_run_started now ws' m, qr_admitted = k, qr_peak = h\<rparr>"
| complete: "quota_step ws \<lparr>qr_manager = m, qr_admitted = k, qr_peak = h\<rparr>
       \<lparr>qr_manager = record_run_completed ws' m, qr_admitted = k, qr_peak = h\<rparr>"
| tokens: "quota_step ws \<lparr>qr_manager = m, qr_admitted = k, qr_peak = h\<rparr>
       \<lparr>qr_manager = record_tokens now ws' n m, qr_admitted = k, qr_peak = h\<rparr>"
| storage: "quota_step ws \<lparr>qr_manager = m, qr_admitted = k, qr_peak = h\<rparr>
       \<lparr>qr_manager = record_storage ws' n m, qr_admitted = k, qr_peak = h\<rparr>"
| token_check: "quota_step ws \<lparr>qr_manager = m, qr_admitted = k, qr_peak = h\<rparr>
       \<lparr>qr_manager = snd (check_token_quota now ws' n m), qr_admitted = k, qr_peak = h\<rparr>"
| report: "quota_step ws \<lparr>qr_manager = m, qr_admitted = k, qr_peak = h\<rparr>
       \<lparr>qr_manager = snd (usage_report ws' m), qr_admitted = k, qr_peak = h\<rparr>"

text \<open>The usage of the workspace as the manager has it, and the limits of the policy on it.\<close>

definition usage_of :: "ident \<Rightarrow> quota_manager \<Rightarrow> workspace_usage" where
  "usage_of ws m = (case hget (qm_usage m) ws of Some u \<Rightarrow> u | None \<Rightarrow> usage_for ws)"

definition within :: "ident \<Rightarrow> workspace_quota_policy \<Rightarrow> quota_run \<Rightarrow> bool" where
  "within ws p q \<longleftrightarrow>
     get_policy ws (qr_manager q) = Some p \<and> qr_admitted q \<le> qr_peak q \<and>
     (wqp_max_concurrent_runs p > 0 \<longrightarrow>
        wus_active_runs (usage_of ws (qr_manager q)) + qr_admitted q
          \<le> wqp_max_concurrent_runs p - 1 + qr_peak q) \<and>
     (wqp_max_runs_per_hour p > 0 \<longrightarrow>
        wus_runs_this_hour (usage_of ws (qr_manager q)) + qr_admitted q
          \<le> wqp_max_runs_per_hour p - 1 + qr_peak q)"

section \<open>What one operation does to the usage of a workspace\<close>

lemma reset_counters:
  "wus_active_runs (maybe_reset_counters now u) = wus_active_runs u"
  "wus_runs_this_hour (maybe_reset_counters now u) \<le> wus_runs_this_hour u"
  "wus_runs_this_hour u = 0 \<Longrightarrow> wus_runs_this_hour (maybe_reset_counters now u) = 0"
  by (simp_all add: maybe_reset_counters_def Let_def)

lemma usage_of_checked:
  "fst (checked_usage now ws m) = maybe_reset_counters now (usage_of ws m)"
  "usage_of ws' (snd (checked_usage now ws m)) =
     (if ws' = ws then maybe_reset_counters now (usage_of ws m) else usage_of ws' m)"
  by (simp_all add: checked_usage_def usage_of_def Let_def hmap_simps)

lemma usage_of_run_check:
  "usage_of ws' (snd (ws_check_run_quota now ws m)) =
     (if ws' = ws \<and> get_policy ws m \<noteq> None then maybe_reset_counters now (usage_of ws m)
      else usage_of ws' m)"
  by (auto simp: ws_check_run_quota_def usage_of_checked case_prod_beta split: option.splits)

lemma usage_of_started:
  "usage_of ws' (record_run_started now ws m) =
     (if ws' = ws
      then (let u = maybe_reset_counters now (usage_of ws m)
            in u\<lparr>wus_active_runs := wrap_add32 (wus_active_runs u) 1,
                 wus_runs_this_hour := wrap_add32 (wus_runs_this_hour u) 1\<rparr>)
      else usage_of ws' m)"
  by (simp add: record_run_started_def usage_of_def hmap_simps Let_def)

lemma usage_of_completed:
  "wus_active_runs (usage_of ws' (record_run_completed ws m)) \<le> wus_active_runs (usage_of ws' m)"
  "wus_runs_this_hour (usage_of ws' (record_run_completed ws m)) = wus_runs_this_hour (usage_of ws' m)"
  by (auto simp: record_run_completed_def usage_of_def hmap_simps split: option.split)

lemma usage_of_others:
  "wus_active_runs (usage_of ws' (record_tokens now ws n m)) = wus_active_runs (usage_of ws' m)"
  "wus_runs_this_hour (usage_of ws' (record_tokens now ws n m)) \<le> wus_runs_this_hour (usage_of ws' m)"
  "wus_active_runs (usage_of ws' (record_storage ws n m)) = wus_active_runs (usage_of ws' m)"
  "wus_runs_this_hour (usage_of ws' (record_storage ws n m)) = wus_runs_this_hour (usage_of ws' m)"
  "wus_active_runs (usage_of ws' (snd (check_token_quota now ws n m))) = wus_active_runs (usage_of ws' m)"
  "wus_runs_this_hour (usage_of ws' (snd (check_token_quota now ws n m))) \<le>
     wus_runs_this_hour (usage_of ws' m)"
  "usage_of ws' (snd (usage_report ws m)) = usage_of ws' m"
  by (auto simp: record_tokens_def record_storage_def usage_of_def hmap_simps Let_def
      check_token_quota_def checked_usage_def usage_report_def get_usage_def case_prod_beta
      reset_counters usage_for_def split: option.splits)

lemma policies_kept:
  "get_policy ws (snd (ws_check_run_quota now ws' m)) = get_policy ws m"
  "get_policy ws (record_run_started now ws' m) = get_policy ws m"
  "get_policy ws (record_run_completed ws' m) = get_policy ws m"
  "get_policy ws (record_tokens now ws' n m) = get_policy ws m"
  "get_policy ws (record_storage ws' n m) = get_policy ws m"
  "get_policy ws (snd (check_token_quota now ws' n m)) = get_policy ws m"
  "get_policy ws (snd (usage_report ws' m)) = get_policy ws m"
  by (auto simp: get_policy_def ws_check_run_quota_def check_token_quota_def checked_usage_def
      record_run_started_def record_run_completed_def record_tokens_def record_storage_def
      usage_report_def get_usage_def Let_def split: option.split prod.split)

lemma admitted_below:
  assumes "ws_check_run_quota now ws m = (Inr (), m')" and "get_policy ws m = Some p"
  shows "wqp_max_concurrent_runs p > 0 \<longrightarrow> wus_active_runs (usage_of ws m') < wqp_max_concurrent_runs p"
    and "wqp_max_runs_per_hour p > 0 \<longrightarrow> wus_runs_this_hour (usage_of ws m') < wqp_max_runs_per_hour p"
  using assms
  by (auto simp: ws_check_run_quota_def usage_of_checked case_prod_beta split: if_splits)

lemma wrap_succ_le: "wrap_add32 n 1 \<le> Suc n"
  by (simp add: wrap_add32_def)

section \<open>The bound\<close>

lemma within_step: "quota_step ws q q' \<Longrightarrow> within ws p q \<Longrightarrow> within ws p q'"
proof (induction rule: quota_step.induct)
  case (admit now m m' k h)
  have kept: "get_policy ws m' = get_policy ws m"
    using policies_kept(1) [of ws now ws m] admit.hyps by simp
  with admit.prems have "get_policy ws m = Some p" by (simp add: within_def)
  note below = admitted_below [OF admit.hyps this]
  show ?case
    using admit.prems below kept by (auto simp: within_def)
next
  case (refuse now m v m' k h)
  have m': "m' = snd (ws_check_run_quota now ws m)" by (simp add: refuse.hyps)
  have "wus_active_runs (usage_of ws m') = wus_active_runs (usage_of ws m)"
    and "wus_runs_this_hour (usage_of ws m') \<le> wus_runs_this_hour (usage_of ws m)"
    by (simp_all add: m' usage_of_run_check reset_counters)
  then show ?case using refuse.prems by (auto simp: within_def m' policies_kept)
next
  case (start m k h now)
  let ?u = "usage_of ws m" and ?v = "usage_of ws (record_run_started now ws m)"
  have "wus_active_runs ?v \<le> Suc (wus_active_runs ?u)"
    using wrap_succ_le by (simp add: usage_of_started Let_def reset_counters)
  moreover have "wus_runs_this_hour ?v \<le> Suc (wus_runs_this_hour ?u)"
    using wrap_succ_le [of "wus_runs_this_hour (maybe_reset_counters now ?u)"]
      reset_counters(2) [of now ?u]
    by (simp add: usage_of_started Let_def)
  ultimately show ?case using start by (auto simp: within_def policies_kept)
next
  case (complete m k h ws')
  then show ?case
    using usage_of_completed [of ws ws' m] by (auto simp: within_def policies_kept)
next
  case (tokens m k h now ws' n)
  then show ?case
    using usage_of_others(1,2) [of ws now ws' n m] by (auto simp: within_def policies_kept)
next
  case (token_check m k h now ws' n)
  then show ?case
    using usage_of_others(5,6) [of ws now ws' n m] by (auto simp: within_def policies_kept)
qed (auto simp: within_def policies_kept usage_of_others usage_of_run_check usage_of_started)

text \<open>
  C31: The limits of a workspace hold up to the callers in flight. Whatever callers interleave,
  the active runs stay below the limit plus the greatest number of callers that ever stood
  between their check and their record at the same time, and so do the runs counted in the
  hour. Callers that take turns stay within the limits; two at once can pass a limit of one,
  as the witness does.
\<close>

theorem quota_overshoot_bounded:
  assumes "(quota_step ws)\<^sup>*\<^sup>* \<lparr>qr_manager = m, qr_admitted = 0, qr_peak = 0\<rparr> q"
    and "get_policy ws m = Some p" and "hget (qm_usage m) ws = None"
  shows "(wqp_max_concurrent_runs p > 0 \<longrightarrow>
        wus_active_runs (usage_of ws (qr_manager q)) \<le>
          wqp_max_concurrent_runs p - 1 + qr_peak q) \<and>
      (wqp_max_runs_per_hour p > 0 \<longrightarrow>
        wus_runs_this_hour (usage_of ws (qr_manager q)) \<le>
          wqp_max_runs_per_hour p - 1 + qr_peak q)"
proof -
  have "within ws p \<lparr>qr_manager = m, qr_admitted = 0, qr_peak = 0\<rparr>"
    using assms(2,3) by (simp add: within_def usage_of_def usage_for_def)
  with assms(1) have "within ws p q"
    by (induction rule: rtranclp_induct) (blast intro: within_step)+
  then show ?thesis by (auto simp: within_def)
qed

definition sample_policy :: workspace_quota_policy where
  "sample_policy = (workspace_quota_policy_new ''w'' ''t'')\<lparr>wqp_max_concurrent_runs := 1\<rparr>"

definition policy_manager :: quota_manager where
  "policy_manager = set_policy sample_policy quota_manager_new"

definition checked_manager :: quota_manager where
  "checked_manager = snd (ws_check_run_quota 0 ''w'' policy_manager)"

definition started_twice :: quota_manager where
  "started_twice = record_run_started 0 ''w'' (record_run_started 0 ''w'' checked_manager)"

lemmas run_manager = policy_manager_def sample_policy_def checked_manager_def started_twice_def
  set_policy_def quota_manager_new_def workspace_quota_policy_new_def ws_check_run_quota_def
  get_policy_def checked_usage_def maybe_reset_counters_def usage_for_def HOUR_MS_def DAY_MS_def
  record_run_started_def usage_of_def wrap_add32_def hmap_simps

theorem quota_overshoot_bounded_witness:
  "wus_active_runs (usage_of ''w'' started_twice) = 2 \<and>
   wus_active_runs (usage_of ''w'' started_twice) \<le> wqp_max_concurrent_runs sample_policy - 1 + 2"
proof -
  let ?q = "\<lambda>m k h. \<lparr>qr_manager = m, qr_admitted = k, qr_peak = h\<rparr>"
  have "ws_check_run_quota 0 ''w'' policy_manager = (Inr (), checked_manager)"
    and "ws_check_run_quota 0 ''w'' checked_manager = (Inr (), checked_manager)"
    by (simp_all add: run_manager hput_def hget_def Let_def)
  from this [THEN quota_step.admit]
  have "quota_step ''w'' (?q policy_manager 0 0) (?q checked_manager 1 1)"
    and "quota_step ''w'' (?q checked_manager 1 1) (?q checked_manager 2 2)"
    by (metis One_nat_def max_0L, metis One_nat_def Suc_1 max_def n_not_Suc_n nat_le_linear Suc_leD)
  moreover have "quota_step ''w'' (?q checked_manager 2 2)
        (?q (record_run_started 0 ''w'' checked_manager) 1 2)"
    and "quota_step ''w'' (?q (record_run_started 0 ''w'' checked_manager) 1 2) (?q started_twice 0 2)"
    using quota_step.start [of "''w''" _ 1 2 0] quota_step.start [of "''w''" _ 0 2 0]
    by (simp_all add: started_twice_def numeral_2_eq_2)
  ultimately have "(quota_step ''w'')\<^sup>*\<^sup>* (?q policy_manager 0 0) (?q started_twice 0 2)"
    by (meson converse_rtranclp_into_rtranclp rtranclp.rtrancl_refl)
  note quota_overshoot_bounded [OF this, of sample_policy]
  then show ?thesis by (simp add: run_manager Let_def)
qed

end
