(* ===== verification/Trigger_Conditions.thy ===== *)
theory Trigger_Conditions
  imports Prelude "HOL-Library.Monad_Syntax"
begin

text \<open>
  The conditions of triggers and the expansion of run templates
  (\<open>crates/cairn-runtime/src/services/trigger_service.rs\<close>). A JSON value is of a type the model
  does not fix; the operations of \<open>serde_json\<close> the code calls on it come as one record, an
  argument of every definition that uses them.
\<close>

section \<open>JSON values\<close>

record 'j json_ops =
  js_get :: "'j \<Rightarrow> string \<Rightarrow> 'j option"
  js_as_array :: "'j \<Rightarrow> 'j list option"
  js_is_object :: "'j \<Rightarrow> bool"
  js_as_str :: "'j \<Rightarrow> string option"
  js_is_null :: "'j \<Rightarrow> bool"
  js_to_string :: "'j \<Rightarrow> string"
  js_string :: "string \<Rightarrow> 'j"
  js_object :: "(string \<times> 'j) list \<Rightarrow> 'j"

section \<open>Conditions\<close>

datatype 'j trigger_condition =
    Equals string 'j
  | Contains string 'j
  | Exists string
  | Not_c "'j trigger_condition"

text \<open>\<open>resolve_path\<close>: one step per segment, an array segment has no scalar.\<close>

fun resolve_segments :: "'j json_ops \<Rightarrow> 'j \<Rightarrow> string list \<Rightarrow> 'j option" where
  "resolve_segments js current [] = Some current"
| "resolve_segments js current (segment # rest) =
     (if ends_with ''[]'' segment then None
      else (case js_get js current segment of
              None \<Rightarrow> None
            | Some nested \<Rightarrow> resolve_segments js nested rest))"

definition resolve_path :: "'j json_ops \<Rightarrow> 'j \<Rightarrow> string \<Rightarrow> 'j option" where
  "resolve_path js v path = resolve_segments js v (split_on (CHR ''.'') path)"

definition resolve_array_path :: "'j json_ops \<Rightarrow> 'j \<Rightarrow> string \<Rightarrow> 'j list" where
  "resolve_array_path js v path =
     (case split_once ''[].'' path of
        None \<Rightarrow> (case resolve_path js v path of None \<Rightarrow> [] | Some x \<Rightarrow> [x])
      | Some (array_path, field_path) \<Rightarrow>
          (case Option.bind (resolve_path js v array_path) (js_as_array js) of
             None \<Rightarrow> []
           | Some items \<Rightarrow> List.map_filter (\<lambda>item. resolve_path js item field_path) items))"

fun evaluate_condition :: "'j json_ops \<Rightarrow> 'j trigger_condition \<Rightarrow> 'j \<Rightarrow> bool" where
  "evaluate_condition js (Equals path v) payload = (resolve_path js payload path = Some v)"
| "evaluate_condition js (Contains path v) payload =
     list_ex (\<lambda>x. x = v) (resolve_array_path js payload path)"
| "evaluate_condition js (Exists path) payload = (resolve_path js payload path \<noteq> None)"
| "evaluate_condition js (Not_c c) payload = (\<not> evaluate_condition js c payload)"

definition evaluate_conditions :: "'j json_ops \<Rightarrow> 'j trigger_condition list \<Rightarrow> 'j \<Rightarrow> bool" where
  "evaluate_conditions js cs payload = list_all (\<lambda>c. evaluate_condition js c payload) cs"

section \<open>Conditions as JSON\<close>

fun trigger_condition_to_value :: "'j json_ops \<Rightarrow> 'j trigger_condition \<Rightarrow> 'j" where
  "trigger_condition_to_value js (Equals path v) =
     js_object js [(''type'', js_string js ''equals''), (''path'', js_string js path), (''value'', v)]"
| "trigger_condition_to_value js (Contains path v) =
     js_object js
       [(''type'', js_string js ''contains''), (''path'', js_string js path), (''value'', v)]"
| "trigger_condition_to_value js (Exists path) =
     js_object js [(''type'', js_string js ''exists''), (''path'', js_string js path)]"
| "trigger_condition_to_value js (Not_c c) =
     js_object js
       [(''type'', js_string js ''not''), (''condition'', trigger_condition_to_value js c)]"

definition condition_path :: "'j json_ops \<Rightarrow> 'j \<Rightarrow> string + string" where
  "condition_path js obj =
     (case Option.bind (js_get js obj ''path'') (js_as_str js) of
        Some p \<Rightarrow> Inr p
      | None \<Rightarrow> Inl ''trigger condition is missing string field `path`'')"

definition condition_value :: "'j json_ops \<Rightarrow> 'j \<Rightarrow> string + 'j" where
  "condition_value js obj =
     (case js_get js obj ''value'' of
        Some v \<Rightarrow> Inr v
      | None \<Rightarrow> Inl ''trigger condition is missing field `value`'')"

definition sum_map2 :: "('a \<Rightarrow> 'b \<Rightarrow> 'c) \<Rightarrow> 'e + 'a \<Rightarrow> 'e + 'b \<Rightarrow> 'e + 'c" where
  "sum_map2 f x y =
     (case x of Inl e \<Rightarrow> Inl e | Inr a \<Rightarrow> (case y of Inl e \<Rightarrow> Inl e | Inr b \<Rightarrow> Inr (f a b)))"

text \<open>
  The recursion follows the nesting of \<open>not\<close>, which is finite in a JSON value but not known to
  the model, so the result is \<open>None\<close> where it would not end.
\<close>

partial_function (option) trigger_condition_from_value ::
    "'j json_ops \<Rightarrow> 'j \<Rightarrow> (string + 'j trigger_condition) option" where
  "trigger_condition_from_value js v =
     (if \<not> js_is_object js v then Some (Inl ''trigger condition must be an object'')
      else (case Option.bind (js_get js v ''type'') (js_as_str js) of
              None \<Rightarrow> Some (Inl ''trigger condition is missing string field `type`'')
            | Some kind \<Rightarrow>
                if kind = ''equals'' then
                  Some (sum_map2 Equals (condition_path js v) (condition_value js v))
                else if kind = ''contains'' then
                  Some (sum_map2 Contains (condition_path js v) (condition_value js v))
                else if kind = ''exists'' then
                  Some (case condition_path js v of Inl e \<Rightarrow> Inl e | Inr p \<Rightarrow> Inr (Exists p))
                else if kind = ''not'' then
                  (case (case js_get js v ''condition'' of
                           Some c \<Rightarrow> Some c | None \<Rightarrow> js_get js v ''inner'') of
                     None \<Rightarrow>
                       Some (Inl ''trigger condition `not` is missing object field `condition`'')
                   | Some nested \<Rightarrow>
                       Option.bind (trigger_condition_from_value js nested)
                         (\<lambda>r. Some (case r of Inl e \<Rightarrow> Inl e | Inr c \<Rightarrow> Inr (Not_c c))))
                else Some (Inl (''unsupported trigger condition type `'' @ kind @ ''`''))))"

section \<open>Variable substitution\<close>

definition value_to_string :: "'j json_ops \<Rightarrow> 'j \<Rightarrow> string" where
  "value_to_string js v =
     (case js_as_str js v of
        Some s \<Rightarrow> s
      | None \<Rightarrow> if js_is_null js v then [] else js_to_string js v)"

definition placeholder :: "'j json_ops \<Rightarrow> 'j \<Rightarrow> string \<Rightarrow> string" where
  "placeholder js payload path =
     (if str_contains ''[].'' path
      then join_with '', '' (map (value_to_string js) (resolve_array_path js payload path))
      else (case resolve_path js payload path of
              None \<Rightarrow> [] | Some v \<Rightarrow> value_to_string js v))"

text \<open>The scan of the template; the argument is what is left of it.\<close>

function expand :: "'j json_ops \<Rightarrow> 'j \<Rightarrow> string \<Rightarrow> string" where
  "expand js payload s =
     (case find_sub ''{{'' s of
        None \<Rightarrow> s
      | Some open \<Rightarrow>
          take open s @
          (let after = drop (open + 2) s
           in case find_sub ''}}'' after of
                None \<Rightarrow> ''{{'' @ expand js payload after
              | Some close \<Rightarrow>
                  placeholder js payload (take close after)
                    @ expand js payload (drop (close + 2) after)))"
  by pat_completeness auto

termination
  by (relation "measure (\<lambda>(_, _, s). length s)") (auto dest!: find_sub_bound)

declare expand.simps [simp del]

definition missing_fields :: "'j json_ops \<Rightarrow> 'j \<Rightarrow> string list \<Rightarrow> string list" where
  "missing_fields js payload names = filter (\<lambda>f. resolve_path js payload f = None) names"

definition substitute_variables :: "'j json_ops \<Rightarrow> string \<Rightarrow> 'j \<Rightarrow> string list \<Rightarrow>
    string list + string" where
  "substitute_variables js template payload required_fields =
     (let output = expand js payload template;
          missing = missing_fields js payload required_fields
      in if missing = [] then Inr output else Inl missing)"

end
