(* ===== verification/Trigger_Service.thy ===== *)
theory Trigger_Service
  imports Trigger_Conditions Tenancy Decision_Types
begin

text \<open>
  The trigger service (\<open>crates/cairn-runtime/src/services/trigger_service.rs\<close>): triggers and run
  templates, the ledger of fires, the two rolling windows, and the evaluation of a signal. The
  service stands behind one mutex, so each method is one step; the clock and the outcome of the
  decision layer are arguments.
\<close>

section \<open>Triggers, templates and events\<close>

record signal_pattern =
  sp_signal_type :: string
  sp_plugin_id :: "string option"

datatype suspension_reason =
    RateLimitExceeded
  | BudgetExceeded
  | RepeatedFailures u32
  | OperatorPaused

datatype trigger_state =
    Enabled
  | Disabled "string option" u64
  | Suspended suspension_reason u64

record rate_limit_config =
  rl_max_per_minute :: u32
  rl_max_burst :: u32

definition default_rate_limit :: rate_limit_config where
  "default_rate_limit = \<lparr>rl_max_per_minute = 10, rl_max_burst = 20\<rparr>"

record 'j trigger =
  trg_id :: ident
  trg_project :: project_key
  trg_name :: string
  trg_description :: "string option"
  trg_signal_pattern :: signal_pattern
  trg_conditions :: "'j trigger_condition list"
  trg_run_template_id :: ident
  trg_state :: trigger_state
  trg_rate_limit :: rate_limit_config
  trg_max_chain_depth :: u8
  trg_created_by :: ident
  trg_created_at :: u64
  trg_updated_at :: u64

text \<open>The \<open>f32\<close> share is carried, never computed with: its bits.\<close>

record template_budget =
  tb_max_tokens :: "u64 option"
  tb_max_wall_clock_ms :: "u64 option"
  tb_max_iterations :: "u32 option"
  tb_exploration_budget_share :: "u32 option"

record run_template =
  tmpl_id :: ident
  tmpl_project :: project_key
  tmpl_name :: string
  tmpl_description :: "string option"
  tmpl_default_mode :: run_mode
  tmpl_system_prompt :: string
  tmpl_initial_user_message :: "string option"
  tmpl_plugin_allowlist :: "string list option"
  tmpl_tool_allowlist :: "string list option"
  tmpl_budget :: template_budget
  tmpl_sandbox_hint :: "string option"
  tmpl_required_fields :: "string list"
  tmpl_created_by :: ident
  tmpl_created_at :: u64
  tmpl_updated_at :: u64

datatype skip_reason =
    ConditionMismatch
  | ChainTooDeep
  | AlreadyFired
  | MissingRequiredField string

datatype trigger_event =
    TriggerCreated ident project_key signal_pattern ident ident u64
  | TriggerUpdated ident ident u64
  | TriggerEnabled ident ident u64
  | TriggerDisabled ident ident "string option" u64
  | TriggerSuspended ident suspension_reason u64
  | TriggerResumed ident u64
  | TriggerDeleted ident ident u64
  | TriggerFired ident ident string ident u8 u64
  | TriggerSkipped ident ident skip_reason u64
  | TriggerDenied ident ident ident string u64
  | TriggerRateLimited ident ident u32 u32 u64
  | TriggerPendingApproval ident ident ident u64
  | RunTemplateCreated ident project_key string run_mode ident u64
  | RunTemplateUpdated ident ident u64
  | RunTemplateDeleted ident ident u64

datatype trigger_error =
    TriggerNotFound ident
  | TemplateNotFound ident
  | TemplateInUse ident "ident list"
  | NotSuspended ident

datatype trigger_pre_decision_status =
    Ready
  | Skipped skip_reason
  | RateLimited u32
  | OverBudget

datatype trigger_decision_outcome =
    Approved ident
  | Denied ident string
  | PendingApproval ident

definition auto_approve_decision :: "u64 \<Rightarrow> ident \<Rightarrow> string \<Rightarrow> trigger_decision_outcome" where
  "auto_approve_decision now trigger_id signal_type = Approved (''auto_'' @ show_nat now)"

record 'j trigger_service =
  ts_triggers :: "(ident, 'j trigger) hmap"
  ts_templates :: "(ident, run_template) hmap"
  ts_fire_ledger :: "(ident \<times> ident, u64) hmap"
  ts_fire_counts :: "(ident, u64 list) hmap"
  ts_project_budgets :: "(project_key, u64 list) hmap"
  ts_default_project_budget :: u32

definition trigger_service_new :: "'j trigger_service" where
  "trigger_service_new =
     \<lparr>ts_triggers = [], ts_templates = [], ts_fire_ledger = [], ts_fire_counts = [],
      ts_project_budgets = [], ts_default_project_budget = 100\<rparr>"

section \<open>Templates\<close>

definition create_template :: "run_template \<Rightarrow> 'j trigger_service \<Rightarrow>
    trigger_event \<times> 'j trigger_service" where
  "create_template t s =
     (RunTemplateCreated (tmpl_id t) (tmpl_project t) (tmpl_name t) (tmpl_default_mode t)
        (tmpl_created_by t) (tmpl_created_at t),
      s\<lparr>ts_templates := hput (tmpl_id t) t (ts_templates s)\<rparr>)"

definition get_template :: "ident \<Rightarrow> 'j trigger_service \<Rightarrow> run_template option" where
  "get_template i s = hget (ts_templates s) i"

definition delete_template :: "u64 \<Rightarrow> ident \<Rightarrow> ident \<Rightarrow> 'j trigger_service \<Rightarrow>
    (trigger_error + trigger_event) \<times> 'j trigger_service" where
  "delete_template now i by s =
     (let referencing =
            map trg_id (filter (\<lambda>t. trg_run_template_id t = i) (hvals (ts_triggers s)))
      in if referencing \<noteq> [] then (Inl (TemplateInUse i referencing), s)
         else (case hget (ts_templates s) i of
                 None \<Rightarrow> (Inl (TemplateNotFound i), s)
               | Some _ \<Rightarrow>
                   (Inr (RunTemplateDeleted i by now),
                    s\<lparr>ts_templates := hdel i (ts_templates s)\<rparr>)))"

definition list_templates_for_project :: "project_key \<Rightarrow> 'j trigger_service \<Rightarrow> run_template list" where
  "list_templates_for_project p s = filter (\<lambda>t. tmpl_project t = p) (hvals (ts_templates s))"

section \<open>Triggers\<close>

definition create_trigger :: "'j trigger \<Rightarrow> 'j trigger_service \<Rightarrow>
    (trigger_error + trigger_event) \<times> 'j trigger_service" where
  "create_trigger t s =
     (if hget (ts_templates s) (trg_run_template_id t) = None
      then (Inl (TemplateNotFound (trg_run_template_id t)), s)
      else (Inr (TriggerCreated (trg_id t) (trg_project t) (trg_signal_pattern t)
                   (trg_run_template_id t) (trg_created_by t) (trg_created_at t)),
            s\<lparr>ts_triggers := hput (trg_id t) t (ts_triggers s)\<rparr>))"

definition get_trigger :: "ident \<Rightarrow> 'j trigger_service \<Rightarrow> 'j trigger option" where
  "get_trigger i s = hget (ts_triggers s) i"

definition set_trigger_state :: "trigger_state \<Rightarrow> u64 \<Rightarrow> ident \<Rightarrow> 'j trigger_service \<Rightarrow>
    'j trigger_service" where
  "set_trigger_state st now i s =
     s\<lparr>ts_triggers := hmodify i (\<lambda>t. t\<lparr>trg_state := st, trg_updated_at := now\<rparr>) (ts_triggers s)\<rparr>"

definition enable_trigger :: "u64 \<Rightarrow> ident \<Rightarrow> ident \<Rightarrow> 'j trigger_service \<Rightarrow>
    (trigger_error + trigger_event) \<times> 'j trigger_service" where
  "enable_trigger now i by s =
     (case get_trigger i s of
        None \<Rightarrow> (Inl (TriggerNotFound i), s)
      | Some _ \<Rightarrow> (Inr (TriggerEnabled i by now), set_trigger_state Enabled now i s))"

definition disable_trigger :: "u64 \<Rightarrow> ident \<Rightarrow> ident \<Rightarrow> string option \<Rightarrow> 'j trigger_service \<Rightarrow>
    (trigger_error + trigger_event) \<times> 'j trigger_service" where
  "disable_trigger now i by reason s =
     (case get_trigger i s of
        None \<Rightarrow> (Inl (TriggerNotFound i), s)
      | Some _ \<Rightarrow>
          (Inr (TriggerDisabled i by reason now), set_trigger_state (Disabled reason now) now i s))"

fun is_suspended :: "trigger_state \<Rightarrow> bool" where
  "is_suspended (Suspended _ _) = True"
| "is_suspended _ = False"

definition resume_trigger_by_id :: "u64 \<Rightarrow> ident \<Rightarrow> 'j trigger_service \<Rightarrow>
    (trigger_error + trigger_event) \<times> 'j trigger_service" where
  "resume_trigger_by_id now i s =
     (case get_trigger i s of
        None \<Rightarrow> (Inl (TriggerNotFound i), s)
      | Some t \<Rightarrow>
          if \<not> is_suspended (trg_state t) then (Inl (NotSuspended i), s)
          else (Inr (TriggerResumed i now), set_trigger_state Enabled now i s))"

definition restore_trigger_state :: "ident \<Rightarrow> trigger_state \<Rightarrow> u64 \<Rightarrow> 'j trigger_service \<Rightarrow>
    (trigger_error + unit) \<times> 'j trigger_service" where
  "restore_trigger_state i st updated_at s =
     (case get_trigger i s of
        None \<Rightarrow> (Inl (TriggerNotFound i), s)
      | Some _ \<Rightarrow> (Inr (), set_trigger_state st updated_at i s))"

definition delete_trigger :: "u64 \<Rightarrow> ident \<Rightarrow> ident \<Rightarrow> 'j trigger_service \<Rightarrow>
    (trigger_error + trigger_event) \<times> 'j trigger_service" where
  "delete_trigger now i by s =
     (case get_trigger i s of
        None \<Rightarrow> (Inl (TriggerNotFound i), s)
      | Some _ \<Rightarrow>
          (Inr (TriggerDeleted i by now), s\<lparr>ts_triggers := hdel i (ts_triggers s)\<rparr>))"

definition list_triggers_for_project :: "project_key \<Rightarrow> 'j trigger_service \<Rightarrow> 'j trigger list" where
  "list_triggers_for_project p s = filter (\<lambda>t. trg_project t = p) (hvals (ts_triggers s))"

section \<open>The ledger and the windows\<close>

definition fire_ledger_snapshot :: "'j trigger_service \<Rightarrow> (ident \<times> ident, u64) hmap" where
  "fire_ledger_snapshot s = ts_fire_ledger s"

definition restore_fire_ledger :: "(ident \<times> ident, u64) hmap \<Rightarrow> 'j trigger_service \<Rightarrow>
    'j trigger_service" where
  "restore_fire_ledger ledger s = s\<lparr>ts_fire_ledger := ledger\<rparr>"

definition trigger_window_ms :: u64 where "trigger_window_ms = 60000"
definition project_window_ms :: u64 where "project_window_ms = 3600000"

text \<open>\<open>retain\<close> the entries of the window that ends at \<open>now\<close>, then \<open>push\<close>.\<close>

definition push_window :: "u64 \<Rightarrow> u64 \<Rightarrow> u64 list \<Rightarrow> u64 list" where
  "push_window width now xs = filter (\<lambda>ts. ts > now - width) xs @ [now]"

text \<open>The bookkeeping of a fire, the same in the evaluation and in the replay.\<close>

definition restore_fired_trigger :: "project_key \<Rightarrow> ident \<Rightarrow> ident \<Rightarrow> u64 \<Rightarrow> 'j trigger_service \<Rightarrow>
    'j trigger_service" where
  "restore_fired_trigger p trigger_id signal_id fired_at s =
     s\<lparr>ts_fire_ledger := hput (trigger_id, signal_id) fired_at (ts_fire_ledger s),
       ts_fire_counts := hentry trigger_id [] (push_window trigger_window_ms fired_at)
         (ts_fire_counts s),
       ts_project_budgets := hentry p [] (push_window project_window_ms fired_at)
         (ts_project_budgets s)\<rparr>"

definition in_window :: "u64 \<Rightarrow> u64 \<Rightarrow> u64 list option \<Rightarrow> nat" where
  "in_window width now entries =
     (case entries of None \<Rightarrow> 0 | Some xs \<Rightarrow> length (filter (\<lambda>ts. ts > now - width) xs))"

section \<open>Evaluation of a signal\<close>

definition trigger_matches :: "project_key \<Rightarrow> string \<Rightarrow> string \<Rightarrow> 'j trigger \<Rightarrow> bool" where
  "trigger_matches p signal_type plugin_id t \<longleftrightarrow>
     trg_project t = p \<and> trg_state t = Enabled \<and>
     sp_signal_type (trg_signal_pattern t) = signal_type \<and>
     (case sp_plugin_id (trg_signal_pattern t) of None \<Rightarrow> True | Some pid \<Rightarrow> pid = plugin_id)"

definition matching_trigger_ids :: "project_key \<Rightarrow> string \<Rightarrow> string \<Rightarrow> 'j trigger_service \<Rightarrow>
    ident list" where
  "matching_trigger_ids p signal_type plugin_id s =
     sort (map trg_id (filter (trigger_matches p signal_type plugin_id) (hvals (ts_triggers s))))"

definition next_depth :: "u8 option \<Rightarrow> u8" where
  "next_depth source_depth = (case source_depth of None \<Rightarrow> 1 | Some d \<Rightarrow> sat_add8 d 1)"

definition pre_decision_status :: "'j json_ops \<Rightarrow> project_key \<Rightarrow> ident \<Rightarrow> ident \<Rightarrow> 'j \<Rightarrow> u8 option \<Rightarrow>
    u64 \<Rightarrow> 'j trigger_service \<Rightarrow> trigger_pre_decision_status option" where
  "pre_decision_status js p trigger_id signal_id payload source_depth now s =
     (case get_trigger trigger_id s of
        None \<Rightarrow> None
      | Some t \<Rightarrow>
          if hget (ts_fire_ledger s) (trg_id t, signal_id) \<noteq> None then Some (Skipped AlreadyFired)
          else if \<not> evaluate_conditions js (trg_conditions t) payload then
            Some (Skipped ConditionMismatch)
          else if next_depth source_depth > trg_max_chain_depth t then Some (Skipped ChainTooDeep)
          else if as_u32 (in_window trigger_window_ms now (hget (ts_fire_counts s) trigger_id))
                    \<ge> rl_max_per_minute (trg_rate_limit t) then
            Some (RateLimited (rl_max_per_minute (trg_rate_limit t)))
          else if as_u32 (in_window project_window_ms now (hget (ts_project_budgets s) p))
                    \<ge> ts_default_project_budget s then
            Some OverBudget
          else (case get_template (trg_run_template_id t) s of
                  None \<Rightarrow> None
                | Some tmpl \<Rightarrow>
                    (case find (\<lambda>f. resolve_path js payload f = None) (tmpl_required_fields tmpl) of
                       Some field \<Rightarrow> Some (Skipped (MissingRequiredField field))
                     | None \<Rightarrow> Some Ready)))"

definition decision_candidates_for_signal :: "'j json_ops \<Rightarrow> project_key \<Rightarrow> ident \<Rightarrow> string \<Rightarrow>
    string \<Rightarrow> 'j \<Rightarrow> u8 option \<Rightarrow> u64 \<Rightarrow> 'j trigger_service \<Rightarrow> ident list" where
  "decision_candidates_for_signal js p signal_id signal_type plugin_id payload depth now s =
     filter (\<lambda>i. pre_decision_status js p i signal_id payload depth now s = Some Ready)
       (matching_trigger_ids p signal_type plugin_id s)"

definition run_id_of_fire :: "ident \<Rightarrow> u64 \<Rightarrow> ident" where
  "run_id_of_fire trigger_id now = ''run_trigger_'' @ trigger_id @ ''_'' @ show_nat now"

text \<open>One turn of the loop over the matching triggers.\<close>

definition evaluate_trigger :: "'j json_ops \<Rightarrow> project_key \<Rightarrow> ident \<Rightarrow> string \<Rightarrow> 'j \<Rightarrow> u8 option \<Rightarrow>
    (ident \<Rightarrow> string \<Rightarrow> trigger_decision_outcome) \<Rightarrow> u64 \<Rightarrow> ident \<Rightarrow> 'j trigger_service \<Rightarrow>
    trigger_event list \<times> 'j trigger_service" where
  "evaluate_trigger js p signal_id signal_type payload depth decision_fn now trigger_id s =
     (case pre_decision_status js p trigger_id signal_id payload depth now s of
        None \<Rightarrow> ([], s)
      | Some (Skipped reason) \<Rightarrow> ([TriggerSkipped trigger_id signal_id reason now], s)
      | Some (RateLimited capacity) \<Rightarrow>
          ([TriggerRateLimited trigger_id signal_id 0 capacity now], s)
      | Some OverBudget \<Rightarrow>
          ([TriggerSuspended trigger_id BudgetExceeded now],
           set_trigger_state (Suspended BudgetExceeded now) now trigger_id s)
      | Some Ready \<Rightarrow>
          (case decision_fn trigger_id signal_type of
             Denied decision_id reason \<Rightarrow>
               ([TriggerDenied trigger_id signal_id decision_id reason now], s)
           | PendingApproval approval_id \<Rightarrow>
               ([TriggerPendingApproval trigger_id signal_id approval_id now], s)
           | Approved _ \<Rightarrow>
               ([TriggerFired trigger_id signal_id signal_type (run_id_of_fire trigger_id now)
                   (next_depth depth) now],
                restore_fired_trigger p trigger_id signal_id now s)))"

fun evaluate_triggers :: "'j json_ops \<Rightarrow> project_key \<Rightarrow> ident \<Rightarrow> string \<Rightarrow> 'j \<Rightarrow> u8 option \<Rightarrow>
    (ident \<Rightarrow> string \<Rightarrow> trigger_decision_outcome) \<Rightarrow> u64 \<Rightarrow> ident list \<Rightarrow> 'j trigger_service \<Rightarrow>
    trigger_event list \<times> 'j trigger_service" where
  "evaluate_triggers js p signal_id signal_type payload depth decision_fn now [] s = ([], s)"
| "evaluate_triggers js p signal_id signal_type payload depth decision_fn now (i # ids) s =
     (let (events, s) = evaluate_trigger js p signal_id signal_type payload depth decision_fn now i s;
          (more, s) = evaluate_triggers js p signal_id signal_type payload depth decision_fn now ids s
      in (events @ more, s))"

definition evaluate_signal_inner :: "'j json_ops \<Rightarrow> project_key \<Rightarrow> ident \<Rightarrow> string \<Rightarrow> string \<Rightarrow> 'j \<Rightarrow>
    u8 option \<Rightarrow> ident list option \<Rightarrow> (ident \<Rightarrow> string \<Rightarrow> trigger_decision_outcome) \<Rightarrow> u64 \<Rightarrow>
    'j trigger_service \<Rightarrow> trigger_event list \<times> 'j trigger_service" where
  "evaluate_signal_inner js p signal_id signal_type plugin_id payload depth prepared decision_fn
       now s =
     (let matching = matching_trigger_ids p signal_type plugin_id s;
          matching = (case prepared of
                        None \<Rightarrow> matching
                      | Some ids \<Rightarrow> filter (\<lambda>i. i \<in> set ids) matching)
      in evaluate_triggers js p signal_id signal_type payload depth decision_fn now matching s)"

definition evaluate_signal :: "'j json_ops \<Rightarrow> project_key \<Rightarrow> ident \<Rightarrow> string \<Rightarrow> string \<Rightarrow> 'j \<Rightarrow>
    u8 option \<Rightarrow> (ident \<Rightarrow> string \<Rightarrow> trigger_decision_outcome) \<Rightarrow> u64 \<Rightarrow> 'j trigger_service \<Rightarrow>
    trigger_event list \<times> 'j trigger_service" where
  "evaluate_signal js p signal_id signal_type plugin_id payload depth decision_fn now s =
     evaluate_signal_inner js p signal_id signal_type plugin_id payload depth None decision_fn now s"

definition evaluate_signal_for_candidates :: "'j json_ops \<Rightarrow> project_key \<Rightarrow> ident \<Rightarrow> string \<Rightarrow>
    string \<Rightarrow> 'j \<Rightarrow> u8 option \<Rightarrow> ident list \<Rightarrow> (ident \<Rightarrow> string \<Rightarrow> trigger_decision_outcome) \<Rightarrow> u64 \<Rightarrow>
    'j trigger_service \<Rightarrow> trigger_event list \<times> 'j trigger_service" where
  "evaluate_signal_for_candidates js p signal_id signal_type plugin_id payload depth prepared
       decision_fn now s =
     evaluate_signal_inner js p signal_id signal_type plugin_id payload depth (Some prepared)
       decision_fn now s"

end
