(* ===== verification/Trigger_Handlers.thy ===== *)
theory Trigger_Handlers
  imports Trigger_Service
begin

text \<open>
  The triggers of the application: the events it persists
  (\<open>crates/cairn-app/src/triggers.rs\<close>, payloads in \<open>crates/cairn-domain/src/events.rs\<close>), the
  handlers that change triggers and templates (\<open>crates/cairn-app/src/trigger_routes.rs\<close>), the
  part of the signal handler that fires triggers (\<open>handlers/signals.rs\<close>), and the replay of the
  log at startup (\<open>replay_triggers\<close> of \<open>state.rs\<close>). The persisted events are the trigger variants
  of the runtime event, which the replay picks out of the log.
\<close>

section \<open>Persisted events\<close>

datatype domain_suspension_reason =
    DRateLimitExceeded
  | DBudgetExceeded
  | DRepeatedFailures u32
  | DOperatorPaused

datatype domain_skip_reason =
    DConditionMismatch
  | DChainTooDeep
  | DAlreadyFired
  | DMissingRequiredField string

record 'j trigger_created_payload =
  trc_project :: project_key
  trc_trigger_id :: ident
  trc_name :: string
  trc_description :: "string option"
  trc_signal_type :: string
  trc_plugin_id :: "string option"
  trc_conditions :: "'j list"
  trc_run_template_id :: ident
  trc_max_per_minute :: u32
  trc_max_burst :: u32
  trc_max_chain_depth :: u8
  trc_created_by :: ident
  trc_created_at :: u64

record run_template_created_payload =
  rtc_project :: project_key
  rtc_template_id :: ident
  rtc_name :: string
  rtc_description :: "string option"
  rtc_default_mode :: run_mode
  rtc_system_prompt :: string
  rtc_initial_user_message :: "string option"
  rtc_plugin_allowlist :: "string list option"
  rtc_tool_allowlist :: "string list option"
  rtc_budget_max_tokens :: "u64 option"
  rtc_budget_max_wall_clock_ms :: "u64 option"
  rtc_budget_max_iterations :: "u32 option"
  rtc_budget_exploration_budget_share :: "u32 option"
  rtc_sandbox_hint :: "string option"
  rtc_required_fields :: "string list"
  rtc_created_by :: ident
  rtc_created_at :: u64

text \<open>The fields of the others are in the order of the source, the project first.\<close>

datatype 'j trigger_payload =
    PTriggerCreated "'j trigger_created_payload"
  | PTriggerEnabled project_key ident ident u64
  | PTriggerDisabled project_key ident ident "string option" u64
  | PTriggerSuspended project_key ident domain_suspension_reason u64
  | PTriggerResumed project_key ident u64
  | PTriggerDeleted project_key ident ident u64
  | PTriggerFired project_key ident ident string ident u8 u64
  | PTriggerSkipped project_key ident ident domain_skip_reason u64
  | PTriggerDenied project_key ident ident ident string u64
  | PTriggerRateLimited project_key ident ident u32 u32 u64
  | PTriggerPendingApproval project_key ident ident ident u64
  | PRunTemplateCreated run_template_created_payload
  | PRunTemplateDeleted project_key ident ident u64

fun domain_trigger_skip_reason :: "skip_reason \<Rightarrow> domain_skip_reason" where
  "domain_trigger_skip_reason ConditionMismatch = DConditionMismatch"
| "domain_trigger_skip_reason ChainTooDeep = DChainTooDeep"
| "domain_trigger_skip_reason AlreadyFired = DAlreadyFired"
| "domain_trigger_skip_reason (MissingRequiredField f) = DMissingRequiredField f"

fun domain_trigger_suspension_reason :: "suspension_reason \<Rightarrow> domain_suspension_reason" where
  "domain_trigger_suspension_reason RateLimitExceeded = DRateLimitExceeded"
| "domain_trigger_suspension_reason BudgetExceeded = DBudgetExceeded"
| "domain_trigger_suspension_reason (RepeatedFailures n) = DRepeatedFailures n"
| "domain_trigger_suspension_reason OperatorPaused = DOperatorPaused"

fun runtime_trigger_suspension_reason :: "domain_suspension_reason \<Rightarrow> suspension_reason" where
  "runtime_trigger_suspension_reason DRateLimitExceeded = RateLimitExceeded"
| "runtime_trigger_suspension_reason DBudgetExceeded = BudgetExceeded"
| "runtime_trigger_suspension_reason (DRepeatedFailures n) = RepeatedFailures n"
| "runtime_trigger_suspension_reason DOperatorPaused = OperatorPaused"

definition trigger_condition_values :: "'j json_ops \<Rightarrow> 'j trigger_condition list \<Rightarrow> 'j list" where
  "trigger_condition_values js cs = map (trigger_condition_to_value js) cs"

fun trigger_conditions_from_values :: "'j json_ops \<Rightarrow> 'j list \<Rightarrow>
    (string + 'j trigger_condition list) option" where
  "trigger_conditions_from_values js [] = Some (Inr [])"
| "trigger_conditions_from_values js (v # vs) =
     (case trigger_condition_from_value js v of
        None \<Rightarrow> None
      | Some (Inl e) \<Rightarrow> Some (Inl (''invalid persisted trigger condition: '' @ e))
      | Some (Inr c) \<Rightarrow>
          (case trigger_conditions_from_values js vs of
             None \<Rightarrow> None
           | Some (Inl e) \<Rightarrow> Some (Inl e)
           | Some (Inr cs) \<Rightarrow> Some (Inr (c # cs))))"

definition runtime_event_for_run_template_created :: "run_template \<Rightarrow> 'j trigger_payload" where
  "runtime_event_for_run_template_created t =
     PRunTemplateCreated
       \<lparr>rtc_project = tmpl_project t, rtc_template_id = tmpl_id t, rtc_name = tmpl_name t,
        rtc_description = tmpl_description t, rtc_default_mode = tmpl_default_mode t,
        rtc_system_prompt = tmpl_system_prompt t,
        rtc_initial_user_message = tmpl_initial_user_message t,
        rtc_plugin_allowlist = tmpl_plugin_allowlist t,
        rtc_tool_allowlist = tmpl_tool_allowlist t,
        rtc_budget_max_tokens = tb_max_tokens (tmpl_budget t),
        rtc_budget_max_wall_clock_ms = tb_max_wall_clock_ms (tmpl_budget t),
        rtc_budget_max_iterations = tb_max_iterations (tmpl_budget t),
        rtc_budget_exploration_budget_share = tb_exploration_budget_share (tmpl_budget t),
        rtc_sandbox_hint = tmpl_sandbox_hint t, rtc_required_fields = tmpl_required_fields t,
        rtc_created_by = tmpl_created_by t, rtc_created_at = tmpl_created_at t\<rparr>"

definition runtime_event_for_trigger_created :: "'j json_ops \<Rightarrow> 'j trigger \<Rightarrow> 'j trigger_payload" where
  "runtime_event_for_trigger_created js t =
     PTriggerCreated
       \<lparr>trc_project = trg_project t, trc_trigger_id = trg_id t, trc_name = trg_name t,
        trc_description = trg_description t,
        trc_signal_type = sp_signal_type (trg_signal_pattern t),
        trc_plugin_id = sp_plugin_id (trg_signal_pattern t),
        trc_conditions = trigger_condition_values js (trg_conditions t),
        trc_run_template_id = trg_run_template_id t,
        trc_max_per_minute = rl_max_per_minute (trg_rate_limit t),
        trc_max_burst = rl_max_burst (trg_rate_limit t),
        trc_max_chain_depth = trg_max_chain_depth t, trc_created_by = trg_created_by t,
        trc_created_at = trg_created_at t\<rparr>"

fun runtime_event_for_trigger_service_event :: "project_key \<Rightarrow> trigger_event \<Rightarrow>
    'j trigger_payload option" where
  "runtime_event_for_trigger_service_event p (TriggerEnabled i by at) = Some (PTriggerEnabled p i by at)"
| "runtime_event_for_trigger_service_event p (TriggerDisabled i by r at) =
     Some (PTriggerDisabled p i by r at)"
| "runtime_event_for_trigger_service_event p (TriggerSuspended i r at) =
     Some (PTriggerSuspended p i (domain_trigger_suspension_reason r) at)"
| "runtime_event_for_trigger_service_event p (TriggerResumed i at) = Some (PTriggerResumed p i at)"
| "runtime_event_for_trigger_service_event p (TriggerDeleted i by at) = Some (PTriggerDeleted p i by at)"
| "runtime_event_for_trigger_service_event p (TriggerFired i sig ty run d at) =
     Some (PTriggerFired p i sig ty run d at)"
| "runtime_event_for_trigger_service_event p (TriggerSkipped i sig r at) =
     Some (PTriggerSkipped p i sig (domain_trigger_skip_reason r) at)"
| "runtime_event_for_trigger_service_event p (TriggerDenied i sig did r at) =
     Some (PTriggerDenied p i sig did r at)"
| "runtime_event_for_trigger_service_event p (TriggerRateLimited i sig n c at) =
     Some (PTriggerRateLimited p i sig n c at)"
| "runtime_event_for_trigger_service_event p (TriggerPendingApproval i sig a at) =
     Some (PTriggerPendingApproval p i sig a at)"
| "runtime_event_for_trigger_service_event p (RunTemplateDeleted i by at) =
     Some (PRunTemplateDeleted p i by at)"
| "runtime_event_for_trigger_service_event p _ = None"

section \<open>Replay\<close>

definition template_of_payload :: "run_template_created_payload \<Rightarrow> run_template" where
  "template_of_payload e =
     \<lparr>tmpl_id = rtc_template_id e, tmpl_project = rtc_project e, tmpl_name = rtc_name e,
      tmpl_description = rtc_description e, tmpl_default_mode = rtc_default_mode e,
      tmpl_system_prompt = rtc_system_prompt e,
      tmpl_initial_user_message = rtc_initial_user_message e,
      tmpl_plugin_allowlist = rtc_plugin_allowlist e, tmpl_tool_allowlist = rtc_tool_allowlist e,
      tmpl_budget =
        \<lparr>tb_max_tokens = rtc_budget_max_tokens e,
         tb_max_wall_clock_ms = rtc_budget_max_wall_clock_ms e,
         tb_max_iterations = rtc_budget_max_iterations e,
         tb_exploration_budget_share = rtc_budget_exploration_budget_share e\<rparr>,
      tmpl_sandbox_hint = rtc_sandbox_hint e, tmpl_required_fields = rtc_required_fields e,
      tmpl_created_by = rtc_created_by e, tmpl_created_at = rtc_created_at e,
      tmpl_updated_at = rtc_created_at e\<rparr>"

definition trigger_of_payload :: "'j trigger_created_payload \<Rightarrow> 'j trigger_condition list \<Rightarrow>
    'j trigger" where
  "trigger_of_payload e conditions =
     \<lparr>trg_id = trc_trigger_id e, trg_project = trc_project e, trg_name = trc_name e,
      trg_description = trc_description e,
      trg_signal_pattern = \<lparr>sp_signal_type = trc_signal_type e, sp_plugin_id = trc_plugin_id e\<rparr>,
      trg_conditions = conditions, trg_run_template_id = trc_run_template_id e,
      trg_state = Enabled,
      trg_rate_limit =
        \<lparr>rl_max_per_minute = trc_max_per_minute e, rl_max_burst = trc_max_burst e\<rparr>,
      trg_max_chain_depth = trc_max_chain_depth e, trg_created_by = trc_created_by e,
      trg_created_at = trc_created_at e, trg_updated_at = trc_created_at e\<rparr>"

text \<open>
  One event of the loop; \<open>now\<close> is the clock the deletions stamp on the events they return, which
  the replay drops. \<open>None\<close> only where the decoding of a condition would not end.
\<close>

definition replay_trigger_event :: "'j json_ops \<Rightarrow> u64 \<Rightarrow> 'j trigger_payload \<Rightarrow>
    'j trigger_service \<Rightarrow> 'j trigger_service option" where
  "replay_trigger_event js now ev s =
     (case ev of
        PRunTemplateCreated e \<Rightarrow> Some (snd (create_template (template_of_payload e) s))
      | PRunTemplateDeleted _ i by _ \<Rightarrow> Some (snd (delete_template now i by s))
      | PTriggerCreated e \<Rightarrow>
          (case trigger_conditions_from_values js (trc_conditions e) of
             None \<Rightarrow> None
           | Some (Inl _) \<Rightarrow> Some s
           | Some (Inr conditions) \<Rightarrow> Some (snd (create_trigger (trigger_of_payload e conditions) s)))
      | PTriggerEnabled _ i _ at \<Rightarrow> Some (snd (restore_trigger_state i Enabled at s))
      | PTriggerDisabled _ i _ r at \<Rightarrow> Some (snd (restore_trigger_state i (Disabled r at) at s))
      | PTriggerSuspended _ i r at \<Rightarrow>
          Some (snd (restore_trigger_state i
            (Suspended (runtime_trigger_suspension_reason r) at) at s))
      | PTriggerResumed _ i at \<Rightarrow> Some (snd (restore_trigger_state i Enabled at s))
      | PTriggerDeleted _ i by _ \<Rightarrow> Some (snd (delete_trigger now i by s))
      | PTriggerFired p i sig _ _ _ at \<Rightarrow> Some (restore_fired_trigger p i sig at s)
      | PTriggerSkipped _ _ _ _ _ \<Rightarrow> Some s
      | PTriggerDenied _ _ _ _ _ _ \<Rightarrow> Some s
      | PTriggerRateLimited _ _ _ _ _ _ \<Rightarrow> Some s
      | PTriggerPendingApproval _ _ _ _ _ \<Rightarrow> Some s)"

fun replay_trigger_events :: "'j json_ops \<Rightarrow> u64 \<Rightarrow> 'j trigger_payload list \<Rightarrow> 'j trigger_service \<Rightarrow>
    'j trigger_service option" where
  "replay_trigger_events js now [] s = Some s"
| "replay_trigger_events js now (ev # evs) s =
     (case replay_trigger_event js now ev s of
        None \<Rightarrow> None
      | Some s \<Rightarrow> replay_trigger_events js now evs s)"

definition replay_triggers :: "'j json_ops \<Rightarrow> u64 \<Rightarrow> 'j trigger_payload list \<Rightarrow>
    'j trigger_service option" where
  "replay_triggers js now log = replay_trigger_events js now log trigger_service_new"

section \<open>Handlers\<close>

record 'j create_trigger_request =
  ctr_name :: string
  ctr_description :: "string option"
  ctr_signal_type :: string
  ctr_plugin_id :: "string option"
  ctr_conditions :: "'j trigger_condition list"
  ctr_run_template_id :: string
  ctr_max_chain_depth :: u8
  ctr_rate_limit :: "rate_limit_config option"

record create_run_template_request =
  crt_name :: string
  crt_description :: "string option"
  crt_default_mode :: run_mode
  crt_system_prompt :: string
  crt_initial_user_message :: "string option"
  crt_plugin_allowlist :: "string list option"
  crt_tool_allowlist :: "string list option"
  crt_budget :: template_budget
  crt_sandbox_hint :: "string option"
  crt_required_fields :: "string list"

definition trigger_of_request :: "u64 \<Rightarrow> project_key \<Rightarrow> ident \<Rightarrow> 'j create_trigger_request \<Rightarrow>
    'j trigger" where
  "trigger_of_request now p operator body =
     \<lparr>trg_id = ''trigger_'' @ show_nat now, trg_project = p, trg_name = ctr_name body,
      trg_description = ctr_description body,
      trg_signal_pattern =
        \<lparr>sp_signal_type = ctr_signal_type body, sp_plugin_id = ctr_plugin_id body\<rparr>,
      trg_conditions = ctr_conditions body, trg_run_template_id = ctr_run_template_id body,
      trg_state = Enabled,
      trg_rate_limit =
        (case ctr_rate_limit body of Some r \<Rightarrow> r | None \<Rightarrow> default_rate_limit),
      trg_max_chain_depth = ctr_max_chain_depth body, trg_created_by = operator,
      trg_created_at = now, trg_updated_at = now\<rparr>"

definition template_of_request :: "u64 \<Rightarrow> project_key \<Rightarrow> ident \<Rightarrow> create_run_template_request \<Rightarrow>
    run_template" where
  "template_of_request now p operator body =
     \<lparr>tmpl_id = ''tmpl_'' @ show_nat now, tmpl_project = p, tmpl_name = crt_name body,
      tmpl_description = crt_description body, tmpl_default_mode = crt_default_mode body,
      tmpl_system_prompt = crt_system_prompt body,
      tmpl_initial_user_message = crt_initial_user_message body,
      tmpl_plugin_allowlist = crt_plugin_allowlist body,
      tmpl_tool_allowlist = crt_tool_allowlist body, tmpl_budget = crt_budget body,
      tmpl_sandbox_hint = crt_sandbox_hint body, tmpl_required_fields = crt_required_fields body,
      tmpl_created_by = operator, tmpl_created_at = now, tmpl_updated_at = now\<rparr>"

text \<open>
  What a handler answers under the lock, with the event it persists afterwards. \<open>allowed\<close> is the
  answer of \<open>enforce_project_tenant\<close> for the caller and the project of the path.
\<close>

datatype 'j trigger_reply =
    Answered trigger_event "'j trigger_payload"
  | TenantMismatch
  | HandlerNotFound ident
  | HandlerError trigger_error

definition create_trigger_handler :: "'j json_ops \<Rightarrow> bool \<Rightarrow> u64 \<Rightarrow> project_key \<Rightarrow> ident \<Rightarrow>
    'j create_trigger_request \<Rightarrow> 'j trigger_service \<Rightarrow> 'j trigger_reply \<times> 'j trigger_service" where
  "create_trigger_handler js allowed now p operator body s =
     (if \<not> allowed then (TenantMismatch, s)
      else let t = trigger_of_request now p operator body
           in (case create_trigger t s of
                 (Inr ev, s) \<Rightarrow> (Answered ev (runtime_event_for_trigger_created js t), s)
               | (Inl e, s) \<Rightarrow> (HandlerError e, s)))"

definition create_run_template_handler :: "bool \<Rightarrow> u64 \<Rightarrow> project_key \<Rightarrow> ident \<Rightarrow>
    create_run_template_request \<Rightarrow> 'j trigger_service \<Rightarrow> 'j trigger_reply \<times> 'j trigger_service" where
  "create_run_template_handler allowed now p operator body s =
     (if \<not> allowed then (TenantMismatch, s)
      else let t = template_of_request now p operator body;
               (ev, s) = create_template t s
           in (Answered ev (runtime_event_for_run_template_created t), s))"

text \<open>The other handlers look the trigger up, check its project, and persist the event.\<close>

definition persist_answer :: "project_key \<Rightarrow> (trigger_error + trigger_event) \<times> 'j trigger_service \<Rightarrow>
    'j trigger_reply \<times> 'j trigger_service" where
  "persist_answer p r =
     (case r of
        (Inr ev, s) \<Rightarrow>
          (Answered ev (the (runtime_event_for_trigger_service_event p ev)), s)
      | (Inl e, s) \<Rightarrow> (HandlerError e, s))"

definition on_trigger :: "bool \<Rightarrow> project_key \<Rightarrow> ident \<Rightarrow>
    ('j trigger_service \<Rightarrow> (trigger_error + trigger_event) \<times> 'j trigger_service) \<Rightarrow>
    'j trigger_service \<Rightarrow> 'j trigger_reply \<times> 'j trigger_service" where
  "on_trigger allowed p i operation s =
     (if \<not> allowed then (TenantMismatch, s)
      else (case get_trigger i s of
              None \<Rightarrow> (HandlerNotFound i, s)
            | Some t \<Rightarrow>
                if trg_project t = p then persist_answer p (operation s)
                else (HandlerNotFound i, s)))"

definition delete_trigger_handler where
  "delete_trigger_handler allowed now p operator i = on_trigger allowed p i (delete_trigger now i operator)"

definition enable_trigger_handler where
  "enable_trigger_handler allowed now p operator i = on_trigger allowed p i (enable_trigger now i operator)"

definition disable_trigger_handler where
  "disable_trigger_handler allowed now p operator i reason =
     on_trigger allowed p i (disable_trigger now i operator reason)"

definition resume_trigger_handler where
  "resume_trigger_handler allowed now p i = on_trigger allowed p i (resume_trigger_by_id now i)"

definition delete_run_template_handler :: "bool \<Rightarrow> u64 \<Rightarrow> project_key \<Rightarrow> ident \<Rightarrow> ident \<Rightarrow>
    'j trigger_service \<Rightarrow> 'j trigger_reply \<times> 'j trigger_service" where
  "delete_run_template_handler allowed now p operator i s =
     (if \<not> allowed then (TenantMismatch, s)
      else (case get_template i s of
              None \<Rightarrow> (HandlerNotFound i, s)
            | Some t \<Rightarrow>
                if tmpl_project t = p then persist_answer p (delete_template now i operator s)
                else (HandlerNotFound i, s)))"

section \<open>Firing for a signal\<close>

definition unavailable_trigger_decision :: "u64 \<Rightarrow> ident \<Rightarrow> string \<Rightarrow> trigger_decision_outcome" where
  "unavailable_trigger_decision now trigger_id reason =
     Denied (''dec_trigger_unavailable_'' @ trigger_id @ ''_'' @ show_nat now) reason"

text \<open>
  The second half of the handler, under the lock again: evaluate the prepared candidates with the
  outcomes gathered in between, persist what happened, and pair each fire with its template.
\<close>

definition fire_prepared :: "'j json_ops \<Rightarrow> project_key \<Rightarrow> ident \<Rightarrow> string \<Rightarrow> 'j \<Rightarrow>
    (ident, trigger_decision_outcome) hmap \<Rightarrow> u64 \<Rightarrow> 'j trigger_service \<Rightarrow>
    trigger_event list \<times> 'j trigger_payload list \<times> 'j trigger_service" where
  "fire_prepared js p signal_id source payload outcomes now s =
     (let (events, s) =
            evaluate_signal_for_candidates js p signal_id source [] payload None
              (map fst outcomes)
              (\<lambda>trigger_id signal_type.
                 case hget outcomes trigger_id of
                   Some d \<Rightarrow> d
                 | None \<Rightarrow> unavailable_trigger_decision now trigger_id
                     (''decision_unavailable_for_trigger_fire:'' @ signal_type))
              now s
      in (events, List.map_filter (runtime_event_for_trigger_service_event p) events, s))"

definition pending_run :: "trigger_event \<Rightarrow> 'j trigger_service \<Rightarrow> (ident \<times> ident \<times> run_template) option"
  where
  "pending_run ev s =
     (case ev of
        TriggerFired trigger_id _ _ run_id _ _ \<Rightarrow>
          (case get_trigger trigger_id s of
             None \<Rightarrow> None
           | Some t \<Rightarrow>
               (case get_template (trg_run_template_id t) s of
                  None \<Rightarrow> None
                | Some tmpl \<Rightarrow> Some (trigger_id, run_id, tmpl)))
      | _ \<Rightarrow> None)"

end
