(* ===== verification/Trigger_Condition_Laws.thy ===== *)
theory Trigger_Condition_Laws
  imports Trigger_Conditions
begin

text \<open>
  The properties of trigger conditions and of template expansion. What they need of
  \<open>serde_json\<close> is its documented behaviour: an object answers with the value of a key, a string
  with its text.
\<close>

definition json_laws :: "'j json_ops \<Rightarrow> bool" where
  "json_laws js \<longleftrightarrow>
     (\<forall>kvs. js_is_object js (js_object js kvs)) \<and>
     (\<forall>kvs k. distinct (map fst kvs) \<longrightarrow> js_get js (js_object js kvs) k = map_of kvs k) \<and>
     (\<forall>s. js_as_str js (js_string js s) = Some s)"

section \<open>A sample JSON type\<close>

datatype sample_json =
    JNull
  | JNumber nat
  | JString string
  | JArray "sample_json list"
  | JObject "(string \<times> sample_json) list"

definition sample_ops :: "sample_json json_ops" where
  "sample_ops =
     \<lparr>js_get = (\<lambda>v k. case v of JObject kvs \<Rightarrow> map_of kvs k | _ \<Rightarrow> None),
      js_as_array = (\<lambda>v. case v of JArray xs \<Rightarrow> Some xs | _ \<Rightarrow> None),
      js_is_object = (\<lambda>v. case v of JObject _ \<Rightarrow> True | _ \<Rightarrow> False),
      js_as_str = (\<lambda>v. case v of JString s \<Rightarrow> Some s | _ \<Rightarrow> None),
      js_is_null = (\<lambda>v. v = JNull),
      js_to_string = (\<lambda>v. case v of JNumber n \<Rightarrow> show_nat n | _ \<Rightarrow> ''?''),
      js_string = JString, js_object = JObject\<rparr>"

lemma sample_laws: "json_laws sample_ops"
  by (simp add: json_laws_def sample_ops_def)

section \<open>Printing and parsing\<close>

lemma json_get [simp]:
  "json_laws js \<Longrightarrow> distinct (map fst kvs) \<Longrightarrow> js_get js (js_object js kvs) k = map_of kvs k"
  unfolding json_laws_def by blast

lemma json_basics [simp]:
  "json_laws js \<Longrightarrow> js_is_object js (js_object js kvs)"
  "json_laws js \<Longrightarrow> js_as_str js (js_string js s) = Some s"
  unfolding json_laws_def by blast+

lemma condition_round_trip_lemma:
  "json_laws js \<Longrightarrow>
     trigger_condition_from_value js (trigger_condition_to_value js c) = Some (Inr c)"
  by (induction c)
    (subst trigger_condition_from_value.simps,
      simp add: condition_path_def condition_value_def sum_map2_def)+

text \<open>
  Conditions survive the log. Parsing the JSON that a condition is persisted as ends and
  gives the condition back, however deep its negations are nested and whatever its paths and
  values are.
\<close>

theorem condition_round_trip:
  assumes "json_laws js"
  shows "trigger_condition_from_value js (trigger_condition_to_value js c) = Some (Inr c)"
  by (rule condition_round_trip_lemma [OF assms])

theorem condition_round_trip_witness:
  "trigger_condition_from_value sample_ops
     (JObject [(''type'', JString ''not''),
        (''condition'', JObject [(''type'', JString ''equals''), (''path'', JString ''a.b''),
           (''value'', JNumber 3)])]) =
   Some (Inr (Not_c (Equals ''a.b'' (JNumber 3))))"
  using condition_round_trip [OF sample_laws, of "Not_c (Equals ''a.b'' (JNumber 3))"]
  by (simp add: sample_ops_def)

section \<open>Expansion\<close>

lemma find_sub_first: "c \<notin> set a \<Longrightarrow> find_sub [c, c] (a @ c # c # rest) = Some (length a)"
  by (induction a) auto

lemma find_sub_absent: "c \<notin> set a \<Longrightarrow> find_sub [c, c] a = None"
  by (induction a) auto

lemma expand_plain: "CHR ''{'' \<notin> set s \<Longrightarrow> expand js payload s = s"
  by (simp add: expand.simps find_sub_absent)

lemma expand_hole:
  assumes "CHR ''{'' \<notin> set a" and "CHR ''}'' \<notin> set p"
  shows "expand js payload (a @ ''{{'' @ p @ ''}}'' @ rest) =
    a @ placeholder js payload p @ expand js payload rest"
proof -
  let ?s = "a @ CHR ''{'' # CHR ''{'' # p @ CHR ''}'' # CHR ''}'' # rest"
  have open': "find_sub ''{{'' ?s = Some (length a)"
    by (rule find_sub_first [OF assms(1)])
  have close': "find_sub ''}}'' (p @ CHR ''}'' # CHR ''}'' # rest) = Some (length p)"
    by (rule find_sub_first [OF assms(2)])
  have "expand js payload ?s = a @ placeholder js payload p @ expand js payload rest"
    by (subst expand.simps, subst open', simp only: option.case Let_def) (simp add: close')
  then show ?thesis by simp
qed

text \<open>A template as the pieces its author wrote, and what each piece stands for.\<close>

datatype piece = Literal string | Hole string

fun piece_source :: "piece \<Rightarrow> string" where
  "piece_source (Literal l) = l"
| "piece_source (Hole p) = ''{{'' @ p @ ''}}''"

fun piece_value :: "'j json_ops \<Rightarrow> 'j \<Rightarrow> piece \<Rightarrow> string" where
  "piece_value js payload (Literal l) = l"
| "piece_value js payload (Hole p) = placeholder js payload p"

fun plain_piece :: "piece \<Rightarrow> bool" where
  "plain_piece (Literal l) = (CHR ''{'' \<notin> set l)"
| "plain_piece (Hole p) = (CHR ''}'' \<notin> set p)"

lemma expand_literal: "CHR ''{'' \<notin> set l \<Longrightarrow> expand js payload (l @ s) = l @ expand js payload s"
proof (cases "find_sub ''{{'' s")
  case None
  assume l: "CHR ''{'' \<notin> set l"
  then have "find_sub ''{{'' (l @ s) = None"
    using None by (induction l) auto
  then show ?thesis using None by (simp add: expand.simps)
next
  case (Some n)
  assume l: "CHR ''{'' \<notin> set l"
  then have "find_sub ''{{'' (l @ s) = Some (length l + n)"
    using Some by (induction l) auto
  then show ?thesis
    using Some by (simp add: expand.simps [of js payload "l @ s"] expand.simps [of js payload s])
qed

text \<open>
  The expansion of a template replaces each placeholder by the value at its path, once. What
  the values hold is never looked at again, so a signal whose fields contain braces cannot
  bring in placeholders of its own, and everything outside the placeholders is kept. The
  result is that text when every required field is present and the list of the missing ones
  otherwise.
\<close>

theorem substitution_fills_holes:
  assumes "list_all plain_piece ps"
  shows "substitute_variables js (concat (map piece_source ps)) payload required =
    (let missing = filter (\<lambda>f. resolve_path js payload f = None) required
     in if missing = [] then Inr (concat (map (piece_value js payload) ps)) else Inl missing)"
proof -
  have "expand js payload (concat (map piece_source ps)) = concat (map (piece_value js payload) ps)"
    using assms
  proof (induction ps)
    case Nil
    then show ?case by (simp add: expand_plain)
  next
    case (Cons p ps)
    then show ?case
    proof (cases p)
      case (Hole x)
      then show ?thesis
        using Cons expand_hole [of "[]" x js payload "concat (map piece_source ps)"] by simp
    qed (simp add: expand_literal)
  qed
  then show ?thesis by (simp add: substitute_variables_def missing_fields_def Let_def)
qed

theorem substitution_fills_holes_witness:
  "substitute_variables sample_ops ''fix {{title}}!''
     (JObject [(''title'', JString ''{{secret}}''), (''secret'', JString ''x'')]) [''title''] =
   Inr ''fix {{secret}}!''"
proof -
  have "list_all plain_piece [Literal ''fix '', Hole ''title'', Literal ''!'']" by simp
  from substitution_fills_holes [OF this, of sample_ops
      "JObject [(''title'', JString ''{{secret}}''), (''secret'', JString ''x'')]" "[''title'']"]
  show ?thesis
    by (simp add: Let_def sample_ops_def placeholder_def str_contains_def resolve_path_def
        ends_with_def value_to_string_def)
qed

end
