(* ===== verification/Trigger_Laws.thy ===== *)
theory Trigger_Laws
  imports Trigger_Handlers Trigger_Condition_Laws
begin

text \<open>
  The step relation of the trigger service and its invariants. A state is the service together with the trigger events
  persisted so far, in order. A step is one handler that answered, one signal whose prepared
  candidates are fired, or a restart, which replaces the service by the replay of the log.
\<close>

section \<open>Steps\<close>

inductive trigger_step :: "'j json_ops \<Rightarrow> 'j trigger_service \<times> 'j trigger_payload list \<Rightarrow>
    'j trigger_service \<times> 'j trigger_payload list \<Rightarrow> bool" for js :: "'j json_ops" where
  create_trigger: "create_trigger_handler js allowed now p by body s = (Answered ev pl, s') \<Longrightarrow>
     trigger_step js (s, log) (s', log @ [pl])"
| create_template: "create_run_template_handler allowed now p by tmpl s = (Answered ev pl, s') \<Longrightarrow>
     trigger_step js (s, log) (s', log @ [pl])"
| delete_trigger: "delete_trigger_handler allowed now p by i s = (Answered ev pl, s') \<Longrightarrow>
     trigger_step js (s, log) (s', log @ [pl])"
| enable: "enable_trigger_handler allowed now p by i s = (Answered ev pl, s') \<Longrightarrow>
     trigger_step js (s, log) (s', log @ [pl])"
| disable: "disable_trigger_handler allowed now p by i reason s = (Answered ev pl, s') \<Longrightarrow>
     trigger_step js (s, log) (s', log @ [pl])"
| resume: "resume_trigger_handler allowed now p i s = (Answered ev pl, s') \<Longrightarrow>
     trigger_step js (s, log) (s', log @ [pl])"
| delete_template: "delete_run_template_handler allowed now p by i s = (Answered ev pl, s') \<Longrightarrow>
     trigger_step js (s, log) (s', log @ [pl])"
| fire: "fire_prepared js p sig source payload outcomes now s = (evs, pls, s') \<Longrightarrow>
     trigger_step js (s, log) (s', log @ pls)"
| restart: "replay_triggers js now log = Some s' \<Longrightarrow> trigger_step js (s, log) (s', log)"

definition trigger_reachable :: "'j json_ops \<Rightarrow> 'j trigger_service \<Rightarrow> 'j trigger_payload list \<Rightarrow> bool"
  where
  "trigger_reachable js s log \<longleftrightarrow> (trigger_step js)\<^sup>*\<^sup>* (trigger_service_new, []) (s, log)"

section \<open>What an answer persists\<close>

lemmas handler_defs = create_trigger_handler_def create_run_template_handler_def
  delete_trigger_handler_def enable_trigger_handler_def disable_trigger_handler_def
  resume_trigger_handler_def delete_run_template_handler_def on_trigger_def persist_answer_def

lemmas service_defs = create_trigger_def create_template_def delete_trigger_def enable_trigger_def
  disable_trigger_def resume_trigger_by_id_def delete_template_def restore_trigger_state_def

text \<open>An answered handler made one change of the service and one event that names it.\<close>

inductive answered :: "'j json_ops \<Rightarrow> 'j trigger_service \<Rightarrow> 'j trigger_payload \<Rightarrow>
    'j trigger_service \<Rightarrow> bool" for js :: "'j json_ops" where
  created: "hget (ts_templates s) (trg_run_template_id t) \<noteq> None \<Longrightarrow> trg_state t = Enabled \<Longrightarrow>
     trg_updated_at t = trg_created_at t \<Longrightarrow>
     answered js s (runtime_event_for_trigger_created js t)
       (s\<lparr>ts_triggers := hput (trg_id t) t (ts_triggers s)\<rparr>)"
| template: "tmpl_updated_at t = tmpl_created_at t \<Longrightarrow>
     answered js s (runtime_event_for_run_template_created t)
       (s\<lparr>ts_templates := hput (tmpl_id t) t (ts_templates s)\<rparr>)"
| deleted: "get_trigger i s \<noteq> None \<Longrightarrow>
     answered js s (PTriggerDeleted p i by at) (s\<lparr>ts_triggers := hdel i (ts_triggers s)\<rparr>)"
| enabled: "get_trigger i s \<noteq> None \<Longrightarrow>
     answered js s (PTriggerEnabled p i by at) (set_trigger_state Enabled at i s)"
| disabled: "get_trigger i s \<noteq> None \<Longrightarrow>
     answered js s (PTriggerDisabled p i by r at) (set_trigger_state (Disabled r at) at i s)"
| resumed: "get_trigger i s \<noteq> None \<Longrightarrow>
     answered js s (PTriggerResumed p i at) (set_trigger_state Enabled at i s)"
| template_deleted: "list_all (\<lambda>t. trg_run_template_id t \<noteq> i) (hvals (ts_triggers s)) \<Longrightarrow>
     hget (ts_templates s) i \<noteq> None \<Longrightarrow>
     answered js s (PRunTemplateDeleted p i by at) (s\<lparr>ts_templates := hdel i (ts_templates s)\<rparr>)"

lemma answered_create_trigger:
  "create_trigger_handler js allowed now p by body s = (Answered ev pl, s') \<Longrightarrow> answered js s pl s'"
  by (auto simp: create_trigger_handler_def create_trigger_def Let_def
      intro!: created [of s "trigger_of_request now p by body" js] split: if_splits)
    (auto simp: trigger_of_request_def)

lemma answered_create_template:
  "create_run_template_handler allowed now p by body s = (Answered ev pl, s') \<Longrightarrow> answered js s pl s'"
  using template [of "template_of_request now p by body" js s]
  by (auto simp: create_run_template_handler_def create_template_def Let_def template_of_request_def
      split: if_splits)

lemma answered_on_trigger:
  "delete_trigger_handler allowed now p by i s = (Answered ev pl, s') \<Longrightarrow> answered js s pl s'"
  "enable_trigger_handler allowed now p by i s = (Answered ev pl, s') \<Longrightarrow> answered js s pl s'"
  "disable_trigger_handler allowed now p by i reason s = (Answered ev pl, s') \<Longrightarrow> answered js s pl s'"
  "resume_trigger_handler allowed now p i s = (Answered ev pl, s') \<Longrightarrow> answered js s pl s'"
  by (auto simp: handler_defs service_defs split: option.splits if_splits
      intro!: deleted enabled disabled resumed)

lemma answered_delete_template:
  "delete_run_template_handler allowed now p by i s = (Answered ev pl, s') \<Longrightarrow> answered js s pl s'"
  by (auto simp: handler_defs service_defs Let_def filter_empty_conv list_all_iff
      split: option.splits if_splits intro!: template_deleted)

section \<open>One trigger at a time\<close>

text \<open>The events of a turn that changes nothing.\<close>

fun quiet_payload :: "'j trigger_payload \<Rightarrow> bool" where
  "quiet_payload (PTriggerSkipped _ _ _ _ _) = True"
| "quiet_payload (PTriggerDenied _ _ _ _ _ _) = True"
| "quiet_payload (PTriggerRateLimited _ _ _ _ _ _) = True"
| "quiet_payload (PTriggerPendingApproval _ _ _ _ _) = True"
| "quiet_payload _ = False"

text \<open>What one turn of the evaluation does to the service and to the log.\<close>

inductive fired_turn :: "'j json_ops \<Rightarrow> project_key \<Rightarrow> ident \<Rightarrow> u64 \<Rightarrow> 'j trigger_service \<Rightarrow>
    'j trigger_payload list \<Rightarrow> 'j trigger_service \<Rightarrow> bool"
  for js :: "'j json_ops" and p :: project_key and sig :: ident and now :: u64 where
  quiet: "list_all quiet_payload pls \<Longrightarrow> fired_turn js p sig now s pls s"
| over_budget: "get_trigger i s \<noteq> None \<Longrightarrow>
     fired_turn js p sig now s [PTriggerSuspended p i DBudgetExceeded now]
       (set_trigger_state (Suspended BudgetExceeded now) now i s)"
| fires: "pre_decision_status js p i sig payload depth now s = Some Ready \<Longrightarrow>
     fired_turn js p sig now s [PTriggerFired p i sig ty (run_id_of_fire i now) (next_depth depth) now]
       (restore_fired_trigger p i sig now s)"

lemma pre_decision_known:
  "pre_decision_status js p i sig payload depth now s = Some st \<Longrightarrow> get_trigger i s \<noteq> None"
  by (auto simp: pre_decision_status_def split: option.splits)

lemma evaluate_trigger_turn:
  assumes "evaluate_trigger js p sig ty payload depth decide now i s = (evs, s')"
  shows "fired_turn js p sig now s
    (List.map_filter (runtime_event_for_trigger_service_event p) evs) s'"
proof (cases "pre_decision_status js p i sig payload depth now s")
  case None
  then show ?thesis using assms by (auto simp: evaluate_trigger_def map_filter_simps intro: quiet)
next
  case (Some st)
  show ?thesis
  proof (cases st)
    case Ready
    then show ?thesis
      using assms Some by (cases "decide i ty")
        (auto simp: evaluate_trigger_def map_filter_simps intro: quiet fires)
  next
    case OverBudget
    then show ?thesis
      using assms Some over_budget [OF pre_decision_known [OF Some]]
      by (auto simp: evaluate_trigger_def map_filter_simps)
  qed (use assms Some in \<open>auto simp: evaluate_trigger_def map_filter_simps intro: quiet\<close>)
qed

lemma evaluate_triggers_inv:
  assumes "evaluate_triggers js p sig ty payload depth decide now ids s = (evs, s')"
    and "I s log"
    and "\<And>s pls s' log. fired_turn js p sig now s pls s' \<Longrightarrow> I s log \<Longrightarrow> I s' (log @ pls)"
  shows "I s' (log @ List.map_filter (runtime_event_for_trigger_service_event p) evs)"
  using assms(1,2)
proof (induction ids arbitrary: s evs log)
  case Nil
  then show ?case by (simp add: map_filter_simps)
next
  case (Cons i ids)
  obtain e1 s1 where one: "evaluate_trigger js p sig ty payload depth decide now i s = (e1, s1)"
    by fastforce
  obtain e2 where two: "evaluate_triggers js p sig ty payload depth decide now ids s1 = (e2, s')"
      and evs: "evs = e1 @ e2"
    using Cons.prems(1) by (auto simp: one split: prod.splits)
  have "I s1 (log @ List.map_filter (runtime_event_for_trigger_service_event p) e1)"
    by (rule assms(3) [OF evaluate_trigger_turn [OF one] Cons.prems(2)])
  from Cons.IH [OF two this] show ?case by (simp add: evs map_filter_def)
qed

lemma trigger_reachable_induct:
  assumes "trigger_reachable js s log" and "I trigger_service_new []"
    and "\<And>s pl s' log. answered js s pl s' \<Longrightarrow> I s log \<Longrightarrow> I s' (log @ [pl])"
    and "\<And>p sig now s pls s' log. fired_turn js p sig now s pls s' \<Longrightarrow> I s log \<Longrightarrow> I s' (log @ pls)"
    and "\<And>now s log s'. replay_triggers js now log = Some s' \<Longrightarrow> I s log \<Longrightarrow> I s' log"
  shows "I s log"
proof -
  have step: "I (fst y) (snd y)" if "trigger_step js x y" "I (fst x) (snd x)" for x y
    using that
  proof (induction rule: trigger_step.induct)
    case (fire p sig source payload outcomes now s evs pls s' log)
    then show ?case
      by (auto simp: fire_prepared_def evaluate_signal_for_candidates_def evaluate_signal_inner_def
          Let_def split: prod.splits intro: evaluate_triggers_inv assms(4))
  next
    case (restart now log s' s)
    then show ?case using assms(5) by simp
  qed (auto intro!: assms(3) intro: answered_create_trigger answered_create_template
      answered_on_trigger answered_delete_template)
  have "I (fst y) (snd y)" if "(trigger_step js)\<^sup>*\<^sup>* (trigger_service_new, []) y" for y
    using that by (induction rule: rtranclp_induct) (simp_all add: assms(2) step)
  from this [of "(s, log)"] show ?thesis
    using assms(1) by (simp add: trigger_reachable_def)
qed

section \<open>Replay\<close>

lemma replay_append:
  "replay_trigger_events js now (log @ log') s =
     Option.bind (replay_trigger_events js now log s) (replay_trigger_events js now log')"
  by (induction log arbitrary: s) (auto split: option.split)

lemma conditions_round_trip:
  "json_laws js \<Longrightarrow> trigger_conditions_from_values js (trigger_condition_values js cs) = Some (Inr cs)"
  by (induction cs) (simp_all add: trigger_condition_values_def condition_round_trip_lemma)

lemma trigger_payload_round_trip:
  assumes "trg_state t = Enabled" and "trg_updated_at t = trg_created_at t"
    and "runtime_event_for_trigger_created js t = PTriggerCreated e"
  shows "trigger_of_payload e (trg_conditions t) = t"
  using assms by (auto simp: runtime_event_for_trigger_created_def trigger_of_payload_def)

lemma template_payload_round_trip:
  assumes "tmpl_updated_at t = tmpl_created_at t"
    and "runtime_event_for_run_template_created t = PRunTemplateCreated e"
  shows "template_of_payload e = t"
  using assms by (auto simp: runtime_event_for_run_template_created_def template_of_payload_def)

lemma replay_answered:
  assumes "answered js s pl s'" and "json_laws js"
  shows "replay_trigger_event js now pl s = Some s'"
  using assms(1)
proof cases
  case (created t)
  obtain e where e: "runtime_event_for_trigger_created js t = PTriggerCreated e"
      "trc_conditions e = trigger_condition_values js (trg_conditions t)"
    by (simp add: runtime_event_for_trigger_created_def)
  show ?thesis
    using created trigger_payload_round_trip [OF created(4,5) e(1)]
    by (auto simp: replay_trigger_event_def e conditions_round_trip [OF assms(2)] create_trigger_def)
next
  case (template t)
  obtain e where e: "runtime_event_for_run_template_created t = PRunTemplateCreated e"
    by (simp add: runtime_event_for_run_template_created_def)
  show ?thesis
    using template template_payload_round_trip [OF template(3)]
    by (simp add: replay_trigger_event_def runtime_event_for_run_template_created_def
        create_template_def)
qed (auto simp: replay_trigger_event_def service_defs list_all_iff filter_empty_conv Let_def)

lemma replay_turn:
  assumes "fired_turn js p sig now s pls s'"
  shows "replay_trigger_events js at pls s = Some s'"
  using assms
proof cases
  case quiet
  have one: "replay_trigger_event js at pl s = Some s" if "quiet_payload pl" for pl
    using that by (cases pl) (simp_all add: replay_trigger_event_def)
  have "replay_trigger_events js at pls s = Some s"
    using quiet(2) by (induction pls) (simp_all add: one)
  then show ?thesis by (simp add: quiet)
next
  case (over_budget i)
  then show ?thesis
    by (auto simp: replay_trigger_event_def restore_trigger_state_def split: option.split)
next
  case (fires i)
  then show ?thesis by (simp add: replay_trigger_event_def)
qed

lemma reachable_replays:
  assumes "json_laws js" and "trigger_reachable js s log"
  shows "\<forall>now. replay_triggers js now log = Some s"
proof (rule trigger_reachable_induct [OF assms(2), where I = "\<lambda>s log. \<forall>now. replay_triggers js now log = Some s"])
  fix now log and s s' :: "'a trigger_service"
  assume "replay_triggers js now log = Some s'" and "\<forall>now. replay_triggers js now log = Some s"
  then show "\<forall>now. replay_triggers js now log = Some s'" by simp
qed (auto simp: replay_triggers_def replay_append replay_answered [OF _ assms(1)] replay_turn)

text \<open>So a restart changes nothing, and an invariant only has to survive the other steps.\<close>

lemma trigger_reachable_inv:
  assumes "json_laws js" and "trigger_reachable js s log" and "I trigger_service_new []"
    and "\<And>s pl s' log. answered js s pl s' \<Longrightarrow> I s log \<Longrightarrow> I s' (log @ [pl])"
    and "\<And>p sig now s pls s' log. fired_turn js p sig now s pls s' \<Longrightarrow> I s log \<Longrightarrow> I s' (log @ pls)"
  shows "I s log"
proof -
  let ?R = "\<lambda>s log. \<forall>now. replay_triggers js now log = Some s"
  have "I s log \<and> ?R s log"
    by (rule trigger_reachable_induct [OF assms(2), where I = "\<lambda>s log. I s log \<and> ?R s log"])
      (auto simp: assms(3-5) replay_triggers_def replay_append replay_answered [OF _ assms(1)]
        replay_turn)
  then show ?thesis by simp
qed

section \<open>Fires\<close>

fun fire_of :: "'j trigger_payload \<Rightarrow> (project_key \<times> ident \<times> ident \<times> ident \<times> u64) option" where
  "fire_of (PTriggerFired p i sig _ run _ at) = Some (p, i, sig, run, at)"
| "fire_of _ = None"

definition fires_of :: "'j trigger_payload list \<Rightarrow> (project_key \<times> ident \<times> ident \<times> ident \<times> u64) list" where
  "fires_of log = List.map_filter fire_of log"

lemma fires_of_append: "fires_of (log @ log') = fires_of log @ fires_of log'"
  by (simp add: fires_of_def map_filter_def)

lemma fires_of_answered: "answered js s pl s' \<Longrightarrow> fires_of [pl] = []"
  by (induction rule: answered.induct)
    (simp_all add: fires_of_def map_filter_simps runtime_event_for_trigger_created_def
      runtime_event_for_run_template_created_def)

lemma fires_of_turn:
  assumes "fired_turn js p sig now s pls s'"
  obtains "fires_of pls = []" and "ts_fire_ledger s' = ts_fire_ledger s"
      and "ts_fire_counts s' = ts_fire_counts s" and "ts_project_budgets s' = ts_project_budgets s"
  | i depth payload where "fires_of pls = [(p, i, sig, run_id_of_fire i now, now)]"
      and "s' = restore_fired_trigger p i sig now s"
      and "pre_decision_status js p i sig payload depth now s = Some Ready"
  using assms
proof cases
  case quiet
  have one: "fire_of pl = None" if "quiet_payload pl" for pl :: "'a trigger_payload"
    using that by (cases pl) simp_all
  have "fires_of pls = []"
    using quiet(2) by (induction pls) (simp_all add: fires_of_def map_filter_simps one)
  then show ?thesis using that(1) quiet by simp
next
  case over_budget
  then show ?thesis
    using that(1) by (simp add: fires_of_def map_filter_simps set_trigger_state_def)
next
  case fires
  then show ?thesis using that(2) by (simp add: fires_of_def map_filter_simps)
qed

lemma answered_frame:
  "answered js s pl s' \<Longrightarrow> ts_fire_ledger s' = ts_fire_ledger s \<and> ts_fire_counts s' = ts_fire_counts s \<and>
     ts_project_budgets s' = ts_project_budgets s \<and>
     ts_default_project_budget s' = ts_default_project_budget s"
  by (induction rule: answered.induct) (simp_all add: set_trigger_state_def)

lemma turn_frame:
  "fired_turn js p sig now s pls s' \<Longrightarrow>
     ts_default_project_budget s' = ts_default_project_budget s \<and>
     (\<forall>i. map_option (\<lambda>t. (trg_id t, trg_rate_limit t)) (get_trigger i s') =
          map_option (\<lambda>t. (trg_id t, trg_rate_limit t)) (get_trigger i s))"
  by (induction rule: fired_turn.induct)
    (auto simp: set_trigger_state_def restore_fired_trigger_def get_trigger_def hmap_simps
      option.map_comp comp_def)

definition ids_ok :: "'j trigger_service \<Rightarrow> bool" where
  "ids_ok s \<longleftrightarrow> (\<forall>i t. get_trigger i s = Some t \<longrightarrow> trg_id t = i)"

lemma ids_ok_answered: "answered js s pl s' \<Longrightarrow> ids_ok s \<Longrightarrow> ids_ok s'"
  by (induction rule: answered.induct)
    (auto simp: ids_ok_def get_trigger_def set_trigger_state_def hmap_simps split: if_splits)

lemma ids_ok_turn: "fired_turn js p sig now s pls s' \<Longrightarrow> ids_ok s \<Longrightarrow> ids_ok s'"
  by (induction rule: fired_turn.induct)
    (auto simp: ids_ok_def get_trigger_def set_trigger_state_def restore_fired_trigger_def hmap_simps
      split: if_splits)

end
