(* ===== verification/Trigger_Correctness.thy ===== *)
theory Trigger_Correctness
  imports Trigger_Laws
begin

text \<open>
  The properties of the trigger service over every reachable state: replay, one fire per signal,
  the rolling windows, run identifiers and template ownership, with a sample run for the
  witnesses.
\<close>

section \<open>Restarts\<close>

text \<open>
  C13: A restart rebuilds the trigger service. In every state that handlers, fired signals and
  earlier restarts can reach, the replay of the persisted events ends and gives exactly the
  service that wrote them: every trigger with its conditions and state, every template, the
  ledger of fires and both rolling windows.
\<close>

theorem trigger_replay_rebuilds:
  assumes "json_laws js" and "trigger_reachable js s log"
  shows "replay_triggers js now log = Some s"
  using reachable_replays [OF assms] by blast

section \<open>One fire per signal\<close>

definition fire_keys :: "'j trigger_payload list \<Rightarrow> (ident \<times> ident) list" where
  "fire_keys log = map (\<lambda>(p, i, sig, run, at). (i, sig)) (fires_of log)"

definition fired_once :: "'j trigger_service \<Rightarrow> 'j trigger_payload list \<Rightarrow> bool" where
  "fired_once s log \<longleftrightarrow> ids_ok s \<and> distinct (fire_keys log) \<and>
     (\<forall>k \<in> set (fire_keys log). hget (ts_fire_ledger s) k \<noteq> None)"

lemma ready_unfired:
  "pre_decision_status js p i sig payload depth now s = Some Ready \<Longrightarrow> ids_ok s \<Longrightarrow>
     hget (ts_fire_ledger s) (i, sig) = None"
  by (auto simp: pre_decision_status_def ids_ok_def split: option.splits if_splits)

lemma fired_once_turn:
  assumes "fired_turn js p sig now s pls s'" and "fired_once s log"
  shows "fired_once s' (log @ pls)"
  using assms(1)
proof (cases rule: fires_of_turn)
  case 1
  then show ?thesis
    using assms ids_ok_turn by (auto simp: fired_once_def fire_keys_def fires_of_append)
next
  case (2 i depth payload)
  have "hget (ts_fire_ledger s) (i, sig) = None"
    using ready_unfired [OF 2(3)] assms(2) by (simp add: fired_once_def)
  then show ?thesis
    using assms 2 ids_ok_turn [OF assms(1)]
    by (auto simp: fired_once_def fire_keys_def fires_of_append restore_fired_trigger_def hmap_simps)
qed

lemma reachable_fired_once:
  assumes "json_laws js" and "trigger_reachable js s log"
  shows "fired_once s log"
proof (rule trigger_reachable_inv [OF assms, where I = fired_once])
  show "fired_once trigger_service_new ([] :: 'a trigger_payload list)"
    by (simp add: fired_once_def ids_ok_def get_trigger_def trigger_service_new_def fire_keys_def
        fires_of_def map_filter_simps)
  show "fired_once s' (log @ [pl])" if "answered js s pl s'" "fired_once s log"
    for s s' :: "'a trigger_service" and pl log
    using that ids_ok_answered [OF that(1)] answered_frame [OF that(1)] fires_of_answered [OF that(1)]
    by (simp add: fired_once_def fire_keys_def fires_of_append)
qed (rule fired_once_turn)

text \<open>
  C32: A trigger fires at most once for a signal, whatever arrives again. Over any sequence of
  handlers, fired signals and restarts, with any outcomes of the decision layer, the log holds
  at most one fire for a trigger and a signal, also when the trigger was disabled, deleted and
  created again in between.
\<close>

theorem trigger_fires_once:
  assumes "json_laws js" and "trigger_reachable js s log"
  shows "distinct (fire_keys log)"
  using reachable_fired_once [OF assms] by (simp add: fired_once_def)

section \<open>Rolling windows\<close>

definition counted :: "u64 list option \<Rightarrow> u64 list" where
  "counted entries = (case entries of None \<Rightarrow> [] | Some xs \<Rightarrow> xs)"

text \<open>\<open>entries\<close> holds what a window ending at or after the last fire still sees of the fires.\<close>

definition tracks :: "u64 \<Rightarrow> u64 list \<Rightarrow> u64 list option \<Rightarrow> bool" where
  "tracks width fires entries \<longleftrightarrow>
     (\<forall>now. (\<forall>t \<in> set fires. t \<le> now) \<longrightarrow>
        filter (\<lambda>t. t > now - width) (counted entries) = filter (\<lambda>t. t > now - width) fires)"

definition rate_bounded :: "u64 \<Rightarrow> nat \<Rightarrow> u64 list \<Rightarrow> bool" where
  "rate_bounded width limit fires \<longleftrightarrow>
     (\<forall>now. length (filter (\<lambda>t. now - width < t \<and> t \<le> now) fires) \<le> limit)"

lemma in_window_counted: "in_window width now entries = length (filter (\<lambda>t. t > now - width) (counted entries))"
  by (simp add: in_window_def counted_def split: option.split)

lemma hget_push:
  "hget (hentry k [] (push_window width now) m) k' =
     (if k' = k then Some (push_window width now (counted (hget m k))) else hget m k')"
  by (simp add: hmap_simps counted_def split: option.split)

lemma tracks_push:
  assumes "tracks width fires entries" and "\<forall>t \<in> set fires. t \<le> now"
  shows "tracks width (fires @ [now]) (Some (push_window width now (counted entries)))"
  unfolding tracks_def
proof (intro allI impI)
  fix later assume later: "\<forall>t \<in> set (fires @ [now]). t \<le> later"
  have "filter (\<lambda>t. t > later - width) (filter (\<lambda>t. t > now - width) (counted entries)) =
      filter (\<lambda>t. t > later - width) (counted entries)"
    using later by (auto simp: intro!: filter_cong)
  moreover have "filter (\<lambda>t. t > later - width) (counted entries) = filter (\<lambda>t. t > later - width) fires"
    using assms(1) later by (simp add: tracks_def)
  ultimately show "filter (\<lambda>t. t > later - width)
        (counted (Some (push_window width now (counted entries)))) =
      filter (\<lambda>t. t > later - width) (fires @ [now])"
    by (simp add: push_window_def counted_def)
qed

lemma rate_bounded_push:
  assumes "rate_bounded width limit fires" and "\<forall>t \<in> set fires. t \<le> now"
    and "length (filter (\<lambda>t. t > now - width) fires) < limit"
  shows "rate_bounded width limit (fires @ [now])"
  unfolding rate_bounded_def
proof
  fix later
  show "length (filter (\<lambda>t. later - width < t \<and> t \<le> later) (fires @ [now])) \<le> limit"
  proof (cases "now \<le> later")
    case True
    have "length (filter (\<lambda>t. later - width < t \<and> t \<le> later) fires) \<le>
        length (filter (\<lambda>t. t > now - width) fires)"
    proof -
      have "filter (\<lambda>t. later - width < t \<and> t \<le> later) fires =
          filter (\<lambda>t. later - width < t \<and> t \<le> later) (filter (\<lambda>t. t > now - width) fires)"
        using True by (auto intro!: filter_cong)
      then show ?thesis by (metis length_filter_le)
    qed
    then show ?thesis using assms(3) by simp
  next
    case False
    then show ?thesis using assms(1) by (simp add: rate_bounded_def)
  qed
qed

text \<open>A window that tracks the fires and admits below the limit keeps the bound.\<close>

lemma window_step:
  assumes "tracks width fires entries" and "rate_bounded width limit fires"
    and "\<forall>t \<in> set fires. t \<le> now" and "\<not> as_u32 (in_window width now entries) \<ge> bound"
    and "bound \<le> limit" and "limit \<le> u32_max"
  shows "rate_bounded width limit (fires @ [now])"
proof (rule rate_bounded_push [OF assms(2,3)])
  let ?n = "length (filter (\<lambda>t. t > now - width) fires)"
  have n: "in_window width now entries = ?n"
    using assms(1,3) by (simp add: in_window_counted tracks_def)
  have "filter (\<lambda>t. now - width < t \<and> t \<le> now) fires = filter (\<lambda>t. t > now - width) fires"
    using assms(3) by (auto intro!: filter_cong)
  then have "?n \<le> limit" using assms(2) by (auto simp: rate_bounded_def dest: spec [of _ now])
  then have "as_u32 ?n = ?n"
    using assms(6) by (intro as_u32_exact) (simp add: u32_max_def)
  then show "?n < limit" using assms(4,5) n by simp
qed

definition fire_times :: "ident \<Rightarrow> 'j trigger_payload list \<Rightarrow> u64 list" where
  "fire_times i log = map (\<lambda>(p, i, sig, run, at). at)
     (filter (\<lambda>(p, i', sig, run, at). i' = i) (fires_of log))"

definition project_fire_times :: "project_key \<Rightarrow> 'j trigger_payload list \<Rightarrow> u64 list" where
  "project_fire_times p log = map (\<lambda>(p, i, sig, run, at). at)
     (filter (\<lambda>(p', i, sig, run, at). p' = p) (fires_of log))"

fun limit_within :: "ident \<Rightarrow> nat \<Rightarrow> 'j trigger_payload \<Rightarrow> bool" where
  "limit_within i m (PTriggerCreated e) = (trc_trigger_id e = i \<longrightarrow> trc_max_per_minute e \<le> m)"
| "limit_within i m _ = True"

lemmas times_simps = fire_times_def project_fire_times_def fires_of_append

definition limits_kept :: "ident \<Rightarrow> nat \<Rightarrow> 'j trigger_service \<Rightarrow> 'j trigger_payload list \<Rightarrow> bool" where
  "limits_kept i m s log \<longleftrightarrow>
     ts_default_project_budget s = 100 \<and>
     (list_all (limit_within i m) log \<longrightarrow>
        (\<forall>t. get_trigger i s = Some t \<longrightarrow> rl_max_per_minute (trg_rate_limit t) \<le> m))"

lemma limits_kept_answered:
  "answered js s pl s' \<Longrightarrow> limits_kept i m s log \<Longrightarrow> limits_kept i m s' (log @ [pl])"
  by (induction rule: answered.induct)
    (auto simp: limits_kept_def get_trigger_def set_trigger_state_def hmap_simps
      runtime_event_for_trigger_created_def split: if_splits)

lemma limits_kept_turn:
  "fired_turn js p sig now s pls s' \<Longrightarrow> limits_kept i m s log \<Longrightarrow> limits_kept i m s' (log @ pls)"
  by (induction rule: fired_turn.induct)
    (auto simp: limits_kept_def get_trigger_def set_trigger_state_def restore_fired_trigger_def
      hmap_simps split: if_splits)

definition windows_kept :: "ident \<Rightarrow> nat \<Rightarrow> project_key \<Rightarrow> 'j trigger_service \<Rightarrow> 'j trigger_payload list \<Rightarrow>
    bool" where
  "windows_kept i m p s log \<longleftrightarrow>
     (sorted (fire_times i log) \<longrightarrow>
        tracks trigger_window_ms (fire_times i log) (hget (ts_fire_counts s) i) \<and>
        (list_all (limit_within i m) log \<longrightarrow> rate_bounded trigger_window_ms m (fire_times i log))) \<and>
     (sorted (project_fire_times p log) \<longrightarrow>
        tracks project_window_ms (project_fire_times p log) (hget (ts_project_budgets s) p) \<and>
        rate_bounded project_window_ms 100 (project_fire_times p log))"

lemma ready_below:
  assumes "pre_decision_status js p i sig payload depth now s = Some Ready"
  shows "\<exists>t. get_trigger i s = Some t \<and>
      \<not> as_u32 (in_window trigger_window_ms now (hget (ts_fire_counts s) i))
          \<ge> rl_max_per_minute (trg_rate_limit t) \<and>
      \<not> as_u32 (in_window project_window_ms now (hget (ts_project_budgets s) p))
          \<ge> ts_default_project_budget s"
  using assms by (auto simp: pre_decision_status_def split: option.splits if_splits)

lemma windows_kept_turn:
  assumes "fired_turn js q sig now s pls s'" and "m \<le> u32_max"
    and "limits_kept i m s log" and "windows_kept i m p s log"
  shows "windows_kept i m p s' (log @ pls)"
  using assms(1)
proof (cases rule: fires_of_turn)
  case 1
  then show ?thesis
    using assms(4) by (auto simp: windows_kept_def times_simps)
next
  case (2 j depth payload)
  obtain t where t: "get_trigger j s = Some t"
      "\<not> as_u32 (in_window trigger_window_ms now (hget (ts_fire_counts s) j))
          \<ge> rl_max_per_minute (trg_rate_limit t)"
      "\<not> as_u32 (in_window project_window_ms now (hget (ts_project_budgets s) q)) \<ge> 100"
    using ready_below [OF 2(3)] assms(3) by (auto simp: limits_kept_def)
  have times: "fire_times i (log @ pls) = fire_times i log @ (if j = i then [now] else [])"
      "project_fire_times p (log @ pls) = project_fire_times p log @ (if q = p then [now] else [])"
    by (simp_all add: times_simps 2(1))
  have maps: "hget (ts_fire_counts s') i = (if j = i then
        Some (push_window trigger_window_ms now (counted (hget (ts_fire_counts s) i)))
        else hget (ts_fire_counts s) i)"
      "hget (ts_project_budgets s') p = (if q = p then
        Some (push_window project_window_ms now (counted (hget (ts_project_budgets s) p)))
        else hget (ts_project_budgets s) p)"
    by (simp_all add: 2(2) restore_fired_trigger_def hget_push)
  have limit: "rl_max_per_minute (trg_rate_limit t) \<le> m"
    if "list_all (limit_within i m) log" "j = i"
    using that t(1) assms(3) by (simp add: limits_kept_def)
  show ?thesis
    using assms(4) t limit window_step [OF _ _ _ t(2) _ assms(2)] window_step [OF _ _ _ t(3), of _ 100]
    by (auto simp: windows_kept_def times maps sorted_append tracks_push u32_max_def)
qed

text \<open>
  C33: The rolling windows bound the fires. As long as the clock does not step back between the
  fires concerned, a trigger whose limit never exceeded \<open>m\<close> fires at most \<open>m\<close> times in any
  60 seconds, and the triggers of a project together at most 100 times in any hour, restarts
  included. The burst limit plays no part: nothing reads it.
\<close>

theorem trigger_fire_rates:
  assumes "json_laws js" and "trigger_reachable js s log"
    and "sorted (fire_times i log)" and "sorted (project_fire_times p log)"
    and "list_all (limit_within i m) log" and "m \<le> u32_max"
  shows "length (filter (\<lambda>t. now - 60000 < t \<and> t \<le> now) (fire_times i log)) \<le> m \<and>
    length (filter (\<lambda>t. now - 3600000 < t \<and> t \<le> now) (project_fire_times p log)) \<le> 100"
proof -
  have "limits_kept i m s log \<and> windows_kept i m p s log"
  proof (rule trigger_reachable_inv [OF assms(1,2),
        where I = "\<lambda>s log. limits_kept i m s log \<and> windows_kept i m p s log"])
    show "limits_kept i m trigger_service_new ([] :: 'a trigger_payload list) \<and>
        windows_kept i m p trigger_service_new ([] :: 'a trigger_payload list)"
      by (simp add: limits_kept_def windows_kept_def get_trigger_def trigger_service_new_def
          times_simps fires_of_def map_filter_simps tracks_def rate_bounded_def counted_def)
    show "limits_kept i m s' (log @ [pl]) \<and> windows_kept i m p s' (log @ [pl])"
      if "answered js s pl s'" "limits_kept i m s log \<and> windows_kept i m p s log"
      for s s' :: "'a trigger_service" and pl log
      using that limits_kept_answered [OF that(1)] answered_frame [OF that(1)]
        fires_of_answered [OF that(1)]
      by (simp add: windows_kept_def times_simps)
  qed (use assms(6) in \<open>simp add: limits_kept_turn windows_kept_turn\<close>)
  then show ?thesis
    using assms(3-5)
    by (simp add: windows_kept_def rate_bounded_def trigger_window_ms_def project_window_ms_def)
qed

section \<open>Run identifiers\<close>

definition runs_named :: "'j trigger_payload list \<Rightarrow> bool" where
  "runs_named log \<longleftrightarrow> (\<forall>(p, i, sig, run, at) \<in> set (fires_of log). run = run_id_of_fire i at)"

text \<open>
  Two fires of a trigger make the same run exactly when they happen in the same millisecond.
  The id of the run is made of the trigger and the clock, so two signals that arrive together
  both report a fire, under one run id, and only one run can start.
\<close>

theorem same_instant_same_run:
  assumes "json_laws js" and "trigger_reachable js s log"
    and "(p, i, sig, run, at) \<in> set (fires_of log)" and "(p', i, sig', run', at') \<in> set (fires_of log)"
  shows "run = run' \<longleftrightarrow> at = at'"
proof -
  have "runs_named log"
  proof (rule trigger_reachable_inv [OF assms(1,2), where I = "\<lambda>_. runs_named"])
    show "runs_named ([] :: 'a trigger_payload list)"
      by (simp add: runs_named_def fires_of_def map_filter_simps)
    show "runs_named (log @ [pl])" if "answered js s pl s'" "runs_named log"
      for s s' :: "'a trigger_service" and pl log
      using that fires_of_answered by (fastforce simp: runs_named_def fires_of_append)
    show "runs_named (log @ pls)" if "fired_turn js p sig now s pls s'" "runs_named log"
      for p sig now pls log and s s' :: "'a trigger_service"
      using that(1) by (cases rule: fires_of_turn)
        (use that(2) in \<open>auto simp: runs_named_def fires_of_append\<close>)
  qed
  then have "run = run_id_of_fire i at" "run' = run_id_of_fire i at'"
    using assms(3,4) by (auto simp: runs_named_def)
  then show ?thesis by (auto simp: run_id_of_fire_def dest: show_nat_inj)
qed

section \<open>Whose template\<close>

text \<open>
  A trigger may run the template of any tenant. The handler checks the caller against the
  project of the path and only asks whether the template exists: the trigger is created for
  every known template, whoever owns it, under an id made of the clock alone, replacing a
  trigger created anywhere in the same millisecond. A fire of it starts a run with that
  template.
\<close>

theorem foreign_template_accepted:
  "case get_template (ctr_run_template_id body) s of
     None \<Rightarrow> create_trigger_handler js True now p by body s =
       (HandlerError (TemplateNotFound (ctr_run_template_id body)), s)
   | Some tmpl \<Rightarrow>
       (\<exists>ev pl s'. create_trigger_handler js True now p by body s = (Answered ev pl, s') \<and>
          get_trigger (''trigger_'' @ show_nat now) s' = Some (trigger_of_request now p by body) \<and>
          pending_run (TriggerFired (''trigger_'' @ show_nat now) sig ty run d at) s' =
            Some (''trigger_'' @ show_nat now, run, tmpl))"
  by (auto simp: create_trigger_handler_def create_trigger_def get_template_def get_trigger_def
      trigger_of_request_def pending_run_def hmap_simps Let_def split: option.split)

section \<open>A sample run\<close>

text \<open>One template, one trigger on pushes, and two signals in the same millisecond, one twice.\<close>

definition sample_key :: project_key where
  "sample_key = \<lparr>tenant_id = ''t'', workspace_id = ''w'', project_id = ''p''\<rparr>"

definition sample_template_request :: create_run_template_request where
  "sample_template_request =
     \<lparr>crt_name = ''n'', crt_description = None, crt_default_mode = Direct,
      crt_system_prompt = ''s'', crt_initial_user_message = None, crt_plugin_allowlist = None,
      crt_tool_allowlist = None,
      crt_budget = \<lparr>tb_max_tokens = None, tb_max_wall_clock_ms = None, tb_max_iterations = None,
        tb_exploration_budget_share = None\<rparr>,
      crt_sandbox_hint = None, crt_required_fields = []\<rparr>"

definition sample_trigger_request :: "sample_json create_trigger_request" where
  "sample_trigger_request =
     \<lparr>ctr_name = ''n'', ctr_description = None, ctr_signal_type = ''push'', ctr_plugin_id = None,
      ctr_conditions = [Not_c (Exists ''draft'')], ctr_run_template_id = ''tmpl_4'',
      ctr_max_chain_depth = 5, ctr_rate_limit = None\<rparr>"

definition sample_template :: run_template where
  "sample_template = template_of_request 4 sample_key ''op'' sample_template_request"

definition sample_trigger :: "sample_json trigger" where
  "sample_trigger = trigger_of_request 5 sample_key ''op'' sample_trigger_request"

definition with_template :: "sample_json trigger_service" where
  "with_template = trigger_service_new\<lparr>ts_templates := [(''tmpl_4'', sample_template)]\<rparr>"

definition with_trigger :: "sample_json trigger_service" where
  "with_trigger = with_template\<lparr>ts_triggers := [(''trigger_5'', sample_trigger)]\<rparr>"

definition after_fires :: "ident list \<Rightarrow> sample_json trigger_service" where
  "after_fires sigs = with_trigger\<lparr>
     ts_fire_ledger := map (\<lambda>sig. ((''trigger_5'', sig), 6)) sigs,
     ts_fire_counts := (if sigs = [] then [] else [(''trigger_5'', replicate (length sigs) 6)]),
     ts_project_budgets := (if sigs = [] then [] else [(sample_key, replicate (length sigs) 6)])\<rparr>"

definition sample_fired :: "ident \<Rightarrow> sample_json trigger_payload" where
  "sample_fired sig =
     PTriggerFired sample_key ''trigger_5'' sig ''push'' ''run_trigger_trigger_5_6'' 1 6"

definition sample_log :: "sample_json trigger_payload list" where
  "sample_log =
     [runtime_event_for_run_template_created sample_template,
      runtime_event_for_trigger_created sample_ops sample_trigger,
      sample_fired ''a'', sample_fired ''b'',
      PTriggerSkipped sample_key ''trigger_5'' ''a'' DAlreadyFired 6]"

lemma sample_create_template:
  "\<exists>ev. create_run_template_handler True 4 sample_key ''op'' sample_template_request trigger_service_new =
     (Answered ev (runtime_event_for_run_template_created sample_template), with_template)"
  by (simp add: create_run_template_handler_def create_template_def sample_template_def
      with_template_def template_of_request_def show_nat.simps trigger_service_new_def hput_def Let_def)

lemma sample_create_trigger:
  "\<exists>ev. create_trigger_handler sample_ops True 5 sample_key ''op'' sample_trigger_request with_template =
     (Answered ev (runtime_event_for_trigger_created sample_ops sample_trigger), with_trigger)"
  by (simp add: create_trigger_handler_def create_trigger_def sample_trigger_def with_trigger_def
      with_template_def trigger_of_request_def sample_trigger_request_def show_nat.simps
      trigger_service_new_def hput_def hget_def Let_def)

lemmas sample_service_defs = after_fires_def with_trigger_def with_template_def
  trigger_service_new_def sample_trigger_def trigger_of_request_def sample_trigger_request_def
  sample_template_def template_of_request_def sample_template_request_def default_rate_limit_def

lemma sample_matching: "matching_trigger_ids sample_key ''push'' [] (after_fires sigs) = [''trigger_5'']"
  by (simp add: matching_trigger_ids_def trigger_matches_def hvals_def sample_service_defs show_nat.simps)

lemma sample_ready:
  "sig \<notin> set sigs \<Longrightarrow> length sigs < 10 \<Longrightarrow>
     pre_decision_status sample_ops sample_key ''trigger_5'' sig (JObject []) None 6 (after_fires sigs) =
       Some Ready"
  by (auto simp: pre_decision_status_def get_trigger_def get_template_def sample_service_defs
      hget_def next_depth_def in_window_def as_u32_def evaluate_conditions_def resolve_path_def
      sample_ops_def ends_with_def show_nat.simps trigger_window_ms_def project_window_ms_def
      map_of_eq_None_iff filter_replicate map_replicate_const)

lemma sample_fire:
  assumes "sig \<notin> set sigs" and "length sigs < 10"
  shows "\<exists>evs. fire_prepared sample_ops sample_key sig ''push'' (JObject [])
     [(''trigger_5'', Approved ''d'')] 6 (after_fires sigs) =
       (evs, [sample_fired sig], after_fires (sigs @ [sig]))"
proof -
  have "restore_fired_trigger sample_key ''trigger_5'' sig 6 (after_fires sigs) = after_fires (sigs @ [sig])"
  proof -
    have "AList.update (''trigger_5'', sig) (6 :: nat) (map (\<lambda>sig. ((''trigger_5'', sig), 6)) sigs) =
        map (\<lambda>sig. ((''trigger_5'', sig), 6)) (sigs @ [sig])"
      using assms(1) by (subst update_new) auto
    then show ?thesis
      by (auto simp: restore_fired_trigger_def after_fires_def hput_def hentry_def hget_def
          push_window_def trigger_window_ms_def project_window_ms_def filter_replicate
          replicate_append_same)
  qed
  then show ?thesis
    by (simp add: fire_prepared_def evaluate_signal_for_candidates_def evaluate_signal_inner_def
        sample_matching evaluate_trigger_def sample_ready [OF assms] hget_def map_filter_simps
        sample_fired_def run_id_of_fire_def next_depth_def show_nat.simps Let_def)
qed

lemma sample_refire:
  "fire_prepared sample_ops sample_key ''a'' ''push'' (JObject [])
     [(''trigger_5'', Approved ''d'')] 6 (after_fires [''a'', ''b'']) =
   ([TriggerSkipped ''trigger_5'' ''a'' AlreadyFired 6],
    [PTriggerSkipped sample_key ''trigger_5'' ''a'' DAlreadyFired 6], after_fires [''a'', ''b''])"
proof -
  have "pre_decision_status sample_ops sample_key ''trigger_5'' ''a'' (JObject []) None 6
      (after_fires [''a'', ''b'']) = Some (Skipped AlreadyFired)"
    by (simp add: pre_decision_status_def get_trigger_def hget_def sample_service_defs show_nat.simps)
  then show ?thesis
    by (simp add: fire_prepared_def evaluate_signal_for_candidates_def evaluate_signal_inner_def
        sample_matching evaluate_trigger_def hget_def map_filter_simps Let_def)
qed

lemma sample_reachable: "trigger_reachable sample_ops (after_fires [''a'', ''b'']) sample_log"
proof -
  let ?c = "runtime_event_for_run_template_created sample_template"
  let ?t = "runtime_event_for_trigger_created sample_ops sample_trigger"
  have 1: "trigger_step sample_ops (trigger_service_new, []) (with_template, [?c])"
    using sample_create_template trigger_step.create_template [of _ _ _ _ _ _ _ _ _ sample_ops "[]"]
    by fastforce
  have 2: "trigger_step sample_ops (with_template, [?c]) (after_fires [], [?c, ?t])"
    using sample_create_trigger trigger_step.create_trigger [of sample_ops _ _ _ _ _ _ _ _ _ "[?c]"]
    by (fastforce simp: sample_service_defs)
  have fire: "trigger_step sample_ops (after_fires sigs, log)
      (after_fires (sigs @ [sig]), log @ [sample_fired sig])"
    if "sig \<notin> set sigs" "length sigs < 10" for sig sigs log
    using sample_fire [OF that] trigger_step.fire by fastforce
  have 3: "trigger_step sample_ops (after_fires [], [?c, ?t])
      (after_fires [''a''], [?c, ?t, sample_fired ''a''])"
    using fire [of "''a''" "[]" "[?c, ?t]"] by simp
  have 4: "trigger_step sample_ops (after_fires [''a''], [?c, ?t, sample_fired ''a''])
      (after_fires [''a'', ''b''], [?c, ?t, sample_fired ''a'', sample_fired ''b''])"
    using fire [of "''b''" "[''a'']" "[?c, ?t, sample_fired ''a'']"] by simp
  have 5: "trigger_step sample_ops (after_fires [''a'', ''b''], [?c, ?t, sample_fired ''a'', sample_fired ''b''])
      (after_fires [''a'', ''b''], sample_log)"
    using trigger_step.fire [OF sample_refire, of "[?c, ?t, sample_fired ''a'', sample_fired ''b'']"]
    by (simp add: sample_log_def)
  show ?thesis
    unfolding trigger_reachable_def
    using 1 2 3 4 5 by (meson converse_rtranclp_into_rtranclp rtranclp.rtrancl_refl)
qed

lemma sample_fires:
  "fires_of sample_log =
     [(sample_key, ''trigger_5'', ''a'', ''run_trigger_trigger_5_6'', 6),
      (sample_key, ''trigger_5'', ''b'', ''run_trigger_trigger_5_6'', 6)]"
  by (simp add: fires_of_def sample_log_def sample_fired_def map_filter_simps
      runtime_event_for_run_template_created_def runtime_event_for_trigger_created_def)

section \<open>The properties on the sample run\<close>

theorem trigger_replay_rebuilds_witness:
  "replay_triggers sample_ops 9 sample_log = Some (after_fires [''a'', ''b''])"
  by (rule trigger_replay_rebuilds [OF sample_laws sample_reachable])

theorem trigger_fires_once_witness:
  "distinct (fire_keys sample_log) \<and> fire_keys sample_log = [(''trigger_5'', ''a''), (''trigger_5'', ''b'')]"
  using trigger_fires_once [OF sample_laws sample_reachable]
  by (simp add: fire_keys_def sample_fires)

theorem trigger_fire_rates_witness:
  "length (filter (\<lambda>t. 60 - 60000 < t \<and> t \<le> 60) (fire_times ''trigger_5'' sample_log)) \<le> 10"
proof -
  have "sorted (fire_times ''trigger_5'' sample_log)" and "sorted (project_fire_times sample_key sample_log)"
    by (simp_all add: fire_times_def project_fire_times_def sample_fires)
  moreover have "list_all (limit_within ''trigger_5'' 10) sample_log"
    by (simp add: sample_log_def sample_fired_def runtime_event_for_run_template_created_def
        runtime_event_for_trigger_created_def sample_service_defs)
  ultimately show ?thesis
    using trigger_fire_rates [OF sample_laws sample_reachable, of "''trigger_5''" sample_key 10 60]
    by (simp add: u32_max_def)
qed

theorem same_instant_same_run_witness:
  "\<exists>run. (sample_key, ''trigger_5'', ''a'', run, 6) \<in> set (fires_of sample_log) \<and>
     (sample_key, ''trigger_5'', ''b'', run, 6) \<in> set (fires_of sample_log)"
proof -
  let ?run = "''run_trigger_trigger_5_6''"
  have a: "(sample_key, ''trigger_5'', ''a'', ?run, 6) \<in> set (fires_of sample_log)"
    and b: "(sample_key, ''trigger_5'', ''b'', ?run, 6) \<in> set (fires_of sample_log)"
    by (simp_all add: sample_fires)
  then show ?thesis using same_instant_same_run [OF sample_laws sample_reachable a b] by blast
qed

end
