(* ===== verification/Tool_Paths.thy ===== *)
theory Tool_Paths
  imports Trigger_Conditions Runtime_Events
begin

text \<open>
  When a session rule covers a proposed tool call
  (\<open>crates/cairn-runtime/src/tool_call_approvals.rs\<close>): the lexical canonical form of a path, the
  containment of paths by components, and the three match policies. Paths are Unix paths; what
  \<open>Path::components\<close> and \<open>PathBuf\<close> of the standard library do with them is written out.
\<close>

section \<open>Paths\<close>

datatype path_component = RootDir | CurDir | ParentDir | Normal string

text \<open>
  \<open>Path::components\<close>: a leading slash is the root, repeated slashes and inner dots vanish, a dot
  that opens a relative path stays.
\<close>

definition is_absolute :: "string \<Rightarrow> bool" where
  "is_absolute p = (take 1 p = ''/'')"

definition path_components :: "string \<Rightarrow> path_component list" where
  "path_components p =
     (let segs = split_on (CHR ''/'') p
      in (if is_absolute p then [RootDir] else if hd segs = ''.'' then [CurDir] else []) @
         map (\<lambda>s. if s = ''..'' then ParentDir else Normal s)
           (filter (\<lambda>s. s \<noteq> [] \<and> s \<noteq> ''.'') segs))"

text \<open>A \<open>PathBuf\<close> that only canonical components are pushed on is the list of them.\<close>

fun can_pop :: "path_component list \<Rightarrow> bool" where
  "can_pop (Normal _ # _) = True"
| "can_pop (CurDir # _) = True"
| "can_pop _ = False"

fun canonical_step :: "path_component list \<Rightarrow> path_component \<Rightarrow> path_component list" where
  "canonical_step out CurDir = out"
| "canonical_step out ParentDir = (if can_pop (rev out) then butlast out else out)"
| "canonical_step out RootDir = out @ [RootDir]"
| "canonical_step out (Normal s) = out @ [Normal s]"

definition canonicalise :: "string \<Rightarrow> path_component list" where
  "canonicalise p = foldl canonical_step [] (path_components p)"

fun is_under :: "path_component list \<Rightarrow> path_component list \<Rightarrow> bool" where
  "is_under (c # candidate) (r # root) = (c = r \<and> is_under candidate root)"
| "is_under [] (r # root) = False"
| "is_under candidate [] = True"

section \<open>Proposals and rules\<close>

record 'j tool_call_proposal =
  tcp_call_id :: ident
  tcp_session_id :: ident
  tcp_run_id :: ident
  tcp_project :: project_key
  tcp_tool_name :: string
  tcp_tool_args :: "'j"
  tcp_display_summary :: "string option"
  tcp_match_policy :: approval_match_policy

record 'j allow_rule =
  al_tool_name :: string
  al_tool_args :: "'j"
  al_policy :: approval_match_policy

definition extract_path_arg :: "'j json_ops \<Rightarrow> 'j \<Rightarrow> string option" where
  "extract_path_arg js args = Option.bind (js_get js args ''path'') (js_as_str js)"

definition proposal_matches_rule :: "'j json_ops \<Rightarrow> 'j tool_call_proposal \<Rightarrow> 'j allow_rule \<Rightarrow> bool"
  where
  "proposal_matches_rule js p r =
     (if tcp_tool_name p \<noteq> al_tool_name r then False
      else (case al_policy r of
              Exact \<Rightarrow> tcp_tool_args p = al_tool_args r
            | ExactPath path \<Rightarrow>
                (case extract_path_arg js (tcp_tool_args p) of
                   None \<Rightarrow> False
                 | Some candidate \<Rightarrow> canonicalise candidate = canonicalise path)
            | ProjectScopedPath root \<Rightarrow>
                (case extract_path_arg js (tcp_tool_args p) of
                   None \<Rightarrow> False
                 | Some candidate \<Rightarrow> is_under (canonicalise candidate) (canonicalise root))))"

end
