(* ===== verification/Tool_Approvals.thy ===== *)
theory Tool_Approvals
  imports Tool_Paths Limit_Services
begin

text \<open>
  The approval of tool calls (\<open>crates/cairn-runtime/src/tool_call_approvals.rs\<close>,
  \<open>services/tool_call_approval_impl.rs\<close>). A call is proposed, an operator amends, approves or
  rejects it, and the executor that waits for the answer runs the arguments the operator settled
  on. The service keeps a cache, the rules of each session and the one-shot channels of the
  waiting executors; the store is the one of \<open>Event_Store\<close>.

  Every critical section of the code is one definition here, and a method is their composition,
  so the interleavings of \<open>Tool_Approval_Laws\<close> are built from the same parts.
\<close>

section \<open>Vocabulary\<close>

datatype submit_decision = AutoApproved | PendingOperator

datatype 'j operator_decision = ApprovedWith 'j | RejectedFor "string option" | TimedOut

record 'j approved_proposal =
  ap_call_id :: ident
  ap_tool_name :: string
  ap_tool_args :: "'j"

record 'j rejected_proposal =
  rj_call_id :: ident
  rj_tool_name :: string
  rj_tool_args :: "'j"
  rj_reason :: "string option"

datatype stored_proposal_state = StoredPending | StoredApproved | StoredRejected | StoredTimeout

record 'j stored_proposal =
  st_proposal :: "'j tool_call_proposal"
  st_state :: stored_proposal_state
  st_amended_args :: "'j option"
  st_approved_args :: "'j option"
  st_rejection_reason :: "string option"

section \<open>Reading the projection\<close>

definition row_effective_args :: "'j tool_call_approval_record \<Rightarrow> 'j" where
  "row_effective_args r =
     (case tca_approved_tool_args r of
        Some a \<Rightarrow> a
      | None \<Rightarrow>
          (case tca_amended_tool_args r of Some a \<Rightarrow> a | None \<Rightarrow> tca_original_tool_args r))"

definition approved_of_row :: "'j tool_call_approval_record \<Rightarrow> 'j approved_proposal" where
  "approved_of_row r =
     \<lparr>ap_call_id = tca_call_id r, ap_tool_name = tca_tool_name r, ap_tool_args = row_effective_args r\<rparr>"

definition get_tool_call_approval :: "ident \<Rightarrow> 'j store \<Rightarrow> 'j approved_proposal option" where
  "get_tool_call_approval i s =
     (case tool_call_get i s of
        None \<Rightarrow> None
      | Some r \<Rightarrow>
          if tca_state r \<noteq> tool_call_approval_state.Approved then None
          else Some (approved_of_row r))"

fun stored_state_of :: "tool_call_approval_state \<Rightarrow> stored_proposal_state" where
  "stored_state_of tool_call_approval_state.Pending = StoredPending"
| "stored_state_of tool_call_approval_state.Approved = StoredApproved"
| "stored_state_of tool_call_approval_state.Rejected = StoredRejected"
| "stored_state_of tool_call_approval_state.Timeout = StoredTimeout"

definition store_record_to_stored_proposal :: "'j tool_call_approval_record \<Rightarrow> 'j stored_proposal"
  where
  "store_record_to_stored_proposal r =
     \<lparr>st_proposal =
        \<lparr>tcp_call_id = tca_call_id r, tcp_session_id = tca_session_id r, tcp_run_id = tca_run_id r,
         tcp_project = tca_project r, tcp_tool_name = tca_tool_name r,
         tcp_tool_args = tca_original_tool_args r, tcp_display_summary = tca_display_summary r,
         tcp_match_policy = tca_match_policy r\<rparr>,
      st_state = stored_state_of (tca_state r), st_amended_args = tca_amended_tool_args r,
      st_approved_args = tca_approved_tool_args r, st_rejection_reason = tca_reason r\<rparr>"

definition get_tool_call_proposal :: "ident \<Rightarrow> 'j store \<Rightarrow> 'j stored_proposal option" where
  "get_tool_call_proposal i s = map_option store_record_to_stored_proposal (tool_call_get i s)"

definition list_approved_for_run :: "ident \<Rightarrow> 'j store \<Rightarrow> 'j approved_proposal list" where
  "list_approved_for_run rid s =
     map approved_of_row
       (filter (\<lambda>r. tca_state r = tool_call_approval_state.Approved) (tool_calls_for_run rid s))"

definition list_rejected_for_run :: "ident \<Rightarrow> 'j store \<Rightarrow> 'j rejected_proposal list" where
  "list_rejected_for_run rid s =
     map (\<lambda>r. \<lparr>rj_call_id = tca_call_id r, rj_tool_name = tca_tool_name r,
               rj_tool_args =
                 (case tca_amended_tool_args r of Some a \<Rightarrow> a | None \<Rightarrow> tca_original_tool_args r),
               rj_reason = tca_reason r\<rparr>)
       (filter (\<lambda>r. tca_state r = tool_call_approval_state.Rejected) (tool_calls_for_run rid s))"

section \<open>The state of the service\<close>

datatype proposal_state = ProposalPending | ProposalAmended | ProposalApproved | ProposalRejected

text \<open>\<open>format!("{:?}", state).to_ascii_lowercase()\<close>.\<close>

fun proposal_state_word :: "proposal_state \<Rightarrow> string" where
  "proposal_state_word ProposalPending = ''pending''"
| "proposal_state_word ProposalAmended = ''amended''"
| "proposal_state_word ProposalApproved = ''approved''"
| "proposal_state_word ProposalRejected = ''rejected''"

record 'j proposal_entry =
  pe_proposal :: "'j tool_call_proposal"
  pe_state :: proposal_state
  pe_amended_args :: "'j option"
  pe_approved_args :: "'j option"
  pe_rejection_reason :: "string option"

definition effective_args :: "'j proposal_entry \<Rightarrow> 'j" where
  "effective_args e =
     (case pe_approved_args e of
        Some a \<Rightarrow> a
      | None \<Rightarrow>
          (case pe_amended_args e of Some a \<Rightarrow> a | None \<Rightarrow> tcp_tool_args (pe_proposal e)))"

definition entry_resolved :: "'j proposal_entry \<Rightarrow> bool" where
  "entry_resolved e \<longleftrightarrow> pe_state e = ProposalApproved \<or> pe_state e = ProposalRejected"

text \<open>
  A one-shot channel by its number: nothing sent yet, the decision sent, or the sender dropped
  without one. The sender is in the pending map or in the hands of a method that claimed it.
\<close>

datatype 'j oneshot = Open | Sent "'j operator_decision" | Closed

record 'j approvals =
  av_proposals :: "(ident, 'j proposal_entry) hmap"
  av_pending :: "(ident, nat) hmap"
  av_allow_registry :: "(ident, 'j allow_rule list) hmap"
  av_channels :: "'j oneshot list"

definition approvals_new :: "'j approvals" where
  "approvals_new =
     \<lparr>av_proposals = [], av_pending = [], av_allow_registry = [], av_channels = []\<rparr>"

definition cached_entry :: "ident \<Rightarrow> 'j approvals \<Rightarrow> 'j proposal_entry option" where
  "cached_entry i v = hget (av_proposals v) i"

definition find_matching_rule :: "'j json_ops \<Rightarrow> 'j tool_call_proposal \<Rightarrow> 'j approvals \<Rightarrow>
    'j allow_rule option" where
  "find_matching_rule js p v =
     (case hget (av_allow_registry v) (tcp_session_id p) of
        None \<Rightarrow> None
      | Some rules \<Rightarrow> find (proposal_matches_rule js p) rules)"

definition send_decision :: "nat option \<Rightarrow> 'j operator_decision \<Rightarrow> 'j approvals \<Rightarrow> 'j approvals" where
  "send_decision sender d v =
     (case sender of
        None \<Rightarrow> v
      | Some k \<Rightarrow> v\<lparr>av_channels := (av_channels v)[k := Sent d]\<rparr>)"

definition drop_sender :: "nat option \<Rightarrow> 'j approvals \<Rightarrow> 'j approvals" where
  "drop_sender sender v =
     (case sender of
        None \<Rightarrow> v
      | Some k \<Rightarrow> v\<lparr>av_channels := (av_channels v)[k := Closed]\<rparr>)"

section \<open>Loading a proposal\<close>

definition stored_to_entry :: "'j stored_proposal \<Rightarrow> 'j proposal_entry" where
  "stored_to_entry st =
     \<lparr>pe_proposal = st_proposal st,
      pe_state =
        (case st_state st of
           StoredPending \<Rightarrow>
             (if st_amended_args st \<noteq> None then ProposalAmended else ProposalPending)
         | StoredApproved \<Rightarrow> ProposalApproved
         | StoredRejected \<Rightarrow> ProposalRejected
         | StoredTimeout \<Rightarrow> ProposalRejected),
      pe_amended_args = st_amended_args st, pe_approved_args = st_approved_args st,
      pe_rejection_reason =
        (if st_state st = StoredTimeout \<and> st_rejection_reason st = None
         then Some ''operator_timeout'' else st_rejection_reason st)\<rparr>"

text \<open>\<open>entry(call_id).or_insert(entry)\<close> under the lock.\<close>

definition insert_fetched :: "ident \<Rightarrow> 'j proposal_entry \<Rightarrow> 'j approvals \<Rightarrow>
    'j proposal_entry \<times> 'j approvals" where
  "insert_fetched i e v =
     (case cached_entry i v of
        Some live \<Rightarrow> (live, v)
      | None \<Rightarrow> (e, v\<lparr>av_proposals := hput i e (av_proposals v)\<rparr>))"

definition entity_name :: string where
  "entity_name = ''tool_call_approval''"

record 'j approval_world =
  aw_service :: "'j approvals"
  aw_world :: "'j world"

definition load_or_fetch :: "ident \<Rightarrow> 'j approval_world \<Rightarrow>
    'j proposal_entry reply \<times> 'j approval_world" where
  "load_or_fetch i w =
     (case cached_entry i (aw_service w) of
        Some e \<Rightarrow> (Done e, w)
      | None \<Rightarrow>
          (case get_tool_call_proposal i (w_store (aw_world w)) of
             None \<Rightarrow> (Failed (NotFound entity_name i), w)
           | Some st \<Rightarrow>
               let (e, v) = insert_fetched i (stored_to_entry st) (aw_service w)
               in (Done e, w\<lparr>aw_service := v\<rparr>)))"

definition persist :: "svc_env \<Rightarrow> 'j runtime_event \<Rightarrow> 'j approval_world \<Rightarrow>
    unit reply \<times> 'j approval_world" where
  "persist env ev w =
     (let (r, world) = emit env ev (aw_world w) in (r, w\<lparr>aw_world := world\<rparr>))"

section \<open>Submitting\<close>

definition already_approved :: "ident \<Rightarrow> 'j approval_world \<Rightarrow> bool" where
  "already_approved i w =
     (case cached_entry i (aw_service w) of
        Some e \<Rightarrow> pe_state e = ProposalApproved
      | None \<Rightarrow>
          (case get_tool_call_proposal i (w_store (aw_world w)) of
             Some st \<Rightarrow> st_state st = StoredApproved
           | None \<Rightarrow> False))"

definition proposed_event :: "u64 \<Rightarrow> 'j tool_call_proposal \<Rightarrow> 'j runtime_event" where
  "proposed_event now p =
     ToolCallProposed
       \<lparr>tp_project = tcp_project p, tp_call_id = tcp_call_id p, tp_session_id = tcp_session_id p,
        tp_run_id = tcp_run_id p, tp_tool_name = tcp_tool_name p, tp_tool_args = tcp_tool_args p,
        tp_display_summary = (case tcp_display_summary p of None \<Rightarrow> [] | Some t \<Rightarrow> t),
        tp_match_policy = tcp_match_policy p, tp_proposed_at_ms = now\<rparr>"

definition auto_approved_event :: "u64 \<Rightarrow> 'j tool_call_proposal \<Rightarrow> 'j runtime_event" where
  "auto_approved_event now p =
     ToolCallApproved
       \<lparr>ta_project = tcp_project p, ta_call_id = tcp_call_id p, ta_session_id = tcp_session_id p,
        ta_operator_id = ''session_allow'', ta_scope = Once, ta_approved_tool_args = None,
        ta_approved_at_ms = now\<rparr>"

definition cache_proposal :: "'j tool_call_proposal \<Rightarrow> 'j approvals \<Rightarrow> 'j approvals" where
  "cache_proposal p v =
     v\<lparr>av_proposals := hput (tcp_call_id p)
         \<lparr>pe_proposal = p, pe_state = ProposalPending, pe_amended_args = None,
          pe_approved_args = None, pe_rejection_reason = None\<rparr> (av_proposals v)\<rparr>"

definition set_proposal_state :: "ident \<Rightarrow> proposal_state \<Rightarrow> 'j approvals \<Rightarrow> 'j approvals" where
  "set_proposal_state i st v =
     v\<lparr>av_proposals := hmodify i (\<lambda>e. e\<lparr>pe_state := st\<rparr>) (av_proposals v)\<rparr>"

definition submit_proposal :: "'j json_ops \<Rightarrow> svc_env \<Rightarrow> svc_env \<Rightarrow> u64 \<Rightarrow> u64 \<Rightarrow>
    'j tool_call_proposal \<Rightarrow> 'j approval_world \<Rightarrow> submit_decision reply \<times> 'j approval_world" where
  "submit_proposal js env1 env2 now1 now2 p w =
     (if already_approved (tcp_call_id p) w then (Done AutoApproved, w)
      else and_then (persist env1 (proposed_event now1 p) w)
        (\<lambda>_ w.
          let w = w\<lparr>aw_service := cache_proposal p (aw_service w)\<rparr>
          in (case find_matching_rule js p (aw_service w) of
                None \<Rightarrow> (Done PendingOperator, w)
              | Some _ \<Rightarrow>
                  and_then (persist env2 (auto_approved_event now2 p) w)
                    (\<lambda>_ w. (Done AutoApproved,
                       w\<lparr>aw_service :=
                           set_proposal_state (tcp_call_id p) ProposalApproved (aw_service w)\<rparr>)))))"

section \<open>Deciding\<close>

text \<open>
  The first phase of a decision claims the transition under the lock, and takes the sender with
  it; the second appends the event; the third installs the rule and wakes the executor. When the
  append fails the claim is reverted, and the sender is dropped with the context.
\<close>

record 'j claim =
  cl_project :: project_key
  cl_session_id :: ident
  cl_previous_state :: proposal_state
  cl_previous_reason :: "string option"
  cl_effective_args :: "'j"
  cl_allow_rule :: "'j allow_rule option"
  cl_sender :: "nat option"

definition refused_transition :: "'j proposal_entry \<Rightarrow> string \<Rightarrow> runtime_error" where
  "refused_transition e to = InvalidTransition entity_name (proposal_state_word (pe_state e)) to"

definition approve_claim :: "ident \<Rightarrow> approval_scope \<Rightarrow> 'j option \<Rightarrow> 'j approvals \<Rightarrow>
    (runtime_error + 'j claim) \<times> 'j approvals" where
  "approve_claim i scope args v =
     (case cached_entry i v of
        None \<Rightarrow> (Inl (NotFound entity_name i), v)
      | Some e \<Rightarrow>
          if entry_resolved e then (Inl (refused_transition e ''approved''), v)
          else
            let e = (if args \<noteq> None then e\<lparr>pe_approved_args := args\<rparr> else e);
                eff = effective_args e;
                rule = (case scope of
                          Once \<Rightarrow> None
                        | SessionApproval mp \<Rightarrow>
                            Some \<lparr>al_tool_name = tcp_tool_name (pe_proposal e), al_tool_args = eff,
                                  al_policy = mp\<rparr>)
            in (Inr \<lparr>cl_project = tcp_project (pe_proposal e),
                     cl_session_id = tcp_session_id (pe_proposal e),
                     cl_previous_state = pe_state e, cl_previous_reason = pe_rejection_reason e,
                     cl_effective_args = eff, cl_allow_rule = rule,
                     cl_sender = hget (av_pending v) i\<rparr>,
                v\<lparr>av_proposals := hput i (e\<lparr>pe_state := ProposalApproved\<rparr>) (av_proposals v),
                  av_pending := hdel i (av_pending v)\<rparr>))"

definition approved_event :: "u64 \<Rightarrow> ident \<Rightarrow> ident \<Rightarrow> approval_scope \<Rightarrow> 'j option \<Rightarrow> 'j claim \<Rightarrow>
    'j runtime_event" where
  "approved_event now i operator scope args c =
     ToolCallApproved
       \<lparr>ta_project = cl_project c, ta_call_id = i, ta_session_id = cl_session_id c,
        ta_operator_id = operator, ta_scope = scope, ta_approved_tool_args = args,
        ta_approved_at_ms = now\<rparr>"

definition approve_revert :: "ident \<Rightarrow> 'j option \<Rightarrow> 'j claim \<Rightarrow> 'j approvals \<Rightarrow> 'j approvals" where
  "approve_revert i args c v =
     drop_sender (cl_sender c)
       (v\<lparr>av_proposals := hmodify i
            (\<lambda>e. if pe_state e = ProposalApproved
                 then e\<lparr>pe_state := cl_previous_state c,
                        pe_approved_args := (if args \<noteq> None then None else pe_approved_args e)\<rparr>
                 else e) (av_proposals v)\<rparr>)"

definition approve_commit :: "'j claim \<Rightarrow> 'j approvals \<Rightarrow> 'j approvals" where
  "approve_commit c v =
     send_decision (cl_sender c) (ApprovedWith (cl_effective_args c))
       (case cl_allow_rule c of
          None \<Rightarrow> v
        | Some rule \<Rightarrow>
            v\<lparr>av_allow_registry := hentry (cl_session_id c) [] (\<lambda>rules. rules @ [rule])
                (av_allow_registry v)\<rparr>)"

text \<open>The second phase and what follows it, for a claim that was taken.\<close>

definition conclude :: "svc_env \<Rightarrow> 'j runtime_event \<Rightarrow> ('j approvals \<Rightarrow> 'j approvals) \<Rightarrow>
    ('j approvals \<Rightarrow> 'j approvals) \<Rightarrow> 'j approval_world \<Rightarrow> unit reply \<times> 'j approval_world" where
  "conclude env ev commit revert w =
     (case persist env ev w of
        (Done _, w) \<Rightarrow> (Done (), w\<lparr>aw_service := commit (aw_service w)\<rparr>)
      | (Failed e, w) \<Rightarrow> (Failed e, w\<lparr>aw_service := revert (aw_service w)\<rparr>)
      | (Crashed, w) \<Rightarrow> (Crashed, w))"

definition approve :: "svc_env \<Rightarrow> u64 \<Rightarrow> ident \<Rightarrow> ident \<Rightarrow> approval_scope \<Rightarrow> 'j option \<Rightarrow>
    'j approval_world \<Rightarrow> unit reply \<times> 'j approval_world" where
  "approve env now i operator scope args w =
     and_then (load_or_fetch i w) (\<lambda>_ w.
       case approve_claim i scope args (aw_service w) of
         (Inl err, v) \<Rightarrow> (Failed err, w\<lparr>aw_service := v\<rparr>)
       | (Inr c, v) \<Rightarrow>
           conclude env (approved_event now i operator scope args c) (approve_commit c)
             (approve_revert i args c) (w\<lparr>aw_service := v\<rparr>))"

definition reject_claim :: "ident \<Rightarrow> string option \<Rightarrow> 'j approvals \<Rightarrow>
    (runtime_error + 'j claim) \<times> 'j approvals" where
  "reject_claim i reason v =
     (case cached_entry i v of
        None \<Rightarrow> (Inl (NotFound entity_name i), v)
      | Some e \<Rightarrow>
          if entry_resolved e then (Inl (refused_transition e ''rejected''), v)
          else
            (Inr \<lparr>cl_project = tcp_project (pe_proposal e),
                  cl_session_id = tcp_session_id (pe_proposal e),
                  cl_previous_state = pe_state e, cl_previous_reason = pe_rejection_reason e,
                  cl_effective_args = effective_args e, cl_allow_rule = None,
                  cl_sender = hget (av_pending v) i\<rparr>,
             v\<lparr>av_proposals :=
                 hput i (e\<lparr>pe_state := ProposalRejected, pe_rejection_reason := reason\<rparr>)
                   (av_proposals v),
               av_pending := hdel i (av_pending v)\<rparr>))"

definition rejected_event :: "u64 \<Rightarrow> ident \<Rightarrow> ident \<Rightarrow> string option \<Rightarrow> 'j claim \<Rightarrow> 'j runtime_event"
  where
  "rejected_event now i operator reason c =
     ToolCallRejected
       \<lparr>tr_project = cl_project c, tr_call_id = i, tr_session_id = cl_session_id c,
        tr_operator_id = operator, tr_reason = reason, tr_rejected_at_ms = now\<rparr>"

definition reject_revert :: "ident \<Rightarrow> 'j claim \<Rightarrow> 'j approvals \<Rightarrow> 'j approvals" where
  "reject_revert i c v =
     drop_sender (cl_sender c)
       (v\<lparr>av_proposals := hmodify i
            (\<lambda>e. if pe_state e = ProposalRejected
                 then e\<lparr>pe_state := cl_previous_state c,
                        pe_rejection_reason := cl_previous_reason c\<rparr>
                 else e) (av_proposals v)\<rparr>)"

definition reject :: "svc_env \<Rightarrow> u64 \<Rightarrow> ident \<Rightarrow> ident \<Rightarrow> string option \<Rightarrow> 'j approval_world \<Rightarrow>
    unit reply \<times> 'j approval_world" where
  "reject env now i operator reason w =
     and_then (load_or_fetch i w) (\<lambda>_ w.
       case reject_claim i reason (aw_service w) of
         (Inl err, v) \<Rightarrow> (Failed err, w\<lparr>aw_service := v\<rparr>)
       | (Inr c, v) \<Rightarrow>
           conclude env (rejected_event now i operator reason c)
             (send_decision (cl_sender c) (RejectedFor reason))
             (reject_revert i c) (w\<lparr>aw_service := v\<rparr>))"

text \<open>An amendment claims nothing: it may be repeated, and it wakes nobody.\<close>

definition amend_claim :: "ident \<Rightarrow> 'j \<Rightarrow> 'j approvals \<Rightarrow>
    (runtime_error + (project_key \<times> ident \<times> proposal_state \<times> 'j option)) \<times> 'j approvals" where
  "amend_claim i new_args v =
     (case cached_entry i v of
        None \<Rightarrow> (Inl (NotFound entity_name i), v)
      | Some e \<Rightarrow>
          if entry_resolved e then (Inl (refused_transition e ''amended''), v)
          else
            (Inr (tcp_project (pe_proposal e), tcp_session_id (pe_proposal e), pe_state e,
                  pe_amended_args e),
             v\<lparr>av_proposals :=
                 hput i (e\<lparr>pe_amended_args := Some new_args, pe_state := ProposalAmended\<rparr>)
                   (av_proposals v)\<rparr>))"

definition amended_event :: "u64 \<Rightarrow> ident \<Rightarrow> ident \<Rightarrow> 'j \<Rightarrow> project_key \<Rightarrow> ident \<Rightarrow> 'j runtime_event"
  where
  "amended_event now i operator new_args p session =
     ToolCallAmended
       \<lparr>tm_project = p, tm_call_id = i, tm_session_id = session, tm_operator_id = operator,
        tm_new_tool_args = new_args, tm_amended_at_ms = now\<rparr>"

definition amend_revert :: "ident \<Rightarrow> proposal_state \<Rightarrow> 'j option \<Rightarrow> 'j approvals \<Rightarrow> 'j approvals" where
  "amend_revert i previous_state previous_amended v =
     v\<lparr>av_proposals := hmodify i
         (\<lambda>e. e\<lparr>pe_state := previous_state, pe_amended_args := previous_amended\<rparr>)
         (av_proposals v)\<rparr>"

definition amend :: "svc_env \<Rightarrow> u64 \<Rightarrow> ident \<Rightarrow> ident \<Rightarrow> 'j \<Rightarrow> 'j approval_world \<Rightarrow>
    unit reply \<times> 'j approval_world" where
  "amend env now i operator new_args w =
     and_then (load_or_fetch i w) (\<lambda>_ w.
       case amend_claim i new_args (aw_service w) of
         (Inl err, v) \<Rightarrow> (Failed err, w\<lparr>aw_service := v\<rparr>)
       | (Inr (p, session, previous_state, previous_amended), v) \<Rightarrow>
           conclude env (amended_event now i operator new_args p session) (\<lambda>v. v)
             (amend_revert i previous_state previous_amended) (w\<lparr>aw_service := v\<rparr>))"

section \<open>Retrieving and waiting\<close>

definition retrieve_approved_proposal :: "ident \<Rightarrow> 'j approval_world \<Rightarrow> 'j approved_proposal reply"
  where
  "retrieve_approved_proposal i w =
     (case cached_entry i (aw_service w) of
        Some e \<Rightarrow>
          if pe_state e \<noteq> ProposalApproved then Failed (refused_transition e ''retrieved'')
          else Done \<lparr>ap_call_id = i, ap_tool_name = tcp_tool_name (pe_proposal e),
                     ap_tool_args = effective_args e\<rparr>
      | None \<Rightarrow>
          (case get_tool_call_approval i (w_store (aw_world w)) of
             None \<Rightarrow> Failed (NotFound entity_name i)
           | Some a \<Rightarrow> Done a))"

text \<open>
  \<open>await_decision\<close> up to where it parks: the decision that is there already, or the number of the
  channel it waits on.
\<close>

definition await_start :: "ident \<Rightarrow> 'j approval_world \<Rightarrow>
    ('j operator_decision + nat) reply \<times> 'j approval_world" where
  "await_start i w =
     and_then (load_or_fetch i w) (\<lambda>e w.
       case pe_state e of
         ProposalApproved \<Rightarrow> (Done (Inl (ApprovedWith (effective_args e))), w)
       | ProposalRejected \<Rightarrow> (Done (Inl (RejectedFor (pe_rejection_reason e))), w)
       | _ \<Rightarrow>
           if hget (av_pending (aw_service w)) i \<noteq> None then
             (Failed (Conflict ''tool_call_approval_await'' i), w)
           else
             let v = aw_service w; k = length (av_channels v)
             in (Done (Inr k),
                 w\<lparr>aw_service := v\<lparr>av_pending := hput i k (av_pending v),
                                   av_channels := av_channels v @ [Open]\<rparr>\<rparr>))"

definition timeout_reason :: string where
  "timeout_reason = ''operator_timeout''"

definition timeout_claim :: "ident \<Rightarrow> 'j approvals \<Rightarrow> 'j claim option \<times> 'j approvals" where
  "timeout_claim i v =
     (let v = drop_sender (hget (av_pending v) i) (v\<lparr>av_pending := hdel i (av_pending v)\<rparr>)
      in (case reject_claim i (Some timeout_reason) v of
            (Inl _, _) \<Rightarrow> (None, v)
          | (Inr c, v) \<Rightarrow> (Some c, v)))"

definition handle_timeout :: "svc_env \<Rightarrow> u64 \<Rightarrow> ident \<Rightarrow> 'j approval_world \<Rightarrow>
    'j operator_decision reply \<times> 'j approval_world" where
  "handle_timeout env now i w =
     (case timeout_claim i (aw_service w) of
        (None, v) \<Rightarrow> (Done TimedOut, w\<lparr>aw_service := v\<rparr>)
      | (Some c, v) \<Rightarrow>
          and_then
            (conclude env (rejected_event now i ''operator_timeout'' (Some timeout_reason) c)
               (\<lambda>v. v) (reject_revert i c) (w\<lparr>aw_service := v\<rparr>))
            (\<lambda>_ w. (Done TimedOut, w)))"

text \<open>
  What the parked executor resumes with when its channel \<open>k\<close> completes or, while it is still
  open, when the timeout elapses.
\<close>

definition await_resume :: "svc_env \<Rightarrow> u64 \<Rightarrow> ident \<Rightarrow> nat \<Rightarrow> 'j approval_world \<Rightarrow>
    'j operator_decision reply \<times> 'j approval_world" where
  "await_resume env now i k w =
     (case av_channels (aw_service w) ! k of
        Sent d \<Rightarrow> (Done d, w)
      | Closed \<Rightarrow> (Failed (InternalError ''approval oneshot dropped without a decision''), w)
      | Open \<Rightarrow> handle_timeout env now i w)"

text \<open>A restart keeps the store and nothing of the service.\<close>

definition restarted :: "'j approval_world \<Rightarrow> 'j approval_world" where
  "restarted w = w\<lparr>aw_service := approvals_new\<rparr>"

end
