(* ===== verification/Tool_Path_Laws.thy ===== *)
theory Tool_Path_Laws
  imports Tool_Paths Trigger_Condition_Laws "HOL-Library.Sublist"
begin

text \<open>
  What the match policies of session rules admit. The reference is the directory a path leads to
  from a working directory, as the kernel walks it when no component is a symbolic link.
\<close>

section \<open>Walking a path\<close>

fun walk :: "string list \<Rightarrow> string list \<Rightarrow> string list" where
  "walk dir [] = dir"
| "walk dir (s # segs) =
     (if s = [] \<or> s = ''.'' then walk dir segs
      else if s = ''..'' then walk (butlast dir) segs
      else walk (dir @ [s]) segs)"

definition resolve :: "string list \<Rightarrow> string \<Rightarrow> string list" where
  "resolve cwd p = walk (if is_absolute p then [] else cwd) (split_on (CHR ''/'') p)"

text \<open>A walk that never leaves the directory it starts in, \<open>depth\<close> levels above it.\<close>

fun descends :: "nat \<Rightarrow> string list \<Rightarrow> bool" where
  "descends depth [] = True"
| "descends depth (s # segs) =
     (if s = [] \<or> s = ''.'' then descends depth segs
      else if s = ''..'' then 0 < depth \<and> descends (depth - 1) segs
      else descends (Suc depth) segs)"

definition stays_below :: "string \<Rightarrow> bool" where
  "stays_below p = descends 0 (split_on (CHR ''/'') p)"

lemma walk_descends:
  "descends (length dir) segs \<Longrightarrow> walk (base @ dir) segs = base @ walk dir segs"
proof (induction segs arbitrary: dir)
  case Nil
  then show ?case by simp
next
  case (Cons s segs)
  have "dir \<noteq> []" if "s = ''..''" using Cons.prems that by auto
  then show ?case
    using Cons.prems Cons.IH [of dir] Cons.IH [of "butlast dir"] Cons.IH [of "dir @ [s]"]
    by (auto simp: butlast_append)
qed

lemma canonical_fold:
  "foldl canonical_step (pre @ map Normal dir)
     (map (\<lambda>s. if s = ''..'' then ParentDir else Normal s)
       (filter (\<lambda>s. s \<noteq> [] \<and> s \<noteq> ''.'') segs)) = pre @ map Normal (walk dir segs)"
  if "\<not> can_pop (rev pre)"
proof (induction segs arbitrary: dir)
  case Nil
  then show ?case by simp
next
  case (Cons s segs)
  have "canonical_step (pre @ map Normal dir) ParentDir = pre @ map Normal (butlast dir)"
    using that by (cases dir rule: rev_cases) (auto simp: butlast_append)
  then show ?case
    using Cons.IH [of dir] Cons.IH [of "butlast dir"] Cons.IH [of "dir @ [s]"] by auto
qed

lemma canonicalise_walk:
  "canonicalise p =
     (if is_absolute p then [RootDir] else []) @ map Normal (walk [] (split_on (CHR ''/'') p))"
  using canonical_fold [of "[RootDir]" "[]" "split_on (CHR ''/'') p"]
    canonical_fold [of "[]" "[]" "split_on (CHR ''/'') p"]
  by (simp add: canonicalise_def path_components_def Let_def)

lemma is_under_prefix: "is_under candidate root \<longleftrightarrow> prefix root candidate"
  by (induction candidate root rule: is_under.induct) auto

lemma prefix_map_inj: "inj f \<Longrightarrow> prefix (map f xs) (map f ys) \<longleftrightarrow> prefix xs ys"
  by (metis map_mono_prefix list.inj_map_strong inj_eq prefix_def map_eq_append_conv)

lemma prefix_normal [simp]: "prefix (map Normal xs) (map Normal ys) \<longleftrightarrow> prefix xs ys"
  by (rule prefix_map_inj) (simp add: inj_def)

lemma map_normal_eq [simp]: "map Normal xs = map Normal ys \<longleftrightarrow> xs = ys"
  by (rule inj_map_eq_map) (simp add: inj_def)

lemma resolve_canonical:
  "is_absolute p \<or> stays_below p \<Longrightarrow>
     resolve cwd p = (if is_absolute p then [] else cwd) @ walk [] (split_on (CHR ''/'') p)"
  using walk_descends [of "[]" "split_on (CHR ''/'') p" cwd]
  by (auto simp: resolve_def stays_below_def)

section \<open>What the policies admit\<close>

lemma matches_path_iff:
  assumes "tcp_tool_name p = al_tool_name r"
    and "extract_path_arg js (tcp_tool_args p) = Some candidate"
  shows "al_policy r = ExactPath path \<Longrightarrow>
      proposal_matches_rule js p r \<longleftrightarrow> canonicalise candidate = canonicalise path"
    and "al_policy r = ProjectScopedPath root \<Longrightarrow>
      proposal_matches_rule js p r \<longleftrightarrow> is_under (canonicalise candidate) (canonicalise root)"
  using assms by (simp_all add: proposal_matches_rule_def)

text \<open>
  C35: A path rule admits a call exactly when the call stays inside what the operator approved. For
  a call of the rule's tool, whose path and the rule's path are both absolute or both relative
  without leaving the directory they start in, the exact rule holds if and only if both lead to
  the same file, and the project rule if and only if the file lies in or below the root,
  component by component. This is decided without the working directory.
\<close>

theorem path_rule_exact:
  assumes "tcp_tool_name p = al_tool_name r"
    and "extract_path_arg js (tcp_tool_args p) = Some candidate"
    and "is_absolute candidate \<longleftrightarrow> is_absolute approved"
    and "is_absolute candidate \<or> (stays_below candidate \<and> stays_below approved)"
  shows "(al_policy r = ExactPath approved \<longrightarrow>
      (proposal_matches_rule js p r \<longleftrightarrow> resolve cwd candidate = resolve cwd approved)) \<and>
    (al_policy r = ProjectScopedPath approved \<longrightarrow>
      (proposal_matches_rule js p r \<longleftrightarrow> prefix (resolve cwd approved) (resolve cwd candidate)))"
proof -
  have "resolve cwd q = (if is_absolute q then [] else cwd) @ walk [] (split_on (CHR ''/'') q)"
    if "q = candidate \<or> q = approved" for q
    using that assms(3,4) resolve_canonical by blast
  then show ?thesis
    using assms(3) matches_path_iff [OF assms(1,2)]
    by (simp add: is_under_prefix canonicalise_walk)
qed

lemma split_climb: "split_on (CHR ''/'') (''../'' @ path) = ''..'' # split_on (CHR ''/'') path"
  using split_on_nonempty [of "CHR ''/''" path]
  by (cases "split_on (CHR ''/'') path") simp_all

lemma climb_canonical: "\<not> is_absolute path \<Longrightarrow> canonicalise (''../'' @ path) = canonicalise path"
  using split_climb [of path] by (simp add: canonicalise_walk is_absolute_def)

text \<open>
  A relative path that climbs out is judged as if it did not. When two calls differ only in
  that the second puts \<open>../\<close> before the relative path of the first, every rule with a path gives
  both the same verdict, although the second reaches, from inside a directory, what the first
  reaches from outside it. A project rule whose root is the current directory admits every path
  there is, absolute ones too.
\<close>

theorem climbing_path_admitted:
  assumes "\<not> is_absolute path" and "tcp_tool_name p' = tcp_tool_name p"
    and "extract_path_arg js (tcp_tool_args p) = Some path"
    and "extract_path_arg js (tcp_tool_args p') = Some (''../'' @ path)"
    and "al_policy r \<noteq> Exact"
  shows "(proposal_matches_rule js p' r \<longleftrightarrow> proposal_matches_rule js p r) \<and>
    resolve (cwd @ [d]) (''../'' @ path) = resolve cwd path \<and>
    (al_policy r = ProjectScopedPath ''.'' \<and> tcp_tool_name q = al_tool_name r \<and>
       extract_path_arg js (tcp_tool_args q) = Some anywhere \<longrightarrow> proposal_matches_rule js q r)"
  using assms split_climb [of path]
  by (auto simp: proposal_matches_rule_def climb_canonical resolve_def is_absolute_def
      is_under_prefix canonicalise_walk split: approval_match_policy.splits)

section \<open>Samples\<close>

definition sample_read :: "string \<Rightarrow> string \<Rightarrow> sample_json tool_call_proposal" where
  "sample_read i path =
     \<lparr>tcp_call_id = i, tcp_session_id = ''s'', tcp_run_id = ''r'',
      tcp_project = \<lparr>tenant_id = ''t'', workspace_id = ''w'', project_id = ''p''\<rparr>,
      tcp_tool_name = ''read'', tcp_tool_args = JObject [(''path'', JString path)],
      tcp_display_summary = None, tcp_match_policy = Exact\<rparr>"

definition sample_rule :: "approval_match_policy \<Rightarrow> sample_json allow_rule" where
  "sample_rule mp = \<lparr>al_tool_name = ''read'', al_tool_args = JNull, al_policy = mp\<rparr>"

lemma sample_path: "extract_path_arg sample_ops (tcp_tool_args (sample_read i path)) = Some path"
  by (simp add: extract_path_arg_def sample_read_def sample_ops_def)

theorem path_rule_exact_witness:
  "proposal_matches_rule sample_ops (sample_read ''c'' ''/w/cairn/./src/../lib.rs'')
      (sample_rule (ProjectScopedPath ''/w/cairn'')) \<and>
   \<not> proposal_matches_rule sample_ops (sample_read ''c'' ''/w/cairn2/lib.rs'')
      (sample_rule (ProjectScopedPath ''/w/cairn''))"
  using path_rule_exact [where p = "sample_read ''c'' ''/w/cairn/./src/../lib.rs''" and
      r = "sample_rule (ProjectScopedPath ''/w/cairn'')" and js = sample_ops and
      candidate = "''/w/cairn/./src/../lib.rs''" and approved = "''/w/cairn''" and cwd = "[]"]
    path_rule_exact [where p = "sample_read ''c'' ''/w/cairn2/lib.rs''" and
      r = "sample_rule (ProjectScopedPath ''/w/cairn'')" and js = sample_ops and
      candidate = "''/w/cairn2/lib.rs''" and approved = "''/w/cairn''" and cwd = "[]"]
    sample_path [of "''c''"]
  by (simp add: sample_rule_def sample_read_def is_absolute_def resolve_def)

theorem climbing_path_admitted_witness:
  "proposal_matches_rule sample_ops (sample_read ''c'' ''../src/key'')
     (sample_rule (ProjectScopedPath ''src'')) \<and>
   resolve [''w'', ''repo''] ''../src/key'' = [''w'', ''src'', ''key'']"
proof -
  have "proposal_matches_rule sample_ops (sample_read ''c'' ''src/key'')
      (sample_rule (ProjectScopedPath ''src''))"
    using matches_path_iff(2) [OF _ sample_path [of "''c''" "''src/key''"],
        of "sample_rule (ProjectScopedPath ''src'')" "''src''"]
    by (simp add: sample_rule_def sample_read_def canonicalise_walk is_absolute_def)
  then show ?thesis
    using climbing_path_admitted [where p = "sample_read ''c'' ''src/key''" and
        p' = "sample_read ''c'' ''../src/key''" and r = "sample_rule (ProjectScopedPath ''src'')"
        and js = sample_ops and path = "''src/key''" and cwd = "[''w'']" and d = "''repo''"]
      sample_path [of "''c''" "''src/key''"] sample_path [of "''c''" "''../src/key''"]
    by (simp add: sample_rule_def sample_read_def is_absolute_def resolve_def)
qed

end
