(* ===== verification/Tool_Approval_Laws.thy ===== *)
theory Tool_Approval_Laws
  imports Tool_Approvals Tool_Path_Laws Limit_Laws
begin

text \<open>
  What the methods of the approval service do to the cache, the table and the log, and the
  agreement of the cache with the table as long as the appends succeed.
\<close>

section \<open>Rows and events\<close>

definition call_row :: "ident \<Rightarrow> 'j approval_world \<Rightarrow> 'j tool_call_approval_record option" where
  "call_row i w = tool_call_get i (w_store (aw_world w))"

definition logged :: "'j approval_world \<Rightarrow> 'j runtime_event list" where
  "logged w = map (\<lambda>e. ev_payload (se_envelope e)) (s_events (w_store (aw_world w)))"

definition entry_of_row :: "'j tool_call_approval_record \<Rightarrow> 'j proposal_entry" where
  "entry_of_row r = stored_to_entry (store_record_to_stored_proposal r)"

fun row_after :: "u64 \<Rightarrow> 'j runtime_event \<Rightarrow> ident \<Rightarrow> 'j tool_call_approval_record option \<Rightarrow>
    'j tool_call_approval_record option" where
  "row_after at (ToolCallProposed e) i r =
     (if tp_call_id e = i then Some (case r of None \<Rightarrow> proposed_record at e | Some r \<Rightarrow> r) else r)"
| "row_after at (ToolCallAmended e) i r =
     (if tm_call_id e = i
      then map_option (\<lambda>r. r\<lparr>tca_amended_tool_args := Some (tm_new_tool_args e),
             tca_last_amended_at_ms := Some (tm_amended_at_ms e),
             tca_version := bump (tca_version r), tca_updated_at := at\<rparr>) r else r)"
| "row_after at (ToolCallApproved e) i r =
     (if ta_call_id e = i
      then map_option (\<lambda>r. r\<lparr>tca_state := tool_call_approval_state.Approved,
             tca_operator_id := Some (ta_operator_id e), tca_scope := Some (ta_scope e),
             tca_approved_tool_args := ta_approved_tool_args e,
             tca_approved_at_ms := Some (ta_approved_at_ms e),
             tca_version := bump (tca_version r), tca_updated_at := at\<rparr>) r else r)"
| "row_after at (ToolCallRejected e) i r =
     (if tr_call_id e = i
      then map_option (\<lambda>r. r\<lparr>tca_state := tool_call_approval_state.Rejected,
             tca_operator_id := Some (tr_operator_id e), tca_reason := tr_reason e,
             tca_rejected_at_ms := Some (tr_rejected_at_ms e),
             tca_version := bump (tca_version r), tca_updated_at := at\<rparr>) r else r)"
| "row_after at _ i r = r"

fun call_event :: "'j runtime_event \<Rightarrow> bool" where
  "call_event (ToolCallProposed _) = True"
| "call_event (ToolCallAmended _) = True"
| "call_event (ToolCallApproved _) = True"
| "call_event (ToolCallRejected _) = True"
| "call_event _ = False"

lemma turn_call_event:
  assumes "call_event (ev_payload env)"
  shows "tool_call_get i (turn at env s) = row_after at (ev_payload env) i (tool_call_get i s)"
    and "map (\<lambda>e. ev_payload (se_envelope e)) (s_events (turn at env s)) =
      map (\<lambda>e. ev_payload (se_envelope e)) (s_events s) @ [ev_payload env]"
  using assms
  by (cases "ev_payload env";
      auto simp: turn_def case_prod_beta apply_projection_def push_event_stored push_event_events
        push_event_frame tool_call_get_def hmap_simps apply_tool_call_proposed_def
        apply_tool_call_amended_def apply_tool_call_approved_def apply_tool_call_rejected_def
        split: option.split)+

text \<open>An append that the secondary log refuses has been made all the same.\<close>

definition append_reply :: "svc_env \<Rightarrow> unit reply" where
  "append_reply env =
     (case se_secondary env of None \<Rightarrow> Done () | Some err \<Rightarrow> Failed (StoreFailure err))"

lemma emit_any_secondary:
  assumes "finishing payload = None"
  shows "emit env payload w = (append_reply env, snd (emit (env\<lparr>se_secondary := None\<rparr>) payload w))"
proof -
  note once = emit_once [OF assms, of "env\<lparr>se_secondary := None\<rparr>" w]
  show ?thesis
    using once by (auto simp: emit_def append_reply_def append_events_def Let_def
        split: prod.splits option.splits append_result.splits)
qed

lemma persist_effect:
  assumes "call_event ev" and "persist env ev w = (r, w')"
  shows "r = append_reply env" and "aw_service w' = aw_service w"
    and "call_row i w' = row_after (se_append_at env) ev i (call_row i w)"
    and "logged w' = logged w @ [ev]"
proof -
  let ?e = "fst (make_envelope (se_ts_ms env) (se_trace_id env) (w_counter (aw_world w)) ev)"
  have fin: "finishing ev = None" using assms(1) by (cases ev) auto
  have e: "ev_payload ?e = ev"
    by (auto simp: make_envelope_def next_event_id_def for_runtime_event_def
        event_envelope_new_def with_correlation_id_def Let_def split: prod.splits)
  have s: "w_store (aw_world w') = turn (se_append_at env) ?e (w_store (aw_world w))"
    and r: "r = append_reply env" and v: "aw_service w' = aw_service w"
    using assms(2) emit_once [OF fin, of "env\<lparr>se_secondary := None\<rparr>" "aw_world w"]
      emit_any_secondary [OF fin, of env "aw_world w"]
    by (auto simp: persist_def)
  show "r = append_reply env" "aw_service w' = aw_service w" using r v by auto
  show "call_row i w' = row_after (se_append_at env) ev i (call_row i w)"
    using turn_call_event(1) [of ?e i "se_append_at env" "w_store (aw_world w)"] assms(1)
    by (simp add: call_row_def s e)
  show "logged w' = logged w @ [ev]"
    using turn_call_event(2) [of ?e "se_append_at env" "w_store (aw_world w)"] assms(1)
    by (simp add: logged_def s e)
qed

lemma call_events [simp]:
  "call_event (proposed_event now p)" "call_event (auto_approved_event now p)"
  "call_event (approved_event now i op scope args c)" "call_event (rejected_event now i op reason c)"
  "call_event (amended_event now i op new_args pr session)"
  by (simp_all add: proposed_event_def auto_approved_event_def approved_event_def
      rejected_event_def amended_event_def)

lemma call_row_service [simp]: "call_row i (w\<lparr>aw_service := v\<rparr>) = call_row i w"
  by (simp add: call_row_def)

lemma logged_service [simp]: "logged (w\<lparr>aw_service := v\<rparr>) = logged w"
  by (simp add: logged_def)

lemma append_reply_done: "se_secondary env = None \<Longrightarrow> append_reply env = Done ()"
  by (simp add: append_reply_def)

section \<open>Loading\<close>

abbreviation cache :: "ident \<Rightarrow> 'j approval_world \<Rightarrow> 'j proposal_entry option" where
  "cache i w \<equiv> cached_entry i (aw_service w)"

definition loaded :: "ident \<Rightarrow> 'j approval_world \<Rightarrow> 'j proposal_entry option" where
  "loaded i w = (case cache i w of Some e \<Rightarrow> Some e | None \<Rightarrow> map_option entry_of_row (call_row i w))"

definition keep_loaded :: "ident \<Rightarrow> 'j proposal_entry \<Rightarrow> 'j approvals \<Rightarrow> 'j approvals" where
  "keep_loaded i e v = snd (insert_fetched i e v)"

lemma load_or_fetch_eq:
  "load_or_fetch i w =
     (case loaded i w of
        None \<Rightarrow> (Failed (NotFound entity_name i), w)
      | Some e \<Rightarrow> (Done e, w\<lparr>aw_service := keep_loaded i e (aw_service w)\<rparr>))"
  by (auto simp: load_or_fetch_def loaded_def keep_loaded_def insert_fetched_def
      get_tool_call_proposal_def call_row_def entry_of_row_def split: option.splits)

lemma cached_keep [simp]:
  "cached_entry j (keep_loaded i e v) =
     (if j = i \<and> cached_entry i v = None then Some e else cached_entry j v)"
  by (auto simp: keep_loaded_def insert_fetched_def cached_entry_def hmap_simps split: option.splits)

lemma keep_frame [simp]:
  "av_pending (keep_loaded i e v) = av_pending v" "av_channels (keep_loaded i e v) = av_channels v"
  "av_allow_registry (keep_loaded i e v) = av_allow_registry v"
  by (simp_all add: keep_loaded_def insert_fetched_def split: option.split)

lemma loaded_kept:
  "loaded i w = Some e \<Longrightarrow> cached_entry i (keep_loaded i e (aw_service w)) = Some e"
  by (auto simp: loaded_def split: option.splits)

lemma cached_channels [simp]:
  "cached_entry i (send_decision sender d v) = cached_entry i v"
  "cached_entry i (drop_sender sender v) = cached_entry i v"
  "cached_entry i (v\<lparr>av_pending := pend\<rparr>) = cached_entry i v"
  "cached_entry i (v\<lparr>av_channels := ch\<rparr>) = cached_entry i v"
  "cached_entry i (v\<lparr>av_allow_registry := reg\<rparr>) = cached_entry i v"
  by (simp_all add: cached_entry_def send_decision_def drop_sender_def split: option.split)

lemma cached_commit [simp]: "cached_entry i (approve_commit c v) = cached_entry i v"
  by (simp add: approve_commit_def split: option.split)

lemma cached_modify:
  "cached_entry j (v\<lparr>av_proposals := hmodify i f (av_proposals v)\<rparr>) =
     (if j = i then map_option f (cached_entry i v) else cached_entry j v)"
  by (simp add: cached_entry_def hmap_simps)

lemma cached_reverts:
  "cached_entry j (approve_revert i args c v) =
     (if j = i
      then map_option (\<lambda>e. if pe_state e = ProposalApproved
             then e\<lparr>pe_state := cl_previous_state c,
                    pe_approved_args := (if args \<noteq> None then None else pe_approved_args e)\<rparr>
             else e) (cached_entry i v)
      else cached_entry j v)"
  "cached_entry j (reject_revert i c v) =
     (if j = i
      then map_option (\<lambda>e. if pe_state e = ProposalRejected
             then e\<lparr>pe_state := cl_previous_state c, pe_rejection_reason := cl_previous_reason c\<rparr>
             else e) (cached_entry i v)
      else cached_entry j v)"
  "cached_entry j (amend_revert i st am v) =
     (if j = i then map_option (\<lambda>e. e\<lparr>pe_state := st, pe_amended_args := am\<rparr>) (cached_entry i v)
      else cached_entry j v)"
  by (simp_all add: approve_revert_def reject_revert_def amend_revert_def cached_modify)

section \<open>Agreement of the cache with the table\<close>

text \<open>
  All of an entry but the display summary, which the table stores as absent when it is empty.
\<close>

definition core :: "'j proposal_entry \<Rightarrow> _" where
  "core e =
     (pe_state e, pe_amended_args e, pe_approved_args e, pe_rejection_reason e,
      tcp_session_id (pe_proposal e), tcp_run_id (pe_proposal e), tcp_project (pe_proposal e),
      tcp_tool_name (pe_proposal e), tcp_tool_args (pe_proposal e), tcp_match_policy (pe_proposal e))"

definition row_ok :: "ident \<Rightarrow> 'j tool_call_approval_record \<Rightarrow> bool" where
  "row_ok i r \<longleftrightarrow> tca_call_id r = i \<and> tca_state r \<noteq> tool_call_approval_state.Timeout \<and>
     (tca_state r = tool_call_approval_state.Pending \<longrightarrow>
        tca_approved_tool_args r = None \<and> tca_reason r = None)"

definition fits :: "ident \<Rightarrow> 'j proposal_entry option \<Rightarrow> 'j tool_call_approval_record option \<Rightarrow> bool"
  where
  "fits i c r \<longleftrightarrow> (\<forall>e. c = Some e \<longrightarrow> (\<exists>x. r = Some x \<and> core e = core (entry_of_row x))) \<and>
     (\<forall>x. r = Some x \<longrightarrow> row_ok i x)"

definition agrees :: "'j approval_world \<Rightarrow> bool" where
  "agrees w \<longleftrightarrow> (\<forall>i. fits i (cache i w) (call_row i w))"

lemmas entry_defs = entry_of_row_def stored_to_entry_def store_record_to_stored_proposal_def
  core_def

lemma entry_of_row_resolved:
  "row_ok i r \<Longrightarrow> entry_resolved (entry_of_row r) \<longleftrightarrow> tca_state r \<noteq> tool_call_approval_state.Pending"
  by (cases "tca_state r") (auto simp: entry_defs entry_resolved_def row_ok_def)

lemma core_resolved: "core e = core e' \<Longrightarrow> entry_resolved e = entry_resolved e'"
  by (simp add: core_def entry_resolved_def)

lemma fits_loaded: "agrees w \<Longrightarrow> loaded i w = Some e \<Longrightarrow> fits i (Some e) (call_row i w)"
  by (auto simp: agrees_def loaded_def fits_def split: option.splits)

lemma fits_proposed:
  "fits (tcp_call_id p)
     (Some \<lparr>pe_proposal = p, pe_state = ProposalPending, pe_amended_args = None,
            pe_approved_args = None, pe_rejection_reason = None\<rparr>)
     (row_after at (proposed_event now p) (tcp_call_id p) None)"
  by (simp add: fits_def proposed_event_def proposed_record_def entry_defs row_ok_def)

lemma fits_pending:
  assumes "fits i (Some e) r" and "\<not> entry_resolved e"
  obtains x where "r = Some x" and "tca_state x = tool_call_approval_state.Pending"
    and "row_ok i x" and "core e = core (entry_of_row x)"
proof -
  obtain x where x: "r = Some x" "row_ok i x" "core e = core (entry_of_row x)"
    using assms(1) by (auto simp: fits_def)
  have "tca_state x = tool_call_approval_state.Pending"
    using assms(2) entry_of_row_resolved [OF x(2)] core_resolved [OF x(3)] by simp
  then show ?thesis using that x by blast
qed

lemma fits_approved:
  assumes "fits i (Some e) r" and "\<not> entry_resolved e"
  shows "fits i
    (Some (e\<lparr>pe_approved_args := (if args \<noteq> None then args else pe_approved_args e),
             pe_state := ProposalApproved\<rparr>))
    (row_after at (approved_event now i op scope args c) i r)"
  by (rule fits_pending [OF assms])
    (auto simp: fits_def approved_event_def entry_defs row_ok_def)

lemma fits_rejected:
  assumes "fits i (Some e) r" and "\<not> entry_resolved e"
  shows "fits i (Some (e\<lparr>pe_state := ProposalRejected, pe_rejection_reason := reason\<rparr>))
    (row_after at (rejected_event now i op reason c) i r)"
  by (rule fits_pending [OF assms])
    (auto simp: fits_def rejected_event_def entry_defs row_ok_def)

lemma fits_amended:
  assumes "fits i (Some e) r" and "\<not> entry_resolved e"
  shows "fits i (Some (e\<lparr>pe_amended_args := Some new_args, pe_state := ProposalAmended\<rparr>))
    (row_after at (amended_event now i op new_args pr session) i r)"
  by (rule fits_pending [OF assms])
    (auto simp: fits_def amended_event_def entry_defs row_ok_def)

lemma row_after_other:
  "j \<noteq> tcp_call_id p \<Longrightarrow> row_after at (proposed_event now p) j r = r"
  "j \<noteq> tcp_call_id p \<Longrightarrow> row_after at (auto_approved_event now p) j r = r"
  "j \<noteq> i \<Longrightarrow> row_after at (approved_event now i op scope args c) j r = r"
  "j \<noteq> i \<Longrightarrow> row_after at (rejected_event now i op reason c) j r = r"
  "j \<noteq> i \<Longrightarrow> row_after at (amended_event now i op new_args pr session) j r = r"
  by (auto simp: proposed_event_def auto_approved_event_def approved_event_def
      rejected_event_def amended_event_def)

section \<open>What a method does\<close>

lemma conclude_effect:
  assumes "conclude env ev commit revert w = (r, w')" and "call_event ev"
  shows "r = append_reply env" and "logged w' = logged w @ [ev]"
    and "call_row j w' = row_after (se_append_at env) ev j (call_row j w)"
    and "aw_service w' =
      (if se_secondary env = None then commit (aw_service w) else revert (aw_service w))"
proof -
  obtain r0 w0 where p: "persist env ev w = (r0, w0)" by fastforce
  note eff = persist_effect [OF assms(2) p]
  show "r = append_reply env" "logged w' = logged w @ [ev]"
    "call_row j w' = row_after (se_append_at env) ev j (call_row j w)"
    "aw_service w' =
      (if se_secondary env = None then commit (aw_service w) else revert (aw_service w))"
    using assms(1) eff by (auto simp: conclude_def p append_reply_def split: option.splits)
qed

lemma after_load:
  assumes "and_then (load_or_fetch i w) k = (r, w')"
  obtains (missing) "loaded i w = None" "r = Failed (NotFound entity_name i)" "w' = w"
  | (found) e where "loaded i w = Some e"
      "k e (w\<lparr>aw_service := keep_loaded i e (aw_service w)\<rparr>) = (r, w')"
  using assms by (cases "loaded i w") (auto simp: and_then_def load_or_fetch_eq)

lemma approve_cases:
  assumes "approve env now i op scope args w = (r, w')"
  obtains (missing) "loaded i w = None" "r = Failed (NotFound entity_name i)" "w' = w"
  | (refused) e where "loaded i w = Some e" "entry_resolved e"
      "r = Failed (refused_transition e ''approved'')"
      "w' = w\<lparr>aw_service := keep_loaded i e (aw_service w)\<rparr>"
  | (claimed) e c v where "loaded i w = Some e" "\<not> entry_resolved e"
      "approve_claim i scope args (keep_loaded i e (aw_service w)) = (Inr c, v)"
      "conclude env (approved_event now i op scope args c) (approve_commit c)
         (approve_revert i args c) (w\<lparr>aw_service := v\<rparr>) = (r, w')"
  using assms unfolding approve_def
proof (cases rule: after_load)
  case missing
  then show ?thesis by (rule that(1))
next
  case (found e)
  then show ?thesis
    using that(2) [of e] that(3) [of e] loaded_kept [OF found(1)]
    by (cases "entry_resolved e"; fastforce simp: approve_claim_def Let_def)
qed

lemma reject_cases:
  assumes "reject env now i op reason w = (r, w')"
  obtains (missing) "loaded i w = None" "r = Failed (NotFound entity_name i)" "w' = w"
  | (refused) e where "loaded i w = Some e" "entry_resolved e"
      "r = Failed (refused_transition e ''rejected'')"
      "w' = w\<lparr>aw_service := keep_loaded i e (aw_service w)\<rparr>"
  | (claimed) e c v where "loaded i w = Some e" "\<not> entry_resolved e"
      "reject_claim i reason (keep_loaded i e (aw_service w)) = (Inr c, v)"
      "conclude env (rejected_event now i op reason c)
         (send_decision (cl_sender c) (RejectedFor reason)) (reject_revert i c)
         (w\<lparr>aw_service := v\<rparr>) = (r, w')"
  using assms unfolding reject_def
proof (cases rule: after_load)
  case missing
  then show ?thesis by (rule that(1))
next
  case (found e)
  then show ?thesis
    using that(2) [of e] that(3) [of e] loaded_kept [OF found(1)]
    by (cases "entry_resolved e"; fastforce simp: reject_claim_def Let_def)
qed

lemma amend_cases:
  assumes "amend env now i op new_args w = (r, w')"
  obtains (missing) "loaded i w = None" "r = Failed (NotFound entity_name i)" "w' = w"
  | (refused) e where "loaded i w = Some e" "entry_resolved e"
      "r = Failed (refused_transition e ''amended'')"
      "w' = w\<lparr>aw_service := keep_loaded i e (aw_service w)\<rparr>"
  | (claimed) e pr session st am v where "loaded i w = Some e" "\<not> entry_resolved e"
      "amend_claim i new_args (keep_loaded i e (aw_service w)) = (Inr (pr, session, st, am), v)"
      "conclude env (amended_event now i op new_args pr session) (\<lambda>v. v) (amend_revert i st am)
         (w\<lparr>aw_service := v\<rparr>) = (r, w')"
  using assms unfolding amend_def
proof (cases rule: after_load)
  case missing
  then show ?thesis by (rule that(1))
next
  case (found e)
  then show ?thesis
    using that(2) [of e] that(3) [of e] loaded_kept [OF found(1)]
    by (cases "entry_resolved e"; fastforce simp: amend_claim_def Let_def)
qed

text \<open>What a claim leaves in the cache.\<close>

lemma approve_claim_cached:
  assumes "approve_claim i scope args v = (Inr c, v')" and "cached_entry i v = Some e"
  shows "cached_entry j v' =
      (if j = i then Some (e\<lparr>pe_approved_args := (if args \<noteq> None then args else pe_approved_args e),
                            pe_state := ProposalApproved\<rparr>)
       else cached_entry j v)"
    and "cl_effective_args c =
      effective_args (e\<lparr>pe_approved_args := (if args \<noteq> None then args else pe_approved_args e)\<rparr>)"
    and "cl_sender c = hget (av_pending v) i" and "cl_session_id c = tcp_session_id (pe_proposal e)"
    and "cl_project c = tcp_project (pe_proposal e)"
    and "av_channels v' = av_channels v" and "av_allow_registry v' = av_allow_registry v"
    and "cl_allow_rule c = (case scope of Once \<Rightarrow> None | SessionApproval mp \<Rightarrow>
      Some \<lparr>al_tool_name = tcp_tool_name (pe_proposal e), al_tool_args = cl_effective_args c,
            al_policy = mp\<rparr>)"
  using assms
  by (cases scope; auto simp: approve_claim_def cached_entry_def hmap_simps Let_def split: if_splits)+

lemma reject_claim_cached:
  assumes "reject_claim i reason v = (Inr c, v')" and "cached_entry i v = Some e"
  shows "cached_entry j v' =
      (if j = i then Some (e\<lparr>pe_state := ProposalRejected, pe_rejection_reason := reason\<rparr>)
       else cached_entry j v)"
    and "cl_session_id c = tcp_session_id (pe_proposal e)"
    and "cl_project c = tcp_project (pe_proposal e)" and "cl_sender c = hget (av_pending v) i"
    and "av_allow_registry v' = av_allow_registry v"
  using assms
  by (auto simp: reject_claim_def cached_entry_def hmap_simps Let_def split: if_splits)

lemma amend_claim_cached:
  assumes "amend_claim i new_args v = (Inr (pr, session, st, am), v')" and "cached_entry i v = Some e"
  shows "cached_entry j v' =
      (if j = i then Some (e\<lparr>pe_amended_args := Some new_args, pe_state := ProposalAmended\<rparr>)
       else cached_entry j v)"
    and "pr = tcp_project (pe_proposal e)" and "session = tcp_session_id (pe_proposal e)"
    and "av_allow_registry v' = av_allow_registry v"
  using assms
  by (auto simp: amend_claim_def cached_entry_def hmap_simps Let_def split: if_splits)

end
