(* ===== verification/Tool_Approval_Steps.thy ===== *)
theory Tool_Approval_Steps
  imports Tool_Approval_Laws
begin

text \<open>
  Sequences of calls of the approval service whose appends succeed, with restarts and the events
  of other services in between: the cache agrees with the table, and every rule of a session goes
  back to an approval in the log.
\<close>

section \<open>Steps\<close>

inductive approval_step :: "'j json_ops \<Rightarrow> 'j approval_world \<Rightarrow> 'j approval_world \<Rightarrow> bool"
  for js :: "'j json_ops" where
  submit: "call_row (tcp_call_id p) w = None \<Longrightarrow> se_secondary env1 = None \<Longrightarrow> se_secondary env2 = None \<Longrightarrow>
     submit_proposal js env1 env2 now1 now2 p w = (d, w') \<Longrightarrow> approval_step js w w'"
| approve: "se_secondary env = None \<Longrightarrow> approve env now i op scope args w = (r, w') \<Longrightarrow>
     approval_step js w w'"
| reject: "se_secondary env = None \<Longrightarrow> reject env now i op reason w = (r, w') \<Longrightarrow>
     approval_step js w w'"
| amend: "se_secondary env = None \<Longrightarrow> amend env now i op new_args w = (r, w') \<Longrightarrow>
     approval_step js w w'"
| await: "await_start i w = (a, w') \<Longrightarrow> approval_step js w w'"
| resume: "se_secondary env = None \<Longrightarrow> await_resume env now i k w = (d', w') \<Longrightarrow>
     approval_step js w w'"
| restart: "approval_step js w (restarted w)"
| other: "s_tool_call_approvals (w_store world) = s_tool_call_approvals (w_store (aw_world w)) \<Longrightarrow>
     logged (w\<lparr>aw_world := world\<rparr>) = logged w @ new \<Longrightarrow>
     approval_step js w (w\<lparr>aw_world := world\<rparr>)"

definition fresh_world :: "u64 \<Rightarrow> 'j approval_world" where
  "fresh_world counter =
     \<lparr>aw_service = approvals_new, aw_world = \<lparr>w_store = store_new, w_counter = counter\<rparr>\<rparr>"

definition approval_reachable :: "'j json_ops \<Rightarrow> 'j approval_world \<Rightarrow> bool" where
  "approval_reachable js w \<longleftrightarrow> (\<exists>counter. (approval_step js)\<^sup>*\<^sup>* (fresh_world counter) w)"

section \<open>What holds along the way\<close>

text \<open>Approved rows stay as they are, and the log grows.\<close>

definition keeps :: "'j approval_world \<Rightarrow> 'j approval_world \<Rightarrow> bool" where
  "keeps w w' \<longleftrightarrow> (\<exists>new. logged w' = logged w @ new) \<and>
     (\<forall>j r. call_row j w = Some r \<and> tca_state r = tool_call_approval_state.Approved \<longrightarrow> call_row j w' = Some r)"

text \<open>The approval a rule of session \<open>sid\<close> comes from.\<close>

definition sanctioned :: "'j approval_world \<Rightarrow> ident \<Rightarrow> 'j allow_rule \<Rightarrow> bool" where
  "sanctioned w sid rule \<longleftrightarrow> (\<exists>e r. ToolCallApproved e \<in> set (logged w) \<and> ta_session_id e = sid \<and>
     ta_scope e = SessionApproval (al_policy rule) \<and> call_row (ta_call_id e) w = Some r \<and>
     tca_state r = tool_call_approval_state.Approved \<and> tca_tool_name r = al_tool_name rule \<and>
     row_effective_args r = al_tool_args rule)"

definition rules_of :: "ident \<Rightarrow> 'j approval_world \<Rightarrow> 'j allow_rule list" where
  "rules_of sid w =
     (case hget (av_allow_registry (aw_service w)) sid of None \<Rightarrow> [] | Some rules \<Rightarrow> rules)"

definition rules_ok :: "'j approval_world \<Rightarrow> bool" where
  "rules_ok w \<longleftrightarrow> (\<forall>sid. \<forall>rule \<in> set (rules_of sid w). sanctioned w sid rule)"

lemma sanctioned_kept: "keeps w w' \<Longrightarrow> sanctioned w sid rule \<Longrightarrow> sanctioned w' sid rule"
  unfolding keeps_def sanctioned_def by fastforce

lemma rules_ok_kept:
  "rules_ok w \<Longrightarrow> keeps w w' \<Longrightarrow>
     (\<And>sid rule. rule \<in> set (rules_of sid w') \<Longrightarrow> rule \<in> set (rules_of sid w) \<or> sanctioned w' sid rule) \<Longrightarrow>
     rules_ok w'"
  unfolding rules_ok_def using sanctioned_kept by blast

lemma agrees_pending:
  assumes "agrees w" and "loaded i w = Some e" and "\<not> entry_resolved e"
  shows "\<exists>r. call_row i w = Some r \<and> tca_state r = tool_call_approval_state.Pending"
  by (rule fits_pending [OF fits_loaded [OF assms(1,2)] assms(3)]) blast

lemma agrees_keep:
  assumes "agrees w" and "loaded i w = Some e"
  shows "agrees (w\<lparr>aw_service := keep_loaded i e (aw_service w)\<rparr>)"
  using assms fits_loaded [OF assms] by (auto simp: agrees_def)

text \<open>A claim on an unresolved call, once its event is appended.\<close>

lemma settle:
  assumes "agrees w" and "loaded i w = Some e" and "\<not> entry_resolved e"
    and "\<And>j. cache j w' = (if j = i then Some e' else cached_entry j (keep_loaded i e (aw_service w)))"
    and "\<And>j. call_row j w' = row_after at ev j (call_row j w)" and "logged w' = logged w @ [ev]"
    and "\<And>j r. j \<noteq> i \<Longrightarrow> row_after at ev j r = r"
    and "fits i (Some e') (row_after at ev i (call_row i w))"
  shows "agrees w' \<and> keeps w w'"
proof -
  have "fits j (cache j w') (call_row j w')" for j
    using assms(1,4,5,7,8) by (cases "j = i") (auto simp: agrees_def)
  moreover have "call_row j w' = Some r"
    if "call_row j w = Some r" "tca_state r = tool_call_approval_state.Approved" for j r
    using that agrees_pending [OF assms(1-3)] assms(5,7) by (cases "j = i") auto
  ultimately show ?thesis using assms(6) by (auto simp: agrees_def keeps_def)
qed

lemma keeps_refl: "logged w' = logged w \<Longrightarrow> (\<And>j. call_row j w' = call_row j w) \<Longrightarrow> keeps w w'"
  by (simp add: keeps_def)

lemma rules_of_simps [simp]:
  "rules_of sid (w\<lparr>aw_service := keep_loaded i e (aw_service w)\<rparr>) = rules_of sid w"
  by (simp add: rules_of_def)

section \<open>Each call\<close>

lemma approve_keeps:
  assumes "agrees w" and "se_secondary env = None" and "approve env now i op scope args w = (r, w')"
  shows "agrees w' \<and> keeps w w' \<and>
    (\<forall>sid. \<forall>rule \<in> set (rules_of sid w'). rule \<in> set (rules_of sid w) \<or> sanctioned w' sid rule)"
  using assms(3)
proof (cases rule: approve_cases)
  case missing
  then show ?thesis using assms(1) by (simp add: keeps_refl)
next
  case (refused e)
  then show ?thesis using agrees_keep [OF assms(1)] by (simp add: keeps_refl)
next
  case (claimed e c v)
  note cl = approve_claim_cached [OF claimed(3) loaded_kept [OF claimed(1)]]
  note eff = conclude_effect [OF claimed(4) call_events(3)]
  let ?e = "e\<lparr>pe_approved_args := (if args \<noteq> None then args else pe_approved_args e),
              pe_state := ProposalApproved\<rparr>"
  have fit: "fits i (Some ?e)
      (row_after (se_append_at env) (approved_event now i op scope args c) i (call_row i w))"
    by (rule fits_approved [OF fits_loaded [OF assms(1) claimed(1)] claimed(2)])
  have settled: "agrees w' \<and> keeps w w'"
    by (rule settle [OF assms(1) claimed(1,2), where e' = ?e and at = "se_append_at env"
          and ev = "approved_event now i op scope args c"])
      (use fit in \<open>auto simp: eff assms(2) cl(1) row_after_other\<close>)
  have "rule \<in> set (rules_of sid w) \<or> sanctioned w' sid rule" if "rule \<in> set (rules_of sid w')" for sid rule
  proof (cases "rule \<in> set (rules_of sid w)")
    case False
    then have rule: "cl_allow_rule c = Some rule" and sid: "sid = cl_session_id c"
      using that cl(7) by (auto simp: rules_of_def eff(4) assms(2) approve_commit_def send_decision_def
          hmap_simps split: option.splits if_splits)
    obtain x0 where x0: "call_row i w = Some x0" "tca_state x0 = tool_call_approval_state.Pending"
        "row_ok i x0" "core e = core (entry_of_row x0)"
      by (rule fits_pending [OF fits_loaded [OF assms(1) claimed(1)] claimed(2)])
    obtain x where x: "call_row i w' = Some x" "tca_state x = tool_call_approval_state.Approved"
        "tca_tool_name x = tca_tool_name x0" "tca_approved_tool_args x = args"
        "tca_amended_tool_args x = tca_amended_tool_args x0"
        "tca_original_tool_args x = tca_original_tool_args x0"
      using x0(1) by (auto simp: eff(3) approved_event_def)
    have e: "tcp_tool_name (pe_proposal e) = tca_tool_name x0" "pe_approved_args e = None"
      "pe_amended_args e = tca_amended_tool_args x0"
      "tcp_tool_args (pe_proposal e) = tca_original_tool_args x0"
      using x0(2-4) by (auto simp: entry_defs row_ok_def)
    have "cl_effective_args c = row_effective_args x"
      using e x(4-6) cl(2) by (cases args) (simp_all add: effective_args_def row_effective_args_def split: option.split)
    moreover obtain mp where mp: "scope = SessionApproval mp"
      "rule = \<lparr>al_tool_name = tcp_tool_name (pe_proposal e), al_tool_args = cl_effective_args c,
              al_policy = mp\<rparr>"
      using rule cl(8) by (cases scope) auto
    moreover have "approved_event now i op scope args c \<in> set (logged w')" by (simp add: eff(2))
    ultimately have "sanctioned w' sid rule"
      using x(1-3) e(1) sid unfolding sanctioned_def approved_event_def
      by (intro exI conjI) (assumption | simp)+
    then show ?thesis ..
  qed simp
  then show ?thesis using settled by blast
qed

lemma reject_keeps:
  assumes "agrees w" and "se_secondary env = None" and "reject env now i op reason w = (r, w')"
  shows "agrees w' \<and> keeps w w' \<and> (\<forall>sid. rules_of sid w' = rules_of sid w)"
  using assms(3)
proof (cases rule: reject_cases)
  case missing
  then show ?thesis using assms(1) by (simp add: keeps_refl)
next
  case (refused e)
  then show ?thesis using agrees_keep [OF assms(1)] by (simp add: keeps_refl)
next
  case (claimed e c v)
  note cl = reject_claim_cached [OF claimed(3) loaded_kept [OF claimed(1)]]
  note eff = conclude_effect [OF claimed(4) call_events(4)]
  let ?e = "e\<lparr>pe_state := ProposalRejected, pe_rejection_reason := reason\<rparr>"
  have "agrees w' \<and> keeps w w'"
    by (rule settle [OF assms(1) claimed(1,2), where e' = ?e and at = "se_append_at env"
          and ev = "rejected_event now i op reason c"])
      (simp_all add: eff assms(2) cl(1) row_after_other
        fits_rejected [OF fits_loaded [OF assms(1) claimed(1)] claimed(2)])
  then show ?thesis
    by (simp add: rules_of_def eff(4) assms(2) cl(5) send_decision_def split: option.split)
qed

lemma amend_keeps:
  assumes "agrees w" and "se_secondary env = None" and "amend env now i op new_args w = (r, w')"
  shows "agrees w' \<and> keeps w w' \<and> (\<forall>sid. rules_of sid w' = rules_of sid w)"
  using assms(3)
proof (cases rule: amend_cases)
  case missing
  then show ?thesis using assms(1) by (simp add: keeps_refl)
next
  case (refused e)
  then show ?thesis using agrees_keep [OF assms(1)] by (simp add: keeps_refl)
next
  case (claimed e pr session st am v)
  note cl = amend_claim_cached [OF claimed(3) loaded_kept [OF claimed(1)]]
  note eff = conclude_effect [OF claimed(4) call_events(5)]
  let ?e = "e\<lparr>pe_amended_args := Some new_args, pe_state := ProposalAmended\<rparr>"
  have "agrees w' \<and> keeps w w'"
    by (rule settle [OF assms(1) claimed(1,2), where e' = ?e and at = "se_append_at env"
          and ev = "amended_event now i op new_args pr session"])
      (simp_all add: eff assms(2) cl(1) row_after_other
        fits_amended [OF fits_loaded [OF assms(1) claimed(1)] claimed(2)])
  then show ?thesis by (simp add: rules_of_def eff(4) assms(2) cl(4))
qed

lemma await_keeps:
  assumes "agrees w" and "await_start i w = (a, w')"
  shows "agrees w' \<and> keeps w w' \<and> (\<forall>sid. rules_of sid w' = rules_of sid w)"
  using assms(2) unfolding await_start_def
proof (cases rule: after_load)
  case missing
  then show ?thesis using assms(1) by (simp add: keeps_refl)
next
  case (found e)
  then have "aw_world w' = aw_world w" and "\<And>j. cache j w' = cached_entry j (keep_loaded i e (aw_service w))"
    and "av_allow_registry (aw_service w') = av_allow_registry (aw_service w)"
    by (auto simp: Let_def split: proposal_state.splits if_splits)
  then show ?thesis
    using agrees_keep [OF assms(1) found(1)]
    by (simp add: agrees_def call_row_def keeps_def logged_def rules_of_def)
qed

lemma timeout_keeps:
  assumes "agrees w" and "se_secondary env = None" and "handle_timeout env now i w = (d, w')"
  shows "agrees w' \<and> keeps w w' \<and> (\<forall>sid. rules_of sid w' = rules_of sid w)"
proof -
  let ?v0 = "drop_sender (hget (av_pending (aw_service w)) i)
    ((aw_service w)\<lparr>av_pending := hdel i (av_pending (aw_service w))\<rparr>)"
  have reg: "av_allow_registry ?v0 = av_allow_registry (aw_service w)"
    by (simp add: drop_sender_def split: option.split)
  show ?thesis
  proof (cases "reject_claim i (Some timeout_reason) ?v0")
    case (Pair x v)
    show ?thesis
    proof (cases x)
      case (Inl err)
      then have "w' = w\<lparr>aw_service := ?v0\<rparr>"
        using assms(3) Pair by (simp add: handle_timeout_def timeout_claim_def Let_def)
      then show ?thesis using assms(1) reg by (simp add: agrees_def keeps_refl rules_of_def)
    next
      case (Inr c)
      obtain e where e: "cache i w = Some e" "\<not> entry_resolved e"
        using Pair Inr by (auto simp: reject_claim_def split: option.splits if_splits)
      then have l: "loaded i w = Some e" by (simp add: loaded_def)
      note cl = reject_claim_cached [of i "Some timeout_reason" ?v0 c v e]
      have cl: "cached_entry j v = (if j = i then Some (e\<lparr>pe_state := ProposalRejected,
          pe_rejection_reason := Some timeout_reason\<rparr>) else cache j w)" for j
        using cl(1) [of j] Pair Inr e by simp
      have reg': "av_allow_registry v = av_allow_registry (aw_service w)"
        using reject_claim_cached(5) [of i "Some timeout_reason" ?v0 c v e] Pair Inr e reg by simp
      obtain r0 where c: "conclude env (rejected_event now i ''operator_timeout'' (Some timeout_reason) c)
          (\<lambda>v. v) (reject_revert i c) (w\<lparr>aw_service := v\<rparr>) = (r0, w')"
        using assms(3) Pair Inr
        by (auto simp: handle_timeout_def timeout_claim_def Let_def and_then_def
            split: reply.splits prod.splits)
      note eff = conclude_effect [OF c call_events(4)]
      have "agrees w' \<and> keeps w w'"
        by (rule settle [OF assms(1) l e(2), where at = "se_append_at env"
              and ev = "rejected_event now i ''operator_timeout'' (Some timeout_reason) c"
              and e' = "e\<lparr>pe_state := ProposalRejected, pe_rejection_reason := Some timeout_reason\<rparr>"])
          (simp_all add: eff assms(2) cl e(1) row_after_other
            fits_rejected [OF fits_loaded [OF assms(1) l] e(2)])
      then show ?thesis by (simp add: rules_of_def eff(4) assms(2) reg')
    qed
  qed
qed

text \<open>A fresh call: proposed, cached, and approved at once when a rule of its session matches.\<close>

lemma cached_submit [simp]:
  "cached_entry j (cache_proposal p v) =
     (if j = tcp_call_id p
      then Some \<lparr>pe_proposal = p, pe_state = ProposalPending, pe_amended_args = None,
                 pe_approved_args = None, pe_rejection_reason = None\<rparr>
      else cached_entry j v)"
  "cached_entry j (set_proposal_state i st v) =
     (if j = i then map_option (\<lambda>e. e\<lparr>pe_state := st\<rparr>) (cached_entry j v) else cached_entry j v)"
  by (auto simp: cached_entry_def cache_proposal_def set_proposal_state_def hmap_simps)

lemma registry_submit [simp]:
  "av_allow_registry (cache_proposal p v) = av_allow_registry v"
  "av_allow_registry (set_proposal_state i st v) = av_allow_registry v"
  by (simp_all add: cache_proposal_def set_proposal_state_def)

lemma find_matching_rules_of:
  "find_matching_rule js p (aw_service w) =
     find (proposal_matches_rule js p) (rules_of (tcp_session_id p) w)"
  by (simp add: find_matching_rule_def rules_of_def split: option.split)

lemma submit_cases:
  assumes "call_row (tcp_call_id p) w = None" and "agrees w"
    and "se_secondary env1 = None" and "se_secondary env2 = None"
    and "submit_proposal js env1 env2 now1 now2 p w = (d, w')"
  obtains w1 where "persist env1 (proposed_event now1 p) w = (Done (), w1)"
    and "find (proposal_matches_rule js p) (rules_of (tcp_session_id p) w) = None"
    and "d = Done PendingOperator" and "w' = w1\<lparr>aw_service := cache_proposal p (aw_service w)\<rparr>"
  | w1 w2 rule where "persist env1 (proposed_event now1 p) w = (Done (), w1)"
    and "find (proposal_matches_rule js p) (rules_of (tcp_session_id p) w) = Some rule"
    and "persist env2 (auto_approved_event now2 p)
      (w1\<lparr>aw_service := cache_proposal p (aw_service w)\<rparr>) = (Done (), w2)"
    and "d = Done AutoApproved"
    and "w' = w2\<lparr>aw_service := set_proposal_state (tcp_call_id p) ProposalApproved
      (cache_proposal p (aw_service w))\<rparr>"
proof -
  obtain r1 w1 where p1: "persist env1 (proposed_event now1 p) w = (r1, w1)" by fastforce
  note e1 = persist_effect [OF call_events(1) p1]
  obtain r2 w2 where p2: "persist env2 (auto_approved_event now2 p)
      (w1\<lparr>aw_service := cache_proposal p (aw_service w)\<rparr>) = (r2, w2)" by fastforce
  note e2 = persist_effect [OF call_events(2) p2]
  have none: "cache (tcp_call_id p) w = None"
  proof (cases "cache (tcp_call_id p) w")
    case (Some e)
    then show ?thesis using assms(1) fits_loaded [OF assms(2), of "tcp_call_id p" e]
      by (simp add: loaded_def fits_def)
  qed simp
  have "\<not> already_approved (tcp_call_id p) w"
    using assms(1) none by (simp add: already_approved_def get_tool_call_proposal_def call_row_def)
  moreover have "find_matching_rule js p (cache_proposal p (aw_service w)) =
      find (proposal_matches_rule js p) (rules_of (tcp_session_id p) w)"
    by (simp add: find_matching_rule_def rules_of_def split: option.split)
  ultimately show ?thesis
    using assms(3-5) p1 p2 e1(1,2) e2(1,2) that
    by (auto simp: submit_proposal_def and_then_def append_reply_done Let_def
        split: option.splits)
qed

lemma submit_keeps:
  assumes "call_row (tcp_call_id p) w = None" and "agrees w"
    and "se_secondary env1 = None" and "se_secondary env2 = None"
    and "submit_proposal js env1 env2 now1 now2 p w = (d, w')"
  shows "agrees w' \<and> keeps w w' \<and> (\<forall>sid. rules_of sid w' = rules_of sid w)"
  using assms
proof (cases rule: submit_cases)
  case (1 w1)
  note e1 = persist_effect [OF call_events(1) 1(1)]
  have "fits j (cache j w') (call_row j w')" for j
    using assms(1,2) fits_proposed [of p "se_append_at env1" now1] 1(4) e1(2,3)
    by (cases "j = tcp_call_id p") (auto simp: agrees_def row_after_other)
  moreover have "keeps w w'"
    using assms(1) 1(4) e1(3,4) by (auto simp: keeps_def row_after_other) (metis row_after_other(1) option.distinct(1))
  ultimately show ?thesis using 1(4) by (simp add: agrees_def rules_of_def)
next
  case (2 w1 w2 rule)
  note e1 = persist_effect [OF call_events(1) 2(1)]
  note e2 = persist_effect [OF call_events(2) 2(3)]
  have rows: "call_row j w' = row_after (se_append_at env2) (auto_approved_event now2 p) j
      (row_after (se_append_at env1) (proposed_event now1 p) j (call_row j w))" for j
    using 2(5) e1(3) e2(3) by simp
  have "fits (tcp_call_id p)
      (Some \<lparr>pe_proposal = p, pe_state = ProposalApproved, pe_amended_args = None,
             pe_approved_args = None, pe_rejection_reason = None\<rparr>)
      (call_row (tcp_call_id p) w')"
    using assms(1) by (simp add: rows fits_def proposed_event_def auto_approved_event_def
        proposed_record_def entry_defs row_ok_def)
  then have "fits j (cache j w') (call_row j w')" for j
    using assms(2) 2(5) rows [of j]
    by (cases "j = tcp_call_id p") (auto simp: agrees_def row_after_other)
  moreover have "keeps w w'"
    using assms(1) 2(5) e1(4) e2(4) rows
    by (auto simp: keeps_def) (metis row_after_other(1,2) option.distinct(1))
  ultimately show ?thesis using 2(5) by (simp add: agrees_def rules_of_def)
qed

lemma step_keeps:
  assumes "approval_step js w w'" and "agrees w \<and> rules_ok w"
  shows "agrees w' \<and> rules_ok w'"
  using assms
proof (induction rule: approval_step.induct)
  case (submit p w env1 env2 now1 now2 d w')
  then show ?case using submit_keeps [OF submit(1) _ submit(2-4)] by (auto intro: rules_ok_kept)
next
  case (approve env now i op scope args w r w')
  then show ?case using approve_keeps [OF _ approve(1,2)] by (blast intro: rules_ok_kept)
next
  case (reject env now i op reason w r w')
  then show ?case using reject_keeps [OF _ reject(1,2)] by (auto intro: rules_ok_kept)
next
  case (amend env now i op new_args w r w')
  then show ?case using amend_keeps [OF _ amend(1,2)] by (auto intro: rules_ok_kept)
next
  case (await i w a w')
  then show ?case using await_keeps [OF _ await(1)] by (auto intro: rules_ok_kept)
next
  case (resume env now i k w d' w')
  then show ?case
    using timeout_keeps [of w env now i d' w']
    by (auto simp: await_resume_def intro: rules_ok_kept split: oneshot.splits)
next
  case (restart w)
  then show ?case
    by (simp add: agrees_def rules_ok_def rules_of_def restarted_def approvals_new_def
        cached_entry_def fits_def)
next
  case (other world w new)
  then have "call_row j (w\<lparr>aw_world := world\<rparr>) = call_row j w" for j
    by (simp add: call_row_def tool_call_get_def)
  moreover from this have "keeps w (w\<lparr>aw_world := world\<rparr>)" using other by (auto simp: keeps_def)
  ultimately show ?case
    using other by (auto simp: agrees_def rules_of_def intro: rules_ok_kept)
qed

lemma reachable_approvals: "approval_reachable js w \<Longrightarrow> agrees w \<and> rules_ok w"
proof -
  assume "approval_reachable js w"
  then obtain counter where "(approval_step js)\<^sup>*\<^sup>* (fresh_world counter) w"
    by (auto simp: approval_reachable_def)
  then show ?thesis
  proof (induction rule: rtranclp_induct)
    case base
    show ?case
      by (simp add: fresh_world_def agrees_def rules_ok_def rules_of_def approvals_new_def
          cached_entry_def fits_def call_row_def tool_call_get_def store_new_def)
  qed (use step_keeps in blast)
qed

end
