(* ===== verification/Tool_Approval_Correctness.thy ===== *)
theory Tool_Approval_Correctness
  imports Tool_Approval_Steps
begin

text \<open>
  The properties of the approval service as long as one call of it ends before the next begins:
  restarts, the rules of sessions, the executor that waits, and the call that comes back after
  its rejection.
\<close>

section \<open>Restarts\<close>

text \<open>What the caller and the store see of a call.\<close>

definition answers :: "('j approval_world \<Rightarrow> 'a reply \<times> 'j approval_world) \<Rightarrow> 'j approval_world \<Rightarrow>
    'a reply \<times> 'j world" where
  "answers f w = (fst (f w), aw_world (snd (f w)))"

lemma conclude_answers:
  "fst (conclude env ev commit revert w) = fst (emit env ev (aw_world w))"
  "aw_world (snd (conclude env ev commit revert w)) = snd (emit env ev (aw_world w))"
  by (auto simp: conclude_def persist_def split: prod.splits reply.splits)

lemma answers_approve:
  "answers (approve env now i op scope args) w =
     (case loaded i w of
        None \<Rightarrow> (Failed (NotFound entity_name i), aw_world w)
      | Some e \<Rightarrow>
          if entry_resolved e then (Failed (refused_transition e ''approved''), aw_world w)
          else emit env (ToolCallApproved
                 \<lparr>ta_project = tcp_project (pe_proposal e), ta_call_id = i,
                  ta_session_id = tcp_session_id (pe_proposal e), ta_operator_id = op,
                  ta_scope = scope, ta_approved_tool_args = args, ta_approved_at_ms = now\<rparr>)
                 (aw_world w))"
proof -
  obtain r w' where a: "approve env now i op scope args w = (r, w')" by fastforce
  from a show ?thesis
  proof (cases rule: approve_cases)
    case (claimed e c v)
    note cl = approve_claim_cached [OF claimed(3) loaded_kept [OF claimed(1)]]
    show ?thesis
      using conclude_answers [of env _ _ _ "w\<lparr>aw_service := v\<rparr>"] claimed(1,2,4) cl(4,5)
      by (simp add: answers_def a approved_event_def) (metis fst_conv snd_conv prod.collapse)
  qed (simp_all add: answers_def a)
qed

lemma answers_reject:
  "answers (reject env now i op reason) w =
     (case loaded i w of
        None \<Rightarrow> (Failed (NotFound entity_name i), aw_world w)
      | Some e \<Rightarrow>
          if entry_resolved e then (Failed (refused_transition e ''rejected''), aw_world w)
          else emit env (ToolCallRejected
                 \<lparr>tr_project = tcp_project (pe_proposal e), tr_call_id = i,
                  tr_session_id = tcp_session_id (pe_proposal e), tr_operator_id = op,
                  tr_reason = reason, tr_rejected_at_ms = now\<rparr>)
                 (aw_world w))"
proof -
  obtain r w' where a: "reject env now i op reason w = (r, w')" by fastforce
  from a show ?thesis
  proof (cases rule: reject_cases)
    case (claimed e c v)
    note cl = reject_claim_cached [OF claimed(3) loaded_kept [OF claimed(1)]]
    show ?thesis
      using conclude_answers [of env _ _ _ "w\<lparr>aw_service := v\<rparr>"] claimed(1,2,4) cl(2,3)
      by (simp add: answers_def a rejected_event_def) (metis fst_conv snd_conv prod.collapse)
  qed (simp_all add: answers_def a)
qed

lemma answers_amend:
  "answers (amend env now i op new_args) w =
     (case loaded i w of
        None \<Rightarrow> (Failed (NotFound entity_name i), aw_world w)
      | Some e \<Rightarrow>
          if entry_resolved e then (Failed (refused_transition e ''amended''), aw_world w)
          else emit env (amended_event now i op new_args (tcp_project (pe_proposal e))
                 (tcp_session_id (pe_proposal e))) (aw_world w))"
proof -
  obtain r w' where a: "amend env now i op new_args w = (r, w')" by fastforce
  from a show ?thesis
  proof (cases rule: amend_cases)
    case (claimed e pr session st am v)
    note cl = amend_claim_cached [OF claimed(3) loaded_kept [OF claimed(1)]]
    show ?thesis
      using conclude_answers [of env _ _ _ "w\<lparr>aw_service := v\<rparr>"] claimed(1,2,4) cl(2,3)
      by (simp add: answers_def a) (metis fst_conv snd_conv prod.collapse)
  qed (simp_all add: answers_def a)
qed

lemma restarted_simps [simp]:
  "aw_world (restarted w) = aw_world w" "cache i (restarted w) = None"
  "call_row i (restarted w) = call_row i w"
  by (simp_all add: restarted_def approvals_new_def cached_entry_def call_row_def)

lemma loaded_restarted:
  assumes "agrees w"
  shows "rel_option (\<lambda>e e'. core e = core e') (loaded i w) (loaded i (restarted w))"
proof (cases "cache i w")
  case None
  then show ?thesis by (simp add: loaded_def option.rel_refl)
next
  case (Some e)
  then show ?thesis using fits_loaded [OF assms, of i e] by (auto simp: loaded_def fits_def)
qed

lemma core_same:
  "core e = core e' \<Longrightarrow> tcp_project (pe_proposal e) = tcp_project (pe_proposal e') \<and>
     tcp_session_id (pe_proposal e) = tcp_session_id (pe_proposal e') \<and>
     refused_transition e to = refused_transition e' to"
  by (simp add: core_def refused_transition_def)

lemma entry_of_row_sel:
  "pe_approved_args (entry_of_row r) = tca_approved_tool_args r"
  "pe_amended_args (entry_of_row r) = tca_amended_tool_args r"
  "tcp_tool_args (pe_proposal (entry_of_row r)) = tca_original_tool_args r"
  "tcp_tool_name (pe_proposal (entry_of_row r)) = tca_tool_name r"
  by (simp_all add: entry_of_row_def stored_to_entry_def store_record_to_stored_proposal_def)

lemma entry_of_row_state:
  "pe_state (entry_of_row r) = ProposalApproved \<longleftrightarrow> tca_state r = tool_call_approval_state.Approved"
  by (cases "tca_state r")
    (simp_all add: entry_of_row_def stored_to_entry_def store_record_to_stored_proposal_def)

lemma entry_of_row_effective: "effective_args (entry_of_row r) = row_effective_args r"
  unfolding effective_args_def row_effective_args_def entry_of_row_sel ..

lemmas entry_of_row_simps = entry_of_row_sel entry_of_row_state entry_of_row_effective

lemma retrieve_loaded:
  assumes "agrees w"
  shows "retrieve_approved_proposal i w = Done a \<longleftrightarrow>
    (\<exists>e. loaded i w = Some e \<and> pe_state e = ProposalApproved \<and>
       a = \<lparr>ap_call_id = i, ap_tool_name = tcp_tool_name (pe_proposal e),
            ap_tool_args = effective_args e\<rparr>)"
proof (cases "cache i w")
  case (Some e)
  then show ?thesis by (auto simp: retrieve_approved_proposal_def loaded_def)
next
  case None
  have "row_ok i x" if "call_row i w = Some x" for x
    using assms that by (auto simp: agrees_def fits_def)
  then show ?thesis
    using None
    by (cases "call_row i w")
      (auto simp: retrieve_approved_proposal_def loaded_def get_tool_call_approval_def
        call_row_def approved_of_row_def entry_of_row_simps row_ok_def)
qed

text \<open>
  C12: Restarting the service changes no decision. In every state that submissions of fresh calls,
  approvals, rejections, amendments, waits, timeouts and restarts lead to while the appends
  succeed, a call that can be retrieved can be retrieved after a restart with the same arguments,
  and the other way round; and an approval, a rejection or an amendment is answered the same and
  appends the same event, whatever the environment of that call is. Only the rules of the
  sessions and the waiting executors are lost.
\<close>

theorem restart_transparent:
  assumes "approval_reachable js w"
  shows "(\<forall>a. retrieve_approved_proposal i (restarted w) = Done a \<longleftrightarrow>
      retrieve_approved_proposal i w = Done a) \<and>
    answers (approve env now i op scope args) (restarted w) =
      answers (approve env now i op scope args) w \<and>
    answers (reject env now i op reason) (restarted w) = answers (reject env now i op reason) w \<and>
    answers (amend env now i op new_args) (restarted w) = answers (amend env now i op new_args) w"
proof -
  have ag: "agrees w" using reachable_approvals [OF assms] ..
  then have ag': "agrees (restarted w)" by (simp add: agrees_def fits_def)
  show ?thesis
  proof (cases "loaded i w")
    case None
    then have "loaded i (restarted w) = None" using loaded_restarted [OF ag, of i] by simp
    then show ?thesis
      using None by (simp add: retrieve_loaded ag ag' answers_approve answers_reject answers_amend)
  next
    case (Some e)
    then obtain e' where e': "loaded i (restarted w) = Some e'" "core e = core e'"
      using loaded_restarted [OF ag, of i] by (auto simp: option_rel_Some1)
    moreover have "entry_resolved e = entry_resolved e'" by (rule core_resolved [OF e'(2)])
    moreover have "pe_state e = pe_state e'" "effective_args e = effective_args e'"
      "tcp_tool_name (pe_proposal e) = tcp_tool_name (pe_proposal e')"
      using e'(2) by (simp_all add: core_def effective_args_def split: option.split)
    ultimately show ?thesis
      using Some core_same [OF e'(2)]
      by (auto simp: retrieve_loaded ag ag' answers_approve answers_reject answers_amend)
  qed
qed

section \<open>Rules of a session\<close>

text \<open>
  C5: Nothing is approved by itself without an operator behind it. When a fresh call is approved at
  once, the log holds an approval that an operator gave for the whole session of the call, the
  call it was given for ran the same tool, and the match policy the operator chose covers the
  new call against the arguments that were approved, amendments included.
\<close>

theorem auto_approval_sanctioned:
  assumes "approval_reachable js w" and "call_row (tcp_call_id p) w = None"
    and "se_secondary env1 = None" and "se_secondary env2 = None"
    and "submit_proposal js env1 env2 now1 now2 p w = (Done AutoApproved, w')"
  shows "\<exists>e r mp. ToolCallApproved e \<in> set (logged w) \<and> ta_session_id e = tcp_session_id p \<and>
    ta_scope e = SessionApproval mp \<and> call_row (ta_call_id e) w = Some r \<and>
    tca_state r = tool_call_approval_state.Approved \<and>
    proposal_matches_rule js p
      \<lparr>al_tool_name = tca_tool_name r, al_tool_args = row_effective_args r, al_policy = mp\<rparr>"
proof -
  have inv: "agrees w" "rules_ok w" using reachable_approvals [OF assms(1)] by auto
  obtain rule where "find (proposal_matches_rule js p) (rules_of (tcp_session_id p) w) = Some rule"
    by (rule submit_cases [OF assms(2) inv(1) assms(3-5)]) auto
  then have rule: "rule \<in> set (rules_of (tcp_session_id p) w)" "proposal_matches_rule js p rule"
    by (auto simp: find_Some_iff)
  then have "sanctioned w (tcp_session_id p) rule" using inv(2) by (auto simp: rules_ok_def)
  moreover have "rule = \<lparr>al_tool_name = al_tool_name rule, al_tool_args = al_tool_args rule,
      al_policy = al_policy rule\<rparr>" by simp
  ultimately show ?thesis using rule(2) unfolding sanctioned_def by metis
qed

section \<open>The waiting executor\<close>

lemma await_parked:
  assumes "await_start i w = (Done (Inr k), w')"
  obtains e where "cache i w' = Some e" and "\<not> entry_resolved e"
    and "hget (av_pending (aw_service w')) i = Some k" and "k < length (av_channels (aw_service w'))"
    and "av_channels (aw_service w') ! k = Open" and "loaded i w = Some e"
  using assms unfolding await_start_def
proof (cases rule: after_load)
  case (found e)
  then show ?thesis
    using that [of e] loaded_kept [OF found(1)]
    by (auto simp: entry_resolved_def Let_def cached_entry_def hmap_simps
        split: proposal_state.splits if_splits)
qed simp

text \<open>
  C34: An executor that waits gets exactly what it then may run. Once it is parked, an approval
  whose append succeeds wakes it with arguments that a retrieval of the call answers too. If the
  append fails, the approval reports the error and the call cannot be retrieved, but the executor
  is not left waiting for the next decision: it wakes with an internal error. When only the
  secondary log refused the event, the store already shows the call as approved, so that a
  restart turns the failed approval into one that holds.
\<close>

theorem waiter_answered:
  assumes "approval_reachable js w" and "await_start i w = (Done (Inr k), w1)"
    and "approve env now i op scope args w1 = (r, w2)"
  shows "if se_secondary env = None
    then r = Done () \<and> (\<exists>tool a. await_resume env' now' i k w2 = (Done (ApprovedWith a), w2) \<and>
      retrieve_approved_proposal i w2 =
        Done \<lparr>ap_call_id = i, ap_tool_name = tool, ap_tool_args = a\<rparr>)
    else (\<exists>err. r = Failed (StoreFailure err)) \<and>
      (\<exists>err. await_resume env' now' i k w2 = (Failed (InternalError err), w2)) \<and>
      (\<forall>a. retrieve_approved_proposal i w2 \<noteq> Done a) \<and>
      (\<exists>a. retrieve_approved_proposal i (restarted w2) = Done a)"
proof -
  obtain e where e: "cache i w1 = Some e" "\<not> entry_resolved e"
    and k: "hget (av_pending (aw_service w1)) i = Some k" "k < length (av_channels (aw_service w1))"
    using assms(2) by (rule await_parked)
  have ag: "agrees w1" using reachable_approvals [OF assms(1)] await_keeps assms(2) by blast
  have l: "loaded i w1 = Some e" using e(1) by (simp add: loaded_def)
  obtain x where x: "call_row i w1 = Some x" using agrees_pending [OF ag l e(2)] by blast
  from assms(3) show ?thesis
  proof (cases rule: approve_cases)
    case (claimed e0 c v)
    then have cl: "approve_claim i scope args (keep_loaded i e (aw_service w1)) = (Inr c, v)"
      and [simp]: "e0 = e" using l by auto
    have c: "cl_sender c = Some k" "av_channels v = av_channels (aw_service w1)"
      using approve_claim_cached(3,6) [OF cl loaded_kept [OF l]] k by simp_all
    note cached = approve_claim_cached(1,2) [OF cl loaded_kept [OF l]]
    note eff = conclude_effect [OF claimed(4) call_events(3)]
    show ?thesis
    proof (cases "se_secondary env")
      case None
      then have "av_channels (aw_service w2) ! k = Sent (ApprovedWith (cl_effective_args c))"
        using k c by (simp add: eff(4) approve_commit_def send_decision_def split: option.split)
      moreover have "retrieve_approved_proposal i w2 = Done \<lparr>ap_call_id = i,
          ap_tool_name = tcp_tool_name (pe_proposal e), ap_tool_args = cl_effective_args c\<rparr>"
        using cached(1) [of i] cached(2) None
        by (simp add: retrieve_approved_proposal_def eff(4) effective_args_def split: option.split)
      ultimately show ?thesis using None by (simp add: eff(1) append_reply_done await_resume_def)
    next
      case (Some err)
      then have "av_channels (aw_service w2) ! k = Closed"
        using k c by (simp add: eff(4) approve_revert_def drop_sender_def)
      moreover have "cache i w2 = map_option (\<lambda>e. if pe_state e = ProposalApproved
          then e\<lparr>pe_state := cl_previous_state c,
                 pe_approved_args := (if args \<noteq> None then None else pe_approved_args e)\<rparr>
          else e) (cached_entry i v)"
        using Some by (simp add: eff(4) cached_reverts)
      moreover have "cl_previous_state c = pe_state e"
        using cl e l by (auto simp: approve_claim_def loaded_kept [OF l] Let_def)
      ultimately have "\<forall>a. retrieve_approved_proposal i w2 \<noteq> Done a"
        using cached(1) [of i] e(2) by (simp add: retrieve_approved_proposal_def entry_resolved_def)
      moreover have "\<exists>a. retrieve_approved_proposal i (restarted w2) = Done a"
        using eff(3) [of i] x
        by (simp add: retrieve_approved_proposal_def get_tool_call_approval_def call_row_def
            approved_event_def)
      ultimately show ?thesis
        using Some \<open>av_channels (aw_service w2) ! k = Closed\<close>
        by (simp add: eff(1) append_reply_def await_resume_def)
    qed
  qed (use l e in simp_all)
qed

section \<open>A call that comes back\<close>

text \<open>
  C36: A rejected call that is submitted again is open again. Submitting a call the operator
  rejected does not end in the rejection: the service forgets it, asks for a decision as if the
  call were new, and an approval then makes the call retrievable with the arguments of the second
  submission, so that it runs. The log holds the rejection and the approval of the same call.
\<close>

theorem rejected_call_reopened:
  assumes "approval_reachable js w"
    and "loaded (tcp_call_id p) w = Some e" and "pe_state e = ProposalRejected"
    and "find_matching_rule js p (aw_service w) = None"
    and "se_secondary env1 = None" and "se_secondary env3 = None"
    and "submit_proposal js env1 env2 now1 now2 p w = (d, w1)"
    and "approve env3 now3 (tcp_call_id p) op Once None w1 = (r, w2)"
  shows "d = Done PendingOperator \<and> r = Done () \<and>
    retrieve_approved_proposal (tcp_call_id p) w2 =
      Done \<lparr>ap_call_id = tcp_call_id p, ap_tool_name = tcp_tool_name p, ap_tool_args = tcp_tool_args p\<rparr>"
proof -
  obtain r0 w0 where p0: "persist env1 (proposed_event now1 p) w = (r0, w0)" by fastforce
  note e0 = persist_effect [OF call_events(1) p0]
  have "\<not> already_approved (tcp_call_id p) w"
    using assms(2,3) entry_of_row_state
    by (auto simp: already_approved_def loaded_def get_tool_call_proposal_def call_row_def
        entry_of_row_def stored_to_entry_def split: option.splits)
  moreover have "find_matching_rule js p (cache_proposal p (aw_service w)) = None"
    using assms(4) by (simp add: find_matching_rule_def)
  ultimately have sub: "d = Done PendingOperator" "w1 = w0\<lparr>aw_service := cache_proposal p (aw_service w)\<rparr>"
    using assms(5,7) p0 e0(1,2)
    by (auto simp: submit_proposal_def and_then_def append_reply_done Let_def)
  then have l: "loaded (tcp_call_id p) w1 = Some \<lparr>pe_proposal = p, pe_state = ProposalPending,
      pe_amended_args = None, pe_approved_args = None, pe_rejection_reason = None\<rparr>"
    by (simp add: loaded_def)
  from assms(8) show ?thesis
  proof (cases rule: approve_cases)
    case (claimed e' c v)
    note eff = conclude_effect [OF claimed(4) call_events(3)]
    have "e' = \<lparr>pe_proposal = p, pe_state = ProposalPending, pe_amended_args = None,
        pe_approved_args = None, pe_rejection_reason = None\<rparr>"
      using claimed(1) l by simp
    then show ?thesis
      using sub(1) approve_claim_cached(1) [OF claimed(3) loaded_kept [OF claimed(1)], of "tcp_call_id p"]
      by (simp add: eff(1,4) append_reply_done assms(6) retrieve_approved_proposal_def
          effective_args_def)
  qed (use l in \<open>simp_all add: entry_resolved_def\<close>)
qed

section \<open>A session\<close>

definition calm_env :: svc_env where
  "calm_env = \<lparr>se_ts_ms = 200, se_trace_id = [], se_append_at = 200, se_secondary = None\<rparr>"

definition pending_entry :: "'j tool_call_proposal \<Rightarrow> 'j proposal_entry" where
  "pending_entry p = \<lparr>pe_proposal = p, pe_state = ProposalPending, pe_amended_args = None,
     pe_approved_args = None, pe_rejection_reason = None\<rparr>"

lemma pending_entry_sel [simp]:
  "pe_proposal (pending_entry p) = p" "pe_state (pending_entry p) = ProposalPending"
  "pe_amended_args (pending_entry p) = None" "pe_approved_args (pending_entry p) = None"
  "\<not> entry_resolved (pending_entry p)"
  by (simp_all add: pending_entry_def entry_resolved_def)

lemma calm [simp]: "se_secondary calm_env = None"
  by (simp add: calm_env_def)

lemma approve_unresolved:
  assumes "loaded i w = Some e" and "\<not> entry_resolved e" and "se_secondary env = None"
    and "approve env now i op scope args w = (r, w')"
  shows "r = Done ()"
    and "cache i w' = Some (e\<lparr>pe_approved_args := (if args \<noteq> None then args else pe_approved_args e),
      pe_state := ProposalApproved\<rparr>)"
    and "scope = SessionApproval mp \<Longrightarrow>
      \<lparr>al_tool_name = tcp_tool_name (pe_proposal e),
       al_tool_args = effective_args
         (e\<lparr>pe_approved_args := (if args \<noteq> None then args else pe_approved_args e)\<rparr>),
       al_policy = mp\<rparr> \<in> set (rules_of (tcp_session_id (pe_proposal e)) w')"
    and "j \<noteq> i \<Longrightarrow> call_row j w' = call_row j w"
proof -
  have "r = Done () \<and>
    cache i w' = Some (e\<lparr>pe_approved_args := (if args \<noteq> None then args else pe_approved_args e),
      pe_state := ProposalApproved\<rparr>) \<and>
    (scope = SessionApproval mp \<longrightarrow>
      \<lparr>al_tool_name = tcp_tool_name (pe_proposal e),
       al_tool_args = effective_args
         (e\<lparr>pe_approved_args := (if args \<noteq> None then args else pe_approved_args e)\<rparr>),
       al_policy = mp\<rparr> \<in> set (rules_of (tcp_session_id (pe_proposal e)) w')) \<and>
    (j \<noteq> i \<longrightarrow> call_row j w' = call_row j w)"
    using assms(4)
  proof (cases rule: approve_cases)
    case (claimed e' c v)
    then have "e' = e" using assms(1) by simp
    note cl = approve_claim_cached [OF claimed(3) loaded_kept [OF claimed(1)], unfolded this]
    note eff = conclude_effect [OF claimed(4) call_events(3)]
    have "c_rule \<in> set (rules_of (cl_session_id c) w')" if "cl_allow_rule c = Some c_rule" for c_rule
      using that by (simp add: rules_of_def eff(4) assms(3) approve_commit_def send_decision_def
          hmap_simps split: option.splits)
    then show ?thesis
      using cl by (auto simp: eff assms(3) append_reply_done row_after_other)
  qed (use assms(1,2) in simp_all)
  then show "r = Done ()"
    and "cache i w' = Some (e\<lparr>pe_approved_args := (if args \<noteq> None then args else pe_approved_args e),
      pe_state := ProposalApproved\<rparr>)"
    and "scope = SessionApproval mp \<Longrightarrow>
      \<lparr>al_tool_name = tcp_tool_name (pe_proposal e),
       al_tool_args = effective_args
         (e\<lparr>pe_approved_args := (if args \<noteq> None then args else pe_approved_args e)\<rparr>),
       al_policy = mp\<rparr> \<in> set (rules_of (tcp_session_id (pe_proposal e)) w')"
    and "j \<noteq> i \<Longrightarrow> call_row j w' = call_row j w" by auto
qed

lemma reachable_step:
  "approval_reachable js w \<Longrightarrow> approval_step js w w' \<Longrightarrow> approval_reachable js w'"
  by (auto simp: approval_reachable_def intro: rtranclp.rtrancl_into_rtrancl)

lemma reachable_fresh: "approval_reachable js (fresh_world counter)"
  by (auto simp: approval_reachable_def)

lemma fresh_empty [simp]:
  "call_row i (fresh_world counter) = None" "rules_of sid (fresh_world counter) = []"
  by (simp_all add: fresh_world_def rules_of_def approvals_new_def call_row_def
      tool_call_get_def store_new_def)

definition asked_world :: "sample_json approval_world" where
  "asked_world = snd (submit_proposal sample_ops calm_env calm_env 100 100
     (sample_read ''c'' ''/w/cairn/lib.rs'') (fresh_world 0))"

lemma asked_world:
  "approval_reachable sample_ops asked_world"
  "cache ''c'' asked_world = Some (pending_entry (sample_read ''c'' ''/w/cairn/lib.rs''))"
  "i \<noteq> ''c'' \<Longrightarrow> call_row i asked_world = None" "hget (av_pending (aw_service asked_world)) i = None"
  "rules_of sid asked_world = []"
proof -
  let ?p = "sample_read ''c'' ''/w/cairn/lib.rs''"
  obtain d where s: "submit_proposal sample_ops calm_env calm_env 100 100 ?p (fresh_world 0) =
      (d, asked_world)" unfolding asked_world_def by (metis surjective_pairing)
  have "call_row (tcp_call_id ?p) (fresh_world 0) = None" by simp
  from approval_step.submit [OF this calm calm s]
  show "approval_reachable sample_ops asked_world" using reachable_step reachable_fresh by blast
  have id: "tcp_call_id ?p = ''c''" by (simp add: sample_read_def)
  have w: "cache ''c'' asked_world = Some (pending_entry ?p) \<and>
      (i \<noteq> ''c'' \<longrightarrow> call_row i asked_world = None) \<and>
      hget (av_pending (aw_service asked_world)) i = None \<and> rules_of sid asked_world = []"
  proof (rule submit_cases [OF fresh_empty(1) conjunct1 [OF reachable_approvals [OF reachable_fresh]]
        calm calm s])
    fix w1
    assume p: "persist calm_env (proposed_event 100 ?p) (fresh_world 0) = (Done (), w1)"
      and w: "asked_world = w1\<lparr>aw_service := cache_proposal ?p (aw_service (fresh_world 0))\<rparr>"
    have "aw_service (fresh_world 0 :: sample_json approval_world) = approvals_new" by (simp add: fresh_world_def)
    moreover have "rules_of sid (w1\<lparr>aw_service := cache_proposal ?p approvals_new\<rparr>) = []"
      "hget (av_pending (cache_proposal ?p approvals_new)) i = None"
      by (simp_all add: rules_of_def cache_proposal_def approvals_new_def)
    moreover have "call_row i w1 = None" if "i \<noteq> ''c''"
      using persist_effect(3) [OF call_events(1) p, of i] that by (simp add: proposed_event_def id)
    ultimately show ?thesis by (simp add: w id pending_entry_def)
  qed simp_all
  then show "cache ''c'' asked_world = Some (pending_entry ?p)"
    "i \<noteq> ''c'' \<Longrightarrow> call_row i asked_world = None" "hget (av_pending (aw_service asked_world)) i = None"
    "rules_of sid asked_world = []" by auto
qed

lemma asked_loaded: "loaded ''c'' asked_world = Some (pending_entry (sample_read ''c'' ''/w/cairn/lib.rs''))"
  by (simp add: loaded_def asked_world)

text \<open>The operator approves the directory for the session.\<close>

definition trusted_world :: "sample_json approval_world" where
  "trusted_world = snd (approve calm_env 110 ''c'' ''op''
     (SessionApproval (ProjectScopedPath ''/w/cairn'')) None asked_world)"

lemma trusted_world:
  "approval_reachable sample_ops trusted_world"
  "\<exists>e. cache ''c'' trusted_world = Some e \<and> pe_state e = ProposalApproved \<and>
     pe_proposal e = sample_read ''c'' ''/w/cairn/lib.rs'' \<and>
     effective_args e = tcp_tool_args (sample_read ''c'' ''/w/cairn/lib.rs'')"
  "\<exists>a. \<lparr>al_tool_name = ''read'', al_tool_args = a, al_policy = ProjectScopedPath ''/w/cairn''\<rparr> \<in>
     set (rules_of ''s'' trusted_world)"
  "j \<noteq> ''c'' \<Longrightarrow> call_row j trusted_world = None"
proof -
  obtain r where a: "approve calm_env 110 ''c'' ''op'' (SessionApproval (ProjectScopedPath ''/w/cairn''))
      None asked_world = (r, trusted_world)" unfolding trusted_world_def by (metis surjective_pairing)
  note app = approve_unresolved [OF asked_loaded pending_entry_sel(5) calm a]
  show "approval_reachable sample_ops trusted_world"
    using reachable_step [OF asked_world(1) approval_step.approve [OF calm a]] .
  show "\<exists>e. cache ''c'' trusted_world = Some e \<and> pe_state e = ProposalApproved \<and>
     pe_proposal e = sample_read ''c'' ''/w/cairn/lib.rs'' \<and>
     effective_args e = tcp_tool_args (sample_read ''c'' ''/w/cairn/lib.rs'')"
    using app(2) by (simp add: effective_args_def)
  show "\<exists>a. \<lparr>al_tool_name = ''read'', al_tool_args = a, al_policy = ProjectScopedPath ''/w/cairn''\<rparr> \<in>
     set (rules_of ''s'' trusted_world)"
    using app(3) [OF refl] by (auto simp: sample_read_def)
  show "call_row j trusted_world = None" if "j \<noteq> ''c''" using app(4) [OF that] asked_world(3) [OF that] by simp
qed


theorem restart_transparent_witness:
  "retrieve_approved_proposal ''c'' (restarted trusted_world) =
     Done \<lparr>ap_call_id = ''c'', ap_tool_name = ''read'',
           ap_tool_args = tcp_tool_args (sample_read ''c'' ''/w/cairn/lib.rs'')\<rparr>"
proof -
  have "retrieve_approved_proposal ''c'' trusted_world =
     Done \<lparr>ap_call_id = ''c'', ap_tool_name = ''read'',
           ap_tool_args = tcp_tool_args (sample_read ''c'' ''/w/cairn/lib.rs'')\<rparr>"
    using trusted_world(2) by (auto simp: retrieve_approved_proposal_def sample_read_def)
  then show ?thesis
    using restart_transparent [OF trusted_world(1), of "''c''" calm_env 0 "''op''" Once None None "JNull"]
    by blast
qed

lemma trusted_match:
  "\<exists>rule. find (proposal_matches_rule sample_ops (sample_read ''d'' ''/w/cairn/./x''))
     (rules_of (tcp_session_id (sample_read ''d'' ''/w/cairn/./x'')) trusted_world) = Some rule"
proof -
  let ?p = "sample_read ''d'' ''/w/cairn/./x''"
  obtain a where rule: "\<lparr>al_tool_name = ''read'', al_tool_args = a, al_policy = ProjectScopedPath ''/w/cairn''\<rparr> \<in>
     set (rules_of ''s'' trusted_world)" (is "?r \<in> _") using trusted_world(3) by blast
  have "proposal_matches_rule sample_ops ?p ?r"
    using matches_path_iff(2) [OF _ sample_path [of "''d''" "''/w/cairn/./x''"], of ?r "''/w/cairn''"]
    by (simp add: sample_read_def canonicalise_walk is_absolute_def is_under_prefix)
  then have "find (proposal_matches_rule sample_ops ?p) (rules_of (tcp_session_id ?p) trusted_world) \<noteq> None"
    using rule by (auto simp: find_None_iff sample_read_def)
  then show ?thesis by simp
qed

theorem auto_approval_sanctioned_witness:
  "fst (submit_proposal sample_ops calm_env calm_env 120 120 (sample_read ''d'' ''/w/cairn/./x'') trusted_world) =
     Done AutoApproved \<and>
   (\<exists>e. ToolCallApproved e \<in> set (logged trusted_world) \<and> ta_session_id e = ''s'')"
proof -
  let ?p = "sample_read ''d'' ''/w/cairn/./x''"
  obtain d w' where s: "submit_proposal sample_ops calm_env calm_env 120 120 ?p trusted_world = (d, w')"
    by fastforce
  have none: "call_row (tcp_call_id ?p) trusted_world = None"
    using trusted_world(4) by (simp add: sample_read_def)
  then have d: "d = Done AutoApproved"
    using trusted_match conjunct1 [OF reachable_approvals [OF trusted_world(1)]]
    by (auto elim: submit_cases [OF _ _ calm calm s])
  have "tcp_session_id ?p = ''s''" by (simp add: sample_read_def)
  then have "\<exists>e. ToolCallApproved e \<in> set (logged trusted_world) \<and> ta_session_id e = ''s''"
    using auto_approval_sanctioned [OF trusted_world(1) none calm calm s [unfolded d]] by metis
  then show ?thesis using s d by simp
qed

theorem waiter_answered_witness:
  "\<exists>k w1 tool a w2. await_start ''c'' asked_world = (Done (Inr k), w1) \<and>
     approve calm_env 110 ''c'' ''op'' Once None w1 = (Done (), w2) \<and>
     await_resume calm_env 120 ''c'' k w2 = (Done (ApprovedWith a), w2) \<and>
     retrieve_approved_proposal ''c'' w2 = Done \<lparr>ap_call_id = ''c'', ap_tool_name = tool, ap_tool_args = a\<rparr>"
proof -
  obtain k w1 where p: "await_start ''c'' asked_world = (Done (Inr k), w1)"
    by (simp add: await_start_def and_then_def load_or_fetch_eq asked_loaded Let_def
        insert_fetched_def asked_world(2,4))
  obtain r w2 where a: "approve calm_env 110 ''c'' ''op'' Once None w1 = (r, w2)" by fastforce
  show ?thesis
    using waiter_answered [OF asked_world(1) p a, of calm_env 120] p a by auto
qed

lemma reject_unresolved:
  assumes "loaded i w = Some e" and "\<not> entry_resolved e" and "se_secondary env = None"
    and "reject env now i op reason w = (r, w')"
  shows "cache i w' = Some (e\<lparr>pe_state := ProposalRejected, pe_rejection_reason := reason\<rparr>)"
    and "rules_of sid w' = rules_of sid w"
proof -
  have "cache i w' = Some (e\<lparr>pe_state := ProposalRejected, pe_rejection_reason := reason\<rparr>) \<and>
    rules_of sid w' = rules_of sid w"
    using assms(4)
  proof (cases rule: reject_cases)
    case (claimed e' c v)
    then have "e' = e" using assms(1) by simp
    note cl = reject_claim_cached [OF claimed(3) loaded_kept [OF claimed(1)], unfolded this]
    note eff = conclude_effect [OF claimed(4) call_events(4)]
    show ?thesis
      using cl by (simp add: eff assms(3) rules_of_def send_decision_def split: option.split)
  qed (use assms(1,2) in simp_all)
  then show "cache i w' = Some (e\<lparr>pe_state := ProposalRejected, pe_rejection_reason := reason\<rparr>)"
    and "rules_of sid w' = rules_of sid w" by auto
qed

theorem rejected_call_reopened_witness:
  "\<exists>w w1 w2. reject calm_env 110 ''c'' ''op'' None asked_world = (Done (), w) \<and>
     submit_proposal sample_ops calm_env calm_env 120 120 (sample_read ''c'' ''/w/cairn/lib.rs'') w =
       (Done PendingOperator, w1) \<and>
     approve calm_env 130 ''c'' ''op'' Once None w1 = (Done (), w2)"
proof -
  let ?p = "sample_read ''c'' ''/w/cairn/lib.rs''"
  have id: "tcp_call_id ?p = ''c''" by (simp add: sample_read_def)
  obtain r w where a: "reject calm_env 110 ''c'' ''op'' None asked_world = (r, w)" by fastforce
  have r: "r = Done ()"
    using a
  proof (cases rule: reject_cases)
    case (claimed e c v)
    show ?thesis using conclude_effect(1) [OF claimed(4) call_events(4)] by (simp add: append_reply_done)
  qed (simp_all add: asked_loaded)
  note rej = reject_unresolved [OF asked_loaded pending_entry_sel(5) calm a]
  obtain d w1 where s: "submit_proposal sample_ops calm_env calm_env 120 120 ?p w = (d, w1)" by fastforce
  obtain r' w2 where b: "approve calm_env 130 (tcp_call_id ?p) ''op'' Once None w1 = (r', w2)" by fastforce
  have "approval_reachable sample_ops w"
    using reachable_step [OF asked_world(1) approval_step.reject [OF calm a]] .
  moreover have "find_matching_rule sample_ops ?p (aw_service w) = None"
    by (simp add: find_matching_rules_of rej(2) asked_world(5))
  ultimately show ?thesis
    using rejected_call_reopened [OF _ _ _ _ calm calm s b] rej(1) a r s b id by (auto simp: loaded_def)
qed

end
