(* ===== verification/Tool_Approval_Races.thy ===== *)
theory Tool_Approval_Races
  imports Tool_Approval_Correctness "HOL-Library.Multiset"
begin

text \<open>
  Calls of the approval service that overlap. A step is one critical section or one append of a
  method; what a method carries from one to the next is a flight, and the flights of all the
  methods under way are a multiset. The submissions may be restricted to calls that are not
  \<open>quiet\<close>.
\<close>

section \<open>Flights\<close>

datatype 'j flight =
    Fetching ident "'j proposal_entry"
  | Approving ident ident approval_scope "'j option" "'j claim"
  | ApproveLogged ident "'j claim"
  | Rejecting ident ident "string option" "'j claim"
  | RejectLogged ident "string option" "'j claim"
  | Amending ident ident 'j project_key ident
  | TimingOut ident "'j claim"
  | Submitting "'j tool_call_proposal"
  | Caching "'j tool_call_proposal"
  | Matching "'j tool_call_proposal"
  | AutoApproving "'j tool_call_proposal"
  | AutoLogged "'j tool_call_proposal"

inductive calls_step :: "'j json_ops \<Rightarrow> (ident \<Rightarrow> bool) \<Rightarrow> 'j approval_world \<Rightarrow> 'j flight multiset \<Rightarrow>
    'j approval_world \<Rightarrow> 'j flight multiset \<Rightarrow> bool"
  for js :: "'j json_ops" and quiet :: "ident \<Rightarrow> bool" where
  fetch: "cache i w = None \<Longrightarrow> call_row i w = Some r \<Longrightarrow>
     calls_step js quiet w F w (add_mset (Fetching i (entry_of_row r)) F)"
| insert: "calls_step js quiet w (add_mset (Fetching i e) F)
     (w\<lparr>aw_service := snd (insert_fetched i e (aw_service w))\<rparr>) F"
| approve_claim: "approve_claim i scope args (aw_service w) = (Inr c, v) \<Longrightarrow>
     calls_step js quiet w F (w\<lparr>aw_service := v\<rparr>) (add_mset (Approving i op scope args c) F)"
| approve_log: "persist env (approved_event now i op scope args c) w = (Done (), w') \<Longrightarrow>
     calls_step js quiet w (add_mset (Approving i op scope args c) F)
       w' (add_mset (ApproveLogged i c) F)"
| approve_end: "calls_step js quiet w (add_mset (ApproveLogged i c) F)
     (w\<lparr>aw_service := approve_commit c (aw_service w)\<rparr>) F"
| reject_claim: "reject_claim i reason (aw_service w) = (Inr c, v) \<Longrightarrow>
     calls_step js quiet w F (w\<lparr>aw_service := v\<rparr>) (add_mset (Rejecting i op reason c) F)"
| reject_log: "persist env (rejected_event now i op reason c) w = (Done (), w') \<Longrightarrow>
     calls_step js quiet w (add_mset (Rejecting i op reason c) F)
       w' (add_mset (RejectLogged i reason c) F)"
| reject_end: "calls_step js quiet w (add_mset (RejectLogged i reason c) F)
     (w\<lparr>aw_service := send_decision (cl_sender c) (RejectedFor reason) (aw_service w)\<rparr>) F"
| amend_claim: "amend_claim i new_args (aw_service w) = (Inr (pr, session, st, am), v) \<Longrightarrow>
     calls_step js quiet w F (w\<lparr>aw_service := v\<rparr>) (add_mset (Amending i op new_args pr session) F)"
| amend_log: "persist env (amended_event now i op new_args pr session) w = (Done (), w') \<Longrightarrow>
     calls_step js quiet w (add_mset (Amending i op new_args pr session) F) w' F"
| park: "await_start i w = (a, w') \<Longrightarrow> calls_step js quiet w F w' F"
| timeout_claim: "timeout_claim i (aw_service w) = (Some c, v) \<Longrightarrow>
     calls_step js quiet w F (w\<lparr>aw_service := v\<rparr>) (add_mset (TimingOut i c) F)"
| timeout_late: "timeout_claim i (aw_service w) = (None, v) \<Longrightarrow>
     calls_step js quiet w F (w\<lparr>aw_service := v\<rparr>) F"
| timeout_log: "persist env (rejected_event now i ''operator_timeout'' (Some timeout_reason) c) w =
     (Done (), w') \<Longrightarrow> calls_step js quiet w (add_mset (TimingOut i c) F) w' F"
| submit: "\<not> quiet (tcp_call_id p) \<Longrightarrow> \<not> already_approved (tcp_call_id p) w \<Longrightarrow>
     calls_step js quiet w F w (add_mset (Submitting p) F)"
| submit_log: "persist env (proposed_event now p) w = (Done (), w') \<Longrightarrow>
     calls_step js quiet w (add_mset (Submitting p) F) w' (add_mset (Caching p) F)"
| submit_cache: "calls_step js quiet w (add_mset (Caching p) F)
     (w\<lparr>aw_service := cache_proposal p (aw_service w)\<rparr>) (add_mset (Matching p) F)"
| submit_open: "find_matching_rule js p (aw_service w) = None \<Longrightarrow>
     calls_step js quiet w (add_mset (Matching p) F) w F"
| submit_match: "find_matching_rule js p (aw_service w) = Some rule \<Longrightarrow>
     calls_step js quiet w (add_mset (Matching p) F) w (add_mset (AutoApproving p) F)"
| auto_log: "persist env (auto_approved_event now p) w = (Done (), w') \<Longrightarrow>
     calls_step js quiet w (add_mset (AutoApproving p) F) w' (add_mset (AutoLogged p) F)"
| auto_end: "calls_step js quiet w (add_mset (AutoLogged p) F)
     (w\<lparr>aw_service := set_proposal_state (tcp_call_id p) ProposalApproved (aw_service w)\<rparr>) F"
| restart: "calls_step js quiet w F (restarted w) {#}"
| other: "s_tool_call_approvals (w_store world) = s_tool_call_approvals (w_store (aw_world w)) \<Longrightarrow>
     logged (w\<lparr>aw_world := world\<rparr>) = logged w @ new \<Longrightarrow> list_all (\<lambda>ev. \<not> call_event ev) new \<Longrightarrow>
     calls_step js quiet w F (w\<lparr>aw_world := world\<rparr>) F"

abbreviation calls_steps :: "'j json_ops \<Rightarrow> (ident \<Rightarrow> bool) \<Rightarrow> 'j approval_world \<times> 'j flight multiset \<Rightarrow>
    'j approval_world \<times> 'j flight multiset \<Rightarrow> bool" where
  "calls_steps js quiet \<equiv> (\<lambda>(w, F) (w', F'). calls_step js quiet w F w' F')\<^sup>*\<^sup>*"

section \<open>Counting resolutions\<close>

fun resolves :: "ident \<Rightarrow> 'j runtime_event \<Rightarrow> bool" where
  "resolves i (ToolCallApproved e) = (ta_call_id e = i)"
| "resolves i (ToolCallRejected e) = (tr_call_id e = i)"
| "resolves i _ = False"

definition resolutions :: "ident \<Rightarrow> 'j approval_world \<Rightarrow> nat" where
  "resolutions i w = length (filter (resolves i) (logged w))"

fun claims :: "ident \<Rightarrow> 'j flight \<Rightarrow> bool" where
  "claims i (Approving j _ _ _ _) = (j = i)"
| "claims i (Rejecting j _ _ _) = (j = i)"
| "claims i (TimingOut j _) = (j = i)"
| "claims i _ = False"


definition claimed :: "ident \<Rightarrow> 'j flight multiset \<Rightarrow> nat" where
  "claimed i F = size (filter_mset (claims i) F)"


lemma resolves_events [simp]:
  "resolves i (approved_event now j op scope args c) \<longleftrightarrow> j = i"
  "resolves i (rejected_event now j op reason c) \<longleftrightarrow> j = i"
  "resolves i (auto_approved_event now p) \<longleftrightarrow> tcp_call_id p = i"
  "\<not> resolves i (proposed_event now p)" "\<not> resolves i (amended_event now j op new_args pr session)"
  by (simp_all add: approved_event_def rejected_event_def auto_approved_event_def
      proposed_event_def amended_event_def)

lemma resolutions_service [simp]: "resolutions i (w\<lparr>aw_service := v\<rparr>) = resolutions i w"
  by (simp add: resolutions_def)

lemma claimed_simps [simp]:
  "claimed i {#} = 0" "claimed i (add_mset f F) = (if claims i f then Suc (claimed i F) else claimed i F)"
  by (simp_all add: claimed_def)



lemma entry_resolved_states [simp]:
  "entry_resolved (e\<lparr>pe_state := ProposalApproved\<rparr>)"
  "entry_resolved (e\<lparr>pe_approved_args := a, pe_state := ProposalApproved\<rparr>)"
  "entry_resolved (e\<lparr>pe_state := ProposalRejected, pe_rejection_reason := r\<rparr>)"
  "\<not> entry_resolved (e\<lparr>pe_amended_args := am, pe_state := ProposalAmended\<rparr>)"
  by (simp_all add: entry_resolved_def)

section \<open>The invariant holds along every interleaving\<close>








text \<open>An append of a claimed resolution moves the claim into the log.\<close>

definition marks_row :: "u64 \<Rightarrow> ident \<Rightarrow> 'j runtime_event \<Rightarrow> bool" where
  "marks_row at i ev \<longleftrightarrow> (\<forall>r. \<exists>r'. row_after at ev i (Some r) = Some r' \<and>
     (tca_state r' = tool_call_approval_state.Pending \<longleftrightarrow>
        tca_state r = tool_call_approval_state.Pending \<and> \<not> resolves i ev))"

lemma marks_row_events [simp]:
  "marks_row at i (approved_event now j op scope args c)"
  "marks_row at i (rejected_event now j op reason c)"
  "marks_row at i (auto_approved_event now p)"
  "marks_row at i (amended_event now j op new_args pr session)"
  "marks_row at i (proposed_event now p)"
  by (auto simp: marks_row_def approved_event_def rejected_event_def auto_approved_event_def
      amended_event_def proposed_event_def)








section \<open>A submission that overlaps a decision\<close>

text \<open>
  The approval by a rule overrides a rejection. Submitting a call that a rule of its session
  matches takes several steps, and the call is visible to operators after the first. When an
  operator rejects it in between, the rejection is appended and answered with success; the
  submission then appends an approval of the same call and marks it approved, so that it is
  retrieved and runs.
\<close>

theorem auto_approval_overrides_rejection:
  fixes env :: svc_env
  assumes "cache (tcp_call_id p) w = None" and "call_row (tcp_call_id p) w = None"
    and "find_matching_rule js p (aw_service w) = Some rule" and "se_secondary env = None"
  shows "\<exists>w' rej app. calls_steps js (\<lambda>_. False) (w, {#}) (w', {#}) \<and>
    logged w' = logged w @ [proposed_event now p, ToolCallRejected rej, ToolCallApproved app] \<and>
    tr_call_id rej = tcp_call_id p \<and> ta_call_id app = tcp_call_id p \<and>
    retrieve_approved_proposal (tcp_call_id p) w' =
      Done \<lparr>ap_call_id = tcp_call_id p, ap_tool_name = tcp_tool_name p, ap_tool_args = tcp_tool_args p\<rparr>"
proof -
  let ?i = "tcp_call_id p"
  let ?step = "\<lambda>(w, F) (w', F'). calls_step js (\<lambda>_. False) w F w' F'"
  obtain r1 w1 where p1: "persist env (proposed_event now p) w = (r1, w1)" by fastforce
  note e1 = persist_effect [OF call_events(1) p1]
  define w2 where "w2 = w1\<lparr>aw_service := cache_proposal p (aw_service w1)\<rparr>"
  obtain c v where claim: "reject_claim ?i None (aw_service w2) = (Inr c, v)"
    by (simp add: w2_def reject_claim_def entry_resolved_def)
  obtain r3 w3 where p3: "persist env (rejected_event now ?i ''op'' None c) (w2\<lparr>aw_service := v\<rparr>) = (r3, w3)"
    by fastforce
  note e3 = persist_effect [OF call_events(4) p3]
  define w4 where "w4 = w3\<lparr>aw_service := send_decision (cl_sender c) (RejectedFor None) (aw_service w3)\<rparr>"
  obtain r5 w5 where p5: "persist env (auto_approved_event now p) w4 = (r5, w5)" by fastforce
  note e5 = persist_effect [OF call_events(2) p5]
  define w6 where "w6 = w5\<lparr>aw_service := set_proposal_state ?i ProposalApproved (aw_service w5)\<rparr>"
  have appended: "r1 = Done ()" "r3 = Done ()" "r5 = Done ()"
    using assms(4) e1(1) e3(1) e5(1) by (simp_all add: append_reply_done)
  have fresh: "\<not> already_approved ?i w"
    using assms(1,2) by (simp add: already_approved_def get_tool_call_proposal_def call_row_def)
  have v: "av_allow_registry v = av_allow_registry (aw_service w)"
    "cached_entry ?i v = Some \<lparr>pe_proposal = p, pe_state = ProposalRejected, pe_amended_args = None,
       pe_approved_args = None, pe_rejection_reason = None\<rparr>"
    using reject_claim_cached [OF claim] by (simp_all add: w2_def e1(2))
  have rule: "find_matching_rule js p (aw_service w4) = Some rule"
    using assms(3) v(1) e3(2)
    by (cases "cl_sender c") (simp_all add: find_matching_rule_def w4_def send_decision_def)
  have "?step\<^sup>*\<^sup>* (w, {#}) (w1, {#Caching p#})"
    using calls_step.submit [of "\<lambda>_. False" p w js "{#}"] fresh
      calls_step.submit_log [of env now p w w1 js "\<lambda>_. False" "{#}"] p1 appended(1)
    by (intro rtranclp.rtrancl_into_rtrancl [OF r_into_rtranclp]) auto
  also have "?step\<^sup>*\<^sup>* (w1, {#Caching p#}) (w2\<lparr>aw_service := v\<rparr>, {#Rejecting ?i ''op'' None c, Matching p#})"
    using calls_step.submit_cache [of js "\<lambda>_. False" w1 p "{#}"]
      calls_step.reject_claim [OF claim, of js "\<lambda>_. False" "{#Matching p#}" "''op''"]
    by (intro rtranclp.rtrancl_into_rtrancl [OF r_into_rtranclp, where b = "(w2, {#Matching p#})"])
      (auto simp: w2_def)
  also have "?step\<^sup>*\<^sup>* (w2\<lparr>aw_service := v\<rparr>, {#Rejecting ?i ''op'' None c, Matching p#}) (w4, {#Matching p#})"
    using calls_step.reject_log [of env now ?i "''op''" None c "w2\<lparr>aw_service := v\<rparr>" w3 js "\<lambda>_. False" "{#Matching p#}"]
      p3 appended(2) calls_step.reject_end [of js "\<lambda>_. False" w3 ?i None c "{#Matching p#}"]
    by (intro rtranclp.rtrancl_into_rtrancl [OF r_into_rtranclp,
          where b = "(w3, {#RejectLogged ?i None c, Matching p#})"]) (auto simp: w4_def)
  also have "?step\<^sup>*\<^sup>* (w4, {#Matching p#}) (w5, {#AutoLogged p#})"
    using calls_step.submit_match [OF rule, of "\<lambda>_. False" "{#}"]
      calls_step.auto_log [of env now p w4 w5 js "\<lambda>_. False" "{#}"] p5 appended(3)
    by (intro rtranclp.rtrancl_into_rtrancl [OF r_into_rtranclp]) auto
  also have "?step\<^sup>*\<^sup>* (w5, {#AutoLogged p#}) (w6, {#})"
    using calls_step.auto_end [of js "\<lambda>_. False" w5 p "{#}"] by (intro r_into_rtranclp) (simp add: w6_def)
  finally have steps: "?step\<^sup>*\<^sup>* (w, {#}) (w6, {#})" .
  have "logged w6 = logged w @ [proposed_event now p, rejected_event now ?i ''op'' None c,
      auto_approved_event now p]"
    using e1(4) e3(4) e5(4) by (simp add: w2_def w4_def w6_def)
  moreover have "cache ?i w6 = Some \<lparr>pe_proposal = p, pe_state = ProposalApproved,
      pe_amended_args = None, pe_approved_args = None, pe_rejection_reason = None\<rparr>"
    using v(2) e3(2) e5(2) by (simp add: w4_def w6_def)
  ultimately show ?thesis
    using steps
    by (intro exI [of _ w6])
      (auto simp: rejected_event_def auto_approved_event_def retrieve_approved_proposal_def
        effective_args_def)
qed


theorem auto_approval_overrides_rejection_witness:
  "\<exists>w' rej app. calls_steps sample_ops (\<lambda>_. False) (trusted_world, {#}) (w', {#}) \<and>
    logged w' = logged trusted_world @
      [proposed_event 120 (sample_read ''d'' ''/w/cairn/./x''), ToolCallRejected rej, ToolCallApproved app] \<and>
    tr_call_id rej = ''d'' \<and> ta_call_id app = ''d''"
proof -
  let ?p = "sample_read ''d'' ''/w/cairn/./x''"
  have id: "tcp_call_id ?p = ''d''" by (simp add: sample_read_def)
  have row: "call_row ''d'' trusted_world = None" by (rule trusted_world(4)) simp
  have "fits ''d'' (cache ''d'' trusted_world) None"
    using reachable_approvals [OF trusted_world(1)] row unfolding agrees_def by metis
  then have none: "cache ''d'' trusted_world = None"
    by (cases "cache ''d'' trusted_world") (auto simp: fits_def)
  show ?thesis
    using auto_approval_overrides_rejection [of ?p trusted_world sample_ops _ calm_env 120]
      none row trusted_match
    by (fastforce simp: id find_matching_rules_of)
qed

end
