(* ===== verification/Text.thy ===== *)
theory Text
  imports Prelude
begin

text \<open>
  The text operations of the standard library the orchestrator calls. A \<open>String\<close> is its list of
  UTF-8 bytes; a character is the bytes of its encoding, a lead byte and its continuation bytes,
  so that lengths in bytes and lengths in characters are both there.
\<close>

section \<open>Characters\<close>

definition continuation :: "char \<Rightarrow> bool" where
  "continuation c \<longleftrightarrow> 128 \<le> (of_char c :: nat) \<and> (of_char c :: nat) < 192"

function chars :: "string \<Rightarrow> string list" where
  "chars [] = []"
| "chars (c # s) = (c # takeWhile continuation s) # chars (dropWhile continuation s)"
  by pat_completeness auto
termination
  by (relation "measure length") (auto simp: le_imp_less_Suc length_dropWhile_le)

definition char_count :: "string \<Rightarrow> nat" where
  "char_count s = length (chars s)"

text \<open>\<open>s.chars().take(n).collect()\<close>, and the last \<open>n\<close> characters.\<close>

definition take_chars :: "nat \<Rightarrow> string \<Rightarrow> string" where
  "take_chars n s = concat (take n (chars s))"

definition last_chars :: "nat \<Rightarrow> string \<Rightarrow> string" where
  "last_chars n s = concat (drop (char_count s - n) (chars s))"

definition is_ascii :: "string \<Rightarrow> bool" where
  "is_ascii s = list_all (\<lambda>c. (of_char c :: nat) < 128) s"

definition bytes :: "nat list \<Rightarrow> string" where
  "bytes ns = map char_of ns"

text \<open>The horizontal ellipsis, three bytes of UTF-8.\<close>

definition ellipsis :: string where
  "ellipsis = bytes [226, 128, 166]"

text \<open>\<open>char::is_whitespace\<close>: the characters with the Unicode property \<open>White_Space\<close>.\<close>

definition white_space :: "string \<Rightarrow> bool" where
  "white_space c \<longleftrightarrow> c \<in> set (map bytes
     ([[9], [10], [11], [12], [13], [32], [194, 133], [194, 160], [225, 154, 128]] @
      map (\<lambda>n. [226, 128, n]) [128..<139] @
      [[226, 128, 168], [226, 128, 169], [226, 128, 175], [226, 129, 159], [227, 128, 128]]))"

definition trim_start :: "string \<Rightarrow> string" where
  "trim_start s = concat (dropWhile white_space (chars s))"

definition trim :: "string \<Rightarrow> string" where
  "trim s = concat (rev (dropWhile white_space (rev (dropWhile white_space (chars s)))))"

text \<open>
  \<open>str::lines\<close>: a line ends at a line feed, which is dropped with a carriage return in front of
  it; what follows the last line feed is a line unless it is empty.
\<close>

definition strip_cr :: "string \<Rightarrow> string" where
  "strip_cr l = (if l \<noteq> [] \<and> last l = CHR 0x0D then butlast l else l)"

definition text_lines :: "string \<Rightarrow> string list" where
  "text_lines s =
     (let ps = split_on (CHR 0x0A) s
      in map strip_cr (butlast ps) @ (if last ps = [] then [] else [last ps]))"

definition ascii_lower :: "char \<Rightarrow> char" where
  "ascii_lower c =
     (let n = (of_char c :: nat) in if 65 \<le> n \<and> n \<le> 90 then char_of (n + 32) else c)"

definition eq_ignore_ascii_case :: "string \<Rightarrow> string \<Rightarrow> bool" where
  "eq_ignore_ascii_case s t \<longleftrightarrow> map ascii_lower s = map ascii_lower t"

definition starts_with :: "string \<Rightarrow> string \<Rightarrow> bool" where
  "starts_with p s \<longleftrightarrow> take (length p) s = p"

text \<open>\<open>estimate_tokens\<close> of \<open>crates/cairn-orchestrator/src/decide_impl.rs\<close>.\<close>

definition estimate_tokens :: "string \<Rightarrow> nat" where
  "estimate_tokens s = (length s + 3) div 4"

section \<open>Laws\<close>

lemma concat_chars [simp]: "concat (chars s) = s"
  by (induction s rule: chars.induct) simp_all

lemma chars_nonempty: "c \<in> set (chars s) \<Longrightarrow> c \<noteq> []"
  by (induction s rule: chars.induct) auto

lemma chars_empty [simp]: "chars s = [] \<longleftrightarrow> s = []"
  by (cases s) simp_all

lemma char_count_le: "char_count s \<le> length s"
proof (induction s rule: chars.induct)
  case (2 c s)
  then show ?case using length_dropWhile_le [of continuation s] by (simp add: char_count_def)
qed (simp add: char_count_def)

text \<open>Cutting between characters keeps them.\<close>

lemma chars_append:
  assumes "t = [] \<or> \<not> continuation (hd t)"
  shows "chars (s @ t) = chars s @ chars t"
proof (induction s rule: chars.induct)
  case (2 c s)
  show ?case
  proof (cases "list_all continuation s")
    case True
    then have s: "takeWhile continuation s = s" "dropWhile continuation s = []"
      by (auto simp: list_all_iff)
    have "takeWhile continuation (s @ t) = s" "dropWhile continuation (s @ t) = t"
      using True assms by (cases t; auto simp: list_all_iff)+
    then show ?thesis by (simp add: s)
  next
    case False
    then obtain x where "x \<in> set s" "\<not> continuation x" by (auto simp: list_all_iff)
    then show ?thesis using 2 by (simp add: takeWhile_append1 dropWhile_append1)
  qed
qed simp

lemma chars_concat_take:
  "chars (concat (take n (chars s))) = take n (chars s) \<and>
   chars (concat (drop n (chars s))) = drop n (chars s)"
proof (induction s arbitrary: n rule: chars.induct)
  case (2 c s)
  show ?case
  proof (cases n)
    case (Suc m)
    let ?rest = "concat (take m (chars (dropWhile continuation s)))"
    have "?rest = [] \<or> \<not> continuation (hd ?rest)"
    proof (cases "dropWhile continuation s = [] \<or> m = 0")
      case True
      then have "take m (chars (dropWhile continuation s)) = []" by (auto simp only: chars.simps take_Nil take_0)
      then show ?thesis by (simp only: concat.simps simp_thms)
    next
      case False
      then obtain x xs k where "dropWhile continuation s = x # xs" "m = Suc k"
        by (metis neq_Nil_conv not0_implies_Suc)
      moreover from this have "\<not> continuation x" using hd_dropWhile [of continuation s] by simp
      ultimately show ?thesis by simp
    qed
    then have "chars ((c # takeWhile continuation s) @ ?rest) =
        chars (c # takeWhile continuation s) @ chars ?rest" by (rule chars_append)
    moreover have "chars (c # takeWhile continuation s) = [c # takeWhile continuation s]"
    proof -
      have "takeWhile continuation (takeWhile continuation s) = takeWhile continuation s"
        "dropWhile continuation (takeWhile continuation s) = []"
        by (auto dest: set_takeWhileD)
      then show ?thesis by simp
    qed
    ultimately show ?thesis using Suc 2 [of m] by simp
  qed simp
qed simp

lemma char_count_take [simp]: "char_count (take_chars n s) = min n (char_count s)"
  using chars_concat_take [of n s] by (simp add: char_count_def take_chars_def min.commute)

lemma char_count_last: "char_count (last_chars n s) = min n (char_count s)"
  using chars_concat_take [of "char_count s - n" s]
  by (simp add: char_count_def last_chars_def min_def)

lemma take_chars_all: "char_count s \<le> n \<Longrightarrow> take_chars n s = s"
  by (simp add: take_chars_def char_count_def)

lemma head_tail_chars:
  "a + b = char_count s \<Longrightarrow> take_chars a s @ last_chars b s = s"
proof -
  assume "a + b = char_count s"
  then have "char_count s - b = a" by simp
  then show ?thesis
    by (simp add: take_chars_def last_chars_def flip: concat_append)
qed

lemma char_count_ascii:
  assumes "is_ascii s"
  shows "char_count s = length s"
  using assms
proof (induction s)
  case (Cons c s)
  then have "\<not> continuation x" if "x \<in> set s" for x
    using that by (auto simp: is_ascii_def continuation_def list_all_iff)
  then have "takeWhile continuation s = [] \<and> dropWhile continuation s = s" by (cases s) auto
  then show ?case using Cons by (simp add: char_count_def is_ascii_def)
qed (simp add: char_count_def)

text \<open>Text that starts with an ASCII character starts a new character.\<close>

lemma char_count_append_ascii:
  "is_ascii t \<Longrightarrow> char_count (s @ t) = char_count s + length t"
proof -
  assume t: "is_ascii t"
  then have "t = [] \<or> \<not> continuation (hd t)"
    by (cases t) (auto simp: is_ascii_def continuation_def)
  then show ?thesis using char_count_ascii [OF t] chars_append by (simp add: char_count_def)
qed

end
