(* ===== verification/Orchestrator_Types.thy ===== *)
theory Orchestrator_Types
  imports Tool_Approvals Decision_Service Startup Text
begin

text \<open>
  The data of the orchestrator loop (\<open>crates/cairn-orchestrator/src/context.rs\<close>, \<open>error.rs\<close>,
  \<open>execute.rs\<close>, \<open>crates/cairn-domain/src/orchestrator.rs\<close>). What the gather phase collected is
  opaque to the loop, a type variable of it.
\<close>

section \<open>Proposals\<close>

datatype action_type =
    SpawnSubagent | InvokeTool | CreateMemory | SendNotification | CompleteRun | EscalateToOperator

fun action_type_name :: "action_type \<Rightarrow> string" where
  "action_type_name SpawnSubagent = ''spawn_subagent''"
| "action_type_name InvokeTool = ''invoke_tool''"
| "action_type_name CreateMemory = ''create_memory''"
| "action_type_name SendNotification = ''send_notification''"
| "action_type_name CompleteRun = ''complete_run''"
| "action_type_name EscalateToOperator = ''escalate_to_operator''"

record 'j action_proposal =
  act_type :: action_type
  act_description :: string
  act_confidence :: f64_bits
  act_tool_name :: "string option"
  act_tool_args :: "'j option"
  act_requires_approval :: bool

section \<open>The context of an iteration\<close>

record step_summary =
  ss_iteration :: u32
  ss_action_kind :: string
  ss_summary :: string
  ss_succeeded :: bool

record orchestration_context =
  oc_project :: project_key
  oc_session_id :: ident
  oc_run_id :: ident
  oc_task_id :: "ident option"
  oc_iteration :: u32
  oc_goal :: string
  oc_agent_type :: string
  oc_run_started_at_ms :: u64
  oc_working_dir :: string
  oc_run_mode :: run_mode
  oc_discovered_tool_names :: "string list"
  oc_step_history :: "step_summary list"
  oc_is_recovery :: bool
  oc_approval_timeout :: "u64 option"

record 'j decide_output =
  do_raw_response :: string
  do_proposals :: "'j action_proposal list"
  do_calibrated_confidence :: f64_bits
  do_requires_approval :: bool
  do_model_id :: string
  do_latency_ms :: u64
  do_input_tokens :: "u32 option"
  do_output_tokens :: "u32 option"

datatype action_status =
    Succeeded
  | ActionFailed string
  | AwaitingApproval ident
  | SubagentSpawned ident

record 'j action_result =
  ar_proposal :: "'j action_proposal"
  ar_status :: action_status
  ar_tool_output :: "'j option"
  ar_invocation_id :: "ident option"
  ar_duration_ms :: u64

datatype loop_signal =
    LoopContinue
  | LoopDone
  | LoopFailed string
  | WaitApproval ident
  | WaitSubagent ident
  | SignalPlanProposed string

record 'j execute_outcome =
  eo_results :: "'j action_result list"
  eo_loop_signal :: loop_signal

record 'j approved_dispatch =
  ad_call_id :: ident
  ad_tool_name :: string
  ad_tool_args :: 'j

datatype loop_termination =
    TermCompleted string completion_verification
  | TermFailed string
  | MaxIterationsReached
  | TermTimedOut
  | WaitingApproval ident
  | WaitingSubagent ident
  | PlanProposed string

section \<open>Configuration\<close>

record compaction_config =
  cc_enabled :: bool
  cc_threshold_pct :: u32
  cc_min_steps :: nat
  cc_keep_last :: nat
  cc_summary_token_budget :: nat
  cc_cooldown_iterations :: u32

record loop_config =
  lc_max_iterations :: u32
  lc_timeout_ms :: u64
  lc_checkpoint_every_n_tool_calls :: u32
  lc_compaction :: compaction_config

definition default_compaction :: compaction_config where
  "default_compaction =
     \<lparr>cc_enabled = True, cc_threshold_pct = 70, cc_min_steps = 10, cc_keep_last = 4,
      cc_summary_token_budget = 2000, cc_cooldown_iterations = 5\<rparr>"

definition default_loop_config :: loop_config where
  "default_loop_config =
     \<lparr>lc_max_iterations = 20, lc_timeout_ms = 5 * 60 * 1000,
      lc_checkpoint_every_n_tool_calls = 1, lc_compaction = default_compaction\<rparr>"

section \<open>Errors\<close>

text \<open>
  \<open>OrchestratorError\<close>. The attempts of \<open>AllProvidersExhausted\<close> are the text that
  \<open>format_attempt_summary\<close> makes of them, the only thing read of them here.
\<close>

datatype orchestrator_error =
    GatherFailed string
  | DecideFailed string
  | ExecuteFailed string
  | FrameSinkFailed string
  | RuntimeFailed runtime_error
  | StoreFailed string
  | MaxIterationsError u32
  | TimeoutError
  | ApprovalDenied ident
  | DependencyFailed ident
  | MemoryFailed string
  | GraphFailed string
  | AllProvidersExhausted string
  | ProviderAuthFailed string string string
  | ProviderInvalidRequest string string string

text \<open>What an asynchronous call ends with: a value, an error, or a panic that unwinds.\<close>

datatype 'a phase = Fine 'a | Fault orchestrator_error | Unwound

definition on_fine :: "'a phase \<times> 's \<Rightarrow> ('a \<Rightarrow> 's \<Rightarrow> 'b phase \<times> 's) \<Rightarrow> 'b phase \<times> 's" where
  "on_fine m k =
     (case m of
        (Fine a, s) \<Rightarrow> k a s
      | (Fault e, s) \<Rightarrow> (Fault e, s)
      | (Unwound, s) \<Rightarrow> (Unwound, s))"

text \<open>\<open>map_err(OrchestratorError::Runtime)\<close> on the reply of a service.\<close>

fun phase_of :: "'a reply \<Rightarrow> 'a phase" where
  "phase_of (Done a) = Fine a"
| "phase_of (Failed e) = Fault (RuntimeFailed e)"
| "phase_of Crashed = Unwound"

text \<open>
  The operations of \<open>serde_json\<close> the orchestrator calls besides those of \<open>json_ops\<close>:
  \<open>as_i64\<close>, the null value, \<open>Map::insert\<close> on an object and the pretty printer.
\<close>

record 'j json_values =
  jv_ops :: "'j json_ops"
  jv_as_i64 :: "'j \<Rightarrow> int option"
  jv_null :: 'j
  jv_bool :: "bool \<Rightarrow> 'j"
  jv_insert :: "string \<Rightarrow> 'j \<Rightarrow> 'j \<Rightarrow> 'j"
  jv_pretty :: "'j \<Rightarrow> string"

definition or_null :: "'j json_values \<Rightarrow> 'j option \<Rightarrow> 'j" where
  "or_null jv a = (case a of None \<Rightarrow> jv_null jv | Some v \<Rightarrow> v)"

end
