(* ===== verification/Completion_Verification.thy ===== *)
theory Completion_Verification
  imports Orchestrator_Types
begin

text \<open>
  What the orchestrator reports of the tool results when a run completes
  (\<open>crates/cairn-orchestrator/src/completion_verification.rs\<close>): the warning and error lines of
  their texts, capped in number and length, and the commands with their exit codes.
\<close>

section \<open>Matching and clipping\<close>

definition max_entries_per_bucket :: nat where "max_entries_per_bucket = 50"
definition max_line_len :: nat where "max_line_len = 500"
definition extractor_version :: u32 where "extractor_version = 1"

definition bash_tool_names :: "string list" where
  "bash_tool_names = [''bash'', ''shell_exec'', ''run_bash'']"

definition is_bash_tool :: "string \<Rightarrow> bool" where
  "is_bash_tool tool_name = list_ex (\<lambda>b. eq_ignore_ascii_case b tool_name) bash_tool_names"

definition ascii_prefix_ci :: "string \<Rightarrow> string \<Rightarrow> bool" where
  "ascii_prefix_ci line p \<longleftrightarrow>
     length p \<le> length line \<and> eq_ignore_ascii_case (take (length p) line) p"

definition is_warning_line :: "string \<Rightarrow> bool" where
  "is_warning_line line = ascii_prefix_ci line ''warning:''"

definition is_error_line :: "string \<Rightarrow> bool" where
  "is_error_line line \<longleftrightarrow>
     ascii_prefix_ci line ''error'' \<and>
     (case drop 5 line of
        [] \<Rightarrow> False
      | c # _ \<Rightarrow> c \<in> {CHR '':'', CHR ''['', CHR '' '', CHR 0x09})"

text \<open>
  \<open>truncate\<close>: the loop over \<open>char_indices\<close>, with the characters it has \<open>seen\<close>, the prefix up to
  \<open>split_at\<close> and the characters passed so far.
\<close>

fun clip_loop :: "nat \<Rightarrow> string \<Rightarrow> nat \<Rightarrow> string \<Rightarrow> string \<Rightarrow> string list \<Rightarrow> string" where
  "clip_loop cap s seen split_at passed [] = s"
| "clip_loop cap s seen split_at passed (ch # rest) =
     (let split_at = (if seen = cap - 3 then passed else split_at)
      in if seen + 1 > cap then split_at @ ''...''
         else clip_loop cap s (seen + 1)
                (if seen + 1 = cap then passed @ ch else split_at) (passed @ ch) rest)"

definition clip :: "string \<Rightarrow> nat \<Rightarrow> string" where
  "clip s cap =
     (if length s \<le> cap \<and> is_ascii s then s else clip_loop cap s 0 [] [] (chars s))"

section \<open>The texts of a result\<close>

definition text_fields :: "'j json_ops \<Rightarrow> string list \<Rightarrow> 'j \<Rightarrow> string list" where
  "text_fields js keys v = List.map_filter (\<lambda>key. Option.bind (js_get js v key) (js_as_str js)) keys"

definition iter_text_sources :: "'j json_ops \<Rightarrow> 'j action_result \<Rightarrow> string list" where
  "iter_text_sources js r =
     (case ar_tool_output r of
        None \<Rightarrow> []
      | Some v \<Rightarrow>
          (case js_as_str js v of
             Some s \<Rightarrow> [s]
           | None \<Rightarrow>
               if js_is_object js v then
                 (let out = text_fields js
                        [''stdout'', ''stderr'', ''output'', ''message'', ''text'', ''content''] v
                  in if out = [] then [js_to_string js v] else out)
               else [js_to_string js v])) @
     (case ar_status r of ActionFailed reason \<Rightarrow> [reason] | _ \<Rightarrow> [])"

fun exit_code_under :: "'j json_values \<Rightarrow> 'j \<Rightarrow> string list \<Rightarrow> int option" where
  "exit_code_under jv output [] = None"
| "exit_code_under jv output (key # keys) =
     (case Option.bind (js_get (jv_ops jv) output key) (jv_as_i64 jv) of
        Some n \<Rightarrow> if - (2 ^ 31) \<le> n \<and> n < 2 ^ 31 then Some n else None
      | None \<Rightarrow> exit_code_under jv output keys)"

definition extract_exit_code :: "'j json_values \<Rightarrow> 'j \<Rightarrow> int option" where
  "extract_exit_code jv output =
     exit_code_under jv output
       [''exit_code'', ''exitCode'', ''returncode'', ''return_code'', ''status'']"

section \<open>The accumulator\<close>

record verification_accumulator =
  va_warnings :: "string list"
  va_errors :: "string list"
  va_commands :: "command_outcome list"
  va_tool_results_scanned :: nat

definition accumulator_new :: verification_accumulator where
  "accumulator_new =
     \<lparr>va_warnings = [], va_errors = [], va_commands = [], va_tool_results_scanned = 0\<rparr>"

definition buckets_full :: "verification_accumulator \<Rightarrow> bool" where
  "buckets_full acc \<longleftrightarrow>
     max_entries_per_bucket \<le> length (va_warnings acc) \<and>
     max_entries_per_bucket \<le> length (va_errors acc)"

definition scan_line :: "string \<Rightarrow> verification_accumulator \<Rightarrow> verification_accumulator" where
  "scan_line raw acc =
     (let line = trim_start raw
      in if is_warning_line line \<and> length (va_warnings acc) < max_entries_per_bucket then
           acc\<lparr>va_warnings := va_warnings acc @ [clip line max_line_len]\<rparr>
         else if is_error_line line \<and> length (va_errors acc) < max_entries_per_bucket then
           acc\<lparr>va_errors := va_errors acc @ [clip line max_line_len]\<rparr>
         else acc)"

fun scan_lines :: "string list \<Rightarrow> verification_accumulator \<Rightarrow> verification_accumulator" where
  "scan_lines [] acc = acc"
| "scan_lines (l # ls) acc = (if buckets_full acc then acc else scan_lines ls (scan_line l acc))"

definition scan_text :: "string \<Rightarrow> verification_accumulator \<Rightarrow> verification_accumulator" where
  "scan_text text acc = scan_lines (text_lines text) acc"

fun scan_sources :: "string list \<Rightarrow> verification_accumulator \<Rightarrow> verification_accumulator" where
  "scan_sources [] acc = acc"
| "scan_sources (src # srcs) acc =
     (if buckets_full acc then acc else scan_sources srcs (scan_text src acc))"

definition command_of :: "'j json_values \<Rightarrow> 'j action_result \<Rightarrow> string \<Rightarrow> command_outcome" where
  "command_of jv r tool_name =
     \<lparr>co_tool_name = tool_name,
      co_cmd =
        (case Option.bind (Option.bind (act_tool_args (ar_proposal r))
                (\<lambda>v. js_get (jv_ops jv) v ''command'')) (js_as_str (jv_ops jv)) of
           None \<Rightarrow> [] | Some s \<Rightarrow> clip s max_line_len),
      co_exit_code = Option.bind (ar_tool_output r) (extract_exit_code jv)\<rparr>"

definition observe :: "'j json_values \<Rightarrow> 'j action_result \<Rightarrow> verification_accumulator \<Rightarrow>
    verification_accumulator" where
  "observe jv r acc =
     (if act_type (ar_proposal r) \<noteq> InvokeTool then acc
      else
        let acc = acc\<lparr>va_tool_results_scanned := va_tool_results_scanned acc + 1\<rparr>;
            tool_name = (case act_tool_name (ar_proposal r) of None \<Rightarrow> ''<unknown>'' | Some t \<Rightarrow> t);
            acc = (if is_bash_tool tool_name
                   then acc\<lparr>va_commands := va_commands acc @ [command_of jv r tool_name]\<rparr>
                   else acc)
        in scan_sources (iter_text_sources (jv_ops jv) r) acc)"

definition finish :: "verification_accumulator \<Rightarrow> completion_verification" where
  "finish acc =
     \<lparr>cv_warnings = va_warnings acc, cv_errors = va_errors acc, cv_commands = va_commands acc,
      cv_tool_results_scanned = va_tool_results_scanned acc,
      cv_extractor_version = extractor_version\<rparr>"

definition extract_verification :: "'j json_values \<Rightarrow> 'j action_result list \<Rightarrow>
    completion_verification" where
  "extract_verification jv results = finish (fold (observe jv) results accumulator_new)"

section \<open>Clipping\<close>

lemma clip_loop_eq:
  assumes "3 \<le> cap"
  shows "chars s = ps @ rest \<Longrightarrow> length ps \<le> cap \<Longrightarrow>
    (length ps = cap \<longrightarrow> split_at = concat ps) \<Longrightarrow>
    clip_loop cap s (length ps) split_at (concat ps) rest =
      (if char_count s \<le> cap then s else take_chars cap s @ ''...'')"
proof (induction rest arbitrary: ps split_at)
  case Nil
  then show ?case by (simp add: char_count_def)
next
  case (Cons ch rest)
  show ?case
  proof (cases "length ps < cap")
    case True
    then show ?thesis using Cons.IH [of "ps @ [ch]"] Cons.prems by (auto simp: Let_def)
  next
    case False
    then have "length ps = cap" using Cons.prems by simp
    moreover from this have "char_count s > cap" "take_chars cap s = concat ps"
      using Cons.prems(1) by (simp_all add: char_count_def take_chars_def)
    ultimately show ?thesis using Cons.prems(3) assms by (simp add: Let_def)
  qed
qed

lemma clip_eq:
  assumes "3 \<le> cap"
  shows "clip s cap = (if char_count s \<le> cap then s else take_chars cap s @ ''...'')"
proof (cases "length s \<le> cap \<and> is_ascii s")
  case True
  then show ?thesis using char_count_le [of s] by (simp add: clip_def)
next
  case False
  then show ?thesis using clip_loop_eq [OF assms, of s "[]" "chars s" "[]"] assms by (auto simp: clip_def)
qed

text \<open>
  The lines of a report can be longer than its limit. The line limit is 500 characters and the
  marker counts towards it, yet a longer line is kept with 500 characters and the marker, 503 in
  all; a line within the limit is kept as it is.
\<close>

theorem clipped_line_exceeds_limit:
  "clip line max_line_len =
     (if char_count line \<le> max_line_len then line else take_chars max_line_len line @ ''...'') \<and>
   char_count (clip line max_line_len) =
     (if char_count line \<le> max_line_len then char_count line else max_line_len + 3)"
proof -
  have "char_count (take_chars max_line_len line @ ''...'') = max_line_len + 3"
    if "max_line_len < char_count line"
    using that by (subst char_count_append_ascii) (simp_all add: is_ascii_def)
  then show ?thesis by (simp add: clip_eq max_line_len_def)
qed

section \<open>The first lines of each kind\<close>

definition result_lines :: "'j json_values \<Rightarrow> 'j action_result list \<Rightarrow> string list" where
  "result_lines jv rs =
     map trim_start (concat (map text_lines (concat (map (iter_text_sources (jv_ops jv))
       (filter (\<lambda>r. act_type (ar_proposal r) = InvokeTool) rs)))))"

text \<open>The first \<open>n\<close> lines of a kind, clipped.\<close>

definition first_lines :: "(string \<Rightarrow> bool) \<Rightarrow> string list \<Rightarrow> string list" where
  "first_lines kind ls =
     take max_entries_per_bucket (map (\<lambda>l. clip l max_line_len) (filter kind ls))"

definition holds_lines :: "verification_accumulator \<Rightarrow> string list \<Rightarrow> bool" where
  "holds_lines acc ls \<longleftrightarrow>
     va_warnings acc = first_lines is_warning_line ls \<and> va_errors acc = first_lines is_error_line ls"

lemma warning_not_error: "is_warning_line l \<Longrightarrow> \<not> is_error_line l"
  by (cases l) (auto simp: is_warning_line_def is_error_line_def ascii_prefix_ci_def
      eq_ignore_ascii_case_def ascii_lower_def Let_def)

lemma first_lines_snoc:
  "first_lines kind (ls @ [l]) =
     (if kind l \<and> length (first_lines kind ls) < max_entries_per_bucket
      then first_lines kind ls @ [clip l max_line_len] else first_lines kind ls)"
  by (auto simp: first_lines_def min_def)

lemma first_lines_full:
  "max_entries_per_bucket \<le> length (first_lines kind ls) \<Longrightarrow>
     first_lines kind (ls @ later) = first_lines kind ls"
  by (simp add: first_lines_def)

lemma holds_full:
  "holds_lines acc ls \<Longrightarrow> buckets_full acc \<Longrightarrow> holds_lines acc (ls @ later)"
  by (simp add: holds_lines_def buckets_full_def first_lines_full)

lemma holds_scan_line:
  "holds_lines acc ls \<Longrightarrow> holds_lines (scan_line raw acc) (ls @ [trim_start raw])"
  using warning_not_error by (auto simp: holds_lines_def scan_line_def Let_def first_lines_snoc)

lemma holds_scan_lines:
  "holds_lines acc ls \<Longrightarrow> holds_lines (scan_lines raws acc) (ls @ map trim_start raws)"
proof (induction raws arbitrary: acc ls)
  case (Cons raw raws)
  then show ?case
    using Cons.IH [OF holds_scan_line [OF Cons.prems]] holds_full [OF Cons.prems] by simp
qed simp

lemma holds_scan_sources:
  "holds_lines acc ls \<Longrightarrow>
     holds_lines (scan_sources srcs acc) (ls @ map trim_start (concat (map text_lines srcs)))"
proof (induction srcs arbitrary: acc ls)
  case (Cons src srcs)
  then show ?case
    using Cons.IH [OF holds_scan_lines [OF Cons.prems, of "text_lines src"]] holds_full [OF Cons.prems]
    by (simp add: scan_text_def)
qed simp

lemma scan_keeps [simp]:
  "va_commands (scan_sources srcs acc) = va_commands acc"
  "va_tool_results_scanned (scan_sources srcs acc) = va_tool_results_scanned acc"
proof -
  have line: "va_commands (scan_line l a) = va_commands a \<and>
      va_tool_results_scanned (scan_line l a) = va_tool_results_scanned a" for l a
    by (simp add: scan_line_def Let_def)
  have "va_commands (scan_lines ls a) = va_commands a \<and>
      va_tool_results_scanned (scan_lines ls a) = va_tool_results_scanned a" for ls a
    by (induction ls arbitrary: a) (simp_all add: line)
  then have "va_commands (scan_sources srcs acc) = va_commands acc \<and>
      va_tool_results_scanned (scan_sources srcs acc) = va_tool_results_scanned acc"
    by (induction srcs arbitrary: acc) (simp_all add: scan_text_def)
  then show "va_commands (scan_sources srcs acc) = va_commands acc"
    "va_tool_results_scanned (scan_sources srcs acc) = va_tool_results_scanned acc" by auto
qed

lemma holds_observe:
  assumes "holds_lines acc (result_lines jv rs)"
  shows "holds_lines (observe jv r acc) (result_lines jv (rs @ [r]))"
proof (cases "act_type (ar_proposal r) = InvokeTool")
  case True
  have "holds_lines (acc\<lparr>va_tool_results_scanned := n, va_commands := cs\<rparr>) (result_lines jv rs)"
    "holds_lines (acc\<lparr>va_tool_results_scanned := n\<rparr>) (result_lines jv rs)" for n cs
    using assms by (simp_all add: holds_lines_def)
  from this [THEN holds_scan_sources] show ?thesis
    using True by (simp add: observe_def Let_def result_lines_def)
next
  case False
  then show ?thesis using assms by (simp add: observe_def result_lines_def)
qed

lemma holds_fold:
  "holds_lines acc (result_lines jv rs) \<Longrightarrow>
     holds_lines (fold (observe jv) later acc) (result_lines jv (rs @ later))"
proof (induction later arbitrary: acc rs)
  case (Cons r later)
  then show ?case using Cons.IH [OF holds_observe [OF Cons.prems, of r]] by simp
qed simp

lemma scanned_fold:
  "va_tool_results_scanned (fold (observe jv) rs acc) =
     va_tool_results_scanned acc +
     length (filter (\<lambda>r. act_type (ar_proposal r) = InvokeTool) rs)"
  by (induction rs arbitrary: acc) (simp_all add: observe_def Let_def)

text \<open>
  C37: The report of a run holds the first fifty warning lines and the first fifty error lines of
  all tool results, in order and clipped, whatever the scan skips once both buckets are full; no
  line is in both, and the number of scanned results is that of the tool calls.
\<close>

theorem verification_reports_first_lines:
  "cv_warnings (extract_verification jv rs) = first_lines is_warning_line (result_lines jv rs) \<and>
   cv_errors (extract_verification jv rs) = first_lines is_error_line (result_lines jv rs) \<and>
   cv_tool_results_scanned (extract_verification jv rs) =
     length (filter (\<lambda>r. act_type (ar_proposal r) = InvokeTool) rs) \<and>
   (\<forall>l. \<not> (is_warning_line l \<and> is_error_line l))"
proof -
  have "holds_lines accumulator_new (result_lines jv [])"
    by (simp add: holds_lines_def accumulator_new_def first_lines_def result_lines_def)
  from holds_fold [OF this, of rs] show ?thesis
    using warning_not_error scanned_fold [of jv rs accumulator_new]
    by (auto simp: extract_verification_def finish_def holds_lines_def accumulator_new_def)
qed

end
