(* ===== verification/Step_History.thy ===== *)
theory Step_History
  imports Completion_Verification
begin

text \<open>
  The history of steps the next prompt is built from
  (\<open>crates/cairn-orchestrator/src/loop_runner.rs\<close>): previews of tool outputs, the summary of a
  step, the compaction of old steps, and what the loop reads out of a response.
\<close>

section \<open>Previews\<close>

text \<open>The loop of \<open>truncate_for_summary\<close>: head, ring buffer of the tail, and count.\<close>

fun summary_loop :: "nat \<Rightarrow> nat \<Rightarrow> nat \<Rightarrow> string list \<Rightarrow> string list \<Rightarrow> string list \<Rightarrow>
    string list \<times> string list \<times> nat" where
  "summary_loop head_cap tail_cap seen head_part tail_buf [] = (head_part, tail_buf, seen)"
| "summary_loop head_cap tail_cap i head_part tail_buf (c # cs) =
     (if i < head_cap then summary_loop head_cap tail_cap (i + 1) (head_part @ [c]) tail_buf cs
      else if 0 < tail_cap then
        summary_loop head_cap tail_cap (i + 1) head_part
          ((if length tail_buf = tail_cap then tl tail_buf else tail_buf) @ [c]) cs
      else summary_loop head_cap tail_cap (i + 1) head_part tail_buf cs)"

definition truncate_for_summary :: "string \<Rightarrow> nat \<Rightarrow> string" where
  "truncate_for_summary text max_chars =
     (if length text \<le> max_chars then text
      else
        let head_cap = max_chars div 2; tail_cap = max_chars - head_cap;
            (head_part, tail_buf, seen) = summary_loop head_cap tail_cap 0 [] [] (chars text)
        in if seen \<le> max_chars then concat head_part @ concat tail_buf
           else concat head_part @ ellipsis @ '' ['' @ show_nat (seen - (head_cap + tail_cap)) @
                '' chars omitted] '' @ ellipsis @ concat tail_buf)"

definition tail_of :: "string \<Rightarrow> nat \<Rightarrow> string" where
  "tail_of text max_chars =
     (if length text \<le> max_chars then text
      else
        let kept = last_chars max_chars text
        in if length kept = length text then text
           else ''[truncated '' @ ellipsis @ ''] '' @ ellipsis @ kept)"

definition show_int :: "int \<Rightarrow> string" where
  "show_int n = (if n < 0 then ''-'' @ show_nat (nat (- n)) else show_nat (nat n))"

definition text_under :: "'j json_ops \<Rightarrow> string \<Rightarrow> 'j \<Rightarrow> string" where
  "text_under js key v =
     (case Option.bind (js_get js v key) (js_as_str js) of None \<Rightarrow> [] | Some s \<Rightarrow> s)"

definition newline :: string where
  "newline = [CHR 0x0A]"

definition render_bash_preview :: "'j json_values \<Rightarrow> 'j \<Rightarrow> string" where
  "render_bash_preview jv output =
     (let out = text_under (jv_ops jv) ''stdout'' output;
          err = text_under (jv_ops jv) ''stderr'' output
      in ''exit_code: '' @
         (case extract_exit_code jv output of None \<Rightarrow> ''?'' | Some n \<Rightarrow> show_int n) @
         (if out = [] then [] else newline @ ''stdout(tail):'' @ newline @ tail_of out 1536) @
         (if err = [] then [] else newline @ ''stderr(tail):'' @ newline @ tail_of err 512))"

definition render_tool_output_preview :: "'j json_values \<Rightarrow> string \<Rightarrow> 'j \<Rightarrow> string" where
  "render_tool_output_preview jv tool_name output =
     (if is_bash_tool tool_name \<and> js_is_object (jv_ops jv) output
      then render_bash_preview jv output
      else truncate_for_summary (js_to_string (jv_ops jv) output) 400)"

section \<open>Summaries\<close>

definition result_line :: "'j json_values \<Rightarrow> 'j action_result \<Rightarrow> string" where
  "result_line jv r =
     (if act_type (ar_proposal r) \<noteq> InvokeTool then []
      else
        let tool_name = (case act_tool_name (ar_proposal r) of None \<Rightarrow> ''<unknown>'' | Some t \<Rightarrow> t)
        in (case ar_status r of
              ActionFailed reason \<Rightarrow>
                newline @ ''  tool_result['' @ tool_name @ ''] ERROR: '' @ truncate_for_summary reason 400
            | Succeeded \<Rightarrow>
                (case ar_tool_output r of
                   None \<Rightarrow> []
                 | Some output \<Rightarrow>
                     newline @ ''  tool_result['' @ tool_name @ ''] ok: '' @
                     render_tool_output_preview jv tool_name output)
            | _ \<Rightarrow> []))"

definition build_step_summary :: "'j json_values \<Rightarrow> orchestration_context \<Rightarrow> 'j decide_output \<Rightarrow>
    'j execute_outcome \<Rightarrow> step_summary" where
  "build_step_summary jv ctx d x =
     \<lparr>ss_iteration = oc_iteration ctx,
      ss_action_kind =
        (case do_proposals d of [] \<Rightarrow> ''no_op'' | p # _ \<Rightarrow> action_type_name (act_type p)),
      ss_summary =
        (case do_proposals d of
           [] \<Rightarrow> ''iteration '' @ show_nat (oc_iteration ctx) @ '' complete''
         | p # _ \<Rightarrow> act_description p) @
        concat (map (result_line jv) (eo_results x)),
      ss_succeeded = (case eo_loop_signal x of LoopFailed _ \<Rightarrow> False | _ \<Rightarrow> True)\<rparr>"

text \<open>The summaries of calls drained before an iteration.\<close>

definition drained_summary :: "'j json_values \<Rightarrow> u32 \<Rightarrow> string \<Rightarrow> 'j action_result \<Rightarrow> step_summary"
  where
  "drained_summary jv iteration tool_name r =
     (let header = ''drained approved: '' @ tool_name
      in \<lparr>ss_iteration = iteration, ss_action_kind = ''invoke_tool'',
          ss_summary =
            (case ar_status r of
               Succeeded \<Rightarrow>
                 (case ar_tool_output r of
                    Some output \<Rightarrow>
                      header @ newline @ ''  tool_result['' @ tool_name @ ''] ok: '' @
                      render_tool_output_preview jv tool_name output
                  | None \<Rightarrow> header)
             | ActionFailed reason \<Rightarrow>
                 header @ newline @ ''  tool_result['' @ tool_name @ ''] ERROR: '' @
                 truncate_for_summary reason 400
             | _ \<Rightarrow> header),
          ss_succeeded = (ar_status r = Succeeded)\<rparr>)"

definition rejected_summary :: "u32 \<Rightarrow> 'j rejected_proposal \<Rightarrow> step_summary" where
  "rejected_summary iteration rj =
     (let preview = truncate_for_summary
            (case rj_reason rj of
               None \<Rightarrow> ''operator rejected tool call (no reason provided)'' | Some t \<Rightarrow> t) 400
      in \<lparr>ss_iteration = iteration, ss_action_kind = ''invoke_tool'',
          ss_summary = ''drained rejected: '' @ rj_tool_name rj @ newline @ ''  tool_result['' @
            rj_tool_name rj @ ''] REJECTED: '' @ preview,
          ss_succeeded = True\<rparr>)"

section \<open>Compaction\<close>

record compaction_result =
  cr_before_steps :: nat
  cr_after_steps :: nat
  cr_before_tokens_est :: nat
  cr_after_tokens_est :: nat

definition history_text :: "step_summary list \<Rightarrow> string" where
  "history_text steps = join_with newline
     (map (\<lambda>s. ''[iter '' @ show_nat (ss_iteration s) @ ''] '' @ ss_action_kind s @ '': '' @
               ss_summary s) steps)"

definition compacted_step :: "step_summary list \<Rightarrow> step_summary" where
  "compacted_step old =
     \<lparr>ss_iteration = ss_iteration (last old), ss_action_kind = ''compacted_summary'',
      ss_summary = ''Compacted '' @ show_nat (length old) @ '' prior steps:'' @ newline @
        join_with newline
          (map (\<lambda>s. ''  iter '' @ show_nat (ss_iteration s) @ '': '' @ ss_action_kind s @ '' ['' @
                    (if ss_succeeded s then ''ok'' else ''fail'') @ '']'') old),
      ss_succeeded = True\<rparr>"

definition context_budget :: nat where "context_budget = 16384"

definition maybe_compact_history :: "step_summary list \<Rightarrow> u32 \<Rightarrow> compaction_config \<Rightarrow> u32 option \<Rightarrow>
    compaction_result option \<times> step_summary list \<times> u32 option" where
  "maybe_compact_history steps iteration cfg last_at =
     (let unchanged = (None, steps, last_at)
      in if \<not> cc_enabled cfg \<or> length steps < cc_min_steps cfg then unchanged
         else if (case last_at of
                    None \<Rightarrow> False
                  | Some l \<Rightarrow> 0 < cc_cooldown_iterations cfg \<and>
                      iteration - l < cc_cooldown_iterations cfg) then unchanged
         else
           let tokens = estimate_tokens (history_text steps)
           in if tokens \<le> context_budget * cc_threshold_pct cfg div 100 then unchanged
              else
                let to_compact = length steps - cc_keep_last cfg
                in if to_compact = 0 then unchanged
                   else
                     let steps' = compacted_step (take to_compact steps) # drop to_compact steps
                     in (Some \<lparr>cr_before_steps = length steps, cr_after_steps = length steps',
                               cr_before_tokens_est = tokens,
                               cr_after_tokens_est =
                                 sum_list (map (\<lambda>s. estimate_tokens (ss_summary s)) steps')\<rparr>,
                         steps', Some iteration))"

section \<open>Reading a response\<close>

definition extract_tool_search_discoveries :: "'j json_ops \<Rightarrow> 'j execute_outcome \<Rightarrow> string list"
  where
  "extract_tool_search_discoveries js x =
     concat (map (\<lambda>r.
       if act_tool_name (ar_proposal r) \<noteq> Some ''tool_search'' then []
       else (case Option.bind (Option.bind (ar_tool_output r) (\<lambda>v. js_get js v ''matches''))
                 (js_as_array js) of
               None \<Rightarrow> []
             | Some matches \<Rightarrow>
                 List.map_filter (\<lambda>m. Option.bind (js_get js m ''name'') (js_as_str js)) matches))
       (eo_results x))"

definition extract_proposed_plan :: "string \<Rightarrow> string option" where
  "extract_proposed_plan response =
     (case find_sub ''<proposed_plan>'' response of
        None \<Rightarrow> None
      | Some start \<Rightarrow>
          let content = drop (start + length ''<proposed_plan>'') response
          in (case find_sub ''</proposed_plan>'' content of
                None \<Rightarrow> None
              | Some end_at \<Rightarrow>
                  let plan = trim (take end_at content)
                  in if plan = [] then None else Some plan))"

definition add_discovered :: "string list \<Rightarrow> string list \<Rightarrow> string list" where
  "add_discovered names known =
     fold (\<lambda>n known. if n \<in> set known then known else known @ [n]) names known"

end
