(* ===== verification/Execute_Phase.thy ===== *)
theory Execute_Phase
  imports Step_History
begin

text \<open>
  The execute phase (\<open>crates/cairn-orchestrator/src/execute_impl.rs\<close>, \<open>approval_policy.rs\<close>). The
  services, the tools and the clock are trait objects in the code; here they are the fields of
  one record of functions on a world of any type. The cache of tool results and the counter of
  calls belong to the phase. The list of tool runs is what an observer of the tools sees; no
  definition reads it.
\<close>

section \<open>The services of the phase\<close>

record 'j tool_handler =
  th_effect :: tool_effect
  th_retry_safety :: retry_safety
  th_normalize :: "'j \<Rightarrow> string"

record tool_context =
  tx_session_id :: "ident option"
  tx_run_id :: "ident option"
  tx_working_dir :: string

record ('j, 'w) execute_ports =
  xp_json :: "'j json_values"
  xp_hash :: "string \<times> u32 \<times> u32 \<times> string \<times> string \<Rightarrow> string"
  xp_error_text :: "runtime_error \<Rightarrow> string"
  xp_now :: "'w \<Rightarrow> u64 \<times> 'w"
  xp_instant :: "'w \<Rightarrow> u64 \<times> 'w"
  xp_fresh :: "'w \<Rightarrow> (u64 \<times> u64) \<times> 'w"
  xp_handlers :: "(string \<Rightarrow> 'j tool_handler option) option"
  xp_default_normalize :: "'j \<Rightarrow> string"
  xp_run_tool :: "string \<Rightarrow> project_key \<Rightarrow> 'j \<Rightarrow> tool_context \<Rightarrow> 'w \<Rightarrow>
    ((string + 'j) \<times> 'j runtime_event list) \<times> 'w"
  xp_record_start :: "project_key \<Rightarrow> ident \<Rightarrow> ident option \<Rightarrow> ident option \<Rightarrow> ident option \<Rightarrow>
    tool_invocation_target \<Rightarrow> execution_class \<Rightarrow> 'w \<Rightarrow> unit reply \<times> 'w"
  xp_record_completed :: "project_key \<Rightarrow> ident \<Rightarrow> ident option \<Rightarrow> string \<Rightarrow> 'j runtime_event list \<Rightarrow>
    string option \<Rightarrow> 'j option \<Rightarrow> 'w \<Rightarrow> unit reply \<times> 'w"
  xp_record_failed :: "project_key \<Rightarrow> ident \<Rightarrow> ident option \<Rightarrow> string \<Rightarrow>
    tool_invocation_outcome_kind \<Rightarrow> string option \<Rightarrow> 'w \<Rightarrow> unit reply \<times> 'w"
  xp_append_audit :: "'j runtime_event list \<Rightarrow> 'w \<Rightarrow> unit reply \<times> 'w"
  xp_evaluate :: "('j decision_request \<Rightarrow> 'w \<Rightarrow> 'j decision_result reply \<times> 'w) option"
  xp_approvals :: "(('j tool_call_proposal \<Rightarrow> 'w \<Rightarrow> submit_decision reply \<times> 'w) \<times>
    (ident \<Rightarrow> 'w \<Rightarrow> 'j approved_proposal reply)) option"
  xp_request_approval :: "project_key \<Rightarrow> ident \<Rightarrow> ident option \<Rightarrow> ident option \<Rightarrow>
    approval_requirement \<Rightarrow> string option \<Rightarrow> string option \<Rightarrow> 'w \<Rightarrow> unit reply \<times> 'w"
  xp_save_checkpoint :: "project_key \<Rightarrow> ident \<Rightarrow> ident \<Rightarrow> 'w \<Rightarrow> unit reply \<times> 'w"
  xp_spawn_subagent :: "project_key \<Rightarrow> ident \<Rightarrow> ident option \<Rightarrow> ident \<Rightarrow> ident \<Rightarrow> ident option \<Rightarrow>
    'w \<Rightarrow> unit reply \<times> 'w"
  xp_send :: "project_key \<Rightarrow> ident \<Rightarrow> ident \<Rightarrow> string \<Rightarrow> 'w \<Rightarrow> unit reply \<times> 'w"
  xp_complete :: "ident \<Rightarrow> ident \<Rightarrow> 'w \<Rightarrow> unit reply \<times> 'w"
  xp_checkpoint_every :: u32
  xp_token_limit :: nat

record 'j tool_run =
  rn_call_id :: "string option"
  rn_tool_name :: string
  rn_args :: 'j
  rn_succeeded :: bool

record ('j, 'w) exec_state =
  xs_cache :: "'j tool_result_cache option"
  xs_call_count :: u32
  xs_runs :: "'j tool_run list"
  xs_world :: 'w

definition in_world :: "('w \<Rightarrow> 'a \<times> 'w) \<Rightarrow> ('j, 'w) exec_state \<Rightarrow> 'a \<times> ('j, 'w) exec_state" where
  "in_world f s = (let (a, w) = f (xs_world s) in (a, s\<lparr>xs_world := w\<rparr>))"

text \<open>The call of a service with \<open>?\<close> after \<open>map_err(OrchestratorError::Runtime)\<close>.\<close>

definition ask :: "('w \<Rightarrow> 'a reply \<times> 'w) \<Rightarrow> ('j, 'w) exec_state \<Rightarrow> 'a phase \<times> ('j, 'w) exec_state"
  where
  "ask f s = (let (r, s) = in_world f s in (phase_of r, s))"

definition new_id :: "('j, 'w) execute_ports \<Rightarrow> string \<Rightarrow> ('j, 'w) exec_state \<Rightarrow>
    ident \<times> ('j, 'w) exec_state" where
  "new_id xp p s =
     (let ((ts, n), s) = in_world (xp_fresh xp) s
      in (p @ ''_'' @ show_nat ts @ ''_'' @ show_nat n, s))"

definition act_result :: "'j action_proposal \<Rightarrow> action_status \<Rightarrow> 'j option \<Rightarrow> ident option \<Rightarrow>
    'j action_result" where
  "act_result p st output inv_id =
     \<lparr>ar_proposal = p, ar_status = st, ar_tool_output = output, ar_invocation_id = inv_id,
      ar_duration_ms = 0\<rparr>"

section \<open>The match policy of a proposal\<close>

fun component_text :: "path_component \<Rightarrow> string" where
  "component_text RootDir = []"
| "component_text CurDir = ''.''"
| "component_text ParentDir = ''..''"
| "component_text (Normal s) = s"

definition path_text :: "path_component list \<Rightarrow> string" where
  "path_text p =
     (case p of
        RootDir # rest \<Rightarrow> ''/'' @ join_with ''/'' (map component_text rest)
      | _ \<Rightarrow> join_with ''/'' (map component_text p))"

definition rooted :: "path_component list \<Rightarrow> bool" where
  "rooted p \<longleftrightarrow> (case p of RootDir # _ \<Rightarrow> True | _ \<Rightarrow> False)"

definition derive_match_policy :: "'j json_ops \<Rightarrow> tool_effect \<Rightarrow> 'j \<Rightarrow> string option \<Rightarrow>
    approval_match_policy" where
  "derive_match_policy js effect tool_args project_root =
     (if effect \<noteq> Observational then Exact
      else (case extract_path_arg js tool_args of
              None \<Rightarrow> Exact
            | Some path \<Rightarrow>
                let candidate = canonicalise path;
                    otherwise = (if rooted candidate then ExactPath (path_text candidate) else Exact)
                in (case project_root of
                      None \<Rightarrow> otherwise
                    | Some root \<Rightarrow>
                        let root = canonicalise root
                        in if rooted root \<and> is_under candidate root
                           then ProjectScopedPath (path_text root) else otherwise)))"

section \<open>Texts and arguments\<close>

definition unrecoverable_internal_prefix :: string where
  "unrecoverable_internal_prefix = ''internal_unrecoverable: ''"

definition dash :: string where
  "dash = bytes [226, 128, 148]"

definition tool_args_with_working_dir :: "'j json_values \<Rightarrow> string \<Rightarrow> string \<Rightarrow> 'j option \<Rightarrow> 'j" where
  "tool_args_with_working_dir jv tool_name working_dir args =
     (let js = jv_ops jv; v = or_null jv args
      in if tool_name \<noteq> ''bash'' then v
         else if js_is_object js v then
           (if js_get js v ''working_dir'' = None
            then jv_insert jv ''working_dir'' (js_string js working_dir) v else v)
         else if js_is_null js v then js_object js [(''working_dir'', js_string js working_dir)]
         else v)"

definition truncate_text_for_context :: "string \<Rightarrow> nat \<Rightarrow> string" where
  "truncate_text_for_context text token_limit =
     (if estimate_tokens text \<le> token_limit then text
      else
        let n = char_count text; keep = min n (max (token_limit * 4) 16);
            head = keep div 2; tail = keep - head; omitted = n - (head + tail)
        in take_chars head text @ ''... [truncated: '' @ show_nat omitted @ '' chars omitted] ...'' @
           last_chars tail text)"

fun truncate_field :: "'j json_values \<Rightarrow> nat \<Rightarrow> string list \<Rightarrow> 'j \<Rightarrow> 'j option" where
  "truncate_field jv limit [] v = None"
| "truncate_field jv limit (key # keys) v =
     (case Option.bind (js_get (jv_ops jv) v key) (js_as_str (jv_ops jv)) of
        Some text \<Rightarrow>
          Some (jv_insert jv key (js_string (jv_ops jv) (truncate_text_for_context text limit)) v)
      | None \<Rightarrow> truncate_field jv limit keys v)"

definition truncate_tool_output_for_context :: "'j json_values \<Rightarrow> nat \<Rightarrow> 'j \<Rightarrow> 'j" where
  "truncate_tool_output_for_context jv limit output =
     (let js = jv_ops jv; serialized = js_to_string js output;
          whole = js_string js (truncate_text_for_context serialized limit)
      in if estimate_tokens serialized \<le> limit then output
         else (case js_as_str js output of
                 Some text \<Rightarrow> js_string js (truncate_text_for_context text limit)
               | None \<Rightarrow>
                   if js_is_object js output then
                     (case truncate_field jv limit
                          [''stdout'', ''stderr'', ''output'', ''text'', ''result'', ''content''] output of
                        Some v \<Rightarrow> v
                      | None \<Rightarrow> whole)
                   else whole))"

definition build_display_summary :: "'j action_proposal \<Rightarrow> string \<Rightarrow> string" where
  "build_display_summary p tool_name =
     (let desc = trim (act_description p)
      in if desc = [] then ''invoke '' @ tool_name else tool_name @ '': '' @ desc)"

text \<open>What an operator reads: the run, its goal, the proposal, the tool and its arguments.\<close>

definition args_text :: "'j json_values \<Rightarrow> 'j option \<Rightarrow> string" where
  "args_text jv args =
     (case args of
        None \<Rightarrow> []
      | Some a \<Rightarrow>
          let t = jv_pretty jv a
          in if length t \<le> 4000 then
               newline @ ''**Args:**'' @ newline @ ''```json'' @ newline @ t @ newline @ ''```''
             else
               newline @ ''**Args (truncated, 4000 chars of '' @ show_nat (length t) @ ''):**'' @
               newline @ ''```json'' @ newline @ take_chars 4000 t @ newline @ ellipsis @
               '' [truncated]'' @ newline @ ''```'')"

definition approval_text :: "'j json_values \<Rightarrow> orchestration_context \<Rightarrow> 'j action_proposal \<Rightarrow>
    string option \<Rightarrow> string" where
  "approval_text jv ctx p tool =
     ''**Run:** `'' @ oc_run_id ctx @ ''`'' @ newline @ ''**Goal:** '' @ oc_goal ctx @ newline @
     newline @ ''**Agent says:**'' @ newline @ act_description p @
     (case tool of None \<Rightarrow> [] | Some t \<Rightarrow> newline @ newline @ ''**Tool:** `'' @ t @ ''`'') @
     args_text jv (act_tool_args p)"

section \<open>Dispatching a tool\<close>

definition handler_for :: "('j, 'w) execute_ports \<Rightarrow> string \<Rightarrow> 'j tool_handler option" where
  "handler_for xp tool = Option.bind (xp_handlers xp) (\<lambda>reg. reg tool)"

definition effect_of :: "('j, 'w) execute_ports \<Rightarrow> string \<Rightarrow> tool_effect" where
  "effect_of xp tool = (case handler_for xp tool of None \<Rightarrow> External | Some h \<Rightarrow> th_effect h)"

definition call_id_of :: "('j, 'w) execute_ports \<Rightarrow> orchestration_context \<Rightarrow> u32 \<Rightarrow> string \<Rightarrow> string \<Rightarrow>
    string" where
  "call_id_of xp ctx call_index tool normalized =
     derive_tool_call_id (xp_hash xp) (oc_run_id ctx) (oc_iteration ctx) call_index tool normalized"

definition tool_ctx :: "orchestration_context \<Rightarrow> tool_context" where
  "tool_ctx ctx =
     \<lparr>tx_session_id = Some (oc_session_id ctx), tx_run_id = Some (oc_run_id ctx),
      tx_working_dir = oc_working_dir ctx\<rparr>"

text \<open>The reason the decision service denied the call with; its errors let the call through.\<close>

definition denied :: "('j, 'w) execute_ports \<Rightarrow> orchestration_context \<Rightarrow> 'j action_proposal \<Rightarrow> string \<Rightarrow>
    ('j, 'w) exec_state \<Rightarrow> string option phase \<times> ('j, 'w) exec_state" where
  "denied xp ctx p tool s =
     (case xp_evaluate xp of
        None \<Rightarrow> (Fine None, s)
      | Some decide \<Rightarrow>
          let (now, s) = in_world (xp_now xp) s;
              (r, s) = in_world (decide
                \<lparr>rq_kind = ToolInvocationKind tool (effect_of xp tool),
                 rq_principal = RunPrincipal (oc_run_id ctx),
                 rq_subject = ToolCall tool (or_null (xp_json xp) (act_tool_args p)),
                 rq_scope = oc_project ctx, rq_cost_estimate = None, rq_requested_at = now,
                 rq_correlation_id = ''tool_'' @ oc_run_id ctx @ ''_'' @ show_nat (oc_iteration ctx)\<rparr>) s
          in (case r of
                Done d \<Rightarrow>
                  (Fine (case dr_outcome d of Denied _ reason \<Rightarrow> Some reason | Allowed \<Rightarrow> None), s)
              | Failed _ \<Rightarrow> (Fine None, s)
              | Crashed \<Rightarrow> (Unwound, s)))"

definition cached_result :: "string option \<Rightarrow> ('j, 'w) exec_state \<Rightarrow> 'j cached_tool_result option" where
  "cached_result call_id s =
     Option.bind call_id (\<lambda>i. Option.bind (xs_cache s) (get_result i))"

text \<open>The events of a hit and of a pause; their times are read by nobody.\<close>

definition cache_hit_event :: "orchestration_context \<Rightarrow> ident \<Rightarrow> 'j runtime_event" where
  "cache_hit_event ctx inv_id =
     OtherEvent ''ToolInvocationCacheHit'' (oc_project ctx) None (Some (ToolInvocationEntity inv_id))"

definition recovery_paused_event :: "orchestration_context \<Rightarrow> 'j runtime_event" where
  "recovery_paused_event ctx =
     OtherEvent ''ToolRecoveryPaused'' (oc_project ctx) None (Some (RunEntity (oc_run_id ctx)))"

definition serve_cached :: "('j, 'w) execute_ports \<Rightarrow> orchestration_context \<Rightarrow> 'j action_proposal \<Rightarrow>
    string \<Rightarrow> ident \<Rightarrow> string \<Rightarrow> 'j cached_tool_result \<Rightarrow> ('j, 'w) exec_state \<Rightarrow>
    'j action_result phase \<times> ('j, 'w) exec_state" where
  "serve_cached xp ctx p tool inv_id call_id cached s =
     on_fine
       (ask (xp_record_completed xp (oc_project ctx) inv_id (oc_task_id ctx) tool
               [cache_hit_event ctx inv_id] (Some call_id) (Some (ctr_result_json cached))) s)
       (\<lambda>_ s. (Fine (act_result p Succeeded
          (Some (truncate_tool_output_for_context (xp_json xp) (xp_token_limit xp)
             (ctr_result_json cached))) (Some inv_id)), s))"

definition pause_recovery :: "('j, 'w) execute_ports \<Rightarrow> orchestration_context \<Rightarrow> 'j action_proposal \<Rightarrow>
    string \<Rightarrow> ident \<Rightarrow> string \<Rightarrow> string \<Rightarrow> ('j, 'w) exec_state \<Rightarrow>
    'j action_result phase \<times> ('j, 'w) exec_state" where
  "pause_recovery xp ctx p tool inv_id call_id reason s =
     on_fine
       (ask (xp_record_failed xp (oc_project ctx) inv_id (oc_task_id ctx) tool PermanentFailure
               (Some reason)) s)
       (\<lambda>_ s.
          let approval_id = ''appr_recovery_'' @ call_id;
              (r1, s) = in_world (xp_request_approval xp (oc_project ctx) approval_id
                (Some (oc_run_id ctx)) (oc_task_id ctx) Required
                (Some (''RFC 020 recovery pause: re-dispatch of '' @ tool))
                (Some (''Run `'' @ oc_run_id ctx @ ''` crashed mid-dispatch on `'' @ tool @
                  ''` (DangerousPause). Operator must confirm before re-invocation. Reason: '' @
                  reason))) s;
              (r2, s) = (if r1 = Crashed then (Crashed, s)
                         else in_world (xp_append_audit xp [recovery_paused_event ctx]) s)
          in if r2 = Crashed then (Unwound, s)
             else (Fine (act_result p (AwaitingApproval approval_id) None (Some inv_id)), s))"

definition remember_result :: "('j, 'w) execute_ports \<Rightarrow> string option \<Rightarrow> string \<Rightarrow> 'j \<Rightarrow>
    ('j, 'w) exec_state \<Rightarrow> ('j, 'w) exec_state" where
  "remember_result xp call_id tool output s =
     (case (call_id, xs_cache s) of
        (Some i, Some cache) \<Rightarrow>
          let (now, s) = in_world (xp_now xp) s
          in s\<lparr>xs_cache := Some (insert_result
                 \<lparr>ctr_tool_call_id = i, ctr_tool_name = tool, ctr_result_json = output,
                  ctr_completed_at = now\<rparr> cache)\<rparr>
      | _ \<Rightarrow> s)"

text \<open>Running the tool: the output with the buffered events, or the reason it failed with.\<close>

definition run_tool :: "('j, 'w) execute_ports \<Rightarrow> orchestration_context \<Rightarrow> string option \<Rightarrow> string \<Rightarrow> 'j \<Rightarrow>
    ('j, 'w) exec_state \<Rightarrow> ((string + 'j) \<times> 'j runtime_event list) \<times> ('j, 'w) exec_state" where
  "run_tool xp ctx call_id tool args s =
     (let ((r, buffered), s) = in_world (xp_run_tool xp tool (oc_project ctx) args (tool_ctx ctx)) s
      in ((r, buffered),
          s\<lparr>xs_runs := xs_runs s @
              [\<lparr>rn_call_id = call_id, rn_tool_name = tool, rn_args = args,
                rn_succeeded = (case r of Inl _ \<Rightarrow> False | Inr _ \<Rightarrow> True)\<rparr>]\<rparr>))"

definition fail_invocation :: "('j, 'w) execute_ports \<Rightarrow> orchestration_context \<Rightarrow> 'j action_proposal \<Rightarrow>
    string \<Rightarrow> ident \<Rightarrow> string \<Rightarrow> ('j, 'w) exec_state \<Rightarrow> 'j action_result phase \<times> ('j, 'w) exec_state"
  where
  "fail_invocation xp ctx p tool inv_id reason s =
     on_fine
       (ask (xp_record_failed xp (oc_project ctx) inv_id (oc_task_id ctx) tool PermanentFailure
               (Some reason)) s)
       (\<lambda>_ s. (Fine (act_result p (ActionFailed reason) None (Some inv_id)), s))"

definition count_call :: "('j, 'w) execute_ports \<Rightarrow> orchestration_context \<Rightarrow> ('j, 'w) exec_state \<Rightarrow>
    unit phase \<times> ('j, 'w) exec_state" where
  "count_call xp ctx s =
     (let n = wrap_add32 (xs_call_count s) 1; s = s\<lparr>xs_call_count := n\<rparr>
      in if xp_checkpoint_every xp dvd n then
           (let (cp, s) = new_id xp ''cp'' s
            in ask (xp_save_checkpoint xp (oc_project ctx) (oc_run_id ctx) cp) s)
         else (Fine (), s))"

definition no_registry :: "string \<Rightarrow> string \<Rightarrow> string" where
  "no_registry what tool =
     unrecoverable_internal_prefix @ ''tool_registry not wired '' @ dash @ '' cannot '' @ what @
     '' `'' @ tool @ ''`''"

definition run_and_record :: "('j, 'w) execute_ports \<Rightarrow> orchestration_context \<Rightarrow> 'j action_proposal \<Rightarrow>
    string \<Rightarrow> ident \<Rightarrow> string option \<Rightarrow> 'j \<Rightarrow> ('j, 'w) exec_state \<Rightarrow>
    'j action_result phase \<times> ('j, 'w) exec_state" where
  "run_and_record xp ctx p tool inv_id call_id args s =
     (if xp_handlers xp = None then
        fail_invocation xp ctx p tool inv_id (no_registry ''dispatch tool'' tool) s
      else
        let ((r, buffered), s) = run_tool xp ctx call_id tool args s
        in (case r of
              Inl reason \<Rightarrow> fail_invocation xp ctx p tool inv_id reason s
            | Inr output \<Rightarrow>
                on_fine
                  (ask (xp_record_completed xp (oc_project ctx) inv_id (oc_task_id ctx) tool buffered
                          call_id (Some output)) s)
                  (\<lambda>_ s. on_fine (count_call xp ctx (remember_result xp call_id tool output s))
                    (\<lambda>_ s. (Fine (act_result p Succeeded
                       (Some (truncate_tool_output_for_context (xp_json xp) (xp_token_limit xp)
                          output)) (Some inv_id)), s)))))"

definition dispatch_tool :: "('j, 'w) execute_ports \<Rightarrow> orchestration_context \<Rightarrow> 'j action_proposal \<Rightarrow>
    u32 \<Rightarrow> ('j, 'w) exec_state \<Rightarrow> 'j action_result phase \<times> ('j, 'w) exec_state" where
  "dispatch_tool xp ctx p call_index s =
     (let tool = (case act_tool_name p of None \<Rightarrow> [] | Some t \<Rightarrow> t);
          (inv_id, s) = new_id xp ''inv'' s
      in on_fine
           (ask (xp_record_start xp (oc_project ctx) inv_id (Some (oc_session_id ctx))
                   (Some (oc_run_id ctx)) (oc_task_id ctx) (Builtin tool) SandboxedProcess) s)
           (\<lambda>_ s. on_fine (denied xp ctx p tool s)
             (\<lambda>deny s.
               case deny of
                 Some reason \<Rightarrow>
                   (Fine (act_result p (ActionFailed (''decision_denied: '' @ reason)) None (Some inv_id)), s)
               | None \<Rightarrow>
                   let args = tool_args_with_working_dir (xp_json xp) tool (oc_working_dir ctx)
                                (act_tool_args p);
                       call_id = map_option
                         (\<lambda>h. call_id_of xp ctx call_index tool (th_normalize h args))
                         (handler_for xp tool);
                       safety = (case handler_for xp tool of
                                   None \<Rightarrow> DangerousPause | Some h \<Rightarrow> th_retry_safety h)
                   in (case (call_id, xs_cache s) of
                         (Some i, Some cache) \<Rightarrow>
                           (case get_result i cache of
                              Some cached \<Rightarrow> serve_cached xp ctx p tool inv_id i cached s
                            | None \<Rightarrow>
                                if oc_is_recovery ctx then
                                  (case recovery_dispatch_decision cache i tool safety True of
                                     DispatchCacheHit \<Rightarrow> (Unwound, s)
                                   | Dispatch \<Rightarrow> run_and_record xp ctx p tool inv_id call_id args s
                                   | Pause _ reason \<Rightarrow> pause_recovery xp ctx p tool inv_id i reason s)
                                else run_and_record xp ctx p tool inv_id call_id args s)
                       | _ \<Rightarrow> run_and_record xp ctx p tool inv_id call_id args s))))"

section \<open>The approval gate\<close>

definition legacy_approval_gate_result :: "('j, 'w) execute_ports \<Rightarrow> orchestration_context \<Rightarrow>
    'j action_proposal \<Rightarrow> string \<Rightarrow> ('j, 'w) exec_state \<Rightarrow> 'j action_result phase \<times> ('j, 'w) exec_state"
  where
  "legacy_approval_gate_result xp ctx p tool s =
     (let (approval_id, s) = new_id xp ''appr'' s;
          (r, s) = in_world (xp_request_approval xp (oc_project ctx) approval_id
            (Some (oc_run_id ctx)) (oc_task_id ctx) Required
            (Some (''Agent requests approval for tool: '' @ tool))
            (Some (approval_text (xp_json xp) ctx p (Some tool)))) s
      in (case r of
            Done _ \<Rightarrow> (Fine (act_result p (AwaitingApproval approval_id) None None), s)
          | Failed e \<Rightarrow> (Fine (act_result p (ActionFailed (xp_error_text xp e)) None None), s)
          | Crashed \<Rightarrow> (Unwound, s)))"

definition gate_proposal :: "('j, 'w) execute_ports \<Rightarrow> orchestration_context \<Rightarrow> 'j action_proposal \<Rightarrow>
    u32 \<Rightarrow> 'j tool_call_proposal" where
  "gate_proposal xp ctx p call_index =
     (let tool = (case act_tool_name p of None \<Rightarrow> [] | Some t \<Rightarrow> t);
          raw_args = or_null (xp_json xp) (act_tool_args p);
          normalized = (case handler_for xp tool of
                          None \<Rightarrow> xp_default_normalize xp raw_args
                        | Some h \<Rightarrow> th_normalize h raw_args)
      in \<lparr>tcp_call_id = call_id_of xp ctx call_index tool normalized,
          tcp_session_id = oc_session_id ctx, tcp_run_id = oc_run_id ctx,
          tcp_project = oc_project ctx, tcp_tool_name = tool, tcp_tool_args = raw_args,
          tcp_display_summary = Some (build_display_summary p tool),
          tcp_match_policy = derive_match_policy (jv_ops (xp_json xp)) (effect_of xp tool) raw_args
            (Some (oc_working_dir ctx))\<rparr>)"

definition run_with_approval_gate :: "('j, 'w) execute_ports \<Rightarrow> orchestration_context \<Rightarrow>
    'j action_proposal \<Rightarrow> u32 \<Rightarrow> ('j tool_call_proposal \<Rightarrow> 'w \<Rightarrow> submit_decision reply \<times> 'w) \<Rightarrow>
    (ident \<Rightarrow> 'w \<Rightarrow> 'j approved_proposal reply) \<Rightarrow> ('j, 'w) exec_state \<Rightarrow>
    'j action_result phase \<times> ('j, 'w) exec_state" where
  "run_with_approval_gate xp ctx p call_index submit retrieve s =
     (let tcp = gate_proposal xp ctx p call_index; (r, s) = in_world (submit tcp) s
      in (case r of
            Failed e \<Rightarrow>
              (Fault (ExecuteFailed (''submit_proposal failed: '' @ xp_error_text xp e)), s)
          | Crashed \<Rightarrow> (Unwound, s)
          | Done PendingOperator \<Rightarrow>
              (Fine (act_result p (AwaitingApproval (tcp_call_id tcp)) None None), s)
          | Done AutoApproved \<Rightarrow>
              (case retrieve (tcp_call_id tcp) (xs_world s) of
                 Failed e \<Rightarrow>
                   (Fault (ExecuteFailed (''retrieve_approved_proposal (auto) failed: '' @
                      xp_error_text xp e)), s)
               | Crashed \<Rightarrow> (Unwound, s)
               | Done approved \<Rightarrow>
                   dispatch_tool xp ctx
                     (p\<lparr>act_tool_args := Some (ap_tool_args approved),
                        act_requires_approval := False\<rparr>) call_index s)))"

section \<open>One action\<close>

definition reply_result :: "('j, 'w) execute_ports \<Rightarrow> 'j action_proposal \<Rightarrow> action_status \<Rightarrow>
    unit reply \<times> ('j, 'w) exec_state \<Rightarrow> 'j action_result phase \<times> ('j, 'w) exec_state" where
  "reply_result xp p ok rs =
     (case rs of
        (Done _, s) \<Rightarrow> (Fine (act_result p ok None None), s)
      | (Failed e, s) \<Rightarrow> (Fine (act_result p (ActionFailed (xp_error_text xp e)) None None), s)
      | (Crashed, s) \<Rightarrow> (Unwound, s))"

definition spawn_subagent :: "('j, 'w) execute_ports \<Rightarrow> orchestration_context \<Rightarrow> 'j action_proposal \<Rightarrow>
    ('j, 'w) exec_state \<Rightarrow> 'j action_result phase \<times> ('j, 'w) exec_state" where
  "spawn_subagent xp ctx p s =
     (let (child, s) = new_id xp ''child_task'' s; (session, s) = new_id xp ''child_sess'' s
      in reply_result xp p (SubagentSpawned child)
           (in_world (xp_spawn_subagent xp (oc_project ctx) (oc_run_id ctx) (oc_task_id ctx) child
              session None) s))"

definition send_notification :: "('j, 'w) execute_ports \<Rightarrow> orchestration_context \<Rightarrow>
    'j action_proposal \<Rightarrow> ('j, 'w) exec_state \<Rightarrow> 'j action_result phase \<times> ('j, 'w) exec_state" where
  "send_notification xp ctx p s =
     (case oc_task_id ctx of
        None \<Rightarrow>
          (Fine (act_result p (ActionFailed ''SendNotification requires task_id in context'') None
             None), s)
      | Some from_task \<Rightarrow>
          reply_result xp p Succeeded
            (in_world (xp_send xp (oc_project ctx) from_task
               (case act_tool_name p of None \<Rightarrow> oc_run_id ctx | Some t \<Rightarrow> t) (act_description p)) s))"

definition escalate :: "('j, 'w) execute_ports \<Rightarrow> orchestration_context \<Rightarrow> 'j action_proposal \<Rightarrow>
    ('j, 'w) exec_state \<Rightarrow> 'j action_result phase \<times> ('j, 'w) exec_state" where
  "escalate xp ctx p s =
     (let (approval_id, s) = new_id xp ''appr'' s
      in reply_result xp p (AwaitingApproval approval_id)
           (in_world (xp_request_approval xp (oc_project ctx) approval_id (Some (oc_run_id ctx))
              (oc_task_id ctx) Required
              (Some (''Agent requests approval: '' @ act_description p))
              (Some (approval_text (xp_json xp) ctx p (act_tool_name p)))) s))"

definition memory_note :: "'j json_values \<Rightarrow> 'j" where
  "memory_note jv =
     js_object (jv_ops jv)
       [(''queued'', jv_bool jv True),
        (''note'', js_string (jv_ops jv) (''async '' @ dash @ '' see /v1/memory/ingest''))]"

definition dispatch_one :: "('j, 'w) execute_ports \<Rightarrow> orchestration_context \<Rightarrow> 'j action_proposal \<Rightarrow>
    u32 \<Rightarrow> ('j, 'w) exec_state \<Rightarrow> 'j action_result phase \<times> ('j, 'w) exec_state" where
  "dispatch_one xp ctx p call_index s =
     (case act_type p of
        InvokeTool \<Rightarrow>
          if act_requires_approval p then
            (case xp_approvals xp of
               Some (submit, retrieve) \<Rightarrow> run_with_approval_gate xp ctx p call_index submit retrieve s
             | None \<Rightarrow>
                 legacy_approval_gate_result xp ctx p
                   (case act_tool_name p of None \<Rightarrow> [] | Some t \<Rightarrow> t) s)
          else dispatch_tool xp ctx p call_index s
      | SpawnSubagent \<Rightarrow> spawn_subagent xp ctx p s
      | SendNotification \<Rightarrow> send_notification xp ctx p s
      | CompleteRun \<Rightarrow>
          reply_result xp p Succeeded
            (in_world (xp_complete xp (oc_session_id ctx) (oc_run_id ctx)) s)
      | EscalateToOperator \<Rightarrow> escalate xp ctx p s
      | CreateMemory \<Rightarrow> (Fine (act_result p Succeeded (Some (memory_note (xp_json xp))) None), s))"

definition timed :: "('j, 'w) execute_ports \<Rightarrow>
    (('j, 'w) exec_state \<Rightarrow> 'j action_result phase \<times> ('j, 'w) exec_state) \<Rightarrow>
    ('j, 'w) exec_state \<Rightarrow> 'j action_result phase \<times> ('j, 'w) exec_state" where
  "timed xp f s =
     (let (started, s) = in_world (xp_instant xp) s
      in on_fine (f s) (\<lambda>r s.
           let (ended, s) = in_world (xp_instant xp) s
           in (Fine (r\<lparr>ar_duration_ms := ended - started\<rparr>), s)))"

section \<open>A batch\<close>

definition derive_signal :: "'j action_result \<Rightarrow> loop_signal \<Rightarrow> loop_signal" where
  "derive_signal r current =
     (if current \<noteq> LoopContinue then current
      else (case ar_status r of
              Succeeded \<Rightarrow>
                if act_type (ar_proposal r) = CompleteRun then LoopDone else LoopContinue
            | SubagentSpawned child \<Rightarrow> WaitSubagent child
            | AwaitingApproval approval_id \<Rightarrow> WaitApproval approval_id
            | ActionFailed reason \<Rightarrow>
                if act_type (ar_proposal r) = InvokeTool \<and>
                   \<not> starts_with unrecoverable_internal_prefix reason
                then LoopContinue else LoopFailed reason))"

definition is_terminal_action :: "'j action_proposal \<Rightarrow> bool" where
  "is_terminal_action p \<longleftrightarrow> act_type p \<in> {CompleteRun, SpawnSubagent, EscalateToOperator}"

text \<open>The tool calls in front of the first terminal action.\<close>

definition invoke_indices :: "'j action_proposal list \<Rightarrow> nat list" where
  "invoke_indices ps =
     filter (\<lambda>i. act_type (ps ! i) = InvokeTool)
       [0..<length (takeWhile (\<lambda>p. \<not> is_terminal_action p) ps)]"

text \<open>
  \<open>join_all\<close> drives the calls of the batch together and returns once all have ended. The order they
  end in is an argument: the batch runs them one after the other in it, and a panic of one ends
  the batch.
\<close>

fun join_all :: "('i \<Rightarrow> 's \<Rightarrow> 'a phase \<times> 's) \<Rightarrow> 'i list \<Rightarrow> 's \<Rightarrow>
    ('i \<times> (orchestrator_error + 'a)) list option \<times> 's" where
  "join_all f [] s = (Some [], s)"
| "join_all f (i # is) s =
     (case f i s of
        (Unwound, s) \<Rightarrow> (None, s)
      | (Fine a, s) \<Rightarrow> (let (rs, s) = join_all f is s in (map_option (\<lambda>rs. (i, Inr a) # rs) rs, s))
      | (Fault e, s) \<Rightarrow> (let (rs, s) = join_all f is s in (map_option (\<lambda>rs. (i, Inl e) # rs) rs, s)))"

text \<open>\<open>let (i, result) = outcome?\<close> over the outcomes in the order of their indices.\<close>

fun collect :: "('i \<Rightarrow> (orchestrator_error + 'a) option) \<Rightarrow> 'i list \<Rightarrow> ('i \<times> 'a) list phase" where
  "collect outcome [] = Fine []"
| "collect outcome (i # is) =
     (case outcome i of
        Some (Inr a) \<Rightarrow>
          (case collect outcome is of
             Fine rs \<Rightarrow> Fine ((i, a) # rs) | Fault e \<Rightarrow> Fault e | Unwound \<Rightarrow> Unwound)
      | Some (Inl e) \<Rightarrow> Fault e
      | None \<Rightarrow> Unwound)"

fun first_signal :: "'j action_result list \<Rightarrow> loop_signal" where
  "first_signal [] = LoopContinue"
| "first_signal (r # rs) =
     (let sig = derive_signal r LoopContinue
      in if sig \<noteq> LoopContinue then sig else first_signal rs)"

text \<open>The other actions, in order, up to the first that ends the batch.\<close>

fun run_others :: "('j, 'w) execute_ports \<Rightarrow> orchestration_context \<Rightarrow> (nat \<times> 'j action_proposal) list \<Rightarrow>
    ('j, 'w) exec_state \<Rightarrow> ((nat \<times> 'j action_result) list \<times> loop_signal) phase \<times> ('j, 'w) exec_state"
  where
  "run_others xp ctx [] s = (Fine ([], LoopContinue), s)"
| "run_others xp ctx ((i, p) # ips) s =
     (if act_type p = InvokeTool then run_others xp ctx ips s
      else on_fine (timed xp (dispatch_one xp ctx p i) s)
        (\<lambda>r s.
          let sig = derive_signal r LoopContinue
          in if sig \<noteq> LoopContinue then (Fine ([(i, r)], sig), s)
             else on_fine (run_others xp ctx ips s)
               (\<lambda>(rs, sig) s. (Fine ((i, r) # rs, sig), s))))"

definition in_index_order :: "nat \<Rightarrow> (nat \<times> 'a) list \<Rightarrow> 'a list" where
  "in_index_order n rs = List.map_filter (map_of rs) [0..<n]"

definition execute :: "('j, 'w) execute_ports \<Rightarrow> (nat list \<Rightarrow> nat list) \<Rightarrow> orchestration_context \<Rightarrow>
    'j decide_output \<Rightarrow> ('j, 'w) exec_state \<Rightarrow> 'j execute_outcome phase \<times> ('j, 'w) exec_state" where
  "execute xp order ctx d s =
     (let ps = do_proposals d; is = invoke_indices ps;
          (joined, s) = join_all (\<lambda>i. timed xp (dispatch_one xp ctx (ps ! i) i)) (order is) s
      in (case joined of
            None \<Rightarrow> (Unwound, s)
          | Some outcomes \<Rightarrow>
              on_fine (collect (map_of outcomes) is, s)
                (\<lambda>tool_rs s.
                  let sig = first_signal (map snd tool_rs)
                  in on_fine
                       (if sig = LoopContinue then run_others xp ctx (List.enumerate 0 ps) s
                        else (Fine ([], sig), s))
                       (\<lambda>(other_rs, sig) s.
                         (Fine \<lparr>eo_results = in_index_order (length ps) (tool_rs @ other_rs),
                                eo_loop_signal = sig\<rparr>, s)))))"

section \<open>An approved call of an earlier invocation\<close>

definition dispatch_approved :: "('j, 'w) execute_ports \<Rightarrow> orchestration_context \<Rightarrow>
    'j approved_dispatch \<Rightarrow> ('j, 'w) exec_state \<Rightarrow> 'j action_result phase \<times> ('j, 'w) exec_state" where
  "dispatch_approved xp ctx ad s =
     (let tool = ad_tool_name ad; i = ad_call_id ad; jv = xp_json xp;
          p = \<lparr>act_type = InvokeTool, act_description = ''drain approved tool call: '' @ tool,
               act_confidence = 4607182418800017408, act_tool_name = Some tool,
               act_tool_args = Some (ad_tool_args ad), act_requires_approval = False\<rparr>
      in (case cached_result (Some i) s of
            Some cached \<Rightarrow>
              (Fine (act_result p Succeeded (Some (truncate_tool_output_for_context jv
                 (xp_token_limit xp) (ctr_result_json cached))) None), s)
          | None \<Rightarrow>
              let (inv_id, s) = new_id xp ''inv'' s
              in on_fine
                   (ask (xp_record_start xp (oc_project ctx) inv_id (Some (oc_session_id ctx))
                           (Some (oc_run_id ctx)) (oc_task_id ctx) (Builtin tool) SandboxedProcess) s)
                   (\<lambda>_ s.
                     if xp_handlers xp = None then
                       fail_invocation xp ctx p tool inv_id (no_registry ''drain approved tool'' tool) s
                     else
                       let args = tool_args_with_working_dir jv tool (oc_working_dir ctx)
                                    (Some (ad_tool_args ad));
                           ((r, buffered), s) = run_tool xp ctx (Some i) tool args s
                       in (case r of
                             Inl reason \<Rightarrow> fail_invocation xp ctx p tool inv_id reason s
                           | Inr output \<Rightarrow>
                               on_fine
                                 (ask (xp_record_completed xp (oc_project ctx) inv_id (oc_task_id ctx)
                                         tool buffered (Some i) (Some output)) s)
                                 (\<lambda>_ s. (Fine (act_result p Succeeded
                                    (Some (truncate_tool_output_for_context jv (xp_token_limit xp)
                                       output)) (Some inv_id)),
                                   remember_result xp (Some i) tool output s))))))"

end
