(* ===== verification/Orchestrator_Loop.thy ===== *)
theory Orchestrator_Loop
  imports Execute_Phase
begin

text \<open>
  The loop that drives a run (\<open>crates/cairn-orchestrator/src/loop_runner.rs\<close>): drain the calls an
  operator decided, check the deadline and the lease, gather, compact, decide, execute, record,
  and go round or end. The phases, the reader of approvals, the clock and everything the loop
  reports to are the fields of one record of functions on a world of any type. The list of calls
  is what an observer of them sees; no definition reads it.
\<close>

section \<open>What the loop reports\<close>

datatype ('j, 'g) notice =
    OnStarted orchestration_context
  | OnGatherCompleted orchestration_context 'g
  | OnContextCompacted orchestration_context compaction_result
  | OnDecideCompleted orchestration_context "'j decide_output"
  | OnPlanProposed orchestration_context string
  | OnToolCalled orchestration_context string "'j option"
  | OnToolResult orchestration_context string bool "'j option" "string option" u64
  | OnStepCompleted orchestration_context "'j decide_output" "'j execute_outcome"
  | OnFinished orchestration_context loop_termination
  | LogToolCall string 'j
  | LogToolResult string 'j bool u64
  | LogLlmResponse string u64 u64 u64
  | SaveFrame u32 ident ident "step_summary option" loop_signal
  | SaveStep orchestration_context 'g "'j decide_output" "'j execute_outcome"
  | SaveIntent orchestration_context 'g "'j decide_output"
  | SaveResult orchestration_context 'g "'j decide_output" "'j execute_outcome"

datatype ('j, 'g) loop_call =
    Clock u64
  | Lease bool
  | Gather orchestration_context
  | Decide orchestration_context 'g
  | Execute_call orchestration_context "'j decide_output"
  | Dispatch_approved "'j approved_dispatch"
  | Report "('j, 'g) notice"

record ('j, 'g, 'w) loop_ports =
  lp_json :: "'j json_values"
  lp_error_text :: "orchestrator_error \<Rightarrow> string"
  lp_now :: "'w \<Rightarrow> u64 \<times> 'w"
  lp_instant :: "'w \<Rightarrow> u64 \<times> 'w"
  lp_reader :: "((ident \<Rightarrow> 'w \<Rightarrow> 'j approved_proposal list reply) \<times>
    (ident \<Rightarrow> 'w \<Rightarrow> 'j rejected_proposal list reply)) option"
  lp_gather :: "orchestration_context \<Rightarrow> 'w \<Rightarrow> 'g phase \<times> 'w"
  lp_decide :: "orchestration_context \<Rightarrow> 'g \<Rightarrow> 'w \<Rightarrow> 'j decide_output phase \<times> 'w"
  lp_execute :: "orchestration_context \<Rightarrow> 'j decide_output \<Rightarrow> 'w \<Rightarrow> 'j execute_outcome phase \<times> 'w"
  lp_dispatch_approved :: "orchestration_context \<Rightarrow> 'j approved_dispatch \<Rightarrow> 'w \<Rightarrow>
    'j action_result phase \<times> 'w"
  lp_notify :: "('j, 'g) notice \<Rightarrow> 'w \<Rightarrow> 'w"
  lp_take_fatal_error :: "'w \<Rightarrow> string option \<times> 'w"
  lp_lease_healthy :: "'w \<Rightarrow> bool"

section \<open>The state of an invocation\<close>

record ('j, 'g, 'w) loop_state =
  ls_ctx :: orchestration_context
  ls_history :: "step_summary list"
  ls_last_compaction :: "u32 option"
  ls_drained :: "ident list"
  ls_verification :: verification_accumulator
  ls_calls :: "('j, 'g) loop_call list"
  ls_world :: 'w

definition loop_start :: "orchestration_context \<Rightarrow> 'w \<Rightarrow> ('j, 'g, 'w) loop_state" where
  "loop_start ctx w =
     \<lparr>ls_ctx = ctx, ls_history = [], ls_last_compaction = None, ls_drained = [],
      ls_verification = accumulator_new, ls_calls = [], ls_world = w\<rparr>"

definition lease_unhealthy_reason :: string where
  "lease_unhealthy_reason = ''lease unhealthy''"

definition min_decide_budget_ms :: u64 where
  "min_decide_budget_ms = 5000"

text \<open>A call of a collaborator, entered in the list with what it was called with.\<close>

definition calling :: "('j, 'g) loop_call \<Rightarrow> ('w \<Rightarrow> 'a \<times> 'w) \<Rightarrow> ('j, 'g, 'w) loop_state \<Rightarrow>
    'a \<times> ('j, 'g, 'w) loop_state" where
  "calling c f s =
     (let (a, w) = f (ls_world s) in (a, s\<lparr>ls_calls := ls_calls s @ [c], ls_world := w\<rparr>))"

definition notify :: "('j, 'g, 'w) loop_ports \<Rightarrow> ('j, 'g) notice \<Rightarrow> ('j, 'g, 'w) loop_state \<Rightarrow>
    ('j, 'g, 'w) loop_state" where
  "notify lp n s = snd (calling (Report n) (\<lambda>w. ((), lp_notify lp n w)) s)"

definition now_millis :: "('j, 'g, 'w) loop_ports \<Rightarrow> ('j, 'g, 'w) loop_state \<Rightarrow>
    u64 \<times> ('j, 'g, 'w) loop_state" where
  "now_millis lp s =
     (let (t, w) = lp_now lp (ls_world s)
      in (t, s\<lparr>ls_calls := ls_calls s @ [Clock t], ls_world := w\<rparr>))"

definition instant :: "('j, 'g, 'w) loop_ports \<Rightarrow> ('j, 'g, 'w) loop_state \<Rightarrow>
    u64 \<times> ('j, 'g, 'w) loop_state" where
  "instant lp s = (let (t, w) = lp_instant lp (ls_world s) in (t, s\<lparr>ls_world := w\<rparr>))"

definition push_step :: "step_summary \<Rightarrow> ('j, 'g, 'w) loop_state \<Rightarrow> ('j, 'g, 'w) loop_state" where
  "push_step st s = s\<lparr>ls_history := ls_history s @ [st]\<rparr>"

definition observe_all :: "('j, 'g, 'w) loop_ports \<Rightarrow> 'j action_result list \<Rightarrow>
    ('j, 'g, 'w) loop_state \<Rightarrow> ('j, 'g, 'w) loop_state" where
  "observe_all lp rs s =
     s\<lparr>ls_verification := fold (observe (lp_json lp)) rs (ls_verification s)\<rparr>"

section \<open>Draining what an operator decided\<close>

fun drain_calls :: "('j, 'g, 'w) loop_ports \<Rightarrow> 'j approved_proposal list \<Rightarrow>
    ('j, 'g, 'w) loop_state \<Rightarrow> 'j action_result list phase \<times> ('j, 'g, 'w) loop_state" where
  "drain_calls lp [] s = (Fine [], s)"
| "drain_calls lp (ap # aps) s =
     (if ap_call_id ap \<in> set (ls_drained s) then drain_calls lp aps s
      else
        let s = s\<lparr>ls_drained := ls_drained s @ [ap_call_id ap]\<rparr>;
            (started, s) = instant lp s;
            ad = \<lparr>ad_call_id = ap_call_id ap, ad_tool_name = ap_tool_name ap,
                  ad_tool_args = ap_tool_args ap\<rparr>
        in on_fine (calling (Dispatch_approved ad) (lp_dispatch_approved lp (ls_ctx s) ad) s)
             (\<lambda>r s.
               let (ended, s) = instant lp s
               in on_fine (drain_calls lp aps s)
                    (\<lambda>rs s. (Fine (r\<lparr>ar_duration_ms := ended - started\<rparr> # rs), s))))"

definition drain_approved_pending :: "('j, 'g, 'w) loop_ports \<Rightarrow> ('j, 'g, 'w) loop_state \<Rightarrow>
    'j action_result list phase \<times> ('j, 'g, 'w) loop_state" where
  "drain_approved_pending lp s =
     (case lp_reader lp of
        None \<Rightarrow> (Fine [], s)
      | Some (list_approved, _) \<Rightarrow>
          on_fine (phase_of (list_approved (oc_run_id (ls_ctx s)) (ls_world s)), s)
            (\<lambda>approved s. drain_calls lp approved s))"

fun new_rejections :: "'j rejected_proposal list \<Rightarrow> ident list \<Rightarrow>
    'j rejected_proposal list \<times> ident list" where
  "new_rejections [] drained = ([], drained)"
| "new_rejections (rj # rjs) drained =
     (if rj_call_id rj \<in> set drained then new_rejections rjs drained
      else (let (out, drained) = new_rejections rjs (drained @ [rj_call_id rj])
            in (rj # out, drained)))"

definition drain_rejected_pending :: "('j, 'g, 'w) loop_ports \<Rightarrow> ('j, 'g, 'w) loop_state \<Rightarrow>
    step_summary list phase \<times> ('j, 'g, 'w) loop_state" where
  "drain_rejected_pending lp s =
     (case lp_reader lp of
        None \<Rightarrow> (Fine [], s)
      | Some (_, list_rejected) \<Rightarrow>
          on_fine (phase_of (list_rejected (oc_run_id (ls_ctx s)) (ls_world s)), s)
            (\<lambda>rejected s.
              let (out, drained) = new_rejections rejected (ls_drained s)
              in (Fine (map (rejected_summary (oc_iteration (ls_ctx s))) out),
                  s\<lparr>ls_drained := drained\<rparr>)))"

fun outcome_words :: "action_status \<Rightarrow> bool \<times> string option" where
  "outcome_words Succeeded = (True, None)"
| "outcome_words (ActionFailed reason) = (False, Some reason)"
| "outcome_words _ = (False, None)"

definition result_output :: "'j json_values \<Rightarrow> 'j action_result \<Rightarrow> 'j" where
  "result_output jv r =
     (case ar_tool_output r of
        Some v \<Rightarrow> v
      | None \<Rightarrow>
          (case snd (outcome_words (ar_status r)) of
             Some reason \<Rightarrow> js_object (jv_ops jv) [(''error'', js_string (jv_ops jv) reason)]
           | None \<Rightarrow> jv_null jv))"

definition notify_result :: "('j, 'g, 'w) loop_ports \<Rightarrow> string \<Rightarrow> 'j action_result \<Rightarrow>
    ('j, 'g, 'w) loop_state \<Rightarrow> ('j, 'g, 'w) loop_state" where
  "notify_result lp tool r s =
     notify lp (OnToolResult (ls_ctx s) tool (fst (outcome_words (ar_status r))) (ar_tool_output r)
       (snd (outcome_words (ar_status r))) (ar_duration_ms r)) s"

definition log_result :: "('j, 'g, 'w) loop_ports \<Rightarrow> string \<Rightarrow> 'j action_result \<Rightarrow>
    ('j, 'g, 'w) loop_state \<Rightarrow> ('j, 'g, 'w) loop_state" where
  "log_result lp tool r s =
     notify lp (LogToolResult tool (result_output (lp_json lp) r)
       (fst (outcome_words (ar_status r))) (ar_duration_ms r)) s"

definition report_drained :: "('j, 'g, 'w) loop_ports \<Rightarrow> 'j action_result \<Rightarrow>
    ('j, 'g, 'w) loop_state \<Rightarrow> ('j, 'g, 'w) loop_state" where
  "report_drained lp r s =
     (let s = observe_all lp [r] s
      in (case act_tool_name (ar_proposal r) of
            None \<Rightarrow> s
          | Some tool \<Rightarrow>
              let args = or_null (lp_json lp) (act_tool_args (ar_proposal r));
                  s = notify lp (OnToolCalled (ls_ctx s) tool (Some args)) s;
                  s = notify_result lp tool r s;
                  s = notify lp (LogToolCall tool args) s;
                  s = log_result lp tool r s
              in push_step (drained_summary (lp_json lp) (oc_iteration (ls_ctx s)) tool r) s))"

definition drain_phase :: "('j, 'g, 'w) loop_ports \<Rightarrow> ('j, 'g, 'w) loop_state \<Rightarrow>
    unit phase \<times> ('j, 'g, 'w) loop_state" where
  "drain_phase lp s =
     on_fine (drain_approved_pending lp s)
       (\<lambda>drained s. on_fine (drain_rejected_pending lp (fold (report_drained lp) drained s))
         (\<lambda>rejections s. (Fine (), fold push_step rejections s)))"

section \<open>From the checks to the decision\<close>

text \<open>Whether the invocation ends before the gather phase.\<close>

definition admission :: "('j, 'g, 'w) loop_ports \<Rightarrow> u64 \<Rightarrow> ('j, 'g, 'w) loop_state \<Rightarrow>
    loop_termination option \<times> ('j, 'g, 'w) loop_state" where
  "admission lp deadline s =
     (let (now, s) = now_millis lp s
      in if deadline \<le> now then (Some TermTimedOut, s)
         else
           let healthy = lp_lease_healthy lp (ls_world s);
               s = s\<lparr>ls_calls := ls_calls s @ [Lease healthy]\<rparr>
           in if \<not> healthy then (Some (TermFailed lease_unhealthy_reason), s) else (None, s))"

definition gather_phase :: "('j, 'g, 'w) loop_ports \<Rightarrow> ('j, 'g, 'w) loop_state \<Rightarrow>
    'g phase \<times> ('j, 'g, 'w) loop_state" where
  "gather_phase lp s =
     (let s = s\<lparr>ls_ctx := (ls_ctx s)\<lparr>oc_step_history := ls_history s\<rparr>\<rparr>
      in on_fine (calling (Gather (ls_ctx s)) (lp_gather lp (ls_ctx s)) s)
           (\<lambda>g s. (Fine g, notify lp (OnGatherCompleted (ls_ctx s) g) s)))"

definition compaction_phase :: "('j, 'g, 'w) loop_ports \<Rightarrow> compaction_config \<Rightarrow>
    ('j, 'g, 'w) loop_state \<Rightarrow> ('j, 'g, 'w) loop_state" where
  "compaction_phase lp cfg s =
     (let (r, steps, last_at) =
            maybe_compact_history (ls_history s) (oc_iteration (ls_ctx s)) cfg (ls_last_compaction s);
          s = s\<lparr>ls_history := steps, ls_last_compaction := last_at\<rparr>
      in (case r of None \<Rightarrow> s | Some c \<Rightarrow> notify lp (OnContextCompacted (ls_ctx s) c) s))"

definition or_zero :: "u32 option \<Rightarrow> u64" where
  "or_zero n = (case n of None \<Rightarrow> 0 | Some k \<Rightarrow> k)"

text \<open>The decision, unless too little of the budget is left for it.\<close>

definition decide_phase :: "('j, 'g, 'w) loop_ports \<Rightarrow> u64 \<Rightarrow> 'g \<Rightarrow> ('j, 'g, 'w) loop_state \<Rightarrow>
    'j decide_output option phase \<times> ('j, 'g, 'w) loop_state" where
  "decide_phase lp deadline g s =
     (let (now, s) = now_millis lp s
      in if deadline - now < min_decide_budget_ms then (Fine None, s)
         else on_fine (calling (Decide (ls_ctx s) g) (lp_decide lp (ls_ctx s) g) s)
           (\<lambda>d s.
             let s = notify lp (OnDecideCompleted (ls_ctx s) d) s;
                 (fatal, w) = lp_take_fatal_error lp (ls_world s);
                 s = s\<lparr>ls_world := w\<rparr>
             in (case fatal of
                   Some msg \<Rightarrow> (Fault (StoreFailed msg), s)
                 | None \<Rightarrow>
                     (Fine (Some d), notify lp (LogLlmResponse (do_model_id d)
                        (or_zero (do_input_tokens d)) (or_zero (do_output_tokens d))
                        (do_latency_ms d)) s))))"

section \<open>Executing and going round\<close>

definition log_proposals :: "('j, 'g, 'w) loop_ports \<Rightarrow> 'j decide_output \<Rightarrow>
    ('j, 'g, 'w) loop_state \<Rightarrow> ('j, 'g, 'w) loop_state" where
  "log_proposals lp d s =
     fold (\<lambda>p s. case act_tool_name p of
             None \<Rightarrow> s
           | Some tool \<Rightarrow> notify lp (LogToolCall tool (or_null (lp_json lp) (act_tool_args p))) s)
       (do_proposals d) s"

definition execute_phase :: "('j, 'g, 'w) loop_ports \<Rightarrow> 'j decide_output \<Rightarrow>
    ('j, 'g, 'w) loop_state \<Rightarrow> 'j execute_outcome phase \<times> ('j, 'g, 'w) loop_state" where
  "execute_phase lp d s =
     on_fine (calling (Execute_call (ls_ctx s) d) (lp_execute lp (ls_ctx s) d) s)
       (\<lambda>x s. (Fine x, observe_all lp (eo_results x) s))"

definition record_step :: "('j, 'g, 'w) loop_ports \<Rightarrow> 'j decide_output \<Rightarrow> 'j execute_outcome \<Rightarrow>
    ('j, 'g, 'w) loop_state \<Rightarrow> ('j, 'g, 'w) loop_state" where
  "record_step lp d x s =
     (let s = push_step (build_step_summary (lp_json lp) (ls_ctx s) d x) s
      in s\<lparr>ls_ctx := (ls_ctx s)\<lparr>oc_step_history := ls_history s\<rparr>\<rparr>)"

text \<open>The reports on each result; the gated path fills a missing argument with null.\<close>

definition report_result :: "('j, 'g, 'w) loop_ports \<Rightarrow> ('j option \<Rightarrow> 'j option) \<Rightarrow> 'j action_result \<Rightarrow>
    ('j, 'g, 'w) loop_state \<Rightarrow> ('j, 'g, 'w) loop_state" where
  "report_result lp args r s =
     (case act_tool_name (ar_proposal r) of
        None \<Rightarrow> s
      | Some tool \<Rightarrow>
          let s = notify lp (OnToolCalled (ls_ctx s) tool (args (act_tool_args (ar_proposal r)))) s;
              s = notify_result lp tool r s
          in log_result lp tool r s)"

definition completion_summary :: "'j decide_output \<Rightarrow> string" where
  "completion_summary d =
     (case find (\<lambda>p. act_type p = CompleteRun) (do_proposals d) of
        None \<Rightarrow> ''run completed''
      | Some p \<Rightarrow> act_description p)"

definition next_iteration :: "('j, 'g, 'w) loop_state \<Rightarrow> ('j, 'g, 'w) loop_state" where
  "next_iteration s = s\<lparr>ls_ctx := (ls_ctx s)\<lparr>oc_iteration := sat_add32 (oc_iteration (ls_ctx s)) 1\<rparr>\<rparr>"

definition follow_signal :: "'j decide_output \<Rightarrow> loop_signal \<Rightarrow> ('j, 'g, 'w) loop_state \<Rightarrow>
    loop_termination option" where
  "follow_signal d sig s =
     (case sig of
        LoopDone \<Rightarrow> Some (TermCompleted (completion_summary d) (finish (ls_verification s)))
      | LoopFailed reason \<Rightarrow> Some (TermFailed reason)
      | WaitSubagent child \<Rightarrow> Some (WaitingSubagent child)
      | WaitApproval approval_id \<Rightarrow> Some (WaitingApproval approval_id)
      | SignalPlanProposed plan \<Rightarrow> Some (PlanProposed plan)
      | LoopContinue \<Rightarrow> None)"

fun first_awaiting :: "'j action_result list \<Rightarrow> ident option" where
  "first_awaiting [] = None"
| "first_awaiting (r # rs) =
     (case ar_status r of AwaitingApproval i \<Rightarrow> Some i | _ \<Rightarrow> first_awaiting rs)"

definition gated_iteration :: "('j, 'g, 'w) loop_ports \<Rightarrow> 'g \<Rightarrow> 'j decide_output \<Rightarrow>
    ('j, 'g, 'w) loop_state \<Rightarrow> loop_termination option phase \<times> ('j, 'g, 'w) loop_state" where
  "gated_iteration lp g d s =
     on_fine (execute_phase lp d (log_proposals lp d s))
       (\<lambda>x s.
         let s = record_step lp d x s;
             s = notify lp (SaveStep (ls_ctx s) g d x) s;
             s = notify lp (OnStepCompleted (ls_ctx s) d x) s
         in (case first_awaiting (eo_results x) of
               Some approval_id \<Rightarrow> (Fine (Some (WaitingApproval approval_id)), s)
             | None \<Rightarrow>
                 let s = fold (report_result lp (\<lambda>a. Some (or_null (lp_json lp) a))) (eo_results x) s
                 in (case follow_signal d (eo_loop_signal x) s of
                       Some t \<Rightarrow> (Fine (Some t), s)
                     | None \<Rightarrow> (Fine None, next_iteration s))))"

definition plain_iteration :: "('j, 'g, 'w) loop_ports \<Rightarrow> 'g \<Rightarrow> 'j decide_output \<Rightarrow>
    ('j, 'g, 'w) loop_state \<Rightarrow> loop_termination option phase \<times> ('j, 'g, 'w) loop_state" where
  "plain_iteration lp g d s =
     on_fine (execute_phase lp d (log_proposals lp d (notify lp (SaveIntent (ls_ctx s) g d) s)))
       (\<lambda>x s.
         let s = fold (report_result lp (\<lambda>a. a)) (eo_results x) s;
             s = record_step lp d x s;
             s = notify lp (SaveResult (ls_ctx s) g d x) s;
             s = notify lp (SaveFrame (oc_iteration (ls_ctx s)) (oc_run_id (ls_ctx s))
                   (oc_session_id (ls_ctx s))
                   (if ls_history s = [] then None else Some (last (ls_history s)))
                   (eo_loop_signal x)) s;
             s = notify lp (OnStepCompleted (ls_ctx s) d x) s
         in (case follow_signal d (eo_loop_signal x) s of
               Some t \<Rightarrow> (Fine (Some t), s)
             | None \<Rightarrow>
                 let found = extract_tool_search_discoveries (jv_ops (lp_json lp)) x
                 in (Fine None, next_iteration
                      (s\<lparr>ls_ctx := (ls_ctx s)\<lparr>oc_discovered_tool_names :=
                          add_discovered found (oc_discovered_tool_names (ls_ctx s))\<rparr>\<rparr>))))"

definition act_on :: "('j, 'g, 'w) loop_ports \<Rightarrow> 'g \<Rightarrow> 'j decide_output \<Rightarrow>
    ('j, 'g, 'w) loop_state \<Rightarrow> loop_termination option phase \<times> ('j, 'g, 'w) loop_state" where
  "act_on lp g d s =
     (case (if oc_run_mode (ls_ctx s) = run_mode.Plan then extract_proposed_plan (do_raw_response d)
            else None) of
        Some plan \<Rightarrow> (Fine (Some (PlanProposed plan)), notify lp (OnPlanProposed (ls_ctx s) plan) s)
      | None \<Rightarrow>
          if do_requires_approval d then gated_iteration lp g d s else plain_iteration lp g d s)"

definition run_iteration :: "('j, 'g, 'w) loop_ports \<Rightarrow> loop_config \<Rightarrow> u64 \<Rightarrow>
    ('j, 'g, 'w) loop_state \<Rightarrow> loop_termination option phase \<times> ('j, 'g, 'w) loop_state" where
  "run_iteration lp cfg deadline s =
     on_fine (drain_phase lp s)
       (\<lambda>_ s. case admission lp deadline s of
          (Some t, s) \<Rightarrow> (Fine (Some t), s)
        | (None, s) \<Rightarrow>
            on_fine (gather_phase lp s)
              (\<lambda>g s. on_fine (decide_phase lp deadline g (compaction_phase lp (lc_compaction cfg) s))
                (\<lambda>d s. case d of
                   None \<Rightarrow> (Fine (Some TermTimedOut), s)
                 | Some d \<Rightarrow> act_on lp g d s)))"

fun run_iterations :: "('j, 'g, 'w) loop_ports \<Rightarrow> loop_config \<Rightarrow> u64 \<Rightarrow> nat \<Rightarrow>
    ('j, 'g, 'w) loop_state \<Rightarrow> loop_termination phase \<times> ('j, 'g, 'w) loop_state" where
  "run_iterations lp cfg deadline 0 s = (Fine MaxIterationsReached, s)"
| "run_iterations lp cfg deadline (Suc n) s =
     on_fine (run_iteration lp cfg deadline s)
       (\<lambda>t s. case t of
          Some t \<Rightarrow> (Fine t, s)
        | None \<Rightarrow> run_iterations lp cfg deadline n s)"

definition run_inner :: "('j, 'g, 'w) loop_ports \<Rightarrow> loop_config \<Rightarrow> ('j, 'g, 'w) loop_state \<Rightarrow>
    loop_termination phase \<times> ('j, 'g, 'w) loop_state" where
  "run_inner lp cfg s =
     run_iterations lp cfg (sat_add64 (oc_run_started_at_ms (ls_ctx s)) (lc_timeout_ms cfg))
       (lc_max_iterations cfg) s"

definition run :: "('j, 'g, 'w) loop_ports \<Rightarrow> loop_config \<Rightarrow> orchestration_context \<Rightarrow> 'w \<Rightarrow>
    loop_termination phase \<times> ('j, 'g, 'w) loop_state" where
  "run lp cfg ctx w =
     (case run_inner lp cfg (notify lp (OnStarted ctx) (loop_start ctx w)) of
        (Fine t, s) \<Rightarrow> (Fine t, notify lp (OnFinished (ls_ctx s) t) s)
      | (Fault e, s) \<Rightarrow> (Fault e, notify lp (OnFinished (ls_ctx s) (TermFailed (lp_error_text lp e))) s)
      | (Unwound, s) \<Rightarrow> (Unwound, s))"

end
