(* ===== verification/Orchestrator_Loop_Laws.thy ===== *)
theory Orchestrator_Loop_Laws
  imports Orchestrator_Loop
begin

text \<open>
  The order in which the loop calls its collaborators: a grammar of the calls of one iteration, and
  the calls of an invocation as a sequence of iterations between its first and its last report.
\<close>

section \<open>The calls of an iteration\<close>

fun plain_report :: "('j, 'g) loop_call \<Rightarrow> bool" where
  "plain_report (Report (OnStarted _)) = False"
| "plain_report (Report (OnFinished _ _)) = False"
| "plain_report (Report (OnContextCompacted _ _)) = False"
| "plain_report (Report _) = True"
| "plain_report _ = False"

fun drain_call :: "('j, 'g) loop_call \<Rightarrow> bool" where
  "drain_call (Dispatch_approved _) = True"
| "drain_call c = plain_report c"

text \<open>
  What follows the gather phase: its report, and one of the compaction of the history the gathered
  context still has in full.
\<close>

definition gather_reports :: "orchestration_context \<Rightarrow> 'g \<Rightarrow> ('j, 'g) loop_call list \<Rightarrow> bool" where
  "gather_reports c g rs \<longleftrightarrow>
     rs = [Report (OnGatherCompleted c g)] \<or>
     (\<exists>k. rs = [Report (OnGatherCompleted c g), Report (OnContextCompacted c k)] \<and>
        cr_before_steps k = length (oc_step_history c))"

inductive iteration_calls :: "u64 \<Rightarrow> ('j, 'g) loop_call list \<Rightarrow> bool" for deadline :: u64 where
  drain_failed: "list_all drain_call ds \<Longrightarrow> iteration_calls deadline ds"
| late: "list_all drain_call ds \<Longrightarrow> deadline \<le> t \<Longrightarrow> iteration_calls deadline (ds @ [Clock t])"
| unhealthy: "list_all drain_call ds \<Longrightarrow> t < deadline \<Longrightarrow>
     iteration_calls deadline (ds @ [Clock t, Lease False])"
| gather_failed: "list_all drain_call ds \<Longrightarrow> t < deadline \<Longrightarrow>
     iteration_calls deadline (ds @ [Clock t, Lease True, Gather c])"
| out_of_budget: "list_all drain_call ds \<Longrightarrow> t < deadline \<Longrightarrow> gather_reports c g rs \<Longrightarrow>
     deadline - u < min_decide_budget_ms \<Longrightarrow>
     iteration_calls deadline (ds @ [Clock t, Lease True, Gather c] @ rs @ [Clock u])"
| decided: "list_all drain_call ds \<Longrightarrow> t < deadline \<Longrightarrow> gather_reports c g rs \<Longrightarrow>
     min_decide_budget_ms \<le> deadline - u \<Longrightarrow> list_all plain_report qs \<Longrightarrow>
     iteration_calls deadline
       (ds @ [Clock t, Lease True, Gather c] @ rs @ [Clock u, Decide c g] @ qs)"
| executed: "list_all drain_call ds \<Longrightarrow> t < deadline \<Longrightarrow> gather_reports c g rs \<Longrightarrow>
     min_decide_budget_ms \<le> deadline - u \<Longrightarrow> list_all plain_report qs \<Longrightarrow>
     Report (OnDecideCompleted c d) \<in> set qs \<Longrightarrow> list_all plain_report zs \<Longrightarrow>
     iteration_calls deadline
       (ds @ [Clock t, Lease True, Gather c] @ rs @ [Clock u, Decide c g] @ qs @ [Execute_call c d] @ zs)"

section \<open>What each part adds\<close>

lemma on_fine_cases:
  assumes "on_fine m k = (r, s')"
  obtains (fine) a s where "m = (Fine a, s)" and "k a s = (r, s')"
  | (fault) e where "m = (Fault e, s')" and "r = Fault e"
  | (unwound) "m = (Unwound, s')" and "r = Unwound"
  using assms by (auto simp: on_fine_def split: prod.splits phase.splits)

definition adds :: "(('j, 'g) loop_call \<Rightarrow> bool) \<Rightarrow> ('j, 'g, 'w) loop_state \<Rightarrow>
    ('j, 'g, 'w) loop_state \<Rightarrow> bool" where
  "adds P s s' \<longleftrightarrow> (\<exists>new. ls_calls s' = ls_calls s @ new \<and> list_all P new)"

lemma adds_refl [simp]: "adds P s s"
  by (simp add: adds_def)

lemma adds_trans: "adds P s s' \<Longrightarrow> adds P s' s'' \<Longrightarrow> adds P s s''"
  unfolding adds_def by fastforce

lemma adds_mono: "adds P s s' \<Longrightarrow> (\<And>c. P c \<Longrightarrow> Q c) \<Longrightarrow> adds Q s s'"
  unfolding adds_def list_all_iff by blast

lemma adds_same: "ls_calls s' = ls_calls s \<Longrightarrow> adds P s s'"
  by (simp add: adds_def)

lemma plain_drains: "plain_report c \<Longrightarrow> drain_call c"
  by (cases c) simp_all

lemma notify_calls [simp]: "ls_calls (notify lp n s) = ls_calls s @ [Report n]"
  by (simp add: notify_def calling_def)

lemma notify_keeps [simp]:
  "ls_ctx (notify lp n s) = ls_ctx s" "ls_history (notify lp n s) = ls_history s"
  "ls_drained (notify lp n s) = ls_drained s" "ls_verification (notify lp n s) = ls_verification s"
  "ls_last_compaction (notify lp n s) = ls_last_compaction s"
  by (simp_all add: notify_def calling_def)

text \<open>A part of an iteration that only reports leaves the context and the ledger alone.\<close>

definition reports :: "('j, 'g, 'w) loop_state \<Rightarrow> ('j, 'g, 'w) loop_state \<Rightarrow> bool" where
  "reports s s' \<longleftrightarrow> adds plain_report s s' \<and> ls_ctx s' = ls_ctx s \<and> ls_drained s' = ls_drained s"

lemma reports_refl [simp]: "reports s s"
  by (simp add: reports_def)

lemma reports_trans: "reports s s' \<Longrightarrow> reports s' s'' \<Longrightarrow> reports s s''"
  unfolding reports_def using adds_trans by metis

lemma reports_notify: "plain_report (Report n :: ('j, 'g) loop_call) \<Longrightarrow>
    reports s (notify lp (n :: ('j, 'g) notice) s)"
  by (simp add: reports_def adds_def)

lemma reports_fold: "(\<And>x s. reports s (f x s)) \<Longrightarrow> reports s (fold f xs s)"
  by (induction xs arbitrary: s) (auto intro: reports_trans)

lemma reports_push [simp]: "reports s (push_step st s)"
  by (simp add: push_step_def reports_def adds_same)

lemma reports_observe [simp]: "reports s (observe_all lp rs s)"
  by (simp add: observe_all_def reports_def adds_same)

lemma reports_notify_after:
  "reports s s' \<Longrightarrow> plain_report (Report n :: ('j, 'g) loop_call) \<Longrightarrow>
     reports s (notify lp (n :: ('j, 'g) notice) s')"
  using reports_trans reports_notify by metis

lemma reports_push_after: "reports s s' \<Longrightarrow> reports s (push_step st s')"
  using reports_trans reports_push by metis

lemma reports_result:
  "reports s (report_result lp args r s)" "reports s (report_drained lp r s)"
  by (auto simp: report_result_def report_drained_def notify_result_def log_result_def Let_def
      intro!: reports_notify_after reports_push_after split: option.split)

lemma reports_proposals: "reports s (log_proposals lp d s)"
  unfolding log_proposals_def
  by (rule reports_fold) (auto intro: reports_notify split: option.split)

section \<open>Draining\<close>

definition dispatched :: "('j, 'g) loop_call list \<Rightarrow> ident list" where
  "dispatched cs = List.map_filter (\<lambda>c. case c of Dispatch_approved ad \<Rightarrow> Some (ad_call_id ad) | _ \<Rightarrow> None) cs"

lemma dispatched_simps [simp]:
  "dispatched [] = []" "dispatched (xs @ ys) = dispatched xs @ dispatched ys"
  "dispatched (Dispatch_approved ad # cs) = ad_call_id ad # dispatched cs"
  by (simp_all add: dispatched_def map_filter_simps map_filter_def)

lemma dispatched_plain: "list_all plain_report cs \<Longrightarrow> dispatched cs = []"
  by (induction cs) (auto simp: dispatched_def map_filter_simps split: loop_call.split)

text \<open>The ledger of drained calls: every dispatched call is in it, and none is dispatched twice.\<close>

definition ledger :: "('j, 'g, 'w) loop_state \<Rightarrow> bool" where
  "ledger s \<longleftrightarrow> distinct (dispatched (ls_calls s)) \<and> set (dispatched (ls_calls s)) \<subseteq> set (ls_drained s)"

definition drains :: "('j, 'g, 'w) loop_state \<Rightarrow> ('j, 'g, 'w) loop_state \<Rightarrow> bool" where
  "drains s s' \<longleftrightarrow> adds drain_call s s' \<and> ls_ctx s' = ls_ctx s \<and> (ledger s \<longrightarrow> ledger s')"

lemma drains_refl [simp]: "drains s s"
  by (simp add: drains_def)

lemma drains_trans: "drains s s' \<Longrightarrow> drains s' s'' \<Longrightarrow> drains s s''"
  unfolding drains_def using adds_trans by metis

lemma reports_drain: "reports s s' \<Longrightarrow> drains s s'"
  unfolding reports_def drains_def ledger_def adds_def
  by (auto simp: dispatched_plain list_all_iff plain_drains)

lemma instant_fields [simp]:
  "instant lp s = (t, s') \<Longrightarrow> ls_calls s' = ls_calls s \<and> ls_ctx s' = ls_ctx s \<and> ls_drained s' = ls_drained s"
  by (auto simp: instant_def split: prod.splits)

lemma drains_calls: "drain_calls lp aps s = (r, s') \<Longrightarrow> drains s s'"
proof (induction aps arbitrary: s r s')
  case (Cons ap aps)
  show ?case
  proof (cases "ap_call_id ap \<in> set (ls_drained s)")
    case True
    then show ?thesis using Cons by simp
  next
    case False
    let ?ad = "\<lparr>ad_call_id = ap_call_id ap, ad_tool_name = ap_tool_name ap,
                ad_tool_args = ap_tool_args ap\<rparr>"
    let ?s1 = "s\<lparr>ls_drained := ls_drained s @ [ap_call_id ap]\<rparr>"
    obtain started s2 where i: "instant lp ?s1 = (started, s2)" by fastforce
    obtain a s3 where c: "calling (Dispatch_approved ?ad) (lp_dispatch_approved lp (ls_ctx s2) ?ad) s2 = (a, s3)"
      by fastforce
    have s3: "ls_calls s3 = ls_calls s @ [Dispatch_approved ?ad]" "ls_ctx s3 = ls_ctx s"
      "ls_drained s3 = ls_drained s @ [ap_call_id ap]"
      using c instant_fields [OF i] by (auto simp: calling_def split: prod.splits)
    have first: "drains s s3"
      using s3 False by (auto simp: drains_def adds_def ledger_def)
    have "on_fine (a, s3) (\<lambda>x s. let (ended, s) = instant lp s
        in on_fine (drain_calls lp aps s)
             (\<lambda>rs s. (Fine (x\<lparr>ar_duration_ms := ended - started\<rparr> # rs), s))) = (r, s')"
      using Cons.prems False by (simp add: Let_def i c split: prod.splits)
    then show ?thesis
    proof (cases rule: on_fine_cases)
      case (fine x s4)
      obtain ended s5 where e: "instant lp s4 = (ended, s5)" by fastforce
      have "drains s4 s5" using instant_fields [OF e] by (auto simp: drains_def ledger_def adds_same)
      moreover have "drains s5 s'"
        using fine(2) Cons.IH by (auto simp: e elim!: on_fine_cases)
      ultimately show ?thesis using first fine(1) drains_trans by blast
    qed (use first in auto)
  qed
qed simp

lemma new_rejections_grow:
  "new_rejections rjs drained = (out, drained') \<Longrightarrow> set drained \<subseteq> set drained'"
proof (induction rjs arbitrary: drained out)
  case (Cons rj rjs)
  then show ?case by (auto split: if_splits prod.splits) fastforce+
qed simp

lemma drains_approved: "drain_approved_pending lp s = (a, s') \<Longrightarrow> drains s s'"
  using drains_calls
  by (auto simp: drain_approved_pending_def split: option.splits prod.splits elim!: on_fine_cases)

lemma drains_rejected: "drain_rejected_pending lp s = (a, s') \<Longrightarrow> drains s s'"
  by (auto simp: drain_rejected_pending_def drains_def ledger_def adds_same
      split: option.splits prod.splits elim!: on_fine_cases dest!: new_rejections_grow) blast

lemma drains_phase:
  assumes "drain_phase lp s = (r, s')"
  shows "drains s s'"
  using assms unfolding drain_phase_def
proof (cases rule: on_fine_cases)
  case (fine drained s1)
  have mid: "drains s (fold (report_drained lp) drained s1)"
    by (rule drains_trans [OF drains_approved [OF fine(1)]
          reports_drain [OF reports_fold [OF reports_result(2)]]])
  from fine(2) show ?thesis
  proof (cases rule: on_fine_cases)
    case (fine rs s2)
    have "drains s2 s'" using fine(2) reports_drain [OF reports_fold [OF reports_push]] by auto
    then show ?thesis using drains_trans [OF mid drains_trans [OF drains_rejected [OF fine(1)]]] by blast
  next
    case (fault e)
    then show ?thesis using drains_trans [OF mid drains_rejected] by blast
  next
    case unwound
    then show ?thesis using drains_trans [OF mid drains_rejected] by blast
  qed
qed (use drains_approved in auto)

section \<open>The checks and the decision\<close>

text \<open>A part of an iteration that dispatches nothing by itself keeps the ledger.\<close>

lemma ledger_adds:
  "ls_calls s' = ls_calls s @ new \<Longrightarrow> dispatched new = [] \<Longrightarrow> ls_drained s' = ls_drained s \<Longrightarrow>
     ledger s \<Longrightarrow> ledger s'"
  by (simp add: ledger_def)

lemma admission_calls:
  assumes "admission lp deadline s = (t, s')"
  shows "ls_ctx s' = ls_ctx s \<and> ls_drained s' = ls_drained s \<and> ls_history s' = ls_history s \<and>
    (\<exists>now. (deadline \<le> now \<and> t = Some TermTimedOut \<and> ls_calls s' = ls_calls s @ [Clock now]) \<or>
      (now < deadline \<and> t = Some (TermFailed lease_unhealthy_reason) \<and>
         ls_calls s' = ls_calls s @ [Clock now, Lease False]) \<or>
      (now < deadline \<and> t = None \<and> ls_calls s' = ls_calls s @ [Clock now, Lease True]))"
  using assms by (auto simp: admission_def now_millis_def Let_def split: prod.splits if_splits)

lemma gather_calls:
  assumes "gather_phase lp s = (g, s')"
  obtains c where "ls_ctx s' = c" and "oc_step_history c = ls_history s'" and "ls_history s' = ls_history s"
    and "ls_drained s' = ls_drained s"
    and "ls_calls s' = ls_calls s @ Gather c #
      (case g of Fine x \<Rightarrow> [Report (OnGatherCompleted c x)] | _ \<Rightarrow> [])"
  using assms that unfolding gather_phase_def
  by (auto simp: calling_def Let_def elim!: on_fine_cases split: prod.splits)

lemma compaction_calls:
  fixes s :: "('j, 'g, 'w) loop_state"
  shows "ls_ctx (compaction_phase lp cfg s) = ls_ctx s \<and> ls_drained (compaction_phase lp cfg s) = ls_drained s \<and>
    (\<exists>rs. ls_calls (compaction_phase lp cfg s) = ls_calls s @ rs \<and>
      (rs = [] \<or> (\<exists>k. rs = [Report (OnContextCompacted (ls_ctx s) k)] \<and>
        cr_before_steps k = length (ls_history s))))"
  by (auto simp: compaction_phase_def maybe_compact_history_def Let_def split: option.splits if_splits)

lemma decide_calls:
  assumes "decide_phase lp deadline g s = (d, s')"
  shows "ls_ctx s' = ls_ctx s \<and> ls_drained s' = ls_drained s \<and>
    (\<exists>u. (d = Fine None \<and> deadline - u < min_decide_budget_ms \<and> ls_calls s' = ls_calls s @ [Clock u]) \<or>
      (d \<noteq> Fine None \<and> min_decide_budget_ms \<le> deadline - u \<and>
       (\<exists>qs. ls_calls s' = ls_calls s @ [Clock u, Decide (ls_ctx s) g] @ qs \<and> list_all plain_report qs \<and>
         (\<forall>x. d = Fine (Some x) \<longrightarrow> Report (OnDecideCompleted (ls_ctx s) x) \<in> set qs))))"
  using assms unfolding decide_phase_def
  by (auto simp: now_millis_def calling_def Let_def split: prod.splits if_splits option.splits elim!: on_fine_cases)


lemma execute_calls:
  assumes "execute_phase lp d s = (x, s')"
  shows "ls_ctx s' = ls_ctx s \<and> ls_drained s' = ls_drained s \<and>
    ls_calls s' = ls_calls s @ [Execute_call (ls_ctx s) d]"
  using assms unfolding execute_phase_def
  by (auto simp: calling_def observe_all_def elim!: on_fine_cases split: prod.splits)

text \<open>A part that reports and leaves the ledger alone, whatever it does to the context.\<close>

definition wraps_up :: "('j, 'g, 'w) loop_state \<Rightarrow> ('j, 'g, 'w) loop_state \<Rightarrow> bool" where
  "wraps_up s s' \<longleftrightarrow> adds plain_report s s' \<and> ls_drained s' = ls_drained s"

lemma wraps_up_trans: "wraps_up s s' \<Longrightarrow> wraps_up s' s'' \<Longrightarrow> wraps_up s s''"
  unfolding wraps_up_def using adds_trans by metis

lemma wraps_up_reports: "reports s s' \<Longrightarrow> wraps_up s s'"
  by (simp add: wraps_up_def reports_def)

lemma wraps_up_simps [simp]:
  "wraps_up s s" "wraps_up s (next_iteration s)" "wraps_up s (record_step lp d x s)"
  "wraps_up s (s\<lparr>ls_ctx := c\<rparr>)"
  by (simp_all add: wraps_up_def next_iteration_def record_step_def push_step_def Let_def adds_same)

lemma wraps_up_notify: "plain_report (Report n :: ('j, 'g) loop_call) \<Longrightarrow>
    wraps_up s s' \<Longrightarrow> wraps_up s (notify lp (n :: ('j, 'g) notice) s')"
  using wraps_up_reports [OF reports_notify] wraps_up_trans by metis

lemma wraps_up_fold: "wraps_up s s' \<Longrightarrow> wraps_up s (fold (report_result lp args) rs s')"
  by (rule wraps_up_trans [OF _ wraps_up_reports [OF reports_fold [OF reports_result(1)]]])

lemma wraps_up_record: "wraps_up s s' \<Longrightarrow> wraps_up s (record_step lp d x s')"
  using wraps_up_simps(3) wraps_up_trans by metis

lemma wraps_up_next: "wraps_up s s' \<Longrightarrow> wraps_up s (next_iteration s')"
  using wraps_up_simps(2) wraps_up_trans by metis

lemma wraps_up_ctx: "wraps_up s s' \<Longrightarrow> wraps_up s (s'\<lparr>ls_ctx := c\<rparr>)"
  using wraps_up_simps(4) wraps_up_trans by metis

lemmas wraps_up_intros = wraps_up_notify wraps_up_fold wraps_up_record wraps_up_next wraps_up_ctx

text \<open>One action: reports, then at most one execution with reports behind it.\<close>

definition acts :: "'j decide_output \<Rightarrow> ('j, 'g, 'w) loop_state \<Rightarrow> ('j, 'g, 'w) loop_state \<Rightarrow> bool" where
  "acts d s s' \<longleftrightarrow> wraps_up s s' \<or>
     (\<exists>s1 s2. reports s s1 \<and> ls_calls s2 = ls_calls s1 @ [Execute_call (ls_ctx s) d] \<and>
        ls_drained s2 = ls_drained s1 \<and> wraps_up s2 s')"

lemma acts_execute:
  assumes "reports s s0" and "on_fine (execute_phase lp d s0) k = (t, s')"
    and "\<And>x s2. k x s2 = (t, s') \<Longrightarrow> wraps_up s2 s'"
  shows "acts d s s'"
proof -
  obtain x s2 where x: "execute_phase lp d s0 = (x, s2)" by fastforce
  note ex = execute_calls [OF x]
  have "wraps_up s2 s'" using assms(2,3) x by (auto elim!: on_fine_cases)
  then show ?thesis using ex assms(1) unfolding acts_def reports_def by metis
qed

lemma act_on_acts: "act_on lp g d s = (t, s') \<Longrightarrow> acts d s s'"
proof -
  assume a: "act_on lp g d s = (t, s')"
  have gated: "acts d s s'" if "gated_iteration lp g d s = (t, s')"
    by (rule acts_execute [OF reports_proposals that [unfolded gated_iteration_def]])
      (auto simp: Let_def intro!: wraps_up_intros split: option.splits)
  have plain: "acts d s s'" if "plain_iteration lp g d s = (t, s')"
  proof (rule acts_execute [OF _ that [unfolded plain_iteration_def]])
    show "reports s (log_proposals lp d (notify lp (SaveIntent (ls_ctx s) g d) s))"
      by (rule reports_trans [OF reports_notify reports_proposals]) simp
  qed (auto simp: Let_def intro!: wraps_up_intros split: option.splits)
  have "acts d s (notify lp (OnPlanProposed (ls_ctx s) plan) s)" for plan
    unfolding acts_def using wraps_up_notify [of "OnPlanProposed (ls_ctx s) plan" s s lp] by simp
  then show ?thesis
    using a gated plain by (auto simp: act_on_def split: option.splits if_splits)
qed

lemma acts_cases:
  assumes "acts d s s'"
  obtains (quiet) ws where "ls_calls s' = ls_calls s @ ws" "list_all plain_report ws"
      "ls_drained s' = ls_drained s"
    | (executing) ws zs where "ls_calls s' = ls_calls s @ ws @ [Execute_call (ls_ctx s) d] @ zs"
      "list_all plain_report ws" "list_all plain_report zs" "ls_drained s' = ls_drained s"
  using assms unfolding acts_def
proof
  assume "wraps_up s s'"
  then show ?thesis using quiet by (auto simp: wraps_up_def adds_def)
next
  assume "\<exists>s1 s2. reports s s1 \<and> ls_calls s2 = ls_calls s1 @ [Execute_call (ls_ctx s) d] \<and>
    ls_drained s2 = ls_drained s1 \<and> wraps_up s2 s'"
  then obtain s1 s2 where s: "reports s s1" "wraps_up s2 s'"
    "ls_calls s2 = ls_calls s1 @ [Execute_call (ls_ctx s) d]" "ls_drained s2 = ls_drained s1"
    by blast
  from s(1) obtain ws where ws: "ls_calls s1 = ls_calls s @ ws" "list_all plain_report ws"
    unfolding reports_def adds_def by blast
  from s(2) obtain zs where zs: "ls_calls s' = ls_calls s2 @ zs" "list_all plain_report zs"
    unfolding wraps_up_def adds_def by blast
  have "ls_drained s' = ls_drained s"
    using s by (simp add: reports_def wraps_up_def)
  then show ?thesis using executing [of ws zs] s(3) ws zs by simp
qed

section \<open>An iteration\<close>

definition in_iteration :: "u64 \<Rightarrow> ('j, 'g, 'w) loop_state \<Rightarrow> ('j, 'g, 'w) loop_state \<Rightarrow> bool" where
  "in_iteration deadline s s' \<longleftrightarrow>
     (\<exists>new. ls_calls s' = ls_calls s @ new \<and> iteration_calls deadline new) \<and> (ledger s \<longrightarrow> ledger s')"

lemma dispatched_others [simp]:
  "dispatched (Clock t # cs) = dispatched cs" "dispatched (Lease h # cs) = dispatched cs"
  "dispatched (Gather c # cs) = dispatched cs" "dispatched (Decide c g # cs) = dispatched cs"
  "dispatched (Execute_call c d # cs) = dispatched cs" "dispatched (Report n # cs) = dispatched cs"
  by (simp_all add: dispatched_def map_filter_simps)

lemma gather_reports_dispatched: "gather_reports c g rs \<Longrightarrow> dispatched rs = []"
  by (auto simp: gather_reports_def)

lemma decide_and_act_calls:
  assumes "list_all drain_call ds" and "t < deadline" and "gather_reports c x rs" and "ls_ctx s = c"
    and "on_fine (decide_phase lp deadline x s) (\<lambda>d s. case d of
        None \<Rightarrow> (Fine (Some TermTimedOut), s) | Some d \<Rightarrow> act_on lp x d s) = (r, s')"
  shows "\<exists>new. ls_calls s' = ls_calls s @ new \<and> dispatched new = [] \<and> ls_drained s' = ls_drained s \<and>
    iteration_calls deadline (ds @ [Clock t, Lease True, Gather c] @ rs @ new)"
proof -
  obtain d s5 where de: "decide_phase lp deadline x s = (d, s5)" by fastforce
  note dec = decide_calls [OF de]
  show ?thesis
  proof (cases "d = Fine None")
    case True
    then have "s' = s5" using assms(5) de by (simp add: on_fine_def)
    then show ?thesis
      using dec True iteration_calls.out_of_budget [OF assms(1-3)] by auto
  next
    case False
    then obtain u qs where u: "min_decide_budget_ms \<le> deadline - u" "list_all plain_report qs"
      "ls_calls s5 = ls_calls s @ [Clock u, Decide c x] @ qs" "ls_drained s5 = ls_drained s"
      "\<And>y. d = Fine (Some y) \<Longrightarrow> Report (OnDecideCompleted c y) \<in> set qs" "ls_ctx s5 = c"
      using dec assms(4) by auto
    have "s' = s5 \<or> (\<exists>y. d = Fine (Some y) \<and> acts y s5 s')"
      using assms(5) de False by (cases d) (auto simp: on_fine_def dest: act_on_acts split: option.splits)
    then consider (quiet) ws where "ls_calls s' = ls_calls s5 @ ws" "list_all plain_report ws"
        "ls_drained s' = ls_drained s5"
      | (executing) y ws zs where "d = Fine (Some y)" "ls_drained s' = ls_drained s5"
        "ls_calls s' = ls_calls s5 @ ws @ [Execute_call c y] @ zs" "list_all plain_report ws"
        "list_all plain_report zs"
    proof
      assume "s' = s5"
      then show ?thesis using that(1) [of "[]"] by simp
    next
      assume "\<exists>y. d = Fine (Some y) \<and> acts y s5 s'"
      then obtain y where y: "d = Fine (Some y)" "acts y s5 s'" by blast
      from y(2) show ?thesis
        using that y(1) u(6) by (cases rule: acts_cases) blast+
    qed
    then show ?thesis
    proof cases
      case quiet
      then show ?thesis
        using u iteration_calls.decided [OF assms(1-3) u(1), of "qs @ ws"]
        by (intro exI [of _ "[Clock u, Decide c x] @ qs @ ws"]) (simp add: dispatched_plain)
    next
      case executing
      then show ?thesis
        using u iteration_calls.executed [OF assms(1-3) u(1), of "qs @ ws" y zs]
        by (intro exI [of _ "[Clock u, Decide c x] @ qs @ ws @ [Execute_call c y] @ zs"])
          (simp add: dispatched_plain)
    qed
  qed
qed

lemma gather_decide_calls:
  assumes "list_all drain_call ds" and "t < deadline"
    and "on_fine (gather_phase lp s) (\<lambda>g s. on_fine
        (decide_phase lp deadline g (compaction_phase lp cfg s)) (\<lambda>d s. case d of
          None \<Rightarrow> (Fine (Some TermTimedOut), s) | Some d \<Rightarrow> act_on lp g d s)) = (r, s')"
  shows "\<exists>new. ls_calls s' = ls_calls s @ new \<and> dispatched new = [] \<and> ls_drained s' = ls_drained s \<and>
    iteration_calls deadline (ds @ [Clock t, Lease True] @ new)"
proof -
  obtain g s3 where ga: "gather_phase lp s = (g, s3)" by fastforce
  obtain c where c: "ls_ctx s3 = c" "oc_step_history c = ls_history s3" "ls_drained s3 = ls_drained s"
    "ls_calls s3 = ls_calls s @ Gather c # (case g of Fine x \<Rightarrow> [Report (OnGatherCompleted c x)] | _ \<Rightarrow> [])"
    using ga by (rule gather_calls)
  have failed: ?thesis if "\<And>x. g \<noteq> Fine x"
    using that assms(3) ga c iteration_calls.gather_failed [OF assms(1,2), of c]
    by (cases g) (auto simp: on_fine_def intro!: exI [of _ "[Gather c]"])
  show ?thesis
  proof (cases g)
    case (Fine x)
    let ?s4 = "compaction_phase lp cfg s3"
    obtain rs where rs: "gather_reports c x rs" "ls_calls ?s4 = ls_calls s @ Gather c # rs"
      "ls_ctx ?s4 = c" "ls_drained ?s4 = ls_drained s"
      using compaction_calls [of lp cfg s3] c Fine unfolding gather_reports_def by fastforce
    obtain new where "ls_calls s' = ls_calls ?s4 @ new" "dispatched new = []" "ls_drained s' = ls_drained s"
      "iteration_calls deadline (ds @ [Clock t, Lease True, Gather c] @ rs @ new)"
      using decide_and_act_calls [OF assms(1,2) rs(1,3), of lp r s'] assms(3) ga Fine rs(4)
      by (auto simp: on_fine_def)
    then show ?thesis
      using rs(2) gather_reports_dispatched [OF rs(1)]
      by (intro exI [of _ "Gather c # rs @ new"]) simp
  qed (use failed in auto)
qed

lemma run_iteration_calls:
  assumes "run_iteration lp cfg deadline s = (r, s')"
  shows "in_iteration deadline s s'"
proof -
  obtain a s1 where dr: "drain_phase lp s = (a, s1)" by fastforce
  obtain ds where ds: "ls_calls s1 = ls_calls s @ ds" "list_all drain_call ds" "ledger s \<longrightarrow> ledger s1"
    using drains_phase [OF dr] by (auto simp: drains_def adds_def)
  from assms show ?thesis unfolding run_iteration_def dr
  proof (cases rule: on_fine_cases)
    case (fine u s1')
    obtain b s2 where ad: "admission lp deadline s1 = (b, s2)" by fastforce
    note adm = admission_calls [OF ad]
    show ?thesis
    proof (cases b)
      case (Some end_t)
      then have "s' = s2" using fine ad by simp
      then show ?thesis
        using adm Some ds iteration_calls.late [OF ds(2)] iteration_calls.unhealthy [OF ds(2)]
        by (auto simp: in_iteration_def ledger_def)
    next
      case None
      then obtain now where now: "now < deadline" "ls_calls s2 = ls_calls s1 @ [Clock now, Lease True]"
        "ls_drained s2 = ls_drained s1" using adm by auto
      obtain new where "ls_calls s' = ls_calls s2 @ new" "dispatched new = []" "ls_drained s' = ls_drained s2"
        "iteration_calls deadline (ds @ [Clock now, Lease True] @ new)"
        using gather_decide_calls [OF ds(2) now(1), of lp s2 "lc_compaction cfg" r s'] fine ad None by auto
      then show ?thesis using ds now by (auto simp: in_iteration_def ledger_def)
    qed
  qed (use dr ds iteration_calls.drain_failed [OF ds(2)] in \<open>auto simp: in_iteration_def\<close>)
qed

lemma run_iterations_calls:
  "run_iterations lp cfg deadline n s = (r, s') \<Longrightarrow>
     \<exists>segs. length segs \<le> n \<and> ls_calls s' = ls_calls s @ concat segs \<and>
       list_all (iteration_calls deadline) segs \<and> (ledger s \<longrightarrow> ledger s')"
proof (induction n arbitrary: s)
  case (Suc n)
  obtain a s1 where it: "run_iteration lp cfg deadline s = (a, s1)" by fastforce
  obtain seg where seg: "ls_calls s1 = ls_calls s @ seg" "iteration_calls deadline seg"
    "ledger s \<longrightarrow> ledger s1" using run_iteration_calls [OF it] by (auto simp: in_iteration_def)
  have ends: ?case if "s' = s1" using that seg by (intro exI [of _ "[seg]"]) simp
  from Suc.prems have "on_fine (a, s1) (\<lambda>t s. case t of Some t \<Rightarrow> (Fine t, s)
      | None \<Rightarrow> run_iterations lp cfg deadline n s) = (r, s')" by (simp add: it)
  then show ?case
  proof (cases rule: on_fine_cases)
    case (fine t s2)
    show ?thesis
    proof (cases t)
      case None
      then obtain segs where "length segs \<le> n" "ls_calls s' = ls_calls s1 @ concat segs"
        "list_all (iteration_calls deadline) segs" "ledger s1 \<longrightarrow> ledger s'"
        using Suc.IH fine by fastforce
      then show ?thesis using seg by (intro exI [of _ "seg # segs"]) simp
    qed (use fine ends in auto)
  qed (use ends in auto)
qed (auto intro: exI [of _ "[]"])

section \<open>An invocation\<close>

definition run_deadline :: "loop_config \<Rightarrow> orchestration_context \<Rightarrow> u64" where
  "run_deadline cfg ctx = sat_add64 (oc_run_started_at_ms ctx) (lc_timeout_ms cfg)"

definition final_report :: "('j, 'g, 'w) loop_ports \<Rightarrow> loop_termination phase \<Rightarrow> orchestration_context \<Rightarrow>
    ('j, 'g) loop_call list" where
  "final_report lp r c =
     (case r of
        Fine t \<Rightarrow> [Report (OnFinished c t)]
      | Fault e \<Rightarrow> [Report (OnFinished c (TermFailed (lp_error_text lp e)))]
      | Unwound \<Rightarrow> [])"

lemma run_calls:
  assumes "run lp cfg ctx w = (r, s)"
  obtains segs where "length segs \<le> lc_max_iterations cfg"
    and "list_all (iteration_calls (run_deadline cfg ctx)) segs"
    and "ls_calls s = Report (OnStarted ctx) # concat segs @ final_report lp r (ls_ctx s)" and "ledger s"
proof -
  let ?s0 = "notify lp (OnStarted ctx) (loop_start ctx w)"
  obtain a s1 where a: "run_inner lp cfg ?s0 = (a, s1)" by fastforce
  have "ledger ?s0" "ls_calls ?s0 = [Report (OnStarted ctx)]" "ls_ctx ?s0 = ctx"
    by (simp_all add: ledger_def loop_start_def)
  moreover from this obtain segs where "length segs \<le> lc_max_iterations cfg"
    "ls_calls s1 = ls_calls ?s0 @ concat segs" "list_all (iteration_calls (run_deadline cfg ctx)) segs"
    "ledger ?s0 \<longrightarrow> ledger s1"
    using run_iterations_calls a unfolding run_inner_def run_deadline_def by metis
  ultimately show ?thesis
    using assms a that [of segs]
    by (auto simp: run_def final_report_def ledger_def split: phase.splits)
qed

end
