(* ===== verification/Orchestrator_Correctness.thy ===== *)
theory Orchestrator_Correctness
  imports Orchestrator_Loop_Laws
begin

text \<open>
  What the loop promises its collaborators and its observers: the order of the calls of an
  invocation, the bounds on them, which decisions a compaction reaches, and when a run counts as
  completed.
\<close>

section \<open>The protocol\<close>

text \<open>C17: An invocation of the loop calls its collaborators in this order and no other. It reports
  its start; then come at most \<open>max_iterations\<close> iterations, each a drain, a reading of the clock in
  front of the deadline, a healthy lease, one gather, a second reading with the least budget for a
  decision left, one decision on what was gathered and at most one execution of what was decided
  and reported, or a prefix of these where the iteration ended early; then it reports its end, once
  and last, unless a collaborator panicked.\<close>

theorem loop_protocol:
  "case run lp cfg ctx w of (r, s) \<Rightarrow>
     \<exists>segs. length segs \<le> lc_max_iterations cfg \<and>
       list_all (iteration_calls (run_deadline cfg ctx)) segs \<and>
       ls_calls s = Report (OnStarted ctx) # concat segs @ final_report lp r (ls_ctx s)"
proof (cases "run lp cfg ctx w")
  case (Pair r s)
  then show ?thesis using run_calls [OF Pair] by auto
qed

section \<open>Bounds on the decisions\<close>

text \<open>Every decision directly follows a reading of the clock that leaves it its budget.\<close>

fun funded :: "u64 \<Rightarrow> u64 option \<Rightarrow> ('j, 'g) loop_call list \<Rightarrow> bool" where
  "funded deadline last_read [] = True"
| "funded deadline last_read (Clock u # cs) = funded deadline (Some u) cs"
| "funded deadline last_read (Decide c g # cs) =
     ((case last_read of None \<Rightarrow> False | Some u \<Rightarrow> u + min_decide_budget_ms \<le> deadline) \<and>
      funded deadline None cs)"
| "funded deadline last_read (_ # cs) = funded deadline None cs"

fun is_decide :: "('j, 'g) loop_call \<Rightarrow> bool" where
  "is_decide (Decide _ _) = True"
| "is_decide _ = False"

fun is_execute :: "('j, 'g) loop_call \<Rightarrow> bool" where
  "is_execute (Execute_call _ _) = True"
| "is_execute _ = False"

definition decisions :: "('j, 'g) loop_call list \<Rightarrow> nat" where
  "decisions cs = length (filter is_decide cs)"

definition executions :: "('j, 'g) loop_call list \<Rightarrow> nat" where
  "executions cs = length (filter is_execute cs)"

lemma counts_append [simp]:
  "decisions (xs @ ys) = decisions xs + decisions ys"
  "executions (xs @ ys) = executions xs + executions ys"
  by (simp_all add: decisions_def executions_def)

lemma counts_simps [simp]:
  "decisions [] = 0" "executions [] = 0"
  "decisions (c # cs) = (if is_decide c then 1 else 0) + decisions cs"
  "executions (c # cs) = (if is_execute c then 1 else 0) + executions cs"
  by (simp_all add: decisions_def executions_def)

lemma quiet_call:
  "drain_call c \<Longrightarrow> \<not> is_decide c" "drain_call c \<Longrightarrow> \<not> is_execute c"
  "drain_call c \<Longrightarrow> funded dl l (c # cs) = funded dl None cs"
  by (cases c; simp)+

lemma quiet_counts: "list_all drain_call cs \<Longrightarrow> decisions cs = 0 \<and> executions cs = 0"
  by (induction cs) (simp_all add: quiet_call)

lemma plain_quiet: "list_all plain_report cs \<Longrightarrow> list_all drain_call cs"
  by (simp add: list_all_iff plain_drains)

lemma funded_quiet:
  "list_all drain_call cs \<Longrightarrow> funded dl l (cs @ xs) = funded dl (if cs = [] then l else None) xs"
  by (induction cs arbitrary: l) (simp_all add: quiet_call)

lemma gather_reports_quiet:
  "gather_reports c g rs \<Longrightarrow> decisions rs = 0 \<and> executions rs = 0 \<and> (\<forall>dl l xs. funded dl l (rs @ xs) = funded dl None xs)"
  by (auto simp: gather_reports_def)

lemma iteration_counts:
  "iteration_calls dl seg \<Longrightarrow> decisions seg \<le> 1 \<and> executions seg \<le> decisions seg"
  by (induction rule: iteration_calls.induct)
    (auto simp: quiet_counts plain_quiet dest: gather_reports_quiet)

lemma min_budget_pos: "min_decide_budget_ms \<le> dl - u \<Longrightarrow> u + min_decide_budget_ms \<le> dl"
  by (simp add: min_decide_budget_ms_def)

lemma iteration_funded:
  "iteration_calls dl seg \<Longrightarrow> \<exists>l'. funded dl l (seg @ xs) = funded dl l' xs"
  by (induction rule: iteration_calls.induct)
    (auto simp: funded_quiet plain_quiet dest!: gather_reports_quiet min_budget_pos)

lemma iterations_funded:
  "list_all (iteration_calls dl) segs \<Longrightarrow> list_all drain_call xs \<or> (\<exists>c t. xs = [Report (OnFinished c t)]) \<Longrightarrow>
     funded dl l (concat segs @ xs)"
proof (induction segs arbitrary: l)
  case Nil
  then show ?case using funded_quiet [of xs dl l "[]"] by auto
next
  case (Cons seg segs)
  obtain l' where "funded dl l (seg @ concat segs @ xs) = funded dl l' (concat segs @ xs)"
    using iteration_funded Cons.prems(1) by fastforce
  then show ?case using Cons by simp
qed

lemma iterations_counts:
  "list_all (iteration_calls dl) segs \<Longrightarrow>
     decisions (concat segs) \<le> length segs \<and> executions (concat segs) \<le> decisions (concat segs)"
proof (induction segs)
  case (Cons seg segs)
  then show ?case using iteration_counts [of dl seg] by simp
qed simp

text \<open>C18: An invocation asks for at most \<open>max_iterations\<close> decisions and executes at most as many
  batches as it decided, whatever its collaborators answer, and asks for a decision only directly
  after a reading of the clock that leaves at least 5000 milliseconds to the deadline.\<close>

theorem decisions_bounded:
  "let cs = ls_calls (snd (run lp cfg ctx w))
   in decisions cs \<le> lc_max_iterations cfg \<and> executions cs \<le> decisions cs \<and>
      funded (run_deadline cfg ctx) None cs"
proof (cases "run lp cfg ctx w")
  case (Pair r s)
  then show ?thesis
  proof (rule run_calls)
    fix segs
    assume segs: "length segs \<le> lc_max_iterations cfg"
      "list_all (iteration_calls (run_deadline cfg ctx)) segs"
      "ls_calls s = Report (OnStarted ctx) # concat segs @ final_report lp r (ls_ctx s)"
    have "funded (run_deadline cfg ctx) None (concat segs @ final_report lp r (ls_ctx s))"
      by (rule iterations_funded [OF segs(2)]) (auto simp: final_report_def split: phase.split)
    moreover have "decisions (final_report lp r (ls_ctx s)) = 0" "executions (final_report lp r (ls_ctx s)) = 0"
      by (simp_all add: final_report_def split: phase.split)
    ultimately show ?thesis
      using iterations_counts [OF segs(2)] segs(1,3) Pair by (simp add: Let_def)
  qed
qed

section \<open>The drain\<close>

text \<open>C19: An invocation dispatches every call an operator approved at most once, however often the
  projection lists it, across all the drains of the invocation.\<close>

theorem drained_once: "distinct (dispatched (ls_calls (snd (run lp cfg ctx w))))"
proof (cases "run lp cfg ctx w")
  case (Pair r s)
  have "ledger s" by (rule run_calls [OF Pair])
  then show ?thesis by (simp add: Pair ledger_def)
qed

section \<open>Compaction and the prompt\<close>

text \<open>The decision after a compaction still sees every step the compaction replaced.\<close>

fun compaction_unseen :: "('j, 'g) loop_call list \<Rightarrow> bool" where
  "compaction_unseen (Report (OnContextCompacted c k) # cs) =
     ((case cs of Clock u # Decide c' g # _ \<Rightarrow>
         c' = c \<and> length (oc_step_history c') = cr_before_steps k | _ \<Rightarrow> True) \<and> compaction_unseen cs)"
| "compaction_unseen (_ # cs) = compaction_unseen cs"
| "compaction_unseen [] = True"

fun decides_first :: "('j, 'g) loop_call list \<Rightarrow> bool" where
  "decides_first (Decide _ _ # _) = True"
| "decides_first _ = False"

lemma unseen_quiet_call:
  "drain_call c \<Longrightarrow> compaction_unseen (c # cs) = compaction_unseen cs"
  by (cases "c # cs" rule: compaction_unseen.cases) auto

lemma unseen_quiet:
  "list_all drain_call cs \<Longrightarrow> compaction_unseen (cs @ xs) = compaction_unseen xs"
  by (induction cs) (simp_all add: unseen_quiet_call)

lemma first_quiet:
  "list_all drain_call cs \<Longrightarrow> decides_first (cs @ xs) = (cs = [] \<and> decides_first xs)"
  by (cases cs) (auto elim: drain_call.elims)

lemma iteration_unseen:
  "iteration_calls dl seg \<Longrightarrow> \<not> decides_first xs \<Longrightarrow> compaction_unseen xs \<Longrightarrow>
     compaction_unseen (seg @ xs) \<and> \<not> decides_first (seg @ xs)"
  by (induction rule: iteration_calls.induct)
    (auto simp: unseen_quiet first_quiet plain_quiet gather_reports_def split: list.split loop_call.split)

lemma iterations_unseen:
  "list_all (iteration_calls dl) segs \<Longrightarrow> \<not> decides_first xs \<Longrightarrow> compaction_unseen xs \<Longrightarrow>
     compaction_unseen (concat segs @ xs) \<and> \<not> decides_first (concat segs @ xs)"
  by (induction segs) (use iteration_unseen in auto)

text \<open>C39: The decision of an iteration whose history was compacted is asked with the context that
  still carries every step the compaction replaced: the compaction is reported, and the prompt of
  that iteration is as long as without it.\<close>

theorem compaction_misses_the_prompt: "compaction_unseen (ls_calls (snd (run lp cfg ctx w)))"
proof (cases "run lp cfg ctx w")
  case (Pair r s)
  show ?thesis
  proof (rule run_calls [OF Pair])
    fix segs
    assume segs: "list_all (iteration_calls (run_deadline cfg ctx)) segs"
      "ls_calls s = Report (OnStarted ctx) # concat segs @ final_report lp r (ls_ctx s)"
    have "compaction_unseen (final_report lp r (ls_ctx s)) \<and> \<not> decides_first (final_report lp r (ls_ctx s))"
      by (simp add: final_report_def split: phase.split)
    then show ?thesis using segs(2) iterations_unseen [OF segs(1)] by (simp add: Pair)
  qed
qed

end
