(* ===== verification/Execute_Laws.thy ===== *)
theory Execute_Laws
  imports Execute_Phase
begin

text \<open>
  What one action does to the runs of tools and to the cache of results: at most one run, never of
  a call whose result is cached, and a result in the cache after every run that is reported to
  have succeeded.
\<close>

section \<open>Steps that run nothing\<close>

definition quiet :: "('j, 'w) exec_state \<Rightarrow> ('j, 'w) exec_state \<Rightarrow> bool" where
  "quiet s s' \<longleftrightarrow> xs_runs s' = xs_runs s \<and> xs_cache s' = xs_cache s"

lemma quiet_refl [simp]: "quiet s s"
  by (simp add: quiet_def)

lemma quiet_trans: "quiet s s' \<Longrightarrow> quiet s' s'' \<Longrightarrow> quiet s s''"
  by (simp add: quiet_def)

lemma phase_cases:
  assumes "on_fine m k = (r, s')"
  obtains (fine) a s where "m = (Fine a, s)" and "k a s = (r, s')"
  | (stopped) b where "m = (b, s')" and "\<And>a. r \<noteq> Fine a"
  using assms by (auto simp: on_fine_def split: prod.splits phase.splits)

lemma quiet_world: "in_world f s = (a, s') \<Longrightarrow> quiet s s'"
  by (auto simp: in_world_def quiet_def split: prod.splits)

lemma quiet_ask: "ask f s = (a, s') \<Longrightarrow> quiet s s'"
  by (auto simp: ask_def split: prod.splits intro: quiet_world)

lemma quiet_id: "new_id xp p s = (i, s') \<Longrightarrow> quiet s s'"
  by (auto simp: new_id_def Let_def split: prod.splits dest: quiet_world)

lemma quiet_denied: "denied xp ctx p tool s = (a, s') \<Longrightarrow> quiet s s'"
  by (auto simp: denied_def Let_def split: option.splits prod.splits reply.splits
      dest!: quiet_world intro: quiet_trans)

lemma quiet_count: "count_call xp ctx s = (a, s') \<Longrightarrow> quiet s s'"
proof -
  assume c: "count_call xp ctx s = (a, s')"
  have "quiet s (s\<lparr>xs_call_count := n\<rparr>)" for n by (simp add: quiet_def)
  then show ?thesis
    using c by (auto simp: count_call_def Let_def split: if_splits prod.splits
        dest!: quiet_ask quiet_id intro: quiet_trans)
qed

lemma quiet_fail:
  "fail_invocation xp ctx p tool inv_id reason s = (r, s') \<Longrightarrow>
     quiet s s' \<and> (\<forall>a. r = Fine a \<longrightarrow> ar_status a = ActionFailed reason)"
  unfolding fail_invocation_def
  by (elim phase_cases) (auto simp: act_result_def dest: quiet_ask)

lemma quiet_serve:
  "serve_cached xp ctx p tool inv_id i cached s = (r, s') \<Longrightarrow> quiet s s'"
  unfolding serve_cached_def
  by (elim phase_cases) (auto dest: quiet_ask)

lemma quiet_pause:
  "pause_recovery xp ctx p tool inv_id i reason s = (r, s') \<Longrightarrow>
     quiet s s' \<and> (\<forall>a. r = Fine a \<longrightarrow> (\<exists>j. ar_status a = AwaitingApproval j))"
  unfolding pause_recovery_def
  by (elim phase_cases)
    (auto simp: Let_def act_result_def split: prod.splits if_splits dest!: quiet_ask quiet_world
      intro: quiet_trans)

section \<open>One attempt of a tool\<close>

text \<open>The result of the call \<open>call_id\<close> is in the cache, if the phase has one, and nothing left it.\<close>

definition remembered :: "string option \<Rightarrow> ('j, 'w) exec_state \<Rightarrow> ('j, 'w) exec_state \<Rightarrow> bool" where
  "remembered call_id s s' \<longleftrightarrow>
     (xs_cache s' = None \<longleftrightarrow> xs_cache s = None) \<and>
     (\<forall>i. cached_result (Some i) s' \<noteq> None \<longleftrightarrow>
        cached_result (Some i) s \<noteq> None \<or> xs_cache s \<noteq> None \<and> call_id = Some i)"

lemma remember_runs: "xs_runs (remember_result xp call_id tool v s) = xs_runs s"
  by (simp add: remember_result_def in_world_def Let_def split: option.split prod.split)

lemma remember_remembered: "remembered call_id s (remember_result xp call_id tool v s)"
proof (cases "call_id = None \<or> xs_cache s = None")
  case True
  then show ?thesis
    by (auto simp: remember_result_def remembered_def cached_result_def split: option.split)
next
  case False
  then obtain i cache where ic: "call_id = Some i" "xs_cache s = Some cache" by auto
  obtain now w where now: "xp_now xp (xs_world s) = (now, w)" by fastforce
  show ?thesis
    by (simp add: remember_result_def remembered_def cached_result_def in_world_def ic now
        insert_result_def get_result_def hmap_simps)
qed

definition attempt :: "string option \<Rightarrow> string \<Rightarrow> 'j \<Rightarrow> ('j, 'w) exec_state \<Rightarrow> 'j action_result phase \<Rightarrow>
    ('j, 'w) exec_state \<Rightarrow> bool" where
  "attempt call_id tool args s r s' \<longleftrightarrow>
     cached_result call_id s = None \<and>
     (\<exists>ok. xs_runs s' = xs_runs s @
         [\<lparr>rn_call_id = call_id, rn_tool_name = tool, rn_args = args, rn_succeeded = ok\<rparr>] \<and>
       (if ok then
          (case r of
             Fine a \<Rightarrow> ar_status a = Succeeded \<and> remembered call_id s s'
           | _ \<Rightarrow> xs_cache s' = xs_cache s \<or> remembered call_id s s')
        else xs_cache s' = xs_cache s \<and> (\<forall>a. r = Fine a \<longrightarrow> (\<exists>reason. ar_status a = ActionFailed reason))))"

lemma attempt_quiet:
  assumes "quiet s0 s" and "attempt call_id tool args s r s'"
  shows "attempt call_id tool args s0 r s'"
proof -
  have same: "xs_runs s = xs_runs s0" "xs_cache s = xs_cache s0" "cached_result i s = cached_result i s0" for i
    using assms(1) by (simp_all add: quiet_def cached_result_def)
  have rem: "remembered call_id s s' = remembered call_id s0 s'"
    unfolding remembered_def same ..
  show ?thesis using assms(2) unfolding attempt_def same rem .
qed

lemma remembered_quiet: "remembered i s s' \<Longrightarrow> quiet s' s'' \<Longrightarrow> remembered i s s''"
  by (auto simp: remembered_def quiet_def cached_result_def)

lemma run_tool_run:
  assumes "run_tool xp ctx call_id tool args s = ((r, buffered), s')"
  shows "xs_cache s' = xs_cache s \<and> xs_runs s' = xs_runs s @
    [\<lparr>rn_call_id = call_id, rn_tool_name = tool, rn_args = args,
      rn_succeeded = (case r of Inl _ \<Rightarrow> False | Inr _ \<Rightarrow> True)\<rparr>]"
  using assms by (auto simp: run_tool_def in_world_def Let_def split: prod.splits)

lemma failed_attempt:
  assumes "run_tool xp ctx call_id tool args s = ((Inl reason, buffered), s1)"
    and "cached_result call_id s = None" and "fail_invocation xp ctx p tool inv_id reason s1 = (r, s')"
  shows "attempt call_id tool args s r s'"
  using run_tool_run [OF assms(1)] assms(2) quiet_fail [OF assms(3)]
  by (auto simp: attempt_def quiet_def)

lemma recorded_attempt:
  assumes "run_tool xp ctx call_id tool args s = ((Inr v, buffered), s1)"
    and "cached_result call_id s = None" and "on_fine (ask f s1) k = (r, s')"
    and "\<And>u s2. k u s2 = (r, s') \<Longrightarrow>
      quiet (remember_result xp call_id tool v s2) s' \<and> (\<forall>a. r = Fine a \<longrightarrow> ar_status a = Succeeded)"
  shows "attempt call_id tool args s r s'"
proof -
  note run = run_tool_run [OF assms(1)]
  from assms(3) show ?thesis
  proof (cases rule: phase_cases)
    case (fine u s2)
    let ?s3 = "remember_result xp call_id tool v s2"
    have s2: "quiet s1 s2" by (rule quiet_ask [OF fine(1)])
    have rem: "remembered call_id s ?s3"
      using remember_remembered [of call_id s2 xp tool v] s2 run
      by (simp add: remembered_def quiet_def cached_result_def)
    then show ?thesis
      using run s2 assms(2) assms(4) [OF fine(2)] remember_runs [of xp call_id tool v s2]
        remembered_quiet [OF rem, of s']
      by (auto simp: attempt_def quiet_def split: phase.split)
  next
    case (stopped b)
    have "quiet s1 s'" by (rule quiet_ask [OF stopped(1)])
    then show ?thesis
      using stopped(2) run assms(2) by (auto simp: attempt_def quiet_def split: phase.split)
  qed
qed

lemma run_and_record_attempt:
  assumes "run_and_record xp ctx p tool inv_id call_id args s = (r, s')"
    and "cached_result call_id s = None"
  shows "(quiet s s' \<and> (\<forall>a. r = Fine a \<longrightarrow> ar_status a \<noteq> Succeeded)) \<or> attempt call_id tool args s r s'"
proof (cases "xp_handlers xp = None")
  case True
  then show ?thesis using assms(1) quiet_fail [of xp ctx p tool inv_id _ s r s']
    by (auto simp: run_and_record_def)
next
  case False
  obtain x buffered s1 where t: "run_tool xp ctx call_id tool args s = ((x, buffered), s1)"
    by (metis prod.collapse)
  show ?thesis
  proof (cases x)
    case (Inl reason)
    then show ?thesis
      using assms False t failed_attempt [OF _ assms(2)] by (auto simp: run_and_record_def)
  next
    case (Inr v)
    have "attempt call_id tool args s r s'"
      by (rule recorded_attempt [OF t [unfolded Inr] assms(2)])
        (use assms(1) False t Inr in \<open>auto simp: run_and_record_def act_result_def
           elim!: phase_cases dest: quiet_count\<close>)
    then show ?thesis ..
  qed
qed

section \<open>A proposal\<close>

definition tool_of :: "'j action_proposal \<Rightarrow> string" where
  "tool_of p = (case act_tool_name p of None \<Rightarrow> [] | Some t \<Rightarrow> t)"

definition sent_args :: "('j, 'w) execute_ports \<Rightarrow> orchestration_context \<Rightarrow> 'j action_proposal \<Rightarrow> 'j" where
  "sent_args xp ctx p =
     tool_args_with_working_dir (xp_json xp) (tool_of p) (oc_working_dir ctx) (act_tool_args p)"

definition own_call_id :: "('j, 'w) execute_ports \<Rightarrow> orchestration_context \<Rightarrow> 'j action_proposal \<Rightarrow>
    u32 \<Rightarrow> string option" where
  "own_call_id xp ctx p i =
     map_option (\<lambda>h. call_id_of xp ctx i (tool_of p) (th_normalize h (sent_args xp ctx p)))
       (handler_for xp (tool_of p))"

text \<open>The end of a dispatch that did not run the tool, and of one that did.\<close>

definition settled :: "string option \<Rightarrow> string \<Rightarrow> 'j \<Rightarrow> ('j, 'w) exec_state \<Rightarrow> 'j action_result phase \<Rightarrow>
    ('j, 'w) exec_state \<Rightarrow> bool" where
  "settled call_id tool args s r s' \<longleftrightarrow>
     (quiet s s' \<and> (\<forall>a. r = Fine a \<longrightarrow> ar_status a = Succeeded \<longrightarrow> cached_result call_id s \<noteq> None)) \<or>
     attempt call_id tool args s r s'"

lemma settled_quiet:
  "quiet s0 s \<Longrightarrow> settled call_id tool args s r s' \<Longrightarrow> settled call_id tool args s0 r s'"
  unfolding settled_def using attempt_quiet quiet_trans
  by (metis cached_result_def quiet_def)

lemma settled_stopped: "quiet s s' \<Longrightarrow> (\<And>a. r \<noteq> Fine a) \<Longrightarrow> settled call_id tool args s r s'"
  by (simp add: settled_def)

lemma dispatch_body_settled:
  assumes "(case (call_id, xs_cache s) of
       (Some i, Some cache) \<Rightarrow>
         (case get_result i cache of
            Some cached \<Rightarrow> serve_cached xp ctx p tool inv_id i cached s
          | None \<Rightarrow>
              if oc_is_recovery ctx then
                (case recovery_dispatch_decision cache i tool safety True of
                   DispatchCacheHit \<Rightarrow> (Unwound, s)
                 | Dispatch \<Rightarrow> run_and_record xp ctx p tool inv_id call_id args s
                 | Pause _ reason \<Rightarrow> pause_recovery xp ctx p tool inv_id i reason s)
              else run_and_record xp ctx p tool inv_id call_id args s)
     | _ \<Rightarrow> run_and_record xp ctx p tool inv_id call_id args s) = (r, s')"
  shows "settled call_id tool args s r s'"
proof -
  have run: "settled call_id tool args s r s'"
    if "run_and_record xp ctx p tool inv_id call_id args s = (r, s')" "cached_result call_id s = None"
    using run_and_record_attempt [OF that] by (auto simp: settled_def)
  show ?thesis
  proof (cases "cached_result call_id s")
    case None
    have pause: "settled call_id tool args s r s'"
      if "pause_recovery xp ctx p tool inv_id i reason s = (r, s')" for i reason
      using quiet_pause [OF that] by (auto simp: settled_def)
    show ?thesis
      using assms None run pause
      by (cases call_id; cases "xs_cache s")
        (auto simp: cached_result_def settled_def split: if_splits recovery_dispatch.splits)
  next
    case (Some c)
    then obtain i cache where "call_id = Some i" "xs_cache s = Some cache" "get_result i cache = Some c"
      by (auto simp: cached_result_def bind_eq_Some_conv)
    then show ?thesis using assms quiet_serve Some by (fastforce simp: settled_def)
  qed
qed

lemma dispatch_tool_settled:
  assumes "dispatch_tool xp ctx p i s = (r, s')"
  shows "settled (own_call_id xp ctx p i) (tool_of p) (sent_args xp ctx p) s r s'"
proof -
  obtain inv_id s1 where n: "new_id xp ''inv'' s = (inv_id, s1)" by fastforce
  note s1 = quiet_id [OF n]
  from assms show ?thesis
    unfolding dispatch_tool_def Let_def n tool_of_def [symmetric] prod.case sent_args_def [symmetric]
  proof (cases rule: phase_cases)
    case (fine u s2)
    have s2: "quiet s s2" by (rule quiet_trans [OF s1 quiet_ask [OF fine(1)]])
    from fine(2) show ?thesis
    proof (cases rule: phase_cases)
      case (fine deny s3)
      have s3: "quiet s s3" by (rule quiet_trans [OF s2 quiet_denied [OF fine(1)]])
      show ?thesis
      proof (cases deny)
        case None
        then show ?thesis
          using fine(2) unfolding own_call_id_def
          by (intro settled_quiet [OF s3] dispatch_body_settled) simp
      next
        case (Some reason)
        then show ?thesis using fine(2) s3 by (auto simp: settled_def act_result_def)
      qed
    next
      case stopped
      show ?thesis
        by (rule settled_stopped [OF quiet_trans [OF s2 quiet_denied [OF stopped(1)]] stopped(2)])
    qed
  next
    case stopped
    show ?thesis
      by (rule settled_stopped [OF quiet_trans [OF s1 quiet_ask [OF stopped(1)]] stopped(2)])
  qed
qed

section \<open>An action\<close>

lemma settled_none: "quiet s s' \<Longrightarrow> (\<And>a. r = Fine a \<Longrightarrow> ar_status a \<noteq> Succeeded) \<Longrightarrow>
    settled call_id tool args s r s'"
  by (auto simp: settled_def)

text \<open>The gate runs nothing, or the call with the arguments the service answers for it.\<close>

lemma gate_settled:
  assumes "run_with_approval_gate xp ctx p i submit retrieve s = (r, s')"
  obtains (held) "quiet s s'" "\<And>a. r = Fine a \<Longrightarrow>
      a = act_result p (AwaitingApproval (tcp_call_id (gate_proposal xp ctx p i))) None None"
  | (passed) w ap s1 where
      "submit (gate_proposal xp ctx p i) (xs_world s) = (Done AutoApproved, w)"
      "retrieve (tcp_call_id (gate_proposal xp ctx p i)) w = Done ap" "s1 = s\<lparr>xs_world := w\<rparr>"
      "dispatch_tool xp ctx (p\<lparr>act_tool_args := Some (ap_tool_args ap), act_requires_approval := False\<rparr>) i s1
         = (r, s')"
proof -
  let ?t = "gate_proposal xp ctx p i"
  obtain d w where d: "submit ?t (xs_world s) = (d, w)" by fastforce
  have held': thesis if "s' = s\<lparr>xs_world := w\<rparr>"
      "\<And>a. r = Fine a \<Longrightarrow> a = act_result p (AwaitingApproval (tcp_call_id ?t)) None None"
    by (rule held) (use that in \<open>auto simp: quiet_def\<close>)
  show thesis
  proof (cases "d = Done AutoApproved")
    case False
    then show thesis
      using assms d
      by (intro held') (auto simp: run_with_approval_gate_def in_world_def Let_def
          split: reply.splits submit_decision.splits)
  next
    case True
    show thesis
    proof (cases "retrieve (tcp_call_id ?t) w")
      case (Done ap)
      then show thesis
        using assms d True by (intro passed) (auto simp: run_with_approval_gate_def in_world_def Let_def)
    qed (use assms d True in \<open>auto simp: run_with_approval_gate_def in_world_def Let_def intro!: held'\<close>)
  qed
qed

lemma tool_of_update [simp]:
  "tool_of (p\<lparr>act_tool_args := a\<rparr>) = tool_of p" "tool_of (p\<lparr>act_requires_approval := b\<rparr>) = tool_of p"
  by (simp_all add: tool_of_def)

lemma reply_result_same:
  "reply_result xp p ok (a, s) = (r, s') \<Longrightarrow> s' = s \<and>
     (\<forall>x. r = Fine x \<longrightarrow> ar_proposal x = p \<and> (ar_status x = ok \<or> (\<exists>reason. ar_status x = ActionFailed reason)))"
  by (auto simp: reply_result_def act_result_def split: reply.splits)

lemma reply_result_quiet:
  assumes "reply_result xp p ok (in_world f s) = (r, s')"
  shows "quiet s s'"
  using assms reply_result_same quiet_world by (metis prod.collapse)

lemma legacy_quiet:
  assumes "legacy_approval_gate_result xp ctx p tool s = (r, s')"
  shows "quiet s s' \<and> (\<forall>a. r = Fine a \<longrightarrow> ar_proposal a = p \<and> ar_status a \<noteq> Succeeded)"
  using assms
  by (auto simp: legacy_approval_gate_result_def Let_def act_result_def
      split: prod.splits reply.splits dest!: quiet_id quiet_world intro: quiet_trans)

lemma other_quiet:
  assumes "dispatch_one xp ctx p i s = (r, s')" and "act_type p \<noteq> InvokeTool"
  shows "quiet s s'"
proof -
  have spawn: "quiet s s'" if "spawn_subagent xp ctx p s = (r, s')"
    using that by (auto simp: spawn_subagent_def Let_def split: prod.splits
        dest!: quiet_id reply_result_quiet intro: quiet_trans)
  have send: "quiet s s'" if "send_notification xp ctx p s = (r, s')"
    using that by (auto simp: send_notification_def split: option.splits dest!: reply_result_quiet)
  have esc: "quiet s s'" if "escalate xp ctx p s = (r, s')"
    using that by (auto simp: escalate_def Let_def split: prod.splits
        dest!: quiet_id reply_result_quiet intro: quiet_trans)
  show ?thesis
    using assms spawn send esc reply_result_quiet
    by (cases "act_type p") (auto simp: dispatch_one_def)
qed

lemma invoke_settled:
  assumes "dispatch_one xp ctx p i s = (r, s')" and "act_type p = InvokeTool"
  shows "\<exists>q. tool_of q = tool_of p \<and> settled (own_call_id xp ctx q i) (tool_of p) (sent_args xp ctx q) s r s'"
proof (cases "act_requires_approval p")
  case False
  then show ?thesis using assms dispatch_tool_settled by (fastforce simp: dispatch_one_def)
next
  case True
  show ?thesis
  proof (cases "xp_approvals xp")
    case None
    have "legacy_approval_gate_result xp ctx p (tool_of p) s = (r, s')"
      using assms None True by (simp add: dispatch_one_def tool_of_def)
    then show ?thesis using legacy_quiet [of xp ctx p _ s r s'] by (auto intro!: settled_none)
  next
    case (Some services)
    then obtain submit retrieve where "xp_approvals xp = Some (submit, retrieve)" by (cases services) auto
    then have "run_with_approval_gate xp ctx p i submit retrieve s = (r, s')"
      using assms True by (simp add: dispatch_one_def)
    then show ?thesis
    proof (cases rule: gate_settled)
      case held
      then show ?thesis by (auto simp: act_result_def intro!: settled_none)
    next
      case (passed w ap s1)
      let ?q = "p\<lparr>act_tool_args := Some (ap_tool_args ap), act_requires_approval := False\<rparr>"
      have "quiet s s1" by (simp add: passed quiet_def)
      then show ?thesis
        using settled_quiet dispatch_tool_settled [OF passed(4)] by (intro exI [of _ ?q]) simp
    qed
  qed
qed

lemma approved_settled:
  assumes "dispatch_approved xp ctx ad s = (r, s')"
  shows "settled (Some (ad_call_id ad)) (ad_tool_name ad)
    (tool_args_with_working_dir (xp_json xp) (ad_tool_name ad) (oc_working_dir ctx) (Some (ad_tool_args ad)))
    s r s'"
proof (cases "cached_result (Some (ad_call_id ad)) s")
  case (Some c)
  then have "quiet s s'" using assms by (auto simp: dispatch_approved_def Let_def)
  then show ?thesis using Some by (simp add: settled_def)
next
  case None
  let ?tool = "ad_tool_name ad" and ?i = "Some (ad_call_id ad)"
  let ?args = "tool_args_with_working_dir (xp_json xp) ?tool (oc_working_dir ctx) (Some (ad_tool_args ad))"
  obtain inv_id s1 where n: "new_id xp ''inv'' s = (inv_id, s1)" by fastforce
  note s1 = quiet_id [OF n]
  from assms show ?thesis
    unfolding dispatch_approved_def Let_def None n option.case prod.case
  proof (cases rule: phase_cases)
    case (fine u s2)
    have s2: "quiet s s2" by (rule quiet_trans [OF s1 quiet_ask [OF fine(1)]])
    have none: "cached_result ?i s2 = None" using None s2 by (simp add: cached_result_def quiet_def)
    obtain x buffered s3 where t: "run_tool xp ctx ?i ?tool ?args s2 = ((x, buffered), s3)"
      by (metis prod.collapse)
    have "settled ?i ?tool ?args s2 r s'"
    proof (cases "xp_handlers xp = None")
      case True
      then show ?thesis using fine(2) by (auto dest!: quiet_fail intro!: settled_none)
    next
      case False
      have "attempt ?i ?tool ?args s2 r s'"
      proof (cases x)
        case (Inl reason)
        then show ?thesis using failed_attempt [OF _ none] fine(2) False t by auto
      next
        case (Inr v)
        show ?thesis
          by (rule recorded_attempt [OF t [unfolded Inr] none])
            (use fine(2) False t Inr in \<open>auto simp: act_result_def\<close>)
      qed
      then show ?thesis by (simp add: settled_def)
    qed
    then show ?thesis by (rule settled_quiet [OF s2])
  next
    case stopped
    show ?thesis
      by (rule settled_stopped [OF quiet_trans [OF s1 quiet_ask [OF stopped(1)]] stopped(2)])
  qed
qed

end
