(* ===== verification/Batch_Laws.thy ===== *)
theory Batch_Laws
  imports Execute_Laws "HOL-Library.Multiset"
begin

text \<open>
  What a batch of actions does: which actions it dispatches, how its signal follows from its
  results, and how often a tool call can succeed in it.
\<close>

section \<open>The proposal of a result\<close>

text \<open>A result names the action and the tool it is about.\<close>

definition names :: "'j action_proposal \<Rightarrow> 'j action_result phase \<Rightarrow> bool" where
  "names p r \<longleftrightarrow> (\<forall>a. r = Fine a \<longrightarrow>
     act_type (ar_proposal a) = act_type p \<and> act_tool_name (ar_proposal a) = act_tool_name p)"

lemma names_simps [simp]:
  "names p (Fine (act_result p st v i))" "names p (Fault e)" "names p Unwound"
  by (simp_all add: names_def act_result_def)

lemma names_on_fine:
  assumes "on_fine m k = (r, s')" and "\<And>a s. m = (Fine a, s) \<Longrightarrow> k a s = (r, s') \<Longrightarrow> names p r"
  shows "names p r"
  using assms(1) by (cases rule: phase_cases) (use assms(2) in \<open>auto simp: names_def\<close>)

lemma names_fail: "fail_invocation xp ctx p tool inv_id reason s = (r, s') \<Longrightarrow> names p r"
  unfolding fail_invocation_def by (erule names_on_fine) auto

lemma names_serve: "serve_cached xp ctx p tool inv_id i cached s = (r, s') \<Longrightarrow> names p r"
  unfolding serve_cached_def by (erule names_on_fine) auto

lemma names_pause: "pause_recovery xp ctx p tool inv_id i reason s = (r, s') \<Longrightarrow> names p r"
  unfolding pause_recovery_def by (erule names_on_fine) (auto simp: Let_def split: prod.splits if_splits)

lemma names_run: "run_and_record xp ctx p tool inv_id call_id args s = (r, s') \<Longrightarrow> names p r"
  by (auto simp: run_and_record_def Let_def split: if_splits prod.splits sum.splits
      intro: names_fail elim!: names_on_fine)

lemma names_tool: "dispatch_tool xp ctx p i s = (r, s') \<Longrightarrow> names p r"
  unfolding dispatch_tool_def Let_def
  by (auto split: prod.splits option.splits if_splits recovery_dispatch.splits
      intro: names_run names_pause names_serve elim!: names_on_fine)

lemma names_update [simp]:
  "names (p\<lparr>act_tool_args := a, act_requires_approval := b\<rparr>) r = names p r"
  by (simp add: names_def)

lemma names_gate: "run_with_approval_gate xp ctx p i submit retrieve s = (r, s') \<Longrightarrow> names p r"
  by (erule gate_settled) (auto simp: names_def act_result_def dest: names_tool)

lemma names_reply: "reply_result xp p ok x = (r, s') \<Longrightarrow> names p r"
  by (cases x) (auto simp: reply_result_def split: reply.splits)

lemma names_one: "dispatch_one xp ctx p i s = (r, s') \<Longrightarrow> names p r"
  by (auto simp: dispatch_one_def spawn_subagent_def send_notification_def escalate_def
      legacy_approval_gate_result_def Let_def
      split: action_type.splits if_splits option.splits prod.splits reply.splits
      intro: names_gate names_tool names_reply)

lemma timed_cases:
  assumes "timed xp f s = (r, s')"
  obtains s1 s2 r1 where "quiet s s1" and "f s1 = (r1, s2)" and "quiet s2 s'"
    and "\<And>a. r = Fine a \<Longrightarrow> \<exists>d a1. r1 = Fine a1 \<and> a = a1\<lparr>ar_duration_ms := d\<rparr>"
    and "(\<exists>a. r = Fine a) \<longleftrightarrow> (\<exists>a. r1 = Fine a)" and "r = Unwound \<longleftrightarrow> r1 = Unwound"
proof -
  obtain t s1 where t: "in_world (xp_instant xp) s = (t, s1)" by fastforce
  obtain r1 s2 where f: "f s1 = (r1, s2)" by fastforce
  obtain e s3 where e: "in_world (xp_instant xp) s2 = (e, s3)" by fastforce
  show ?thesis
    by (rule that [of s1 r1 s2])
      (use assms t f e quiet_world in \<open>auto simp: timed_def on_fine_def split: phase.splits\<close>)
qed

lemma names_timed: "timed xp (dispatch_one xp ctx p i) s = (r, s') \<Longrightarrow> names p r"
  by (erule timed_cases) (fastforce simp: names_def dest: names_one)

section \<open>The calls in front\<close>

lemma invoke_indices_iff:
  "i \<in> set (invoke_indices ps) \<longleftrightarrow>
     i < length ps \<and> act_type (ps ! i) = InvokeTool \<and> (\<forall>j<i. \<not> is_terminal_action (ps ! j))"
proof -
  let ?k = "length (takeWhile (\<lambda>p. \<not> is_terminal_action p) ps)"
  have le: "?k \<le> length ps" by (rule length_takeWhile_le)
  have before: "\<not> is_terminal_action (ps ! j)" if "j < ?k" for j
    using that nth_mem [of j "takeWhile (\<lambda>p. \<not> is_terminal_action p) ps"]
    by (auto dest: set_takeWhileD simp: takeWhile_nth)
  have stop: "is_terminal_action (ps ! ?k)" if "?k < length ps"
    using nth_length_takeWhile [OF that] by simp
  have "\<not> is_terminal_action (ps ! i)" if "act_type (ps ! i) = InvokeTool"
    using that by (simp add: is_terminal_action_def)
  moreover have "?k \<noteq> i \<Longrightarrow> i < length ps \<Longrightarrow> (\<And>j. j < i \<Longrightarrow> \<not> is_terminal_action (ps ! j)) \<Longrightarrow> i < ?k"
    using stop by (metis linorder_neqE_nat order.strict_trans)
  ultimately have "act_type (ps ! i) = InvokeTool \<Longrightarrow>
      i < ?k \<longleftrightarrow> i < length ps \<and> (\<forall>j<i. \<not> is_terminal_action (ps ! j))"
    using before stop le by fastforce
  then show ?thesis by (auto simp: invoke_indices_def)
qed

lemma invoke_indices_sorted: "sorted_wrt (<) (invoke_indices ps)" "distinct (invoke_indices ps)"
  by (simp_all add: invoke_indices_def sorted_wrt_filter)

section \<open>Joined calls\<close>

lemma join_all_keys: "join_all f is s = (Some os, s') \<Longrightarrow> map fst os = is"
  by (induction "is" arbitrary: s os) (auto split: prod.splits phase.splits)

lemma join_all_names:
  "join_all (\<lambda>i. timed xp (dispatch_one xp ctx (ps ! i) i)) is s = (Some os, s') \<Longrightarrow>
     (i, Inr r) \<in> set os \<Longrightarrow> names (ps ! i) (Fine r)"
  by (induction "is" arbitrary: s os)
    (auto split: prod.splits phase.splits dest: names_timed)

lemma collect_fine:
  "collect outcome is = Fine rs \<Longrightarrow>
     map fst rs = is \<and> (\<forall>(i, a) \<in> set rs. outcome i = Some (Inr a)) \<and> (\<forall>i\<in>set is. \<exists>a. outcome i = Some (Inr a))"
  by (induction "is" arbitrary: rs) (auto split: option.splits sum.splits phase.splits)

section \<open>The other actions\<close>

definition others :: "(nat \<times> 'j action_proposal) list \<Rightarrow> (nat \<times> 'j action_proposal) list" where
  "others ips = filter (\<lambda>(i, p). act_type p \<noteq> InvokeTool) ips"

definition goes_on :: "'j action_result \<Rightarrow> bool" where
  "goes_on r \<longleftrightarrow> derive_signal r LoopContinue = LoopContinue"

lemma first_signal_all: "list_all goes_on rs \<Longrightarrow> first_signal rs = LoopContinue"
  by (induction rs) (simp_all add: goes_on_def)

definition named_in :: "(nat \<times> 'j action_proposal) list \<Rightarrow> (nat \<times> 'j action_result) list \<Rightarrow> bool" where
  "named_in ips rs \<longleftrightarrow> (\<forall>(i, r) \<in> set rs. \<exists>p. (i, p) \<in> set ips \<and> names p (Fine r))"

lemma named_in_simps [simp]:
  "named_in ips []" "named_in ips rs \<Longrightarrow> named_in (ip # ips) rs"
  "names p (Fine r) \<Longrightarrow> named_in ips rs \<Longrightarrow> named_in ((i, p) # ips) ((i, r) # rs)"
  unfolding named_in_def by fastforce+

lemma run_others_fine:
  "run_others xp ctx ips s = (Fine (rs, sig), s') \<Longrightarrow>
     quiet s s' \<and> map fst rs = map fst (take (length rs) (others ips)) \<and>
     named_in ips rs \<and>
     (if sig = LoopContinue then length rs = length (others ips) \<and> list_all (goes_on \<circ> snd) rs
      else rs \<noteq> [] \<and> list_all (goes_on \<circ> snd) (butlast rs) \<and>
        derive_signal (snd (last rs)) LoopContinue = sig)"
proof (induction ips arbitrary: s rs)
  case Nil
  then show ?case by (simp add: others_def)
next
  case (Cons ip ips)
  obtain i p where ip: "ip = (i, p)" by fastforce
  show ?case
  proof (cases "act_type p = InvokeTool")
    case True
    have "run_others xp ctx ips s = (Fine (rs, sig), s')" using Cons.prems True by (simp add: ip)
    note rest = Cons.IH [OF this]
    have "others (ip # ips) = others ips" using True by (simp add: ip others_def)
    then show ?thesis using rest by (cases "sig = LoopContinue") simp_all
  next
    case False
    from Cons.prems False have "on_fine (timed xp (dispatch_one xp ctx p i) s) (\<lambda>r s.
        let sig = derive_signal r LoopContinue
        in if sig \<noteq> LoopContinue then (Fine ([(i, r)], sig), s)
           else on_fine (run_others xp ctx ips s) (\<lambda>(rs, sig) s. (Fine ((i, r) # rs, sig), s)))
        = (Fine (rs, sig), s')" by (simp add: ip)
    then show ?thesis
    proof (cases rule: phase_cases)
      case (fine r s1)
      have n: "names p (Fine r)" by (rule names_timed [OF fine(1)])
      have q: "quiet s s1"
        using fine(1) by (rule timed_cases) (metis other_quiet [OF _ False] quiet_trans)
      show ?thesis
      proof (cases "goes_on r")
        case False
        then show ?thesis
          using fine(2) n q \<open>act_type p \<noteq> InvokeTool\<close> by (auto simp: goes_on_def Let_def ip others_def)
      next
        case True
        then have "on_fine (run_others xp ctx ips s1) (\<lambda>(rs, sig) s. (Fine ((i, r) # rs, sig), s))
            = (Fine (rs, sig), s')"
          using fine(2) by (simp add: goes_on_def Let_def)
        then show ?thesis
        proof (cases rule: phase_cases)
          case (fine y s2)
          then obtain rs' where y: "run_others xp ctx ips s1 = (Fine (rs', sig), s')" "rs = (i, r) # rs'"
            by (cases y) auto
          note rest = Cons.IH [OF y(1)]
          have "quiet s s'" using quiet_trans [OF q] rest by blast
          moreover have "others (ip # ips) = (i, p) # others ips"
            using \<open>act_type p \<noteq> InvokeTool\<close> by (simp add: ip others_def)
          moreover have "named_in (ip # ips) rs"
            using rest n unfolding y(2) ip by simp
          ultimately show ?thesis
            using rest True unfolding y(2) by (cases "sig = LoopContinue") simp_all
        qed blast
      qed
    qed blast
  qed
qed

section \<open>The outcome\<close>

lemma fine_phase: "on_fine m k = (Fine a, s') \<Longrightarrow> \<exists>b s. m = (Fine b, s) \<and> k b s = (Fine a, s')"
  by (cases rule: phase_cases) auto

lemma in_index_order_set:
  assumes "fst ` set rs \<subseteq> {..<n}" and "distinct (map fst rs)"
  shows "set (in_index_order n rs) = snd ` set rs"
proof -
  have "set (in_index_order n rs) = {r. \<exists>i<n. map_of rs i = Some r}"
    by (auto simp: in_index_order_def map_filter_def image_iff) (metis atLeastLessThan_iff option.sel zero_le option.discI)
  also have "\<dots> = {r. \<exists>i<n. (i, r) \<in> set rs}"
    using assms(2) by (simp add: map_of_eq_Some_iff)
  also have "\<dots> = snd ` set rs"
    using assms(1) by force
  finally show ?thesis .
qed

lemma in_index_order_indices:
  assumes "\<And>i r. map_of rs i = Some r \<Longrightarrow> f r = g i"
  shows "map f (in_index_order n rs) = map g (filter (\<lambda>i. i \<in> fst ` set rs) [0..<n])"
proof (induction n)
  case (Suc n)
  have "in_index_order (Suc n) rs =
      in_index_order n rs @ (case map_of rs n of None \<Rightarrow> [] | Some r \<Rightarrow> [r])"
    by (simp add: in_index_order_def map_filter_def split: option.split)
  then show ?case
    using Suc assms by (cases "map_of rs n") (auto simp: map_of_eq_None_iff dest: map_of_SomeD intro: rev_image_eqI)
qed (simp add: in_index_order_def map_filter_def)

lemma first_signal_only:
  "(\<forall>r\<in>set rs. derive_signal r LoopContinue \<in> {LoopContinue, sig}) \<Longrightarrow>
     sig \<noteq> LoopContinue \<longrightarrow> (\<exists>r\<in>set rs. derive_signal r LoopContinue = sig) \<Longrightarrow> first_signal rs = sig"
  by (induction rs) (auto simp: Let_def)

lemma others_enumerate:
  "map fst (others (List.enumerate 0 ps)) = filter (\<lambda>i. act_type (ps ! i) \<noteq> InvokeTool) [0..<length ps]"
proof -
  have "List.enumerate 0 ps = map (\<lambda>i. (i, ps ! i)) [0..<length ps]"
    by (rule nth_equalityI) (simp_all add: nth_enumerate_eq)
  then show ?thesis by (simp add: others_def filter_map o_def)
qed

text \<open>What a batch that ends without an error did, and the results it has.\<close>

lemma execute_fine:
  assumes "execute xp order ctx d s = (Fine x, s')" and "\<And>is. mset (order is) = mset is"
  obtains os s1 tool_rs other_rs sig where
    "join_all (\<lambda>i. timed xp (dispatch_one xp ctx (do_proposals d ! i) i))
       (order (invoke_indices (do_proposals d))) s = (Some os, s1)"
    "\<forall>(i, y) \<in> set os. \<exists>a. y = Inr a" "quiet s1 s'"
    "map fst tool_rs = invoke_indices (do_proposals d)"
    "\<forall>(i, r) \<in> set tool_rs. names (do_proposals d ! i) (Fine r)"
    "if first_signal (map snd tool_rs) = LoopContinue
     then run_others xp ctx (List.enumerate 0 (do_proposals d)) s1 = (Fine (other_rs, sig), s')
     else other_rs = [] \<and> sig = first_signal (map snd tool_rs) \<and> s' = s1"
    "x = \<lparr>eo_results = in_index_order (length (do_proposals d)) (tool_rs @ other_rs), eo_loop_signal = sig\<rparr>"
proof -
  let ?ps = "do_proposals d"
  let ?is = "invoke_indices ?ps"
  obtain j s1 where j: "join_all (\<lambda>i. timed xp (dispatch_one xp ctx (?ps ! i) i)) (order ?is) s = (j, s1)"
    by fastforce
  then obtain os where os: "j = Some os" using assms(1) by (cases j) (auto simp: execute_def Let_def)
  let ?k = "\<lambda>tool_rs s. let sig = first_signal (map snd tool_rs)
     in on_fine (if sig = LoopContinue then run_others xp ctx (List.enumerate 0 ?ps) s else (Fine ([], sig), s))
          (\<lambda>(other_rs, sig) s. (Fine \<lparr>eo_results = in_index_order (length ?ps) (tool_rs @ other_rs),
             eo_loop_signal = sig\<rparr>, s))"
  have "on_fine (collect (map_of os) ?is, s1) ?k = (Fine x, s')"
    using assms(1) j os by (simp add: execute_def Let_def)
  from fine_phase [OF this] obtain tool_rs where
    col: "collect (map_of os) ?is = Fine tool_rs" "?k tool_rs s1 = (Fine x, s')"
    by (metis prod.inject)
  note c = collect_fine [OF col(1)]
  have keys: "map fst os = order ?is" by (rule join_all_keys [OF j [unfolded os]])
  then have dist: "distinct (map fst os)" "set (map fst os) = set ?is"
    using mset_eq_imp_distinct_iff [OF assms(2) [of ?is]] mset_eq_setD [OF assms(2) [of ?is]]
      invoke_indices_sorted(2) [of ?ps] by (simp_all flip: set_map)
  have fine: "\<forall>(i, y) \<in> set os. \<exists>a. y = Inr a"
  proof clarify
    fix i y assume iy: "(i, y) \<in> set os"
    then have "map_of os i = Some y" "i \<in> set ?is" using dist by (simp, force)
    then show "\<exists>a. y = Inr a" using c by fastforce
  qed
  have names: "\<forall>(i, r) \<in> set tool_rs. names (?ps ! i) (Fine r)"
  proof clarify
    fix i r assume "(i, r) \<in> set tool_rs"
    then have "(i, Inr r) \<in> set os" using c by (auto dest!: map_of_SomeD)
    then show "names (?ps ! i) (Fine r)" by (rule join_all_names [OF j [unfolded os]])
  qed
  show thesis
  proof (cases "first_signal (map snd tool_rs) = LoopContinue")
    case True
    then have "on_fine (run_others xp ctx (List.enumerate 0 ?ps) s1)
        (\<lambda>(other_rs, sig) s. (Fine \<lparr>eo_results = in_index_order (length ?ps) (tool_rs @ other_rs),
           eo_loop_signal = sig\<rparr>, s)) = (Fine x, s')"
      using col(2) by (simp add: Let_def)
    from fine_phase [OF this] obtain other_rs sig where
        o: "run_others xp ctx (List.enumerate 0 ?ps) s1 = (Fine (other_rs, sig), s')"
        "x = \<lparr>eo_results = in_index_order (length ?ps) (tool_rs @ other_rs), eo_loop_signal = sig\<rparr>"
      by auto
    show thesis
      by (rule that [OF j [unfolded os] fine]) (use c names o True run_others_fine [OF o(1)] in auto)
  next
    case False
    then have "x = \<lparr>eo_results = in_index_order (length ?ps) (tool_rs @ []),
        eo_loop_signal = first_signal (map snd tool_rs)\<rparr>" "s' = s1"
      using col(2) by (auto simp: Let_def on_fine_def)
    then show thesis
      by (intro that [OF j [unfolded os] fine]) (use c names False in auto)
  qed
qed

lemma in_index_order_sorted:
  assumes "sorted_wrt (<) (map fst rs)" and "fst ` set rs \<subseteq> {..<n}"
  shows "in_index_order n rs = map snd rs"
proof -
  have dist: "distinct (map fst rs)" using assms(1) strict_sorted_iff by blast
  have keys: "filter (\<lambda>i. i \<in> fst ` set rs) [0..<n] = map fst rs"
    by (rule sorted_distinct_set_unique) (use assms strict_sorted_iff in \<open>auto simp: sorted_wrt_filter\<close>)
  have "map (\<lambda>r. r) (in_index_order n rs) = map (\<lambda>i. the (map_of rs i)) (filter (\<lambda>i. i \<in> fst ` set rs) [0..<n])"
    by (rule in_index_order_indices) simp
  also have "\<dots> = map snd rs" unfolding keys using dist
    by (simp, metis map_of_is_SomeI option.sel prod.collapse)
  finally show ?thesis by simp
qed

lemma others_shape:
  assumes "run_others xp ctx (List.enumerate 0 ps) s = (Fine (rs, sig), s')"
  shows "distinct (map fst rs)" and "fst ` set rs \<subseteq> {i. i < length ps \<and> act_type (ps ! i) \<noteq> InvokeTool}"
    and "(i, r) \<in> set rs \<Longrightarrow> names (ps ! i) (Fine r)"
    and "sig = LoopContinue \<Longrightarrow> fst ` set rs = {i. i < length ps \<and> act_type (ps ! i) \<noteq> InvokeTool}"
    and "\<forall>r \<in> snd ` set rs. derive_signal r LoopContinue \<in> {LoopContinue, sig}"
    and "sig \<noteq> LoopContinue \<Longrightarrow> \<exists>r \<in> snd ` set rs. derive_signal r LoopContinue = sig"
proof -
  note o = run_others_fine [OF assms]
  have keys: "map fst rs = take (length rs) (filter (\<lambda>i. act_type (ps ! i) \<noteq> InvokeTool) [0..<length ps])"
    using o by (simp add: take_map [symmetric] others_enumerate)
  show "distinct (map fst rs)" unfolding keys by simp
  have "fst ` set rs \<subseteq> set (filter (\<lambda>i. act_type (ps ! i) \<noteq> InvokeTool) [0..<length ps])"
    using keys set_take_subset by (metis image_set)
  then show "fst ` set rs \<subseteq> {i. i < length ps \<and> act_type (ps ! i) \<noteq> InvokeTool}" by auto
  show "names (ps ! i) (Fine r)" if "(i, r) \<in> set rs"
    using o that by (fastforce simp: named_in_def in_set_enumerate_eq)
  show "fst ` set rs = {i. i < length ps \<and> act_type (ps ! i) \<noteq> InvokeTool}" if "sig = LoopContinue"
  proof -
    have "length rs = length (map fst (others (List.enumerate 0 ps)))" using o that by simp
    then have "map fst rs = filter (\<lambda>i. act_type (ps ! i) \<noteq> InvokeTool) [0..<length ps]"
      using keys unfolding others_enumerate by simp
    then have "set (map fst rs) = set (filter (\<lambda>i. act_type (ps ! i) \<noteq> InvokeTool) [0..<length ps])" by simp
    then show ?thesis by auto
  qed
  show "\<forall>r \<in> snd ` set rs. derive_signal r LoopContinue \<in> {LoopContinue, sig}"
  proof (cases "sig = LoopContinue")
    case True
    then show ?thesis using o by (auto simp: list_all_iff goes_on_def)
  next
    case False
    then have "rs \<noteq> []" "list_all (goes_on \<circ> snd) (butlast rs)"
      "derive_signal (snd (last rs)) LoopContinue = sig" using o by auto
    moreover from this(1) obtain b l where "rs = b @ [l]" by (metis append_butlast_last_id)
    ultimately show ?thesis by (auto simp: list_all_iff goes_on_def)
  qed
  show "\<exists>r \<in> snd ` set rs. derive_signal r LoopContinue = sig" if "sig \<noteq> LoopContinue"
    using o that by auto
qed

lemma execute_outcome_shape:
  assumes "execute xp order ctx d s = (Fine x, s')" and "\<And>is. mset (order is) = mset is"
  shows "eo_loop_signal x = first_signal (eo_results x)"
    and "\<exists>is. sorted_wrt (<) is \<and> set (invoke_indices (do_proposals d)) \<subseteq> set is \<and>
      set is \<subseteq> {i. i < length (do_proposals d) \<and>
        (act_type (do_proposals d ! i) = InvokeTool \<longrightarrow> i \<in> set (invoke_indices (do_proposals d)))} \<and>
      map (\<lambda>r. (act_type (ar_proposal r), act_tool_name (ar_proposal r))) (eo_results x) =
        map (\<lambda>i. (act_type (do_proposals d ! i), act_tool_name (do_proposals d ! i))) is \<and>
      (eo_loop_signal x = LoopContinue \<longrightarrow>
        set is = set (invoke_indices (do_proposals d)) \<union>
          {i. i < length (do_proposals d) \<and> act_type (do_proposals d ! i) \<noteq> InvokeTool})"
proof -
  let ?ps = "do_proposals d" and ?n = "length (do_proposals d)"
  let ?others = "{i. i < ?n \<and> act_type (?ps ! i) \<noteq> InvokeTool}"
  from assms obtain os s1 tool_rs other_rs sig where
    tools: "map fst tool_rs = invoke_indices ?ps" "\<forall>(i, r) \<in> set tool_rs. names (?ps ! i) (Fine r)"
    and split: "if first_signal (map snd tool_rs) = LoopContinue
       then run_others xp ctx (List.enumerate 0 ?ps) s1 = (Fine (other_rs, sig), s')
       else other_rs = [] \<and> sig = first_signal (map snd tool_rs) \<and> s' = s1"
    and x: "x = \<lparr>eo_results = in_index_order ?n (tool_rs @ other_rs), eo_loop_signal = sig\<rparr>"
    by (rule execute_fine)
  have tool_keys: "fst ` set tool_rs = set (invoke_indices ?ps)" using tools(1) by (metis image_set)
  have o: "distinct (map fst other_rs)" "fst ` set other_rs \<subseteq> ?others"
    "\<And>i r. (i, r) \<in> set other_rs \<Longrightarrow> names (?ps ! i) (Fine r)"
    "sig = LoopContinue \<Longrightarrow> fst ` set other_rs = ?others"
    using split others_shape [of xp ctx ?ps s1 other_rs sig s'] by (auto split: if_splits)
  have keys: "distinct (map fst (tool_rs @ other_rs))" "fst ` set (tool_rs @ other_rs) \<subseteq> {..<?n}"
    using tools(1) invoke_indices_sorted(2) o(1,2) tool_keys
    by (auto simp: invoke_indices_iff image_Un)
  have named: "names (?ps ! i) (Fine r)" if "(i, r) \<in> set (tool_rs @ other_rs)" for i r
    using that tools(2) o(3) by auto
  show "eo_loop_signal x = first_signal (eo_results x)"
  proof (cases "first_signal (map snd tool_rs) = LoopContinue")
    case True
    have "\<forall>r\<in>set rs. derive_signal r LoopContinue = LoopContinue" if "first_signal rs = LoopContinue" for rs
      using that by (induction rs) (auto simp: Let_def split: if_splits)
    then have quiet_tools: "\<forall>r \<in> snd ` set tool_rs. derive_signal r LoopContinue = LoopContinue"
      using True by fastforce
    have run: "run_others xp ctx (List.enumerate 0 ?ps) s1 = (Fine (other_rs, sig), s')"
      using split True by simp
    note last_one = others_shape(5,6) [OF run]
    have results: "set (eo_results x) = snd ` set tool_rs \<union> snd ` set other_rs"
      using x in_index_order_set [OF keys(2,1)] by (simp add: image_Un)
    have "first_signal (eo_results x) = sig"
      by (rule first_signal_only; unfold results) (use quiet_tools last_one in blast)+
    then show ?thesis using x by simp
  next
    case False
    then have "other_rs = []" "sig = first_signal (map snd tool_rs)" using split by auto
    moreover from this have "in_index_order ?n tool_rs = map snd tool_rs"
      using tools(1) invoke_indices_sorted(1) [of ?ps] keys(2) by (intro in_index_order_sorted) simp_all
    ultimately show ?thesis using x by simp
  qed
  let ?is = "filter (\<lambda>i. i \<in> fst ` set (tool_rs @ other_rs)) [0..<?n]"
  have "set ?is = fst ` set (tool_rs @ other_rs)" using keys(2) by auto
  moreover have "map (\<lambda>r. (act_type (ar_proposal r), act_tool_name (ar_proposal r))) (eo_results x) =
      map (\<lambda>i. (act_type (?ps ! i), act_tool_name (?ps ! i))) ?is"
    unfolding x execute_outcome.select_convs
    by (rule in_index_order_indices) (use named in \<open>fastforce dest!: map_of_SomeD simp: names_def\<close>)
  ultimately show "\<exists>is. sorted_wrt (<) is \<and> set (invoke_indices ?ps) \<subseteq> set is \<and>
      set is \<subseteq> {i. i < ?n \<and> (act_type (?ps ! i) = InvokeTool \<longrightarrow> i \<in> set (invoke_indices ?ps))} \<and>
      map (\<lambda>r. (act_type (ar_proposal r), act_tool_name (ar_proposal r))) (eo_results x) =
        map (\<lambda>i. (act_type (?ps ! i), act_tool_name (?ps ! i))) is \<and>
      (eo_loop_signal x = LoopContinue \<longrightarrow> set is = set (invoke_indices ?ps) \<union> ?others)"
    using o(2,4) keys(2) tool_keys x
    by (intro exI [of _ ?is]) (auto simp: sorted_wrt_filter image_Un)
qed

end
