(* ===== verification/Tool_Call_Once.thy ===== *)
theory Tool_Call_Once
  imports Batch_Laws
begin

text \<open>
  A tool call, by its id, succeeds at most once while the phase has a cache of results: the
  invariant of the runs and the cache, kept by every action and every batch.
\<close>

section \<open>The invariant\<close>

definition succeeded_ids :: "('j, 'w) exec_state \<Rightarrow> string list" where
  "succeeded_ids s = List.map_filter (\<lambda>n. if rn_succeeded n then rn_call_id n else None) (xs_runs s)"

text \<open>Every call that succeeded is cached, up to the calls in \<open>U\<close>, whose record failed.\<close>

definition once_but :: "string set \<Rightarrow> ('j, 'w) exec_state \<Rightarrow> bool" where
  "once_but U s \<longleftrightarrow> distinct (succeeded_ids s) \<and> xs_cache s \<noteq> None \<and>
     (\<forall>i \<in> set (succeeded_ids s). cached_result (Some i) s \<noteq> None \<or> i \<in> U)"

lemma once_quiet: "quiet s s' \<Longrightarrow> once_but U s \<Longrightarrow> once_but U s'"
  by (simp add: quiet_def once_but_def succeeded_ids_def cached_result_def)

lemma once_mono: "once_but U s \<Longrightarrow> U \<subseteq> V \<Longrightarrow> once_but V s"
  by (auto simp: once_but_def)

lemma succeeded_ids_run:
  "xs_runs s' = xs_runs s @ [n] \<Longrightarrow> succeeded_ids s' =
     succeeded_ids s @ (if rn_succeeded n then (case rn_call_id n of None \<Rightarrow> [] | Some i \<Rightarrow> [i]) else [])"
  by (simp add: succeeded_ids_def map_filter_def split: option.split)

lemma attempt_once:
  assumes "attempt c tool args s r s'" and "once_but U s" and "\<And>i. c = Some i \<Longrightarrow> i \<notin> U"
  shows "once_but (U \<union> (if \<exists>a. r = Fine a then {} else set_option c)) s'"
proof -
  from assms(1) obtain ok where none: "cached_result c s = None"
    and run: "xs_runs s' = xs_runs s @
        [\<lparr>rn_call_id = c, rn_tool_name = tool, rn_args = args, rn_succeeded = ok\<rparr>]"
    and ok: "ok \<Longrightarrow> case r of Fine a \<Rightarrow> ar_status a = Succeeded \<and> remembered c s s'
        | _ \<Rightarrow> xs_cache s' = xs_cache s \<or> remembered c s s'"
    and failed: "\<not> ok \<Longrightarrow> xs_cache s' = xs_cache s"
    by (auto simp: attempt_def)
  have ids: "succeeded_ids s' = succeeded_ids s @ (if ok then (case c of None \<Rightarrow> [] | Some i \<Rightarrow> [i]) else [])"
    using succeeded_ids_run [OF run] by simp
  have fresh: "i \<notin> set (succeeded_ids s)" if "c = Some i" for i
    using assms(2,3) none that by (auto simp: once_but_def)
  have kept: "cached_result (Some i) s' \<noteq> None" if "cached_result (Some i) s \<noteq> None" for i
    using that ok failed
    by (cases ok) (auto simp: remembered_def cached_result_def split: phase.splits)
  have cache: "xs_cache s' \<noteq> None"
    using assms(2) ok failed by (cases ok) (auto simp: once_but_def remembered_def split: phase.splits)
  have own: "cached_result (Some i) s' \<noteq> None" if "ok" "c = Some i" "\<exists>a. r = Fine a" for i
    using that ok assms(2) by (auto simp: remembered_def once_but_def)
  show ?thesis
  proof (cases "ok \<and> c \<noteq> None")
    case True
    then obtain i where "ok" "c = Some i" by auto
    then show ?thesis
      using assms(2) ids fresh [of i] own [of i] kept cache by (auto simp: once_but_def)
  next
    case False
    then have "succeeded_ids s' = succeeded_ids s" using ids by (auto split: option.splits)
    then have "once_but U s'" using assms(2) kept cache unfolding once_but_def by metis
    then show ?thesis by (rule once_mono) simp
  qed
qed

lemma settled_once:
  assumes "settled c tool args s r s'" and "once_but U s" and "\<And>i. c = Some i \<Longrightarrow> i \<notin> U"
  shows "once_but (U \<union> (if \<exists>a. r = Fine a then {} else set_option c)) s'"
  using assms(1) unfolding settled_def
proof
  assume "attempt c tool args s r s'"
  then show ?thesis using assms(2,3) by (rule attempt_once)
next
  assume "quiet s s' \<and> (\<forall>a. r = Fine a \<longrightarrow> ar_status a = Succeeded \<longrightarrow> cached_result c s \<noteq> None)"
  then have "once_but U s'" using once_quiet assms(2) by blast
  then show ?thesis by (rule once_mono) simp
qed

section \<open>The ids of a batch\<close>

text \<open>The ids a call at index \<open>i\<close> of a batch can have.\<close>

definition ids_at :: "('j, 'w) execute_ports \<Rightarrow> orchestration_context \<Rightarrow> nat \<Rightarrow> string set" where
  "ids_at xp ctx i = {call_id_of xp ctx i t n |t n. True}"

lemma ids_at_disjoint:
  assumes "inj (xp_hash xp)" and "i \<noteq> j"
  shows "ids_at xp ctx i \<inter> ids_at xp ctx j = {}"
  using assms(2) by (auto simp: ids_at_def call_id_of_def derive_tool_call_id_def dest!: injD [OF assms(1)])

lemma own_call_id_at: "own_call_id xp ctx p i = Some c \<Longrightarrow> c \<in> ids_at xp ctx i"
  by (auto simp: own_call_id_def ids_at_def)

lemma action_once:
  assumes "timed xp (dispatch_one xp ctx p i) s = (r, s')" and "once_but U s"
    and "U \<inter> ids_at xp ctx i = {}"
  shows "once_but (U \<union> (if \<exists>a. r = Fine a then {} else ids_at xp ctx i)) s'"
  using assms(1)
proof (rule timed_cases)
  fix s1 s2 r1
  assume t: "quiet s s1" "dispatch_one xp ctx p i s1 = (r1, s2)" "quiet s2 s'"
    and same: "(\<exists>a. r = Fine a) \<longleftrightarrow> (\<exists>a. r1 = Fine a)"
  have s1: "once_but U s1" by (rule once_quiet [OF t(1) assms(2)])
  have "once_but (U \<union> (if \<exists>a. r = Fine a then {} else ids_at xp ctx i)) s2"
  proof (cases "act_type p = InvokeTool")
    case True
    then obtain q where "settled (own_call_id xp ctx q i) (tool_of p) (sent_args xp ctx q) s1 r1 s2"
      using invoke_settled t(2) by blast
    then have "once_but (U \<union> (if \<exists>a. r1 = Fine a then {} else set_option (own_call_id xp ctx q i))) s2"
      by (rule settled_once [OF _ s1]) (use assms(3) in \<open>auto dest: own_call_id_at\<close>)
    then show ?thesis
      by (rule once_mono) (use same in \<open>auto dest: own_call_id_at\<close>)
  next
    case False
    then show ?thesis using once_mono [OF once_quiet [OF other_quiet [OF t(2)] s1]] by simp
  qed
  then show ?thesis by (rule once_quiet [OF t(3)])
qed

lemma join_all_once:
  assumes "inj (xp_hash xp)"
  shows "join_all (\<lambda>i. timed xp (dispatch_one xp ctx (ps ! i) i)) is s = (j, s') \<Longrightarrow> distinct is \<Longrightarrow>
    once_but U s \<Longrightarrow> (\<And>i. i \<in> set is \<Longrightarrow> U \<inter> ids_at xp ctx i = {}) \<Longrightarrow>
    (\<exists>V. once_but V s') \<and>
    (\<forall>os. j = Some os \<longrightarrow> (\<forall>(i, y) \<in> set os. \<exists>a. y = Inr a) \<longrightarrow> once_but U s')"
proof (induction "is" arbitrary: s U j)
  case (Cons i "is")
  obtain r s1 where r: "timed xp (dispatch_one xp ctx (ps ! i) i) s = (r, s1)" by fastforce
  have first: "once_but (U \<union> (if \<exists>a. r = Fine a then {} else ids_at xp ctx i)) s1"
    using action_once [OF r Cons.prems(3)] Cons.prems(4) by simp
  show ?case
  proof (cases r)
    case Unwound
    then show ?thesis using Cons.prems(1) r first by auto
  next
    case (Fine a)
    obtain j1 where j1: "join_all (\<lambda>i. timed xp (dispatch_one xp ctx (ps ! i) i)) is s1 = (j1, s')"
      "j = map_option (\<lambda>rs. (i, Inr a) # rs) j1"
      using Cons.prems(1) r Fine by (auto simp: Let_def split: prod.splits)
    have "once_but U s1" using first Fine by simp
    with Cons.IH [OF j1(1) _ this] Cons.prems(2,4) j1(2) show ?thesis by auto
  next
    case (Fault e)
    obtain j1 where j1: "join_all (\<lambda>i. timed xp (dispatch_one xp ctx (ps ! i) i)) is s1 = (j1, s')"
      "j = map_option (\<lambda>rs. (i, Inl e) # rs) j1"
      using Cons.prems(1) r Fault by (auto simp: Let_def split: prod.splits)
    have "once_but (U \<union> ids_at xp ctx i) s1" using first Fault by simp
    moreover have "(U \<union> ids_at xp ctx i) \<inter> ids_at xp ctx k = {}" if "k \<in> set is" for k
      using that Cons.prems(2,4) ids_at_disjoint [OF assms, of i k ctx] by auto
    ultimately show ?thesis
      using Cons.IH [OF j1(1)] Cons.prems(2) j1(2) by auto
  qed
qed auto

lemma others_once:
  "run_others xp ctx ips s = (r, s') \<Longrightarrow> quiet s s'"
proof (induction ips arbitrary: s r)
  case (Cons ip ips)
  obtain i p where ip: "ip = (i, p)" by fastforce
  show ?case
  proof (cases "act_type p = InvokeTool")
    case False
    have q: "quiet s s1" if "timed xp (dispatch_one xp ctx p i) s = (x, s1)" for x s1
      using that by (rule timed_cases) (metis other_quiet [OF _ False] quiet_trans)
    from Cons.prems False show ?thesis
      unfolding ip run_others.simps
      by (auto simp: Let_def split: if_splits elim!: phase_cases dest!: q Cons.IH intro: quiet_trans)
  qed (use Cons ip in simp)
qed simp

lemma execute_once:
  assumes "execute xp order ctx d s = (r, s')" and "inj (xp_hash xp)" and "\<And>is. mset (order is) = mset is"
    and "once_but {} s"
  shows "\<exists>V. once_but V s'" and "r = Fine x \<Longrightarrow> once_but {} s'"
proof -
  let ?ps = "do_proposals d"
  let ?is = "order (invoke_indices ?ps)"
  have dist: "distinct ?is"
    using mset_eq_imp_distinct_iff [OF assms(3)] invoke_indices_sorted(2) by blast
  obtain j s1 where j: "join_all (\<lambda>i. timed xp (dispatch_one xp ctx (?ps ! i) i)) ?is s = (j, s1)"
    by fastforce
  note joined = join_all_once [OF assms(2) j dist assms(4)]
  have quiet: "quiet s1 s'"
    using assms(1) j others_once
    by (auto simp: execute_def Let_def split: option.splits if_splits prod.splits elim!: phase_cases)
  show "\<exists>V. once_but V s'" using joined once_quiet [OF quiet] by auto
  show "once_but {} s'" if r: "r = Fine x"
  proof -
    from assms(1) [unfolded r] assms(3) obtain os s2 where
      "join_all (\<lambda>i. timed xp (dispatch_one xp ctx (?ps ! i) i)) ?is s = (Some os, s2)"
      "\<forall>(i, y) \<in> set os. \<exists>a. y = Inr a" by (rule execute_fine)
    then have "once_but {} s1" using joined j by auto
    then show ?thesis by (rule once_quiet [OF quiet])
  qed
qed

end
