(* ===== verification/Orchestrator_Run.thy ===== *)
theory Orchestrator_Run
  imports Orchestrator_Correctness Tool_Call_Once
begin

text \<open>
  The loop with the execute phase of \<open>execute_impl.rs\<close> in it, as \<open>run_orchestrate\<close> builds the two:
  what holds of the world through an invocation, how often a tool call can succeed in it, and what
  has happened when it ends as completed.
\<close>

section \<open>The world of an invocation\<close>

text \<open>
  A property \<open>I\<close> every collaborator keeps while it answers without an error, and a weaker one that
  holds after an error too.
\<close>

locale kept_world =
  fixes lp :: "('j, 'g, 'w) loop_ports" and I J :: "'w \<Rightarrow> bool"
  assumes weaker: "I w \<Longrightarrow> J w"
    and notified: "I w \<Longrightarrow> I (lp_notify lp n w)" "J w \<Longrightarrow> J (lp_notify lp n w)"
    and read: "I w \<Longrightarrow> I (snd (lp_now lp w))" "I w \<Longrightarrow> I (snd (lp_instant lp w))"
      "I w \<Longrightarrow> I (snd (lp_take_fatal_error lp w))"
    and asked: "I w \<Longrightarrow> I (snd (lp_gather lp c w))" "I w \<Longrightarrow> I (snd (lp_decide lp c g w))"
    and executed: "I w \<Longrightarrow> lp_execute lp c d w = (x, w') \<Longrightarrow> J w' \<and> (\<forall>a. x = Fine a \<longrightarrow> I w')"
    and dispatched: "I w \<Longrightarrow> lp_dispatch_approved lp c ad w = (y, w') \<Longrightarrow> J w' \<and> (\<forall>a. y = Fine a \<longrightarrow> I w')"
begin

definition keeps :: "'a phase \<times> ('j, 'g, 'w) loop_state \<Rightarrow> bool" where
  "keeps m \<longleftrightarrow> J (ls_world (snd m)) \<and> (\<forall>a. fst m = Fine a \<longrightarrow> I (ls_world (snd m)))"

lemma keeps_same: "I (ls_world s) \<Longrightarrow> keeps (r, s)"
  using weaker by (simp add: keeps_def)

lemma keeps_on_fine:
  assumes "keeps m" and "\<And>a s. I (ls_world s) \<Longrightarrow> keeps (k a s)"
  shows "keeps (on_fine m k)"
  using assms by (auto simp: keeps_def on_fine_def split: prod.split phase.split)

lemma worlds [simp]:
  "ls_world (notify lp n s) = lp_notify lp n (ls_world s)"
  "ls_world (push_step st s) = ls_world s" "ls_world (observe_all lp rs s) = ls_world s"
  "ls_world (next_iteration s) = ls_world s" "ls_world (record_step lp d x s) = ls_world s"
  by (simp_all add: notify_def calling_def push_step_def observe_all_def next_iteration_def record_step_def Let_def)

lemma instant_keeps: "I (ls_world s) \<Longrightarrow> instant lp s = (t, s') \<Longrightarrow> I (ls_world s')"
  by (cases "lp_instant lp (ls_world s)") (use read(2) [of "ls_world s"] in \<open>simp add: instant_def\<close>, clarsimp)

lemma now_keeps: "I (ls_world s) \<Longrightarrow> now_millis lp s = (t, s') \<Longrightarrow> I (ls_world s')"
  by (cases "lp_now lp (ls_world s)") (use read(1) [of "ls_world s"] in \<open>simp add: now_millis_def\<close>, clarsimp)

lemma calling_keeps:
  "(\<And>x w. f (ls_world s) = (x, w) \<Longrightarrow> J w \<and> (\<forall>a. x = Fine a \<longrightarrow> I w)) \<Longrightarrow> keeps (calling c f s)"
  by (auto simp: calling_def keeps_def split: prod.split)

lemma calling_keeps_asked: "I (snd (f (ls_world s))) \<Longrightarrow> keeps (calling c f s)"
  by (cases "f (ls_world s)") (simp add: calling_def keeps_def weaker)

lemma fold_keeps: "I (ls_world s) \<Longrightarrow> (\<And>x s. I (ls_world s) \<Longrightarrow> I (ls_world (f x s))) \<Longrightarrow> I (ls_world (fold f xs s))"
  by (induction xs arbitrary: s) auto

lemma report_keeps:
  "I (ls_world s) \<Longrightarrow> I (ls_world (report_drained lp r s))"
  "I (ls_world s) \<Longrightarrow> I (ls_world (report_result lp args r s))"
  by (auto simp: report_drained_def report_result_def notify_result_def log_result_def Let_def
      intro!: notified split: option.split)

lemma proposals_keep: "I (ls_world s) \<Longrightarrow> I (ls_world (log_proposals lp d s))"
  unfolding log_proposals_def by (rule fold_keeps) (auto intro: notified split: option.split)

lemma drain_calls_keep: "I (ls_world s) \<Longrightarrow> keeps (drain_calls lp aps s)"
proof (induction aps arbitrary: s)
  case (Cons ap aps)
  then show ?case
    by (auto simp: Let_def split: prod.split intro!: keeps_on_fine calling_keeps keeps_same
        dest!: instant_keeps [rotated] dispatched [rotated])
qed (simp add: keeps_same)

lemma drain_keeps: "I (ls_world s) \<Longrightarrow> keeps (drain_phase lp s)"
  unfolding drain_phase_def drain_approved_pending_def drain_rejected_pending_def
  by (auto simp: Let_def split: option.split prod.split
      intro!: keeps_on_fine keeps_same drain_calls_keep fold_keeps report_keeps)

lemma gather_keeps: "I (ls_world s) \<Longrightarrow> keeps (gather_phase lp s)"
  unfolding gather_phase_def Let_def
  by (auto intro!: keeps_on_fine calling_keeps_asked asked keeps_same notified)

lemma compaction_keeps: "I (ls_world s) \<Longrightarrow> I (ls_world (compaction_phase lp cfg s))"
  by (auto simp: compaction_phase_def Let_def intro!: notified split: prod.split option.split)

lemma decide_keeps: "I (ls_world s) \<Longrightarrow> keeps (decide_phase lp deadline g s)"
proof -
  assume s: "I (ls_world s)"
  obtain t s1 where t: "now_millis lp s = (t, s1)" by fastforce
  have s1: "I (ls_world s1)" by (rule now_keeps [OF s t])
  have fatal: "I w" if "I v" "lp_take_fatal_error lp v = (x, w)" for v x w
    using read(3) [OF that(1)] that(2) by simp
  show ?thesis
    unfolding decide_phase_def t Let_def
    by (auto intro!: keeps_same s1 keeps_on_fine calling_keeps_asked asked notified
        split: prod.split option.split)
      (metis fatal notified(1))+
qed

lemma execute_keeps: "I (ls_world s) \<Longrightarrow> keeps (execute_phase lp d s)"
  unfolding execute_phase_def
  by (auto intro!: keeps_on_fine calling_keeps keeps_same dest!: executed [rotated])

lemma act_keeps: "I (ls_world s) \<Longrightarrow> keeps (act_on lp g d s)"
  unfolding act_on_def gated_iteration_def plain_iteration_def Let_def
  by (auto intro!: keeps_on_fine execute_keeps keeps_same notified proposals_keep fold_keeps report_keeps
      split: option.split)

lemma iteration_keeps: "I (ls_world s) \<Longrightarrow> keeps (run_iteration lp cfg deadline s)"
  unfolding run_iteration_def admission_def Let_def
  by (auto intro!: keeps_on_fine drain_keeps gather_keeps decide_keeps compaction_keeps act_keeps keeps_same
      dest!: now_keeps [rotated] split: prod.split option.split)

lemma iterations_keep: "I (ls_world s) \<Longrightarrow> keeps (run_iterations lp cfg deadline n s)"
  by (induction n arbitrary: s) (auto intro!: keeps_on_fine iteration_keeps keeps_same split: option.split)

lemma run_keeps: "I w \<Longrightarrow> keeps (run lp cfg ctx w)"
proof -
  assume "I w"
  then have "I (ls_world (notify lp (OnStarted ctx) (loop_start ctx w)))"
    by (simp add: loop_start_def notified)
  then have "keeps (run_inner lp cfg (notify lp (OnStarted ctx) (loop_start ctx w)))"
    unfolding run_inner_def by (rule iterations_keep)
  then show ?thesis
    by (auto simp: run_def keeps_def intro: notified split: prod.splits phase.splits)
qed

end

section \<open>The loop with its execute phase\<close>

text \<open>
  The collaborators of the loop live in the world of the phase; the order in which the calls of a
  batch end may depend on all that happened before it.
\<close>

definition wired :: "('j, 'g, 'v) loop_ports \<Rightarrow> ('j, 'v) execute_ports \<Rightarrow>
    (('j, 'v) exec_state \<Rightarrow> nat list \<Rightarrow> nat list) \<Rightarrow> ('j, 'g, ('j, 'v) exec_state) loop_ports" where
  "wired lp xp order =
     \<lparr>lp_json = lp_json lp, lp_error_text = lp_error_text lp, lp_now = in_world (lp_now lp),
      lp_instant = in_world (lp_instant lp),
      lp_reader = map_option (\<lambda>(approved, rejected).
        (\<lambda>i s. approved i (xs_world s), \<lambda>i s. rejected i (xs_world s))) (lp_reader lp),
      lp_gather = \<lambda>ctx. in_world (lp_gather lp ctx),
      lp_decide = \<lambda>ctx g. in_world (lp_decide lp ctx g),
      lp_execute = \<lambda>ctx d s. execute xp (order s) ctx d s,
      lp_dispatch_approved = dispatch_approved xp,
      lp_notify = \<lambda>n s. s\<lparr>xs_world := lp_notify lp n (xs_world s)\<rparr>,
      lp_take_fatal_error = in_world (lp_take_fatal_error lp),
      lp_lease_healthy = \<lambda>s. lp_lease_healthy lp (xs_world s)\<rparr>"

text \<open>The order is one of the calls that were started.\<close>

definition permutes :: "(('j, 'v) exec_state \<Rightarrow> nat list \<Rightarrow> nat list) \<Rightarrow> bool" where
  "permutes order \<longleftrightarrow> (\<forall>s is. mset (order s is) = mset is)"

lemma approved_once:
  assumes "dispatch_approved xp ctx ad s = (r, s')" and "once_but {} s"
  shows "\<exists>V. once_but V s'" and "r = Fine a \<Longrightarrow> once_but {} s'"
  using settled_once [OF approved_settled [OF assms(1)] assms(2)] by auto

text \<open>
  The invariant of the runs is a property the wired loop keeps: the contract of the world,
  discharged by the execute phase.
\<close>

definition ids_told_apart :: "('j, 'v) execute_ports \<Rightarrow> (('j, 'v) exec_state \<Rightarrow> nat list \<Rightarrow> nat list) \<Rightarrow> bool"
  where
  "ids_told_apart xp order \<longleftrightarrow> inj (xp_hash xp) \<and> permutes order"

lemma wired_sel [simp]:
  "lp_notify (wired lp xp order) n s = s\<lparr>xs_world := lp_notify lp n (xs_world s)\<rparr>"
  "lp_now (wired lp xp order) = in_world (lp_now lp)"
  "lp_instant (wired lp xp order) = in_world (lp_instant lp)"
  "lp_take_fatal_error (wired lp xp order) = in_world (lp_take_fatal_error lp)"
  "lp_gather (wired lp xp order) ctx = in_world (lp_gather lp ctx)"
  "lp_decide (wired lp xp order) ctx g = in_world (lp_decide lp ctx g)"
  "lp_execute (wired lp xp order) ctx d s = execute xp (order s) ctx d s"
  "lp_dispatch_approved (wired lp xp order) = dispatch_approved xp"
  by (simp_all add: wired_def)

lemma once_world [simp]: "once_but V (s\<lparr>xs_world := w\<rparr>) = once_but V s"
  by (simp add: once_but_def succeeded_ids_def cached_result_def)

lemma in_world_quiet: "quiet s (snd (in_world f s))"
  by (cases "in_world f s") (simp add: quiet_world)

interpretation tool_calls: kept_world "wired lp xp order"
  "\<lambda>s. ids_told_apart xp order \<longrightarrow> once_but {} s" "\<lambda>s. ids_told_apart xp order \<longrightarrow> (\<exists>V. once_but V s)"
  for lp :: "('j, 'g, 'v) loop_ports" and xp :: "('j, 'v) execute_ports" and order
proof
  fix c :: orchestration_context and d :: "'j decide_output" and w w' :: "('j, 'v) exec_state" and x
  assume "ids_told_apart xp order \<longrightarrow> once_but {} w" "lp_execute (wired lp xp order) c d w = (x, w')"
  then show "(ids_told_apart xp order \<longrightarrow> (\<exists>V. once_but V w')) \<and>
      (\<forall>a. x = Fine a \<longrightarrow> ids_told_apart xp order \<longrightarrow> once_but {} w')"
    using execute_once [of xp "order w" c d w x w'] by (auto simp: ids_told_apart_def permutes_def)
next
  fix c :: orchestration_context and ad and w w' :: "('j, 'v) exec_state" and y
  assume "ids_told_apart xp order \<longrightarrow> once_but {} w"
    "lp_dispatch_approved (wired lp xp order) c ad w = (y, w')"
  then show "(ids_told_apart xp order \<longrightarrow> (\<exists>V. once_but V w')) \<and>
      (\<forall>a. y = Fine a \<longrightarrow> ids_told_apart xp order \<longrightarrow> once_but {} w')"
    using approved_once [of xp c ad w y w'] by auto
qed (auto intro: once_quiet [OF in_world_quiet])

section \<open>Completion\<close>

definition same_run :: "orchestration_context \<Rightarrow> orchestration_context \<Rightarrow> bool" where
  "same_run c c' \<longleftrightarrow> oc_run_id c' = oc_run_id c \<and> oc_session_id c' = oc_session_id c"

lemma same_run_refl [simp]: "same_run c c"
  by (simp add: same_run_def)

lemma same_run_trans: "same_run c c' \<Longrightarrow> same_run c' c'' \<Longrightarrow> same_run c c''"
  by (simp add: same_run_def)

lemma same_run_updates [simp]:
  "same_run c (c'\<lparr>oc_step_history := h\<rparr>) = same_run c c'"
  "same_run c (c'\<lparr>oc_iteration := i\<rparr>) = same_run c c'"
  "same_run c (c'\<lparr>oc_discovered_tool_names := ns\<rparr>) = same_run c c'"
  by (simp_all add: same_run_def)

text \<open>A step that ended the run: its execution, its report and the summary it is completed with.\<close>

definition completes :: "('j, 'g, 'w) loop_ports \<Rightarrow> orchestration_context \<Rightarrow> string \<Rightarrow>
    ('j, 'g, 'w) loop_state \<Rightarrow> bool" where
  "completes lp c0 t s \<longleftrightarrow>
     (\<exists>c c1 d x w w'. same_run c0 c \<and> same_run c0 c1 \<and> lp_execute lp c d w = (Fine x, w') \<and>
        eo_loop_signal x = LoopDone \<and> Report (OnStepCompleted c1 d x) \<in> set (ls_calls s) \<and>
        t = completion_summary d)"

lemma follow_completed:
  "follow_signal d sig s = Some (TermCompleted t v) \<Longrightarrow> sig = LoopDone \<and> t = completion_summary d"
  by (auto simp: follow_signal_def split: loop_signal.splits)

lemma executed_fine:
  assumes "execute_phase lp d s = (Fine x, s1)"
  shows "\<exists>w'. lp_execute lp (ls_ctx s) d (ls_world s) = (Fine x, w')" and "ls_ctx s1 = ls_ctx s"
  using assms execute_calls [OF assms] unfolding execute_phase_def
  by (auto simp: calling_def elim!: on_fine_cases split: prod.splits)

lemma reports_ctx: "reports s s' \<Longrightarrow> ls_ctx s' = ls_ctx s"
  by (simp add: reports_def)

lemma report_fold_ctx [simp]:
  "ls_ctx (fold (report_result lp args) rs s) = ls_ctx s" "ls_ctx (log_proposals lp d s) = ls_ctx s"
  by (rule reports_ctx, rule reports_fold, rule reports_result(1))
    (rule reports_ctx [OF reports_proposals])

lemma reported_stays: "c \<in> set (ls_calls s) \<Longrightarrow> c \<in> set (ls_calls (fold (report_result lp args) rs s))"
proof -
  have "reports s (fold (report_result lp args) rs s)" by (rule reports_fold [OF reports_result(1)])
  then show "c \<in> set (ls_calls s) \<Longrightarrow> ?thesis" by (auto simp: reports_def adds_def)
qed

lemma record_step_ctx: "same_run c (ls_ctx (record_step lp d x s)) = same_run c (ls_ctx s)"
  by (simp add: record_step_def push_step_def Let_def)

lemma act_same_run:
  assumes "act_on lp g d s = (r, s')"
  shows "same_run (ls_ctx s) (ls_ctx s')"
proof -
  have ex: "ls_ctx s1 = ls_ctx s0" if "execute_phase lp d s0 = (x, s1)" for s0 x s1
    using execute_calls [OF that] by simp
  have gated: ?thesis if "gated_iteration lp g d s = (r, s')"
    using that unfolding gated_iteration_def
    by (cases rule: on_fine_cases)
      (auto simp: Let_def record_step_ctx next_iteration_def split: option.splits dest!: ex)
  have plain: ?thesis if "plain_iteration lp g d s = (r, s')"
    using that unfolding plain_iteration_def
    by (cases rule: on_fine_cases)
      (auto simp: Let_def record_step_ctx next_iteration_def split: option.splits dest!: ex)
  show ?thesis
    using assms gated plain by (auto simp: act_on_def split: option.splits if_splits)
qed

lemma act_completes:
  assumes "act_on lp g d s = (Fine (Some (TermCompleted t v)), s')"
  shows "completes lp (ls_ctx s) t s'"
proof -
  have step: "completes lp (ls_ctx s) t s'"
    if h: "execute_phase lp d s0 = (Fine x, s1)" "ls_ctx s0 = ls_ctx s" "same_run (ls_ctx s) c"
      "follow_signal d (eo_loop_signal x) s2 = Some (TermCompleted t v)"
      "Report (OnStepCompleted c d x) \<in> set (ls_calls s')" for s0 s1 s2 x c
  proof -
    obtain w' where "lp_execute lp (ls_ctx s) d (ls_world s0) = (Fine x, w')"
      using executed_fine(1) [OF h(1)] h(2) by auto
    then show ?thesis
      using h(3,5) follow_completed [OF h(4)] same_run_refl unfolding completes_def by blast
  qed
  have gated: "completes lp (ls_ctx s) t s'"
    if "gated_iteration lp g d s = (Fine (Some (TermCompleted t v)), s')"
    using that unfolding gated_iteration_def
  proof (cases rule: on_fine_cases)
    case (fine x s1)
    note ctx = executed_fine(2) [OF fine(1)]
    show ?thesis
      by (rule step [OF fine(1), where c = "ls_ctx (record_step lp d x s1)" and ?s2.0 = s'])
        (use fine(2) ctx in \<open>auto simp: Let_def record_step_ctx intro!: reported_stays split: option.splits\<close>)
  qed auto
  have plain: "completes lp (ls_ctx s) t s'"
    if "plain_iteration lp g d s = (Fine (Some (TermCompleted t v)), s')"
    using that unfolding plain_iteration_def
  proof (cases rule: on_fine_cases)
    case (fine x s1)
    note ctx = executed_fine(2) [OF fine(1)]
    show ?thesis
      by (rule step [OF fine(1), where c = "ls_ctx s'" and ?s2.0 = s'])
        (use fine(2) ctx in \<open>auto simp: Let_def record_step_ctx split: option.splits\<close>)
  qed auto
  show ?thesis
    using assms gated plain by (auto simp: act_on_def split: option.splits if_splits)
qed

lemma completes_after: "same_run c0 c \<Longrightarrow> completes lp c t s \<Longrightarrow> completes lp c0 t s"
  unfolding completes_def using same_run_trans by metis

text \<open>What happens in front of the action keeps the run.\<close>

lemma parts_same_run:
  "drain_phase lp s = (a, s') \<Longrightarrow> ls_ctx s' = ls_ctx s"
  "admission lp deadline s = (b, s') \<Longrightarrow> ls_ctx s' = ls_ctx s"
  "gather_phase lp s = (g, s') \<Longrightarrow> same_run (ls_ctx s) (ls_ctx s')"
  "ls_ctx (compaction_phase lp cfg s) = ls_ctx s"
  "decide_phase lp deadline x s = (d, s') \<Longrightarrow> ls_ctx s' = ls_ctx s"
  using drains_phase [of lp s a s'] admission_calls [of lp deadline s b s'] compaction_calls [of lp cfg s]
    decide_calls [of lp deadline x s d s']
  by (auto simp: drains_def gather_phase_def calling_def Let_def elim!: on_fine_cases split: prod.splits)

lemma run_iteration_parts:
  assumes "run_iteration lp cfg deadline s = (r, s')"
  obtains (acted) g d s5 where "same_run (ls_ctx s) (ls_ctx s5)" "act_on lp g d s5 = (r, s')"
  | (early) "same_run (ls_ctx s) (ls_ctx s')" "\<And>t v. r \<noteq> Fine (Some (TermCompleted t v))" "r \<noteq> Fine None"
  using assms unfolding run_iteration_def
proof (cases rule: on_fine_cases)
  case (fine u s1)
  obtain b s2 where ad: "admission lp deadline s1 = (b, s2)" by fastforce
  have s2: "ls_ctx s2 = ls_ctx s" using parts_same_run(1) [OF fine(1)] parts_same_run(2) [OF ad] by simp
  show thesis
  proof (cases b)
    case (Some t)
    then show thesis
      using fine(2) ad s2 admission_calls [OF ad] by (intro early) auto
  next
    case None
    from fine(2) ad None have "on_fine (gather_phase lp s2) (\<lambda>g s. on_fine
        (decide_phase lp deadline g (compaction_phase lp (lc_compaction cfg) s)) (\<lambda>d s. case d of
          None \<Rightarrow> (Fine (Some TermTimedOut), s) | Some d \<Rightarrow> act_on lp g d s)) = (r, s')" by simp
    then show thesis
    proof (cases rule: on_fine_cases)
      case (fine g s3)
      have s3: "same_run (ls_ctx s) (ls_ctx s3)" using parts_same_run(3) [OF fine(1)] s2 by simp
      from fine(2) show thesis
      proof (cases rule: on_fine_cases)
        case (fine d s5)
        have s5: "same_run (ls_ctx s) (ls_ctx s5)"
          using parts_same_run(5) [OF fine(1)] s3 by (simp add: parts_same_run(4))
        show thesis
          by (cases d) (use fine(2) s5 in \<open>auto intro: early acted\<close>)
      qed (use s3 in \<open>auto intro!: early simp: parts_same_run(4) dest!: parts_same_run(5)\<close>)
    qed (use s2 in \<open>auto intro!: early dest!: parts_same_run(3)\<close>)
  qed
qed (auto intro!: early dest!: parts_same_run(1))

lemma run_iterations_completed:
  "run_iterations lp cfg deadline n s = (Fine (TermCompleted t v), s') \<Longrightarrow> completes lp (ls_ctx s) t s'"
proof (induction n arbitrary: s)
  case (Suc n)
  from Suc.prems have "on_fine (run_iteration lp cfg deadline s) (\<lambda>t s. case t of Some t \<Rightarrow> (Fine t, s)
      | None \<Rightarrow> run_iterations lp cfg deadline n s) = (Fine (TermCompleted t v), s')" by simp
  then show ?case
  proof (cases rule: on_fine_cases)
    case (fine b s1)
    show ?thesis
    proof (cases b)
      case None
      from fine(1) have "same_run (ls_ctx s) (ls_ctx s1)"
      proof (cases rule: run_iteration_parts)
        case (acted g d s5)
        then show ?thesis by (metis same_run_trans act_same_run)
      qed
      moreover have "completes lp (ls_ctx s1) t s'" using Suc.IH [of s1] fine(2) None by simp
      ultimately show ?thesis by (rule completes_after)
    next
      case (Some end_t)
      then have "run_iteration lp cfg deadline s = (Fine (Some (TermCompleted t v)), s')"
        using fine by simp
      then show ?thesis
      proof (cases rule: run_iteration_parts)
        case (acted g d s5)
        then show ?thesis by (metis completes_after act_completes)
      qed blast
    qed
  qed auto
qed simp

lemma run_completed:
  assumes "run lp cfg ctx w = (Fine (TermCompleted t v), s)"
  shows "completes lp ctx t s"
proof -
  obtain s1 where s1: "run_inner lp cfg (notify lp (OnStarted ctx) (loop_start ctx w)) = (Fine (TermCompleted t v), s1)"
    "s = notify lp (OnFinished (ls_ctx s1) (TermCompleted t v)) s1"
    using assms by (auto simp: run_def split: prod.splits phase.splits)
  have "completes lp ctx t s1"
    using run_iterations_completed s1(1) unfolding run_inner_def by (fastforce simp: loop_start_def)
  then show ?thesis unfolding s1(2) completes_def by fastforce
qed

text \<open>An action counts as a completed run only when the run service completed the run.\<close>

lemma completed_by_service:
  assumes "dispatch_one xp ctx p i s = (Fine a, s')" and "act_type p = CompleteRun" and "ar_status a = Succeeded"
  shows "\<exists>w w'. xp_complete xp (oc_session_id ctx) (oc_run_id ctx) w = (Done (), w')"
  using assms
  by (auto simp: dispatch_one_def reply_result_def in_world_def act_result_def split: prod.splits reply.splits)

lemma others_completed:
  "run_others xp ctx ips s = (Fine (rs, sig), s') \<Longrightarrow> (i, r) \<in> set rs \<Longrightarrow>
     act_type (ar_proposal r) = CompleteRun \<Longrightarrow> ar_status r = Succeeded \<Longrightarrow>
     \<exists>w w'. xp_complete xp (oc_session_id ctx) (oc_run_id ctx) w = (Done (), w')"
proof (induction ips arbitrary: s rs)
  case (Cons jp ips)
  obtain j p where jp: "jp = (j, p)" by fastforce
  show ?case
  proof (cases "act_type p = InvokeTool")
    case True
    then show ?thesis using Cons by (simp add: jp)
  next
    case False
    from Cons.prems(1) False obtain q s1 where q: "timed xp (dispatch_one xp ctx p j) s = (Fine q, s1)"
      and rest: "rs = [(j, q)] \<or> (\<exists>rs'. rs = (j, q) # rs' \<and> run_others xp ctx ips s1 = (Fine (rs', sig), s'))"
      by (auto simp: jp Let_def split: if_splits dest!: fine_phase)
    have "\<exists>w w'. xp_complete xp (oc_session_id ctx) (oc_run_id ctx) w = (Done (), w')"
      if "act_type (ar_proposal q) = CompleteRun" "ar_status q = Succeeded"
    proof -
      from q obtain t1 t2 a d where "dispatch_one xp ctx p j t1 = (Fine a, t2)" "q = a\<lparr>ar_duration_ms := d\<rparr>"
        by (rule timed_cases) blast
      moreover have "act_type p = CompleteRun" using names_timed [OF q] that(1) by (simp add: names_def)
      ultimately show ?thesis using completed_by_service that(2) by auto
    qed
    then show ?thesis using rest Cons by auto
  qed
qed simp

lemma done_iff:
  "derive_signal r LoopContinue = LoopDone \<longleftrightarrow> act_type (ar_proposal r) = CompleteRun \<and> ar_status r = Succeeded"
  by (simp add: derive_signal_def split: action_status.split)

lemma execute_done:
  assumes "execute xp order ctx d s = (Fine x, s')" and "\<And>is. mset (order is) = mset is"
    and "eo_loop_signal x = LoopDone"
  shows "\<exists>r \<in> set (eo_results x). act_type (ar_proposal r) = CompleteRun \<and> ar_status r = Succeeded"
    and "\<exists>w w'. xp_complete xp (oc_session_id ctx) (oc_run_id ctx) w = (Done (), w')"
proof -
  have signals: "\<exists>r \<in> set rs. act_type (ar_proposal r) = CompleteRun \<and> ar_status r = Succeeded"
    if "first_signal rs = LoopDone" for rs :: "'a action_result list"
    using that by (induction rs) (auto simp: Let_def done_iff split: if_splits)
  show "\<exists>r \<in> set (eo_results x). act_type (ar_proposal r) = CompleteRun \<and> ar_status r = Succeeded"
    using signals execute_outcome_shape(1) [OF assms(1,2)] assms(3) by simp
  from assms(1,2) obtain s1 tool_rs other_rs sig where
    tools: "map fst tool_rs = invoke_indices (do_proposals d)"
      "\<forall>(i, r) \<in> set tool_rs. names (do_proposals d ! i) (Fine r)"
    and split: "if first_signal (map snd tool_rs) = LoopContinue
      then run_others xp ctx (List.enumerate 0 (do_proposals d)) s1 = (Fine (other_rs, sig), s')
      else other_rs = [] \<and> sig = first_signal (map snd tool_rs) \<and> s' = s1"
    and x: "x = \<lparr>eo_results = in_index_order (length (do_proposals d)) (tool_rs @ other_rs),
      eo_loop_signal = sig\<rparr>" by (rule execute_fine)
  have sig: "sig = LoopDone" using assms(3) x by simp
  have "first_signal (map snd tool_rs) \<noteq> LoopDone"
  proof
    assume "first_signal (map snd tool_rs) = LoopDone"
    then obtain i r where r: "(i, r) \<in> set tool_rs" "act_type (ar_proposal r) = CompleteRun"
      using signals by fastforce
    then have "i \<in> set (invoke_indices (do_proposals d))" using tools(1) by (metis image_eqI image_set fst_conv)
    then show False using tools(2) r by (fastforce simp: invoke_indices_iff names_def)
  qed
  then have run: "run_others xp ctx (List.enumerate 0 (do_proposals d)) s1 = (Fine (other_rs, sig), s')"
    using split sig by (auto split: if_splits)
  then obtain i r where "(i, r) \<in> set other_rs" "act_type (ar_proposal r) = CompleteRun" "ar_status r = Succeeded"
    using others_shape(6) [OF run] sig by (fastforce simp: done_iff)
  then show "\<exists>w w'. xp_complete xp (oc_session_id ctx) (oc_run_id ctx) w = (Done (), w')"
    using others_completed [OF run] by blast
qed

end
