(* ===== verification/Execute_Correctness.thy ===== *)
theory Execute_Correctness
  imports Orchestrator_Run Tool_Approval_Correctness "HOL-Library.Countable"
begin

text \<open>
  What the execute phase and the loop around it promise: which tools run behind the approval gate,
  what a batch does, that a call does not succeed twice under one id, that it can under two, and
  that a run that is reported as completed was completed.
\<close>

section \<open>The approval gate\<close>

text \<open>
  The service behind the gate: what a submission answers at once and what it then hands out is
  allowed.
\<close>

locale approval_gate =
  fixes submit :: "'j tool_call_proposal \<Rightarrow> 'w \<Rightarrow> submit_decision reply \<times> 'w"
    and retrieve :: "ident \<Rightarrow> 'w \<Rightarrow> 'j approved_proposal reply"
    and allowed :: "'w \<Rightarrow> 'j tool_call_proposal \<Rightarrow> 'j \<Rightarrow> bool"
  assumes passes: "submit p w = (Done AutoApproved, w') \<Longrightarrow>
    retrieve (tcp_call_id p) w' = Done ap \<Longrightarrow> allowed w p (ap_tool_args ap)"
begin

lemma gated_run:
  assumes "xp_approvals xp = Some (submit, retrieve)" and "act_type p = InvokeTool"
    and "act_requires_approval p" and "dispatch_one xp ctx p i s = (r, s')"
  shows "xs_runs s' = xs_runs s \<or> (\<exists>n args. xs_runs s' = xs_runs s @ [n] \<and> rn_tool_name n = tool_of p \<and>
    rn_args n = sent_args xp ctx (p\<lparr>act_tool_args := Some args\<rparr>) \<and>
    allowed (xs_world s) (gate_proposal xp ctx p i) args)"
proof -
  have "run_with_approval_gate xp ctx p i submit retrieve s = (r, s')"
    using assms by (simp add: dispatch_one_def)
  then show ?thesis
  proof (cases rule: gate_settled)
    case held
    then show ?thesis by (simp add: quiet_def)
  next
    case (passed w ap s1)
    have same: "xs_runs s1 = xs_runs s" by (simp add: passed(3))
    have "allowed (xs_world s) (gate_proposal xp ctx p i) (ap_tool_args ap)"
      by (rule passes [OF passed(1,2)])
    then show ?thesis
      using dispatch_tool_settled [OF passed(4)] same
      by (auto simp: settled_def attempt_def quiet_def sent_args_def)
  qed
qed

end

text \<open>A fresh call the service of the model lets through at once.\<close>

definition allowed_at_once :: "'j json_ops \<Rightarrow> svc_env \<Rightarrow> svc_env \<Rightarrow> 'j approval_world \<Rightarrow>
    'j tool_call_proposal \<Rightarrow> 'j \<Rightarrow> bool" where
  "allowed_at_once js env1 env2 w p args \<longleftrightarrow>
     (approval_reachable js w \<and> call_row (tcp_call_id p) w = None \<and>
      se_secondary env1 = None \<and> se_secondary env2 = None \<longrightarrow>
        args = tcp_tool_args p \<and>
        (\<exists>rule. sanctioned w (tcp_session_id p) rule \<and> proposal_matches_rule js p rule))"

lemma at_once_allowed:
  assumes "submit_proposal js env1 env2 now1 now2 p w = (Done AutoApproved, w')"
    and "retrieve_approved_proposal (tcp_call_id p) w' = Done ap"
  shows "allowed_at_once js env1 env2 w p (ap_tool_args ap)"
  unfolding allowed_at_once_def
proof
  assume w: "approval_reachable js w \<and> call_row (tcp_call_id p) w = None \<and>
    se_secondary env1 = None \<and> se_secondary env2 = None"
  then have inv: "agrees w" "rules_ok w" using reachable_approvals by blast+
  from w have "call_row (tcp_call_id p) w = None" "se_secondary env1 = None" "se_secondary env2 = None"
    by auto
  from submit_cases [OF this(1) inv(1) this(2,3) assms(1)] obtain rule w2 where
    found: "find (proposal_matches_rule js p) (rules_of (tcp_session_id p) w) = Some rule"
    and w': "w' = w2\<lparr>aw_service := set_proposal_state (tcp_call_id p) ProposalApproved
      (cache_proposal p (aw_service w))\<rparr>" by (metis reply.inject(1) submit_decision.distinct(1))
  have "ap_tool_args ap = tcp_tool_args p"
    using assms(2) w'
    by (auto simp: retrieve_approved_proposal_def cached_entry_def set_proposal_state_def cache_proposal_def
        hmap_simps effective_args_def)
  moreover have "rule \<in> set (rules_of (tcp_session_id p) w)" "proposal_matches_rule js p rule"
    using found by (auto simp: find_Some_iff)
  ultimately show "ap_tool_args ap = tcp_tool_args p \<and>
      (\<exists>rule. sanctioned w (tcp_session_id p) rule \<and> proposal_matches_rule js p rule)"
    using inv(2) by (auto simp: rules_ok_def)
qed

interpretation gate: approval_gate "submit_proposal js env1 env2 now1 now2" retrieve_approved_proposal
  "allowed_at_once js env1 env2"
  for js :: "'j json_ops" and env1 env2 now1 now2
  by unfold_locales (rule at_once_allowed)

text \<open>C3: No tool runs behind the gate without an operator. When the execute phase, wired to the
  approval service, dispatches a fresh call that requires approval and a tool runs, it is the tool
  of the proposal with the arguments that were proposed, and the log holds an approval that an
  operator gave for the whole session of the run to a call of the same tool, whose match policy
  covers the proposed arguments.\<close>

theorem gated_runs_are_sanctioned:
  assumes "xp_approvals xp = Some (submit_proposal js env1 env2 now1 now2, retrieve_approved_proposal)"
    and "act_type p = InvokeTool" and "act_requires_approval p"
    and "approval_reachable js (xs_world s)"
    and "call_row (tcp_call_id (gate_proposal xp ctx p i)) (xs_world s) = None"
    and "se_secondary env1 = None" and "se_secondary env2 = None"
    and "dispatch_one xp ctx p i s = (r, s')" and "xs_runs s' \<noteq> xs_runs s"
  shows "\<exists>n. xs_runs s' = xs_runs s @ [n] \<and> rn_tool_name n = tool_of p \<and> rn_args n = sent_args xp ctx p \<and>
    (\<exists>e row mp. ToolCallApproved e \<in> set (logged (xs_world s)) \<and> ta_session_id e = oc_session_id ctx \<and>
       ta_scope e = SessionApproval mp \<and> call_row (ta_call_id e) (xs_world s) = Some row \<and>
       tca_state row = tool_call_approval_state.Approved \<and>
       proposal_matches_rule js (gate_proposal xp ctx p i)
         \<lparr>al_tool_name = tca_tool_name row, al_tool_args = row_effective_args row, al_policy = mp\<rparr>)"
proof -
  let ?g = "gate_proposal xp ctx p i"
  obtain n args where run: "xs_runs s' = xs_runs s @ [n]" "rn_tool_name n = tool_of p"
    "rn_args n = sent_args xp ctx (p\<lparr>act_tool_args := Some args\<rparr>)"
    "allowed_at_once js env1 env2 (xs_world s) ?g args"
    using gate.gated_run [OF assms(1-3,8)] assms(9) by blast
  obtain rule where rule: "args = tcp_tool_args ?g" "sanctioned (xs_world s) (tcp_session_id ?g) rule"
    "proposal_matches_rule js ?g rule"
    using run(4) assms(4-7) by (auto simp: allowed_at_once_def)
  have "sent_args xp ctx (p\<lparr>act_tool_args := Some args\<rparr>) = sent_args xp ctx p"
    by (simp add: sent_args_def rule(1) gate_proposal_def Let_def tool_args_with_working_dir_def or_null_def
        split: option.split)
  moreover have "tcp_session_id ?g = oc_session_id ctx" by (simp add: gate_proposal_def Let_def)
  moreover have "rule = \<lparr>al_tool_name = al_tool_name rule, al_tool_args = al_tool_args rule,
      al_policy = al_policy rule\<rparr>" by simp
  ultimately show ?thesis using run rule unfolding sanctioned_def by metis
qed

section \<open>Batches\<close>

text \<open>C7: A batch has one result for each action it dispatched, in the order of the proposals,
  whatever the order in which its tool calls end. It dispatches every tool call in front of the
  first action that ends a run or parks it and none behind it; every other action too, up to one
  whose result ends the batch; and its signal is the one of its first result that asks for anything
  but to continue.\<close>

theorem batch_in_order:
  assumes "execute xp order ctx d s = (Fine x, s')" and "\<And>is. mset (order is) = mset is"
  shows "eo_loop_signal x = first_signal (eo_results x) \<and>
    (\<exists>is. sorted_wrt (<) is \<and> set is \<subseteq> {..<length (do_proposals d)} \<and>
       map (\<lambda>r. (act_type (ar_proposal r), act_tool_name (ar_proposal r))) (eo_results x) =
         map (\<lambda>i. (act_type (do_proposals d ! i), act_tool_name (do_proposals d ! i))) is \<and>
       (\<forall>i<length (do_proposals d). act_type (do_proposals d ! i) = InvokeTool \<longrightarrow>
         i \<in> set is \<longleftrightarrow> (\<forall>j<i. \<not> is_terminal_action (do_proposals d ! j))) \<and>
       (eo_loop_signal x = LoopContinue \<longrightarrow>
         (\<forall>i<length (do_proposals d). act_type (do_proposals d ! i) \<noteq> InvokeTool \<longrightarrow> i \<in> set is)))"
proof -
  note shape = execute_outcome_shape [OF assms]
  from shape(2) obtain "is" where "is": "sorted_wrt (<) is" "set (invoke_indices (do_proposals d)) \<subseteq> set is"
    "set is \<subseteq> {i. i < length (do_proposals d) \<and>
        (act_type (do_proposals d ! i) = InvokeTool \<longrightarrow> i \<in> set (invoke_indices (do_proposals d)))}"
    "map (\<lambda>r. (act_type (ar_proposal r), act_tool_name (ar_proposal r))) (eo_results x) =
        map (\<lambda>i. (act_type (do_proposals d ! i), act_tool_name (do_proposals d ! i))) is"
    "eo_loop_signal x = LoopContinue \<longrightarrow>
        set is = set (invoke_indices (do_proposals d)) \<union>
          {i. i < length (do_proposals d) \<and> act_type (do_proposals d ! i) \<noteq> InvokeTool}" by blast
  show ?thesis
    using shape(1) "is" by (intro conjI exI [of _ "is"]) (auto simp: invoke_indices_iff)
qed

section \<open>How often a call succeeds\<close>

text \<open>C2: While the results of tools are cached and the hash of the call ids tells different calls
  apart, no tool call succeeds twice in an invocation of the loop: across all its iterations, the
  batches of concurrent calls in whatever order they end, the drains of calls an operator approved
  and the calls behind the approval gate, the ids of the runs that succeeded are distinct, also
  when the invocation ends with an error.\<close>

theorem tool_calls_succeed_once:
  assumes "inj (xp_hash xp)" and "permutes order" and "xs_cache s0 \<noteq> None" and "xs_runs s0 = []"
  shows "distinct (succeeded_ids (ls_world (snd (run (wired lp xp order) cfg ctx s0))))"
proof -
  have "ids_told_apart xp order" using assms(1,2) by (simp add: ids_told_apart_def)
  moreover have "once_but {} s0" using assms(3,4) by (simp add: once_but_def succeeded_ids_def map_filter_def)
  ultimately show ?thesis
    using tool_calls.run_keeps [of xp order s0 lp cfg ctx]
    unfolding tool_calls.keeps_def by (auto simp: once_but_def)
qed

text \<open>An attempt of one call leaves every other call as it was in the cache.\<close>

lemma attempt_other:
  assumes "attempt c tool args s r s'" and "c \<noteq> Some i" and "cached_result (Some i) s = None"
  shows "cached_result (Some i) s' = None"
proof -
  have "remembered c s s' \<Longrightarrow> cached_result (Some i) s' = None"
    using assms(2,3) unfolding remembered_def by blast
  moreover have "xs_cache s' = xs_cache s \<Longrightarrow> cached_result (Some i) s' = None"
    using assms(3) by (simp add: cached_result_def)
  ultimately show ?thesis
    using assms(1) unfolding attempt_def by (cases r) (auto split: if_splits)
qed

text \<open>A tool with a handler runs in \<open>dispatch_approved\<close> unless the id is cached.\<close>

lemma approved_runs:
  assumes "dispatch_approved xp ctx ad s = (r, s')" and "cached_result (Some (ad_call_id ad)) s = None"
    and "xp_handlers xp \<noteq> None"
    and "\<And>pk i se ru tk tg cl w. fst (xp_record_start xp pk i se ru tk tg cl w) = Done ()"
  shows "\<exists>n. xs_runs s' = xs_runs s @ [n] \<and> rn_tool_name n = ad_tool_name ad \<and>
    rn_args n = tool_args_with_working_dir (xp_json xp) (ad_tool_name ad) (oc_working_dir ctx) (Some (ad_tool_args ad))"
proof -
  let ?args = "tool_args_with_working_dir (xp_json xp) (ad_tool_name ad) (oc_working_dir ctx) (Some (ad_tool_args ad))"
  let ?tool = "ad_tool_name ad" and ?i = "Some (ad_call_id ad)"
  obtain inv_id s1 where n: "new_id xp ''inv'' s = (inv_id, s1)" by fastforce
  let ?start = "xp_record_start xp (oc_project ctx) inv_id (Some (oc_session_id ctx))
    (Some (oc_run_id ctx)) (oc_task_id ctx) (Builtin ?tool) SandboxedProcess"
  obtain e w where started: "?start (xs_world s1) = (e, w)" by fastforce
  then have "e = Done ()" using assms(4) by (metis fst_conv)
  then obtain s2 where st: "ask ?start s1 = (Fine (), s2)"
    using started by (simp add: ask_def in_world_def)
  obtain x buffered s3 where t: "run_tool xp ctx ?i ?tool ?args s2 = ((x, buffered), s3)"
    by (metis prod.collapse)
  have "xs_runs s' = xs_runs s3"
    using assms(1-3) n st t
    by (cases x) (auto simp: dispatch_approved_def Let_def on_fine_def remember_runs quiet_def
        split: prod.splits phase.splits dest!: quiet_fail quiet_ask)
  then have "\<not> quiet s s'"
    using run_tool_run [OF t] quiet_ask [OF st] quiet_id [OF n] by (simp add: quiet_def)
  then show ?thesis
    using approved_settled [OF assms(1)] by (auto simp: settled_def attempt_def)
qed

text \<open>C38: A tool call that was approved by itself can run twice. When the gate lets a call through at
  once and the tool runs, the result is cached under an id derived from the arguments that were
  sent, with the working directory in them for \<open>bash\<close> or as an operator amended them. The next
  drain looks for the id of the proposal, derived from the arguments as proposed. When the two
  normalise to different texts, the same tool runs again with the same arguments, whether the
  first run succeeded or not.\<close>

theorem approved_call_runs_twice:
  assumes "run_with_approval_gate xp ctx p i submit retrieve s = (r, s1)"
    and "xs_runs s1 = xs_runs s @ [n]"
    and "ad_call_id ad = tcp_call_id (gate_proposal xp ctx p i)" and "ad_tool_name ad = tool_of p"
    and "rn_args n = sent_args xp ctx (p\<lparr>act_tool_args := Some (ad_tool_args ad)\<rparr>)"
    and "cached_result (Some (ad_call_id ad)) s = None"
    and "handler_for xp (tool_of p) = Some h" and "inj (xp_hash xp)"
    and "th_normalize h (rn_args n) \<noteq> th_normalize h (or_null (xp_json xp) (act_tool_args p))"
    and "\<And>pk i se ru tk tg cl w. fst (xp_record_start xp pk i se ru tk tg cl w) = Done ()"
    and "dispatch_approved xp ctx ad s1 = (r2, s2)"
  shows "\<exists>m. xs_runs s2 = xs_runs s1 @ [m] \<and> rn_tool_name m = rn_tool_name n \<and> rn_args m = rn_args n"
proof -
  from assms(1) obtain w args s0 where gate: "s0 = s\<lparr>xs_world := w\<rparr>"
    "dispatch_tool xp ctx (p\<lparr>act_tool_args := Some args, act_requires_approval := False\<rparr>) i s0 = (r, s1)"
  proof (cases rule: gate_settled)
    case held
    then show thesis using assms(2) by (simp add: quiet_def)
  next
    case (passed w ap s1)
    show thesis by (rule that [OF passed(3,4)])
  qed
  let ?q = "p\<lparr>act_tool_args := Some args, act_requires_approval := False\<rparr>"
  have same: "xs_runs s0 = xs_runs s" "cached_result c s0 = cached_result c s" "xs_cache s0 = xs_cache s" for c
    by (simp_all add: gate(1) cached_result_def)
  have att: "attempt (own_call_id xp ctx ?q i) (tool_of p) (sent_args xp ctx ?q) s0 r s1"
    using dispatch_tool_settled [OF gate(2)] assms(2) same by (auto simp: settled_def quiet_def)
  then have n: "rn_tool_name n = tool_of p" "rn_args n = sent_args xp ctx ?q"
    using assms(2) same by (auto simp: attempt_def)
  have "own_call_id xp ctx ?q i = Some (call_id_of xp ctx i (tool_of p) (th_normalize h (rn_args n)))"
    using assms(7) n(2) by (simp add: own_call_id_def)
  moreover have "ad_call_id ad =
      call_id_of xp ctx i (tool_of p) (th_normalize h (or_null (xp_json xp) (act_tool_args p)))"
    using assms(3,7) by (simp add: gate_proposal_def Let_def tool_of_def)
  ultimately have "own_call_id xp ctx ?q i \<noteq> Some (ad_call_id ad)"
    using assms(9) by (simp add: call_id_of_def derive_tool_call_id_def inj_eq [OF assms(8)])
  then have "cached_result (Some (ad_call_id ad)) s1 = None"
    using attempt_other [OF att] assms(6) same by simp
  moreover have "xp_handlers xp \<noteq> None" using assms(7) by (cases "xp_handlers xp") (simp_all add: handler_for_def)
  ultimately obtain m where "xs_runs s2 = xs_runs s1 @ [m]" "rn_tool_name m = ad_tool_name ad"
    "rn_args m = tool_args_with_working_dir (xp_json xp) (ad_tool_name ad) (oc_working_dir ctx) (Some (ad_tool_args ad))"
    using approved_runs [OF assms(11) _ _ assms(10)] by blast
  then show ?thesis using assms(4,5) n by (simp add: sent_args_def)
qed

section \<open>Completion\<close>

text \<open>C6: A run is reported as completed only if it was completed. When an invocation of the loop
  with its execute phase ends with the termination \<open>Completed\<close>, a step was reported in which a
  \<open>complete_run\<close> action succeeded, the run service was asked to complete this very run and answered
  without an error, and the summary is the one of the decision of that step.\<close>

theorem completed_means_completed:
  assumes "permutes order" and "run (wired lp xp order) cfg ctx s0 = (Fine (TermCompleted t v), s)"
  shows "\<exists>c d x. Report (OnStepCompleted c d x) \<in> set (ls_calls s) \<and> oc_run_id c = oc_run_id ctx \<and>
    (\<exists>r \<in> set (eo_results x). act_type (ar_proposal r) = CompleteRun \<and> ar_status r = Succeeded) \<and>
    (\<exists>w w'. xp_complete xp (oc_session_id ctx) (oc_run_id ctx) w = (Done (), w')) \<and>
    t = completion_summary d"
proof -
  obtain c c1 d x w w' where step: "same_run ctx c" "same_run ctx c1" "execute xp (order w) c d w = (Fine x, w')"
    "eo_loop_signal x = LoopDone" "Report (OnStepCompleted c1 d x) \<in> set (ls_calls s)"
    "t = completion_summary d"
    using run_completed [OF assms(2)] by (auto simp: completes_def)
  have "\<And>is. mset (order w is) = mset is" using assms(1) by (simp add: permutes_def)
  note fin = execute_done [OF step(3) this step(4)]
  show ?thesis using step fin by (auto simp: same_run_def)
qed

section \<open>A sample orchestrator\<close>

definition sample_values :: "sample_json json_values" where
  "sample_values =
     \<lparr>jv_ops = sample_ops, jv_as_i64 = (\<lambda>v. case v of JNumber n \<Rightarrow> Some (int n) | _ \<Rightarrow> None),
      jv_null = JNull, jv_bool = (\<lambda>b. JNumber (if b then 1 else 0)),
      jv_insert = (\<lambda>k v x. case x of JObject kvs \<Rightarrow> JObject (kvs @ [(k, v)]) | _ \<Rightarrow> x),
      jv_pretty = js_to_string sample_ops\<rparr>"

definition sample_hash :: "string \<times> u32 \<times> u32 \<times> string \<times> string \<Rightarrow> string" where
  "sample_hash x = replicate (to_nat x) CHR ''x''"

lemma sample_hash_inj: "inj sample_hash"
proof (rule injI)
  fix x y assume "sample_hash x = sample_hash y"
  then have "length (sample_hash x) = length (sample_hash y)" by simp
  then show "x = y" by (simp add: sample_hash_def)
qed

text \<open>A tool that returns its arguments, normalised to the names of its fields.\<close>

definition sample_handler :: "sample_json tool_handler" where
  "sample_handler =
     \<lparr>th_effect = External, th_retry_safety = DangerousPause,
      th_normalize = (\<lambda>v. case v of JObject kvs \<Rightarrow> concat (map fst kvs) | _ \<Rightarrow> [])\<rparr>"

definition sample_execute :: "((sample_json tool_call_proposal \<Rightarrow> 'v \<Rightarrow> submit_decision reply \<times> 'v) \<times>
    (ident \<Rightarrow> 'v \<Rightarrow> sample_json approved_proposal reply)) option \<Rightarrow> (sample_json, 'v) execute_ports" where
  "sample_execute approvals =
     \<lparr>xp_json = sample_values, xp_hash = sample_hash, xp_error_text = (\<lambda>_. ''error''),
      xp_now = Pair 0, xp_instant = Pair 0, xp_fresh = Pair (0, 0),
      xp_handlers = Some (\<lambda>_. Some sample_handler), xp_default_normalize = (\<lambda>_. []),
      xp_run_tool = (\<lambda>_ _ v _. Pair (Inr v, [])),
      xp_record_start = (\<lambda>_ _ _ _ _ _ _. Pair (Done ())),
      xp_record_completed = (\<lambda>_ _ _ _ _ _ _. Pair (Done ())),
      xp_record_failed = (\<lambda>_ _ _ _ _ _. Pair (Done ())), xp_append_audit = (\<lambda>_. Pair (Done ())),
      xp_evaluate = None, xp_approvals = approvals,
      xp_request_approval = (\<lambda>_ _ _ _ _ _ _. Pair (Done ())),
      xp_save_checkpoint = (\<lambda>_ _ _. Pair (Done ())),
      xp_spawn_subagent = (\<lambda>_ _ _ _ _ _. Pair (Done ())), xp_send = (\<lambda>_ _ _ _. Pair (Done ())),
      xp_complete = (\<lambda>_ _. Pair (Done ())), xp_checkpoint_every = 1, xp_token_limit = 1000\<rparr>"

definition sample_ctx :: orchestration_context where
  "sample_ctx =
     \<lparr>oc_project = \<lparr>tenant_id = ''t'', workspace_id = ''w'', project_id = ''p''\<rparr>,
      oc_session_id = ''s'', oc_run_id = ''r'', oc_task_id = None, oc_iteration = 0, oc_goal = ''goal'',
      oc_agent_type = ''a'', oc_run_started_at_ms = 0, oc_working_dir = ''/w'', oc_run_mode = Direct,
      oc_discovered_tool_names = [], oc_step_history = [], oc_is_recovery = False,
      oc_approval_timeout = None\<rparr>"

definition sample_action :: "action_type \<Rightarrow> string option \<Rightarrow> sample_json option \<Rightarrow> bool \<Rightarrow>
    sample_json action_proposal" where
  "sample_action ty tool args gated =
     \<lparr>act_type = ty, act_description = ''do'', act_confidence = 0, act_tool_name = tool,
      act_tool_args = args, act_requires_approval = gated\<rparr>"

definition sample_state :: "sample_json tool_result_cache option \<Rightarrow> 'v \<Rightarrow> (sample_json, 'v) exec_state" where
  "sample_state results w = \<lparr>xs_cache = results, xs_call_count = 0, xs_runs = [], xs_world = w\<rparr>"

definition sample_decision :: "sample_json action_proposal list \<Rightarrow> sample_json decide_output" where
  "sample_decision ps =
     \<lparr>do_raw_response = [], do_proposals = ps, do_calibrated_confidence = 0,
      do_requires_approval = False, do_model_id = ''m'', do_latency_ms = 0, do_input_tokens = None,
      do_output_tokens = None\<rparr>"

text \<open>A batch of three: the call behind the completion is not dispatched.\<close>

definition sample_batch :: "sample_json decide_output" where
  "sample_batch = sample_decision
     [sample_action InvokeTool (Some ''ls'') None False, sample_action CompleteRun None None False,
      sample_action InvokeTool (Some ''rm'') None False]"

lemma invoke_sample: "invoke_indices (do_proposals sample_batch) = [0]"
  by (simp add: invoke_indices_def sample_batch_def sample_decision_def sample_action_def
      is_terminal_action_def)

lemma sample_execute_sel [simp]:
  "xp_json (sample_execute g) = sample_values" "xp_hash (sample_execute g) = sample_hash"
  "xp_now (sample_execute g) = Pair 0" "xp_instant (sample_execute g) = Pair 0"
  "xp_fresh (sample_execute g) = Pair (0, 0)"
  "xp_handlers (sample_execute g) = Some (\<lambda>_. Some sample_handler)"
  "xp_run_tool (sample_execute g) t pk v tx = Pair (Inr v, [])"
  "xp_record_start (sample_execute g) pk i se ru tk tg cl = Pair (Done ())"
  "xp_record_completed (sample_execute g) pk i tk t b c v' = Pair (Done ())"
  "xp_evaluate (sample_execute g) = None" "xp_approvals (sample_execute g) = g"
  "xp_complete (sample_execute g) sx rx = Pair (Done ())"
  "xp_save_checkpoint (sample_execute g) pk rx cp = Pair (Done ())"
  "xp_checkpoint_every (sample_execute g) = 1"
  by (simp_all add: sample_execute_def)

lemma sample_handler_for [simp]: "handler_for (sample_execute g) t = Some sample_handler"
  by (simp add: handler_for_def)

lemma in_world_pair [simp]: "in_world (Pair a) s = (a, s)"
  by (simp add: in_world_def)

lemma ask_pair [simp]: "ask (Pair (Done a)) s = (Fine a, s)"
  by (simp add: ask_def)

lemma on_fine_step [simp]: "on_fine (Fine a, s) k = k a s"
  by (simp add: on_fine_def)

lemma sample_steps [simp]:
  "new_id (sample_execute g) k s = (k @ ''_'' @ show_nat 0 @ ''_'' @ show_nat 0, s)"
  "denied (sample_execute g) ctx p t s = (Fine None, s)"
  by (simp_all add: new_id_def denied_def)

lemma sample_count [simp]:
  "count_call (sample_execute g) ctx s = (Fine (), s\<lparr>xs_call_count := wrap_add32 (xs_call_count s) 1\<rparr>)"
  by (simp add: count_call_def Let_def)

text \<open>A call of a sample tool that is not cached runs and succeeds.\<close>

lemma sample_tool:
  assumes "cached_result (own_call_id (sample_execute g) sample_ctx p i) s = None"
  obtains a s' where "dispatch_tool (sample_execute g) sample_ctx p i s = (Fine a, s')"
    and "ar_status a = Succeeded" and "ar_proposal a = p"
    and "xs_runs s' = xs_runs s @ [\<lparr>rn_call_id = own_call_id (sample_execute g) sample_ctx p i,
      rn_tool_name = tool_of p, rn_args = sent_args (sample_execute g) sample_ctx p, rn_succeeded = True\<rparr>]"
proof -
  let ?xp = "sample_execute g" and ?c = "own_call_id (sample_execute g) sample_ctx p i"
  let ?args = "sent_args ?xp sample_ctx p"
  have sent: "tool_args_with_working_dir sample_values (tool_of p) (oc_working_dir sample_ctx) (act_tool_args p) = ?args"
    by (simp add: sent_args_def)
  have id: "Some (call_id_of ?xp sample_ctx i (tool_of p) (th_normalize sample_handler ?args)) = ?c"
    by (simp add: own_call_id_def)
  have rec: "oc_is_recovery sample_ctx = False" by (simp add: sample_ctx_def)
  have "\<exists>inv_id. dispatch_tool ?xp sample_ctx p i s =
      run_and_record ?xp sample_ctx p (tool_of p) inv_id ?c ?args s"
    using assms rec unfolding dispatch_tool_def tool_of_def [symmetric]
    by (cases "xs_cache s") (simp_all add: Let_def sent id [symmetric] cached_result_def exI)
  moreover have "\<exists>a s'. run_and_record ?xp sample_ctx p (tool_of p) inv_id ?c ?args s = (Fine a, s') \<and>
      ar_status a = Succeeded \<and> ar_proposal a = p \<and> xs_runs s' = xs_runs s @
        [\<lparr>rn_call_id = ?c, rn_tool_name = tool_of p, rn_args = ?args, rn_succeeded = True\<rparr>]" for inv_id
    by (simp add: run_and_record_def run_tool_def Let_def act_result_def remember_runs)
  ultimately show ?thesis using that by metis
qed

lemma sample_batch_runs:
  "\<exists>x s'. execute (sample_execute None) rev sample_ctx sample_batch (sample_state (Some []) ()) = (Fine x, s') \<and>
     eo_loop_signal x = LoopDone \<and> length (eo_results x) = 2"
proof -
  let ?p = "sample_action InvokeTool (Some ''ls'') None False"
  let ?s = "sample_state (Some []) ()"
  have "cached_result c ?s = None" for c
    by (cases c) (simp_all add: cached_result_def sample_state_def get_result_def hget_def)
  then obtain a s1 where a: "dispatch_tool (sample_execute None) sample_ctx ?p 0 ?s = (Fine a, s1)"
    "ar_status a = Succeeded" "ar_proposal a = ?p" using sample_tool by blast
  have first: "do_proposals sample_batch ! 0 = ?p" by (simp add: sample_batch_def sample_decision_def)
  have t: "timed (sample_execute None) (dispatch_one (sample_execute None) sample_ctx ?p 0) ?s =
      (Fine (a\<lparr>ar_duration_ms := 0\<rparr>), s1)"
    using a(1) by (simp add: timed_def dispatch_one_def sample_action_def)
  have sig: "derive_signal (a\<lparr>ar_duration_ms := 0\<rparr>) LoopContinue = LoopContinue"
    using a(2,3) by (simp add: derive_signal_def sample_action_def)
  let ?r = "a\<lparr>ar_duration_ms := 0\<rparr>" and ?ps = "do_proposals sample_batch"
  have joined: "join_all (\<lambda>i. timed (sample_execute None) (dispatch_one (sample_execute None) sample_ctx (?ps ! i) i))
      (rev (invoke_indices ?ps)) ?s = (Some [(0, Inr ?r)], s1)"
    unfolding invoke_sample using t by (simp add: first Let_def)
  have collected: "collect (map_of [(0, Inr ?r)]) (invoke_indices ?ps) = Fine [(0, ?r)]"
    unfolding invoke_sample by simp
  have going_on: "first_signal (map snd [(0 :: nat, ?r)]) = LoopContinue" using sig by (simp add: Let_def)
  obtain c where others: "run_others (sample_execute None) sample_ctx (List.enumerate 0 ?ps) s1 =
      (Fine ([(1, c)], LoopDone), s1)"
    by (simp add: sample_batch_def sample_decision_def sample_action_def timed_def dispatch_one_def
        reply_result_def act_result_def derive_signal_def)
  have order: "in_index_order (length ?ps) ([(0, ?r)] @ [(1, c)]) = [?r, c]"
    by (simp add: sample_batch_def sample_decision_def in_index_order_def map_filter_simps upt_rec)
  have "execute (sample_execute None) rev sample_ctx sample_batch ?s =
      (Fine \<lparr>eo_results = [?r, c], eo_loop_signal = LoopDone\<rparr>, s1)"
    unfolding execute_def Let_def joined prod.case option.case collected on_fine_step going_on
    by (simp only: simp_thms if_True others on_fine_step prod.case order)
  then show ?thesis by simp
qed

definition sample_loop :: "(sample_json, unit, unit) loop_ports" where
  "sample_loop =
     \<lparr>lp_json = sample_values, lp_error_text = (\<lambda>_. ''error''), lp_now = Pair 0, lp_instant = Pair 0,
      lp_reader = None, lp_gather = (\<lambda>_. Pair (Fine ())), lp_decide = (\<lambda>_ _. Pair (Fine sample_batch)),
      lp_execute = (\<lambda>_ _. Pair Unwound), lp_dispatch_approved = (\<lambda>_ _. Pair Unwound),
      lp_notify = (\<lambda>_ w. w), lp_take_fatal_error = Pair None, lp_lease_healthy = (\<lambda>_. True)\<rparr>"

definition sample_invocation :: "loop_termination phase \<times>
    (sample_json, unit, (sample_json, unit) exec_state) loop_state" where
  "sample_invocation = run (wired sample_loop (sample_execute None) (\<lambda>_. rev))
     (default_loop_config\<lparr>lc_max_iterations := 1\<rparr>) sample_ctx (sample_state (Some []) ())"

lemma sample_ports [simp]:
  "lp_reader (wired sample_loop xp order) = None" "lp_json (wired sample_loop xp order) = sample_values"
  "lp_lease_healthy (wired sample_loop xp order) s = True"
  by (simp_all add: wired_def sample_loop_def)

lemma sample_loop_sel [simp]:
  "lp_now sample_loop = Pair 0" "lp_instant sample_loop = Pair 0" "lp_gather sample_loop c = Pair (Fine ())"
  "lp_decide sample_loop c g = Pair (Fine sample_batch)" "lp_notify sample_loop n w = w"
  "lp_take_fatal_error sample_loop = Pair None"
  by (simp_all add: sample_loop_def)

lemma sample_ctx_simps [simp]:
  "sample_ctx\<lparr>oc_step_history := []\<rparr> = sample_ctx" "oc_run_mode sample_ctx = Direct"
  "oc_run_started_at_ms sample_ctx = 0"
  by (simp_all add: sample_ctx_def)

lemma sample_batch_ungated [simp]: "do_requires_approval sample_batch = False"
  by (simp add: sample_batch_def sample_decision_def)

abbreviation sample_ports :: "(sample_json, unit, (sample_json, unit) exec_state) loop_ports" where
  "sample_ports \<equiv> wired sample_loop (sample_execute None) (\<lambda>_. rev)"

lemma unit_world [simp]: "(s :: ('j, unit) exec_state)\<lparr>xs_world := u\<rparr> = s"
  by simp

lemma sample_world [simp]:
  "ls_world (notify sample_ports n s) = ls_world s" "ls_world (log_proposals sample_ports sample_batch s) = ls_world s"
  by (simp_all add: notify_def calling_def log_proposals_def sample_batch_def sample_decision_def sample_action_def)

lemma sample_act:
  assumes "ls_world s = sample_state (Some []) ()" and "ls_ctx s = sample_ctx"
  shows "\<exists>v s'. act_on sample_ports () sample_batch s = (Fine (Some (TermCompleted ''do'' v)), s')"
proof -
  obtain x w where x: "execute (sample_execute None) rev sample_ctx sample_batch (sample_state (Some []) ()) = (Fine x, w)"
    "eo_loop_signal x = LoopDone" using sample_batch_runs by blast
  let ?s = "log_proposals sample_ports sample_batch (notify sample_ports (SaveIntent (ls_ctx s) () sample_batch) s)"
  obtain s2 where e: "execute_phase sample_ports sample_batch ?s = (Fine x, s2)"
    by (simp add: execute_phase_def calling_def assms x(1))
  have summary: "completion_summary sample_batch = ''do''"
    by (simp add: completion_summary_def sample_batch_def sample_decision_def sample_action_def)
  show ?thesis
    by (simp add: act_on_def assms(2) plain_iteration_def e [unfolded assms(2)] Let_def follow_signal_def x(2) summary)
qed

lemma sample_invocation_completes: "\<exists>v s. sample_invocation = (Fine (TermCompleted ''do'' v), s)"
proof -
  let ?s = "notify sample_ports (OnStarted sample_ctx) (loop_start sample_ctx (sample_state (Some []) ()))"
  have "\<exists>v s. run_iteration sample_ports (default_loop_config\<lparr>lc_max_iterations := 1\<rparr>) 300000 ?s =
      (Fine (Some (TermCompleted ''do'' v)), s)"
    by (simp add: run_iteration_def drain_phase_def drain_approved_pending_def drain_rejected_pending_def
        admission_def now_millis_def gather_phase_def calling_def Let_def loop_start_def
        compaction_phase_def maybe_compact_history_def default_loop_config_def default_compaction_def
        decide_phase_def min_decide_budget_ms_def sample_act)
  then obtain v s where "run_iteration sample_ports (default_loop_config\<lparr>lc_max_iterations := 1\<rparr>) 300000 ?s =
      (Fine (Some (TermCompleted ''do'' v)), s)" by blast
  then show ?thesis
    by (simp add: sample_invocation_def run_def run_inner_def loop_start_def default_loop_config_def sat_add64_def u64_max_def)
qed

section \<open>The properties at the sample\<close>

lemma rev_permutes: "permutes (\<lambda>_. rev)"
  by (simp add: permutes_def)

theorem tool_calls_succeed_once_witness:
  "distinct (succeeded_ids (ls_world (snd (run (wired sample_loop (sample_execute None) (\<lambda>_. rev))
     default_loop_config sample_ctx (sample_state (Some []) ())))))"
  by (rule tool_calls_succeed_once)
    (simp_all add: sample_hash_inj rev_permutes sample_state_def)

theorem completed_means_completed_witness:
  "\<exists>v s c d x. sample_invocation = (Fine (TermCompleted ''do'' v), s) \<and>
     Report (OnStepCompleted c d x) \<in> set (ls_calls s) \<and> oc_run_id c = ''r''"
proof -
  obtain v s where s: "sample_invocation = (Fine (TermCompleted ''do'' v), s)" using sample_invocation_completes by blast
  obtain c d x where "Report (OnStepCompleted c d x) \<in> set (ls_calls s)" "oc_run_id c = oc_run_id sample_ctx"
    using completed_means_completed [OF rev_permutes s [unfolded sample_invocation_def]] by blast
  moreover have "oc_run_id sample_ctx = ''r''" by (simp add: sample_ctx_def)
  ultimately show ?thesis using s by metis
qed

theorem batch_in_order_witness:
  "\<exists>x s'. execute (sample_execute None) rev sample_ctx sample_batch (sample_state (Some []) ()) = (Fine x, s') \<and>
     length (eo_results x) = 2 \<and> eo_loop_signal x = first_signal (eo_results x) \<and> eo_loop_signal x = LoopDone"
proof -
  obtain x s' where x: "execute (sample_execute None) rev sample_ctx sample_batch (sample_state (Some []) ()) = (Fine x, s')"
    "eo_loop_signal x = LoopDone" "length (eo_results x) = 2" using sample_batch_runs by blast
  then show ?thesis using batch_in_order [OF x(1)] by simp
qed

text \<open>A read below the directory the operator trusted for the session.\<close>

definition sample_service :: "(sample_json, sample_json approval_world) execute_ports" where
  "sample_service = sample_execute (Some (submit_proposal sample_ops calm_env calm_env 120 120,
     retrieve_approved_proposal))"

definition gated_read :: "sample_json action_proposal" where
  "gated_read = sample_action InvokeTool (Some ''read'')
     (Some (JObject [(''path'', JString ''/w/cairn/./x'')])) True"

lemma gated_read_proposal:
  "tcp_session_id (gate_proposal sample_service sample_ctx gated_read 0) = ''s''"
  "tcp_call_id (gate_proposal sample_service sample_ctx gated_read 0) \<noteq> ''c''"
  "tcp_tool_name (gate_proposal sample_service sample_ctx gated_read 0) = ''read''"
  "tcp_tool_args (gate_proposal sample_service sample_ctx gated_read 0) =
     tcp_tool_args (sample_read ''d'' ''/w/cairn/./x'')"
  by (simp_all add: gate_proposal_def sample_read_def sample_service_def
      gated_read_def sample_action_def sample_ctx_def call_id_of_def derive_tool_call_id_def or_null_def Let_def)

lemma gated_read_matches:
  "proposal_matches_rule sample_ops (gate_proposal sample_service sample_ctx gated_read 0) =
     proposal_matches_rule sample_ops (sample_read ''d'' ''/w/cairn/./x'')"
  unfolding fun_eq_iff proposal_matches_rule_def gated_read_proposal by (simp add: sample_read_def)

lemma gated_read_dispatch:
  obtains a s' where
    "dispatch_one sample_service sample_ctx gated_read 0 (sample_state None trusted_world) = (Fine a, s')"
    and "xs_runs s' \<noteq> []"
proof -
  let ?g = "gate_proposal sample_service sample_ctx gated_read 0" and ?s = "sample_state None trusted_world"
  let ?submit = "submit_proposal sample_ops calm_env calm_env 120 120"
  obtain d w' where s: "?submit ?g trusted_world = (d, w')" by fastforce
  have none: "call_row (tcp_call_id ?g) trusted_world = None" by (rule trusted_world(4) [OF gated_read_proposal(2)])
  have match: "find (proposal_matches_rule sample_ops ?g) (rules_of (tcp_session_id ?g) trusted_world) \<noteq> None"
    using trusted_match unfolding gated_read_proposal(1) gated_read_matches by (auto simp: sample_read_def)
  obtain w2 where d: "d = Done AutoApproved" and
    w': "w' = w2\<lparr>aw_service := set_proposal_state (tcp_call_id ?g) ProposalApproved
      (cache_proposal ?g (aw_service trusted_world))\<rparr>"
    using submit_cases [OF none conjunct1 [OF reachable_approvals [OF trusted_world(1)]] calm calm s] match
    by metis
  obtain ap where ap: "retrieve_approved_proposal (tcp_call_id ?g) w' = Done ap"
    unfolding w'
    by (simp add: retrieve_approved_proposal_def cached_entry_def set_proposal_state_def cache_proposal_def hmap_simps)
  let ?q = "gated_read\<lparr>act_tool_args := Some (ap_tool_args ap), act_requires_approval := False\<rparr>"
  have "cached_result c (?s\<lparr>xs_world := w'\<rparr>) = None" for c
    by (cases c) (simp_all add: cached_result_def sample_state_def)
  then obtain a s' where run: "dispatch_tool sample_service sample_ctx ?q 0 (?s\<lparr>xs_world := w'\<rparr>) = (Fine a, s')"
    "xs_runs s' \<noteq> []"
    unfolding sample_service_def
    by (rule sample_tool [of "Some (?submit, retrieve_approved_proposal)" ?q 0 "?s\<lparr>xs_world := w'\<rparr>"]) auto
  have "dispatch_one sample_service sample_ctx gated_read 0 ?s = (Fine a, s')"
    using run(1) s d ap
    by (simp add: dispatch_one_def run_with_approval_gate_def in_world_def Let_def sample_service_def
        gated_read_def sample_action_def sample_state_def)
  then show thesis using run(2) by (rule that)
qed

theorem gated_runs_are_sanctioned_witness:
  "\<exists>a s' n. dispatch_one sample_service sample_ctx gated_read 0 (sample_state None trusted_world) = (Fine a, s') \<and>
     xs_runs s' = [n] \<and> rn_tool_name n = ''read'' \<and>
     (\<exists>e. ToolCallApproved e \<in> set (logged trusted_world) \<and> ta_session_id e = ''s'')"
proof -
  obtain a s' where d:
    "dispatch_one sample_service sample_ctx gated_read 0 (sample_state None trusted_world) = (Fine a, s')"
    "xs_runs s' \<noteq> []" by (rule gated_read_dispatch)
  have "xp_approvals sample_service = Some (submit_proposal sample_ops calm_env calm_env 120 120, retrieve_approved_proposal)"
    by (simp add: sample_service_def)
  from gated_runs_are_sanctioned [OF this _ _ _ _ calm calm d(1)] d(2) obtain n e where
    "xs_runs s' = [n]" "rn_tool_name n = tool_of gated_read" "ToolCallApproved e \<in> set (logged trusted_world)"
    "ta_session_id e = oc_session_id sample_ctx"
    using trusted_world(1) trusted_world(4) [OF gated_read_proposal(2)]
    by (auto simp: sample_state_def gated_read_def sample_action_def)
  moreover have "tool_of gated_read = ''read''" "oc_session_id sample_ctx = ''s''"
    by (simp_all add: tool_of_def gated_read_def sample_action_def sample_ctx_def)
  ultimately show ?thesis using d(1) by metis
qed

text \<open>A shell command without a working directory, approved at once.\<close>

definition trusting :: "(sample_json, unit) execute_ports" where
  "trusting = sample_execute (Some (\<lambda>_. Pair (Done AutoApproved),
     \<lambda>i _. Done \<lparr>ap_call_id = i, ap_tool_name = ''bash'',
              ap_tool_args = JObject [(''command'', JString ''make'')]\<rparr>))"

definition gated_command :: "sample_json action_proposal" where
  "gated_command = sample_action InvokeTool (Some ''bash'')
     (Some (JObject [(''command'', JString ''make'')])) True"

definition drained_command :: "sample_json approved_dispatch" where
  "drained_command =
     \<lparr>ad_call_id = tcp_call_id (gate_proposal trusting sample_ctx gated_command 0),
      ad_tool_name = ''bash'', ad_tool_args = JObject [(''command'', JString ''make'')]\<rparr>"

theorem approved_call_runs_twice_witness:
  "\<exists>a s1 b s2 n m. dispatch_one trusting sample_ctx gated_command 0 (sample_state (Some []) ()) = (Fine a, s1) \<and>
     dispatch_approved trusting sample_ctx drained_command s1 = (b, s2) \<and>
     xs_runs s2 = [n, m] \<and> rn_tool_name m = ''bash'' \<and> rn_args m = rn_args n"
proof -
  let ?submit = "\<lambda>_. Pair (Done AutoApproved)" and ?s = "sample_state (Some []) ()"
  let ?retrieve = "\<lambda>i _. Done \<lparr>ap_call_id = i, ap_tool_name = ''bash'',
     ap_tool_args = JObject [(''command'', JString ''make'')]\<rparr>"
  let ?q = "gated_command\<lparr>act_tool_args := Some (JObject [(''command'', JString ''make'')]),
     act_requires_approval := False\<rparr>"
  have empty: "cached_result c ?s = None" for c
    by (cases c) (simp_all add: cached_result_def sample_state_def get_result_def)
  then obtain a s1 where run: "dispatch_tool trusting sample_ctx ?q 0 ?s = (Fine a, s1)"
    "xs_runs s1 = xs_runs ?s @ [\<lparr>rn_call_id = own_call_id trusting sample_ctx ?q 0,
      rn_tool_name = tool_of ?q, rn_args = sent_args trusting sample_ctx ?q, rn_succeeded = True\<rparr>]"
    unfolding trusting_def by (rule sample_tool [of "Some (?submit, ?retrieve)" ?q 0 ?s]) auto
  have gate: "run_with_approval_gate trusting sample_ctx gated_command 0 ?submit ?retrieve ?s = (Fine a, s1)"
    using run(1) by (simp add: run_with_approval_gate_def Let_def)
  have one: "dispatch_one trusting sample_ctx gated_command 0 ?s = (Fine a, s1)"
    using gate by (simp add: dispatch_one_def gated_command_def sample_action_def trusting_def)
  obtain b s2 where dr: "dispatch_approved trusting sample_ctx drained_command s1 = (b, s2)" by fastforce
  have sent: "sent_args trusting sample_ctx ?q = JObject [(''command'', JString ''make''), (''working_dir'', JString ''/w'')]"
    "sent_args trusting sample_ctx (gated_command\<lparr>act_tool_args := Some (ad_tool_args drained_command)\<rparr>) =
       JObject [(''command'', JString ''make''), (''working_dir'', JString ''/w'')]"
    by (simp_all add: sent_args_def tool_args_with_working_dir_def or_null_def tool_of_def gated_command_def
        sample_action_def trusting_def sample_values_def sample_ops_def sample_ctx_def drained_command_def)
  have "\<exists>m. xs_runs s2 = xs_runs s1 @ [m] \<and> rn_tool_name m = ''bash'' \<and>
      rn_args m = sent_args trusting sample_ctx ?q"
    using approved_call_runs_twice [OF gate run(2) _ _ _ empty, of drained_command sample_handler b s2] dr sent
    by (simp add: drained_command_def trusting_def sample_hash_inj tool_of_def gated_command_def sample_action_def
        sample_handler_def sample_values_def or_null_def)
  then show ?thesis using one dr run(2) by (auto simp: sample_state_def)
qed

end
