(* ===== verification/Step_History_Laws.thy ===== *)
theory Step_History_Laws
  imports Step_History
begin

text \<open>
  What the previews keep of a text, what compaction keeps of a history, and what the plan of a
  response is.
\<close>

section \<open>Previews\<close>

lemma summary_loop_head:
  "i = length ps \<Longrightarrow> i \<le> h \<Longrightarrow>
     summary_loop h t i ps [] cs =
       summary_loop h t (min h (i + length cs)) (ps @ take (h - i) cs) [] (drop (h - i) cs)"
proof (induction cs arbitrary: i ps)
  case (Cons c cs)
  show ?case
  proof (cases "i < h")
    case True
    then have "h - i = Suc (h - Suc i)" by simp
    then show ?thesis using Cons.IH [of "Suc i" "ps @ [c]"] Cons.prems True by simp
  qed (use Cons.prems in simp)
qed simp

lemma summary_loop_tail:
  assumes "0 < t"
  shows "h \<le> i \<Longrightarrow> length buf \<le> t \<Longrightarrow>
     summary_loop h t i ps buf cs =
       (ps, drop (length buf + length cs - t) (buf @ cs), i + length cs)"
proof (induction cs arbitrary: i buf)
  case (Cons c cs)
  let ?buf = "(if length buf = t then tl buf else buf) @ [c]"
  have "length ?buf \<le> t" using Cons.prems(2) assms by auto
  then have "summary_loop h t (Suc i) ps ?buf cs =
      (ps, drop (length ?buf + length cs - t) (?buf @ cs), Suc i + length cs)"
    using Cons.IH [of "Suc i" ?buf] Cons.prems(1) by simp
  moreover have "drop (length ?buf + length cs - t) (?buf @ cs) =
      drop (length buf + length (c # cs) - t) (buf @ c # cs)"
  proof (cases "length buf = t")
    case True
    then show ?thesis using assms by (cases buf) simp_all
  qed simp
  ultimately show ?case using Cons.prems(1) assms by simp
qed simp

lemma summary_loop_eq:
  assumes "0 < t"
  shows "summary_loop h t 0 [] [] cs =
    (take h cs, drop (length (drop h cs) - t) (drop h cs), length cs)"
  using summary_loop_head [of 0 "[]" h t cs] summary_loop_tail [OF assms, of h h "[]" "take h cs" "drop h cs"]
  by (cases "length cs \<le> h") (simp_all add: min_def)

text \<open>
  A preview keeps both ends of a text. A text of at most the given number of characters is kept
  as it is, even when its bytes are more; of a longer one exactly half of them, rounded down,
  remain from its beginning and the others from its end, with the number of characters left out
  between them. Head, omitted part and tail make up the text.
\<close>

theorem preview_keeps_both_ends:
  assumes "0 < n"
  shows "truncate_for_summary msg n =
    (if char_count msg \<le> n then msg
     else take_chars (n div 2) msg @ ellipsis @ '' ['' @ show_nat (char_count msg - n) @
          '' chars omitted] '' @ ellipsis @ last_chars (n - n div 2) msg)"
proof -
  obtain h t where ht: "n div 2 = h" "n - n div 2 = t" "h + t = n" "0 < t" using assms by force
  have nh: "n - h = t" using ht(3) by simp
  have short: "char_count msg \<le> n" if "length msg \<le> n" using that char_count_le [of msg] by simp
  define tl_part where "tl_part = drop (length (drop h (chars msg)) - t) (drop h (chars msg))"
  have loop: "summary_loop h t 0 [] [] (chars msg) = (take h (chars msg), tl_part, char_count msg)"
    by (simp add: summary_loop_eq [OF ht(4)] tl_part_def char_count_def)
  have whole: "concat (take h (chars msg)) @ concat tl_part = msg" if "char_count msg \<le> n"
  proof -
    have "tl_part = drop h (chars msg)" using that ht(3) by (simp add: tl_part_def char_count_def)
    then show ?thesis by (metis append_take_drop_id concat_append concat_chars)
  qed
  have tail: "tl_part = drop (char_count msg - t) (chars msg)" if "n < char_count msg"
  proof -
    have "char_count msg + h - n = char_count msg - t" using ht(3) by simp
    then show ?thesis using that ht(3) by (simp add: tl_part_def char_count_def)
  qed
  show ?thesis
    unfolding truncate_for_summary_def Let_def ht(1) nh loop take_chars_def last_chars_def prod.case
    using short whole tail ht(3) by auto
qed

section \<open>Compaction\<close>

lemma compaction_cases:
  assumes "maybe_compact_history steps iteration cfg last_at = (r, steps', stamp)"
  obtains (same) "r = None" "steps' = steps" "stamp = last_at"
  | (compacted) c k where "r = Some c" and "stamp = Some iteration" and "k = length steps - cc_keep_last cfg"
      and "0 < k" and "cc_enabled cfg" and "cc_min_steps cfg \<le> length steps"
      and "steps' = compacted_step (take k steps) # drop k steps"
      and "\<And>l. last_at = Some l \<Longrightarrow> cc_cooldown_iterations cfg \<le> iteration - l"
      and "context_budget * cc_threshold_pct cfg div 100 < estimate_tokens (history_text steps)"
proof -
  let ?steps' = "compacted_step (take (length steps - cc_keep_last cfg) steps) #
    drop (length steps - cc_keep_last cfg) steps"
  have "(r = None \<and> steps' = steps \<and> stamp = last_at) \<or>
    (r \<noteq> None \<and> stamp = Some iteration \<and> 0 < length steps - cc_keep_last cfg \<and> cc_enabled cfg \<and>
     cc_min_steps cfg \<le> length steps \<and> steps' = ?steps' \<and>
     (\<forall>l. last_at = Some l \<longrightarrow> cc_cooldown_iterations cfg \<le> iteration - l) \<and>
     context_budget * cc_threshold_pct cfg div 100 < estimate_tokens (history_text steps))"
    using assms unfolding maybe_compact_history_def Let_def
    by (cases last_at) (simp_all split: if_split_asm, auto)
  then show ?thesis using that by blast
qed

text \<open>
  Compaction forgets no step without a trace. Either the history stays as it is, or it is
  enabled, long enough, above its threshold and out of its cooldown, and then the newest steps are
  kept word for word behind one summary, which names for each older step its iteration, its kind
  and whether it succeeded. The history never gets longer, and a history of more than one step
  besides the newest gets shorter.
\<close>

theorem compaction_keeps_newest:
  assumes "maybe_compact_history steps iteration cfg last_at = (r, steps', stamp)"
  shows "(r = None \<and> steps' = steps \<and> stamp = last_at) \<or>
    (\<exists>old. old \<noteq> [] \<and> steps = old @ tl steps' \<and> length (tl steps') = min (cc_keep_last cfg) (length steps - 1) \<and>
      hd steps' = compacted_step old \<and> stamp = Some iteration \<and> cc_enabled cfg \<and>
      cc_min_steps cfg \<le> length steps \<and>
      (\<forall>l. last_at = Some l \<longrightarrow> cc_cooldown_iterations cfg \<le> iteration - l) \<and>
      length steps' \<le> length steps \<and> (1 < length old \<longrightarrow> length steps' < length steps))"
  using assms
proof (cases rule: compaction_cases)
  case (compacted c k)
  then have "take k steps \<noteq> []" "length (drop k steps) = cc_keep_last cfg" by auto
  then show ?thesis using compacted by (intro disjI2 exI [of _ "take k steps"]) auto
qed simp

section \<open>Plans\<close>

lemma find_sub_split:
  "find_sub pat s = Some i \<Longrightarrow> s = take i s @ pat @ drop (i + length pat) s"
  using find_sub_occurs [of pat s i]
  by (metis append_take_drop_id drop_drop add.commute)

lemma between_tags:
  assumes "find_sub op s = Some i" and "find_sub cl (drop (i + length op) s) = Some j"
  shows "\<exists>before body after. s = before @ op @ body @ cl @ after \<and> length before = i \<and>
    body = take j (drop (i + length op) s) \<and> length body = j \<and>
    drop (i + length op) s = body @ cl @ after"
proof -
  have "drop (i + length op) s = take j (drop (i + length op) s) @ cl @
      drop (j + length cl) (drop (i + length op) s)" by (rule find_sub_split [OF assms(2)])
  moreover have "length (take i s) = i" "length (take j (drop (i + length op) s)) = j"
    using find_sub_bound [OF assms(1)] find_sub_bound [OF assms(2)] by simp_all
  ultimately show ?thesis using find_sub_split [OF assms(1)] by metis
qed

text \<open>
  A plan is read out of a response exactly when the response holds one. If the result is a plan,
  the response has an opening tag, a body and a closing tag, the opening tag is the first of the
  response and the closing one the first behind it, and the plan is the body without the white
  space around it, which is not empty.
\<close>

theorem plan_between_tags:
  assumes "extract_proposed_plan response = Some plan"
  shows "\<exists>before body after. response =
      before @ ''<proposed_plan>'' @ body @ ''</proposed_plan>'' @ after \<and>
    plan = trim body \<and> plan \<noteq> [] \<and>
    find_sub ''<proposed_plan>'' response = Some (length before) \<and>
    find_sub ''</proposed_plan>'' (body @ ''</proposed_plan>'' @ after) = Some (length body)"
proof -
  obtain i where i: "find_sub ''<proposed_plan>'' response = Some i"
    using assms unfolding extract_proposed_plan_def by (auto split: option.splits)
  obtain j where j: "find_sub ''</proposed_plan>'' (drop (i + length ''<proposed_plan>'') response) = Some j"
    and plan: "plan = trim (take j (drop (i + length ''<proposed_plan>'') response))" "plan \<noteq> []"
    using assms unfolding extract_proposed_plan_def i option.case Let_def
    by (auto split: option.splits if_splits)
  from between_tags [OF i j] show ?thesis using plan i j by metis
qed

end
