(* ===== verification/Approval_Service.thy ===== *)
theory Approval_Service
  imports Limit_Services
begin

text \<open>
  The approval service (\<open>crates/cairn-runtime/src/services/approval_impl.rs\<close>): a request and a
  resolution append the event of the approval and the move of its run as one batch.
\<close>

section \<open>Appending a batch\<close>

text \<open>
  What a batch reads from outside: \<open>make_envelope\<close> stamps its \<open>n\<close>th event with its own reading
  of the clock, \<open>be_ts n\<close>.
\<close>

record batch_env =
  be_ts :: "nat \<Rightarrow> u64"
  be_trace_id :: string
  be_append_at :: u64
  be_secondary :: "string option"

fun make_envelopes :: "(nat \<Rightarrow> u64) \<Rightarrow> string \<Rightarrow> nat \<Rightarrow> u64 \<Rightarrow> 'j runtime_event list \<Rightarrow>
    'j event_envelope list \<times> u64" where
  "make_envelopes ts trace n counter [] = ([], counter)"
| "make_envelopes ts trace n counter (payload # payloads) =
     (let (e, counter) = make_envelope (ts n) trace counter payload;
          (es, counter) = make_envelopes ts trace (n + 1) counter payloads
      in (e # es, counter))"

definition append_batch :: "batch_env \<Rightarrow> 'j runtime_event list \<Rightarrow> 'j world \<Rightarrow> unit reply \<times> 'j world"
  where
  "append_batch env payloads w =
     (let (es, counter) = make_envelopes (be_ts env) (be_trace_id env) 0 (w_counter w) payloads;
          (r, s) = append_events (be_append_at env) (be_secondary env) es (w_store w);
          w = w\<lparr>w_store := s, w_counter := counter\<rparr>
      in (case r of
            Appended _ \<Rightarrow> (Done (), w)
          | Panicked \<Rightarrow> (Crashed, w)
          | SecondaryFailed err _ \<Rightarrow> (Failed (StoreFailure err), w)))"

definition transition_payload :: "project_key \<Rightarrow> ident \<Rightarrow> run_state \<Rightarrow> run_state \<Rightarrow>
    failure_class option \<Rightarrow> resume_trigger option \<Rightarrow> run_state_changed" where
  "transition_payload p run from to failure resume =
     \<lparr>rsc_project = p, rsc_run_id = run, rsc_transition = \<lparr>st_from = Some from, st_to = to\<rparr>,
      rsc_failure_class = failure, rsc_pause_reason = None, rsc_resume_trigger = resume\<rparr>"

section \<open>Requests\<close>

text \<open>
  \<open>request_with_context\<close>. The envelope of the request is made before the run is looked up, so an
  unknown run costs one event id.
\<close>

definition request_with_context :: "batch_env \<Rightarrow> approval_requested \<Rightarrow> 'j world \<Rightarrow>
    approval_record reply \<times> 'j world" where
  "request_with_context env e w =
     (let send = (\<lambda>moves.
        and_then (append_batch env (ApprovalRequested e # moves) w)
          (\<lambda>_ w. (case approval_get (aq_approval_id e) (w_store w) of
                    None \<Rightarrow> (Failed (InternalError ''approval not found after request''), w)
                  | Some a \<Rightarrow> (Done a, w))))
      in (case aq_run_id e of
            None \<Rightarrow> send []
          | Some run \<Rightarrow>
              (case run_get run (w_store w) of
                 None \<Rightarrow>
                   (Failed (NotFound ''run'' run), w\<lparr>w_counter := wrap_add64 (w_counter w) 1\<rparr>)
               | Some r \<Rightarrow>
                   send (if can_transition_run_state (run_state r) run_state.WaitingApproval
                         then [RunStateChanged (transition_payload (aq_project e) run (run_state r)
                                 run_state.WaitingApproval None None)]
                         else []))))"

definition request_approval :: "batch_env \<Rightarrow> project_key \<Rightarrow> ident \<Rightarrow> ident option \<Rightarrow> ident option \<Rightarrow>
    approval_requirement \<Rightarrow> 'j world \<Rightarrow> approval_record reply \<times> 'j world" where
  "request_approval env p i run task requirement =
     request_with_context env
       \<lparr>aq_project = p, aq_approval_id = i, aq_run_id = run, aq_task_id = task,
        aq_requirement = requirement, aq_title = None, aq_description = None\<rparr>"

section \<open>Resolutions\<close>

fun debug_decision :: "approval_decision \<Rightarrow> string" where
  "debug_decision approval_decision.Approved = ''Approved''"
| "debug_decision approval_decision.Rejected = ''Rejected''"

fun decision_target :: "approval_decision \<Rightarrow>
    run_state \<times> failure_class option \<times> resume_trigger option" where
  "decision_target approval_decision.Approved = (run_state.Running, None, Some OperatorResume)"
| "decision_target approval_decision.Rejected = (run_state.Failed, Some ApprovalRejected, None)"

definition resolution_moves :: "approval_decision \<Rightarrow> ident \<Rightarrow> run_record \<Rightarrow> run_state_changed list"
  where
  "resolution_moves d run r =
     (case decision_target d of
        (to, failure, resume) \<Rightarrow>
          if can_transition_run_state (run_state r) to
          then [transition_payload (run_project r) run (run_state r) to failure resume]
          else [])"

definition resolve_approval :: "batch_env \<Rightarrow> ident \<Rightarrow> approval_decision \<Rightarrow> 'j world \<Rightarrow>
    approval_record reply \<times> 'j world" where
  "resolve_approval env i d w =
     (case approval_get i (w_store w) of
        None \<Rightarrow> (Failed (NotFound ''approval'' i), w)
      | Some a \<Rightarrow>
          if appr_decision a \<noteq> None
          then (Failed (InvalidTransition ''approval'' ''resolved'' (debug_decision d)), w)
          else
            let e = \<lparr>ar_project = appr_project a, ar_approval_id = i, ar_decision = d\<rparr>;
                moves = (case appr_run_id a of
                   None \<Rightarrow> []
                 | Some run \<Rightarrow>
                     (case run_get run (w_store w) of
                        None \<Rightarrow> []
                      | Some r \<Rightarrow> map RunStateChanged (resolution_moves d run r)))
            in and_then (append_batch env (ApprovalResolved e # moves) w)
                 (\<lambda>_ w. (case approval_get i (w_store w) of
                           None \<Rightarrow> (Failed (InternalError ''approval not found after resolve''), w)
                         | Some a \<Rightarrow> (Done a, w))))"

definition list_pending_approvals :: "project_key \<Rightarrow> nat \<Rightarrow> nat \<Rightarrow> 'j world \<Rightarrow>
    approval_record list reply \<times> 'j world" where
  "list_pending_approvals p limit offset w = (Done (approvals_pending p limit offset (w_store w)), w)"

definition list_all_approvals :: "project_key \<Rightarrow> nat \<Rightarrow> nat \<Rightarrow> 'j world \<Rightarrow>
    approval_record list reply \<times> 'j world" where
  "list_all_approvals p limit offset w = (Done (approvals_all p limit offset (w_store w)), w)"

definition get_approval :: "ident \<Rightarrow> 'j world \<Rightarrow> approval_record option reply \<times> 'j world" where
  "get_approval i w = (Done (approval_get i (w_store w)), w)"

end
