(* ===== verification/Run_Recovery.thy ===== *)
theory Run_Recovery
  imports Approval_Service
begin

text \<open>
  Run-level recovery at boot (\<open>crates/cairn-runtime/src/services/recovery_impl.rs\<close>): the sweep
  takes the runs whose sandboxes were lost, revoked, reattached or drifted, then every run in one
  of four non-terminal states, plans events for each, and appends the plans as one batch and a
  summary after it. The sweep reads the store while it plans and writes it afterwards, so the
  plan is a function of the store at its start.
\<close>

section \<open>Events and outcomes\<close>

text \<open>The variants of \<open>RuntimeEvent\<close> the sweep emits, with the fields it fills.\<close>

datatype recovery_event =
    RecoveryAttempted project_key ident string ident
  | RecoveryCompleted project_key ident bool ident
  | RecoveryApproval approval_requested
  | RecoveryTransition run_state_changed

fun recovery_payload :: "recovery_event \<Rightarrow> 'j runtime_event" where
  "recovery_payload (RecoveryAttempted p run _ _) =
     OtherEvent ''RecoveryAttempted'' p None (Some (RunEntity run))"
| "recovery_payload (RecoveryCompleted p run _ _) =
     OtherEvent ''RecoveryCompleted'' p None (Some (RunEntity run))"
| "recovery_payload (RecoveryApproval e) = ApprovalRequested e"
| "recovery_payload (RecoveryTransition e) = RunStateChanged e"

datatype run_recovery_outcome =
    Recovered ident
  | Advanced ident
  | RecoveryFailed ident string

record run_recovery_summary =
  rr_boot_id :: "ident option"
  rr_scanned_runs :: u32
  rr_recovered_runs :: u32
  rr_advanced_runs :: u32
  rr_failed_runs :: u32
  rr_outcomes :: "run_recovery_outcome list"

definition run_wedge_threshold_ms :: u64 where "run_wedge_threshold_ms = 300000"
definition recovery_scan_limit :: nat where "recovery_scan_limit = 10000"
definition approval_page_size :: nat where "approval_page_size = 500"
definition approval_scan_limit :: nat where "approval_scan_limit = 50000"

definition transition_event :: "project_key \<Rightarrow> ident \<Rightarrow> run_state \<Rightarrow> run_state \<Rightarrow>
    failure_class option \<Rightarrow> resume_trigger option \<Rightarrow> recovery_event" where
  "transition_event p run from to failure resume =
     RecoveryTransition (transition_payload p run from to failure resume)"

section \<open>The runs the sandbox sweep reported\<close>

text \<open>
  The state of the sweep: the events planned so far, the summary, and the sets of runs handled by
  each row of the matrix.
\<close>

record recovery_sweep =
  rw_events :: "recovery_event list"
  rw_summary :: run_recovery_summary
  rw_lost :: "ident list"
  rw_revoked :: "ident list"
  rw_reattached :: "ident list"
  rw_drifted :: "ident list"

definition sweep_start :: "ident \<Rightarrow> recovery_sweep" where
  "sweep_start boot =
     \<lparr>rw_events = [],
      rw_summary = \<lparr>rr_boot_id = Some boot, rr_scanned_runs = 0, rr_recovered_runs = 0,
        rr_advanced_runs = 0, rr_failed_runs = 0, rr_outcomes = []\<rparr>,
      rw_lost = [], rw_revoked = [], rw_reattached = [], rw_drifted = []\<rparr>"

definition plan_events :: "recovery_event list \<Rightarrow> recovery_sweep \<Rightarrow> recovery_sweep" where
  "plan_events es sw = sw\<lparr>rw_events := rw_events sw @ es\<rparr>"

definition count_outcome :: "run_recovery_outcome \<Rightarrow> run_recovery_summary \<Rightarrow> run_recovery_summary"
  where
  "count_outcome out sm =
     (let sm = sm\<lparr>rr_outcomes := rr_outcomes sm @ [out]\<rparr>
      in (case out of
            Recovered _ \<Rightarrow> sm\<lparr>rr_recovered_runs := wrap_add32 (rr_recovered_runs sm) 1\<rparr>
          | Advanced _ \<Rightarrow> sm\<lparr>rr_advanced_runs := wrap_add32 (rr_advanced_runs sm) 1\<rparr>
          | RecoveryFailed _ _ \<Rightarrow> sm\<lparr>rr_failed_runs := wrap_add32 (rr_failed_runs sm) 1\<rparr>))"

definition note_outcome :: "run_recovery_outcome \<Rightarrow> recovery_sweep \<Rightarrow> recovery_sweep" where
  "note_outcome out sw = sw\<lparr>rw_summary := count_outcome out (rw_summary sw)\<rparr>"

text \<open>The transition of a handled run, unless it is unknown, terminal or not allowed.\<close>

definition staged_transition :: "'j store \<Rightarrow> project_key \<Rightarrow> ident \<Rightarrow> run_state \<Rightarrow>
    failure_class option \<Rightarrow> run_recovery_outcome \<Rightarrow> recovery_sweep \<Rightarrow> recovery_sweep" where
  "staged_transition s p run to failure out sw =
     (case run_get run s of
        None \<Rightarrow> sw
      | Some r \<Rightarrow>
          if \<not> run_is_terminal (run_state r) \<and> can_transition_run_state (run_state r) to
          then note_outcome out
                 (plan_events [transition_event p run (run_state r) to failure None] sw)
          else sw)"

definition lost_row :: "ident \<Rightarrow> 'j store \<Rightarrow> ident \<times> project_key \<Rightarrow> recovery_sweep \<Rightarrow> recovery_sweep"
  where
  "lost_row boot s reported sw =
     (let (run, p) = reported
      in if run \<in> set (rw_lost sw) then sw
         else
           let sw = sw\<lparr>rw_lost := rw_lost sw @ [run]\<rparr>;
               sw = plan_events [RecoveryAttempted p run ''sandbox_lost'' boot] sw;
               sw = staged_transition s p run run_state.Failed (Some ExecutionError)
                      (RecoveryFailed run ''sandbox_lost'') sw
           in plan_events [RecoveryCompleted p run False boot] sw)"

text \<open>A sandbox that is kept until an operator decides: an approval, and the run waits for it.\<close>

definition gated_row :: "ident \<Rightarrow> 'j store \<Rightarrow> project_key \<Rightarrow> ident \<Rightarrow> string \<Rightarrow> ident \<Rightarrow> string \<Rightarrow> string \<Rightarrow>
    recovery_sweep \<Rightarrow> recovery_sweep" where
  "gated_row boot s p run reason approval_id title description sw =
     (let sw = plan_events
            [RecoveryAttempted p run reason boot,
             RecoveryApproval \<lparr>aq_project = p, aq_approval_id = approval_id, aq_run_id = Some run,
               aq_task_id = None, aq_requirement = Required, aq_title = Some title,
               aq_description = Some description\<rparr>] sw;
          sw = staged_transition s p run run_state.WaitingApproval None (Advanced run) sw
      in plan_events [RecoveryCompleted p run True boot] sw)"

definition revoked_row :: "ident \<Rightarrow> 'j store \<Rightarrow> ident \<times> project_key \<times> string \<Rightarrow> recovery_sweep \<Rightarrow>
    recovery_sweep" where
  "revoked_row boot s reported sw =
     (let (run, p, repo) = reported
      in if run \<in> set (rw_revoked sw) then sw
         else
           let sw = sw\<lparr>rw_revoked := rw_revoked sw @ [run]\<rparr>
           in if run \<in> set (rw_lost sw) then sw
              else gated_row boot s p run
                (''sandbox_allowlist_revoked: repo '' @ repo @
                 '' no longer allowlisted; synthesizing approval for operator re-grant'')
                (''approval-allowlist-revoked-'' @ run) (''Re-grant repo access: '' @ repo)
                (''Run `'' @ run @ ''` was paused at boot because its sandbox is bound to repo `'' @
                 repo @ ''`, which is no longer on this project's allowlist. Approve to re-grant '' @
                 ''and resume, or reject to cancel the run.'') sw)"

definition reattached_row :: "ident \<Rightarrow> ident \<times> project_key \<Rightarrow> recovery_sweep \<Rightarrow> recovery_sweep" where
  "reattached_row boot reported sw =
     (let (run, p) = reported
      in if run \<in> set (rw_reattached sw) then sw
         else
           let sw = sw\<lparr>rw_reattached := rw_reattached sw @ [run]\<rparr>
           in if run \<in> set (rw_lost sw) \<or> run \<in> set (rw_revoked sw) then sw
              else plan_events [RecoveryAttempted p run ''sandbox_reattached'' boot] sw)"

definition drifted_row :: "ident \<Rightarrow> 'j store \<Rightarrow> ident \<times> project_key \<times> string \<Rightarrow> recovery_sweep \<Rightarrow>
    recovery_sweep" where
  "drifted_row boot s reported sw =
     (let (run, p, repo) = reported
      in if run \<in> set (rw_drifted sw) then sw
         else
           let sw = sw\<lparr>rw_drifted := rw_drifted sw @ [run]\<rparr>
           in if run \<in> set (rw_lost sw) \<or> run \<in> set (rw_revoked sw) then sw
              else gated_row boot s p run
                (''sandbox_base_revision_drift: repo '' @ repo @
                 '' locked clone HEAD moved; synthesizing approval for operator re-provision'')
                (''approval-base-revision-drift-'' @ run) (''Re-provision sandbox: '' @ repo)
                (''Run `'' @ run @ ''` was paused at boot because its overlay sandbox is bound to '' @
                 ''repo `'' @ repo @ ''`, whose locked clone HEAD moved after the sandbox was '' @
                 ''provisioned. The upper layer now composes over a moved base. Approve to '' @
                 ''re-provision against the new HEAD, or reject to cancel the run.'') sw)"

section \<open>The plan of one run\<close>

text \<open>\<open>fetch_all_approvals\<close>: pages until a short one or the limit.\<close>

function fetch_from :: "'j store \<Rightarrow> project_key \<Rightarrow> approval_record list \<Rightarrow> nat \<Rightarrow>
    approval_record list" where
  "fetch_from s p out offset =
     (if approval_scan_limit \<le> length out then out
      else
        let page_limit = min approval_page_size (approval_scan_limit - length out);
            rows = approvals_all p page_limit offset s
        in if length rows < page_limit then out @ rows
           else fetch_from s p (out @ rows) (offset + length rows))"
  by pat_completeness auto
termination
  by (relation "measure (\<lambda>(s, p, out, offset). approval_scan_limit - length out)")
    (auto simp: approval_page_size_def)

declare fetch_from.simps [simp del]

definition fetch_all_approvals :: "'j store \<Rightarrow> project_key \<Rightarrow> approval_record list" where
  "fetch_all_approvals s p = fetch_from s p [] 0"

definition plan_unchanged :: "run_record \<Rightarrow> ident \<Rightarrow> string \<Rightarrow>
    recovery_event list \<times> run_recovery_outcome" where
  "plan_unchanged r boot reason =
     ([RecoveryAttempted (run_project r) (run_run_id r) reason boot,
       RecoveryCompleted (run_project r) (run_run_id r) True boot], Recovered (run_run_id r))"

definition wedged :: "'j store \<Rightarrow> u64 \<Rightarrow> run_record \<Rightarrow> bool" where
  "wedged s now r \<longleftrightarrow>
     latest_for_run (run_run_id r) s = None \<and> run_wedge_threshold_ms < now - run_updated_at r"

definition plan_running :: "'j store \<Rightarrow> u64 \<Rightarrow> run_record \<Rightarrow> ident \<Rightarrow>
    recovery_event list \<times> run_recovery_outcome" where
  "plan_running s now r boot =
     (if wedged s now r then
        ([RecoveryAttempted (run_project r) (run_run_id r)
            ''wedged running run: crashed_before_first_progress'' boot] @
         (if can_transition_run_state (run_state r) run_state.Failed
          then [transition_event (run_project r) (run_run_id r) (run_state r) run_state.Failed
                  (Some ExecutionError) None] else []) @
         [RecoveryCompleted (run_project r) (run_run_id r) False boot],
         RecoveryFailed (run_run_id r) ''crashed_before_first_progress'')
      else plan_unchanged r boot
        ''running run re-asserted; orchestrator to resume from latest checkpoint'')"

fun resolved_target :: "approval_decision \<Rightarrow>
    run_state \<times> failure_class option \<times> resume_trigger option" where
  "resolved_target approval_decision.Approved = (run_state.Running, None, Some OperatorResume)"
| "resolved_target approval_decision.Rejected = (run_state.Failed, Some ApprovalRejected, None)"

definition latest_resolved :: "approval_record list \<Rightarrow> ident \<Rightarrow> approval_record option" where
  "latest_resolved rows run =
     max_by_key appr_updated_at
       (filter (\<lambda>a. appr_run_id a = Some run \<and> appr_decision a \<noteq> None) rows)"

text \<open>The approvals of a project are fetched once, for the first run that needs them.\<close>

type_synonym approval_cache = "(project_key, approval_record list) hmap"

definition approvals_of :: "'j store \<Rightarrow> project_key \<Rightarrow> approval_cache \<Rightarrow>
    approval_record list \<times> approval_cache" where
  "approvals_of s p fetched =
     (case hget fetched p of
        Some rows \<Rightarrow> (rows, fetched)
      | None \<Rightarrow> (let rows = fetch_all_approvals s p in (rows, hput p rows fetched)))"

definition advance_plan :: "run_record \<Rightarrow> ident \<Rightarrow> approval_record option \<Rightarrow>
    recovery_event list \<times> run_recovery_outcome" where
  "advance_plan r boot found =
     (let run = run_run_id r; p = run_project r;
          reason = (case found of
             Some a \<Rightarrow> ''approval '' @ appr_approval_id a @
               '' resolved during crash window; advancing run state''
           | None \<Rightarrow> ''no pending approvals remain but no resolved approval found; '' @
               ''leaving run for operator'');
          moves = (case Option.bind found appr_decision of
             None \<Rightarrow> []
           | Some d \<Rightarrow>
               (case resolved_target d of
                  (to, failure, resume) \<Rightarrow>
                    if can_transition_run_state (run_state r) to
                    then [transition_event p run (run_state r) to failure resume] else []))
      in ([RecoveryAttempted p run reason boot] @ moves @ [RecoveryCompleted p run True boot],
          if moves \<noteq> [] then Advanced run else Recovered run))"

definition plan_waiting_approval :: "'j store \<Rightarrow> run_record \<Rightarrow> ident \<Rightarrow> approval_cache \<Rightarrow>
    (recovery_event list \<times> run_recovery_outcome) \<times> approval_cache" where
  "plan_waiting_approval s r boot fetched =
     (if has_pending_for_run (run_run_id r) s
      then (plan_unchanged r boot ''approval still pending; waiting for operator'', fetched)
      else
        let (rows, fetched) = approvals_of s (run_project r) fetched
        in (advance_plan r boot (latest_resolved rows (run_run_id r)), fetched))"

fun debug_run_state :: "run_state \<Rightarrow> string" where
  "debug_run_state run_state.Pending = ''Pending''"
| "debug_run_state run_state.Running = ''Running''"
| "debug_run_state run_state.WaitingApproval = ''WaitingApproval''"
| "debug_run_state run_state.Paused = ''Paused''"
| "debug_run_state run_state.WaitingDependency = ''WaitingDependency''"
| "debug_run_state run_state.Completed = ''Completed''"
| "debug_run_state run_state.Failed = ''Failed''"
| "debug_run_state run_state.Canceled = ''Canceled''"

definition plan_for_run :: "'j store \<Rightarrow> u64 \<Rightarrow> ident \<Rightarrow> run_record \<Rightarrow> approval_cache \<Rightarrow>
    (recovery_event list \<times> run_recovery_outcome) \<times> approval_cache" where
  "plan_for_run s now boot r fetched =
     (case run_state r of
        run_state.Running \<Rightarrow> (plan_running s now r boot, fetched)
      | run_state.WaitingApproval \<Rightarrow> plan_waiting_approval s r boot fetched
      | run_state.Paused \<Rightarrow>
          (plan_unchanged r boot ''state unchanged; recovery advisory only'', fetched)
      | run_state.WaitingDependency \<Rightarrow>
          (plan_unchanged r boot ''state unchanged; recovery advisory only'', fetched)
      | other \<Rightarrow>
          (([], RecoveryFailed (run_run_id r)
             (''unexpected terminal-looking state in sweep: '' @ debug_run_state other)), fetched))"

section \<open>The sweep\<close>

definition scanned_runs :: "'j store \<Rightarrow> run_record list" where
  "scanned_runs s =
     concat (map (\<lambda>st. runs_by_state st recovery_scan_limit s)
       [run_state.Running, run_state.WaitingApproval, run_state.Paused, run_state.WaitingDependency])"

fun plan_runs :: "'j store \<Rightarrow> u64 \<Rightarrow> ident \<Rightarrow> run_record list \<Rightarrow> approval_cache \<Rightarrow> recovery_sweep \<Rightarrow>
    recovery_sweep" where
  "plan_runs s now boot [] fetched sw = sw"
| "plan_runs s now boot (r # rs) fetched sw =
     (let ((es, out), fetched) = plan_for_run s now boot r fetched
      in plan_runs s now boot rs fetched (note_outcome out (plan_events es sw)))"

record sandbox_report =
  sr_lost :: "(ident \<times> project_key) list"
  sr_revoked :: "(ident \<times> project_key \<times> string) list"
  sr_reattached :: "(ident \<times> project_key) list"
  sr_drifted :: "(ident \<times> project_key \<times> string) list"

definition sweep_rows :: "ident \<Rightarrow> 'j store \<Rightarrow> sandbox_report \<Rightarrow> recovery_sweep" where
  "sweep_rows boot s sr =
     fold (drifted_row boot s) (sr_drifted sr)
       (fold (reattached_row boot) (sr_reattached sr)
         (fold (revoked_row boot s) (sr_revoked sr)
           (fold (lost_row boot s) (sr_lost sr) (sweep_start boot))))"

definition handled_runs :: "recovery_sweep \<Rightarrow> ident list" where
  "handled_runs sw = rw_lost sw @ rw_revoked sw @ rw_drifted sw"

definition plan_sweep :: "ident \<Rightarrow> 'j store \<Rightarrow> u64 \<Rightarrow> sandbox_report \<Rightarrow> recovery_sweep" where
  "plan_sweep boot s now sr =
     (let sw = sweep_rows boot s sr;
          runs = filter (\<lambda>r. run_run_id r \<notin> set (handled_runs sw)) (scanned_runs s);
          scanned = sat_add32 (sat_add32 (sat_add32 (as_u32 (length runs))
            (as_u32 (length (rw_lost sw)))) (as_u32 (length (rw_revoked sw))))
            (as_u32 (length (rw_drifted sw)));
          sw = sw\<lparr>rw_summary := (rw_summary sw)\<lparr>rr_scanned_runs := scanned\<rparr>\<rparr>
      in plan_runs s now boot runs [] sw)"

text \<open>
  What a sweep reads from outside: the clock when the scan starts (\<open>now_ms\<close>), and what its two
  appends read. The store is read while the rows and the runs are planned; nothing else appends
  to it before the plan is appended, as the sweep runs at boot before the server takes requests.
\<close>

record recovery_env =
  re_now :: u64
  re_plan :: batch_env
  re_summary :: svc_env

definition append_plan :: "batch_env \<Rightarrow> recovery_event list \<Rightarrow> 'j world \<Rightarrow> unit reply \<times> 'j world"
  where
  "append_plan env es w =
     (if es = [] then (Done (), w) else append_batch env (map recovery_payload es) w)"

definition recovery_summary_payload :: "'j runtime_event" where
  "recovery_summary_payload =
     OtherEvent ''RecoverySummaryEmitted'' (project_key_new ''_system'' ''_recovery'' ''_boot'') None
       None"

definition recover_runs :: "recovery_env \<Rightarrow> ident \<Rightarrow> sandbox_report \<Rightarrow> 'j world \<Rightarrow>
    run_recovery_summary reply \<times> 'j world" where
  "recover_runs env boot sr w =
     (let sw = plan_sweep boot (w_store w) (re_now env) sr
      in and_then (append_plan (re_plan env) (rw_events sw) w)
           (\<lambda>_ w. and_then (emit (re_summary env) recovery_summary_payload w)
             (\<lambda>_ w. (Done (rw_summary sw), w))))"

end
