(* ===== verification/Approval_Service_Laws.thy ===== *)
theory Approval_Service_Laws
  imports Approval_Service Store_Correctness
begin

text \<open>
  A batch of events that cannot panic the store is applied event by event, whatever the secondary
  log answers. From this, what a request and a resolution do to the approvals and the runs, and
  that a resolution does not look at the other approvals of its run.
\<close>

section \<open>A batch is a sequence of turns\<close>

definition batch_reply :: "batch_env \<Rightarrow> unit reply" where
  "batch_reply env =
     (case be_secondary env of None \<Rightarrow> Done () | Some err \<Rightarrow> Failed (StoreFailure err))"

lemma make_envelope_payload [simp]: "ev_payload (fst (make_envelope ts trace counter payload)) = payload"
  by (auto simp: make_envelope_def next_event_id_def for_runtime_event_def event_envelope_new_def
      with_correlation_id_def Let_def split: prod.splits)

lemma make_envelopes_payloads [simp]:
  "map ev_payload (fst (make_envelopes ts trace n counter payloads)) = payloads"
  by (induction payloads arbitrary: n counter)
    (simp_all add: case_prod_beta Let_def)

lemma append_loop_applied:
  "list_all (\<lambda>e. finishing (ev_payload e) = None) es \<Longrightarrow>
     \<exists>qs. append_loop now es ps s = (Appended qs, fold (turn now) es s)"
proof (induction es arbitrary: ps s)
  case Nil
  then show ?case by (simp add: append_loop.simps)
next
  case (Cons e es)
  then have "apply_projection (fst (push_event now e s)) (snd (push_event now e s)) \<noteq> None"
    by (simp add: projection_panics_iff push_event_stored)
  then show ?case using Cons by (simp add: append_loop_Cons)
qed

lemma append_batch_applied:
  assumes "list_all (\<lambda>p. finishing p = None) payloads"
  obtains es c where "map ev_payload es = payloads"
    and "append_batch env payloads w =
      (batch_reply env, w\<lparr>w_store := fold (turn (be_append_at env)) es (w_store w), w_counter := c\<rparr>)"
proof -
  obtain es c where m: "make_envelopes (be_ts env) (be_trace_id env) 0 (w_counter w) payloads = (es, c)"
    by fastforce
  then have es: "map ev_payload es = payloads" by (metis fst_conv make_envelopes_payloads)
  then have "list_all (\<lambda>e. finishing (ev_payload e) = None) es"
    using assms by (auto simp: list_all_iff)
  then obtain qs where "append_loop (be_append_at env) es [] (w_store w) =
      (Appended qs, fold (turn (be_append_at env)) es (w_store w))"
    using append_loop_applied by blast
  then have "append_batch env payloads w =
      (batch_reply env, w\<lparr>w_store := fold (turn (be_append_at env)) es (w_store w), w_counter := c\<rparr>)"
    by (auto simp: append_batch_def m append_events_def batch_reply_def split: option.split)
  with es show thesis by (rule that)
qed

section \<open>Approvals and runs after a turn\<close>

fun approval_event :: "u64 \<Rightarrow> ident \<Rightarrow> 'j runtime_event \<Rightarrow> approval_record option \<Rightarrow>
    approval_record option" where
  "approval_event now i (ApprovalRequested e) a =
     (if aq_approval_id e = i then
        Some \<lparr>appr_approval_id = i, appr_project = aq_project e, appr_run_id = aq_run_id e,
          appr_task_id = aq_task_id e, appr_requirement = aq_requirement e, appr_decision = None,
          appr_title = aq_title e, appr_description = aq_description e, appr_version = 1,
          appr_created_at = now, appr_updated_at = now\<rparr>
      else a)"
| "approval_event now i (ApprovalResolved e) a =
     (if ar_approval_id e = i then
        map_option (\<lambda>r. r\<lparr>appr_decision := Some (ar_decision e), appr_version := bump (appr_version r),
          appr_updated_at := now\<rparr>) a
      else a)"
| "approval_event now i _ a = a"

lemma projection_approvals:
  "apply_projection ev s = Some s' \<Longrightarrow>
     approval_get i s' =
       approval_event (se_stored_at ev) i (ev_payload (se_envelope ev)) (approval_get i s)"
  by (cases "ev_payload (se_envelope ev)")
    (auto simp: apply_projection_def arms Let_def approval_get_def hmap_simps map_option_case
      split: option.splits sum.splits if_splits)

lemma push_event_approvals [simp]: "s_approvals (snd (push_event now env s)) = s_approvals s"
  by (simp add: push_event_def count_event_def increment_usage_for_project_def Let_def
      split: option.split)

lemma turn_approvals:
  "approval_get i (turn now env s) = approval_event now i (ev_payload env) (approval_get i s)"
  by (cases rule: turn_cases [of now env s];
      use projection_panics [of "fst (push_event now env s)" "snd (push_event now env s)"] in
      \<open>auto simp: push_event_stored approval_get_def
        dest!: projection_approvals [where i = i, unfolded approval_get_def]\<close>)

lemma fold_turn_approvals:
  "approval_get i (fold (turn now) es s) =
     fold (approval_event now i) (map ev_payload es) (approval_get i s)"
  by (induction es arbitrary: s) (simp_all add: turn_approvals)

lemma fold_turn_runs:
  "map_option run_state (run_get i (fold (turn now) es s)) =
     fold (run_event i) (map ev_payload es) (map_option run_state (run_get i s))"
  by (induction es arbitrary: s) (simp_all add: turn_states(2))

lemma fold_turn_reachable: "store_reachable s \<Longrightarrow> store_reachable (fold (turn now) es s)"
proof (induction es arbitrary: s)
  case (Cons e es)
  have "turn now e s = snd (append_events now None [e] s)"
    by (simp add: append_events_state append_loop_Cons append_loop.simps)
  then show ?case using Cons reach_append by (metis fold_simps(2))
qed simp

section \<open>What a resolution does\<close>

definition moved_to :: "run_state \<Rightarrow> run_state \<Rightarrow> run_state" where
  "moved_to to st = (if can_transition_run_state st to then to else st)"

lemma resolve_approval_applied:
  fixes w :: "'j world"
  assumes "approval_get i (w_store w) = Some a" and "appr_decision a = None"
    and "a' = a\<lparr>appr_decision := Some d, appr_version := bump (appr_version a),
        appr_updated_at := be_append_at env\<rparr>"
  obtains c es where "resolve_approval env i d w =
      (case be_secondary env of None \<Rightarrow> Done a' | Some err \<Rightarrow> Failed (StoreFailure err),
       w\<lparr>w_store := fold (turn (be_append_at env)) es (w_store w), w_counter := c\<rparr>)"
    and "approval_get j (fold (turn (be_append_at env)) es (w_store w)) =
      (if j = i then Some a' else approval_get j (w_store w))"
    and "map_option run_state (run_get run (fold (turn (be_append_at env)) es (w_store w))) =
      (if appr_run_id a = Some run
       then map_option (moved_to (fst (decision_target d)) \<circ> run_state) (run_get run (w_store w))
       else map_option run_state (run_get run (w_store w)))"
proof -
  define moves :: "'j runtime_event list" where "moves = (case appr_run_id a of
      None \<Rightarrow> []
    | Some run \<Rightarrow>
        (case run_get run (w_store w) of
           None \<Rightarrow> []
         | Some r \<Rightarrow> map RunStateChanged (resolution_moves d run r)))"
  define e where "e = \<lparr>ar_project = appr_project a, ar_approval_id = i, ar_decision = d\<rparr>"
  have ok: "list_all (\<lambda>p. finishing p = None) (ApprovalResolved e # moves)"
    by (auto simp: moves_def list_all_iff split: option.split)
  obtain es c where es: "map ev_payload es = ApprovalResolved e # moves"
    and b: "append_batch env (ApprovalResolved e # moves) w =
      (batch_reply env, w\<lparr>w_store := fold (turn (be_append_at env)) es (w_store w), w_counter := c\<rparr>)"
    by (rule append_batch_applied [OF ok])
  let ?s = "fold (turn (be_append_at env)) es (w_store w)"
  have none: "fold (approval_event (be_append_at env) k) moves x = x" for k x
    by (auto simp: moves_def resolution_moves_def split: option.split prod.split)
  have a: "approval_get k ?s = (if k = i then Some a' else approval_get k (w_store w))" for k
    using assms(1) by (simp add: fold_turn_approvals es none e_def assms(3))
  have r: "map_option run_state (run_get run ?s) =
      (if appr_run_id a = Some run
       then map_option (moved_to (fst (decision_target d)) \<circ> run_state) (run_get run (w_store w))
       else map_option run_state (run_get run (w_store w)))"
    by (auto simp: fold_turn_runs es e_def moves_def resolution_moves_def transition_payload_def
        moved_to_def case_prod_beta split: option.split)
  have "resolve_approval env i d w =
      and_then (append_batch env (ApprovalResolved e # moves) w)
        (\<lambda>_ w. (case approval_get i (w_store w) of
           None \<Rightarrow> (Failed (InternalError ''approval not found after resolve''), w)
         | Some a \<Rightarrow> (Done a, w)))"
    using assms(1,2) by (simp add: resolve_approval_def moves_def e_def Let_def)
  also have "\<dots> = (case be_secondary env of None \<Rightarrow> Done a' | Some err \<Rightarrow> Failed (StoreFailure err),
       w\<lparr>w_store := ?s, w_counter := c\<rparr>)"
    by (simp add: b batch_reply_def and_then_def a split: option.split)
  finally show thesis using that a r by blast
qed

section \<open>Resolved once\<close>


section \<open>A run with two approvals\<close>

definition sample_ask :: "ident \<Rightarrow> nat event_envelope" where
  "sample_ask i = sample_envelope i None (ApprovalRequested
     \<lparr>aq_project = demo_project, aq_approval_id = i, aq_run_id = Some ''r'', aq_task_id = None,
      aq_requirement = Required, aq_title = None, aq_description = None\<rparr>)"

definition sample_wait :: "nat event_envelope" where
  "sample_wait = sample_envelope ''e9'' None (RunStateChanged
     (transition_payload demo_project ''r'' run_state.Running run_state.WaitingApproval None None))"

definition waiting_store :: "ident list \<Rightarrow> nat store" where
  "waiting_store ids = snd (append_events 100 None
     ([sample_session, sample_run, sample_running, sample_wait] @ map sample_ask ids) store_new)"

definition waiting_world :: "ident list \<Rightarrow> nat world" where
  "waiting_world ids = \<lparr>w_store = waiting_store ids, w_counter = 0\<rparr>"

definition sample_batch :: batch_env where
  "sample_batch = \<lparr>be_ts = (\<lambda>n. 200 + n), be_trace_id = [], be_append_at = 210, be_secondary = None\<rparr>"

lemma waiting_world_store [simp]: "w_store (waiting_world ids) = waiting_store ids"
  by (simp add: waiting_world_def)

lemma waiting_store_reachable: "store_reachable (waiting_store ids)"
  unfolding waiting_store_def by (rule reach_append [OF reach_empty])

lemma waiting_store_fold:
  "waiting_store ids =
     fold (turn 100) ([sample_session, sample_run, sample_running, sample_wait] @ map sample_ask ids) store_new"
proof -
  have "list_all (\<lambda>e. finishing (ev_payload e) = None)
      ([sample_session, sample_run, sample_running, sample_wait] @ map sample_ask ids)"
    by (simp add: sample_session_def sample_run_def sample_running_def sample_wait_def sample_ask_def
        sample_envelope_sel list_all_iff)
  then obtain qs where "append_loop 100
      ([sample_session, sample_run, sample_running, sample_wait] @ map sample_ask ids) [] (store_new :: nat store) =
      (Appended qs, fold (turn 100)
        ([sample_session, sample_run, sample_running, sample_wait] @ map sample_ask ids) store_new)"
    using append_loop_applied by blast
  then show ?thesis by (simp add: waiting_store_def append_events_state)
qed

lemma turn_approval_frame:
  "ev_payload e = ApprovalRequested q \<or> ev_payload e = ApprovalResolved q' \<Longrightarrow>
     s_runs (turn now e s) = s_runs s \<and> s_checkpoints (turn now e s) = s_checkpoints s"
  by (auto simp: turn_def case_prod_beta apply_projection_def push_event_stored push_event_frame
      apply_approval_requested_def apply_approval_resolved_def)

definition sample_waiting_run :: run_record where
  "sample_waiting_run = the (run_get ''r'' (waiting_store []))"

lemma waiting_store_runs:
  "s_runs (waiting_store ids) = [(''r'', sample_waiting_run)]"
  "run_state sample_waiting_run = run_state.WaitingApproval"
  "run_project sample_waiting_run = demo_project"
proof -
  have keep: "s_runs (fold (turn 100) (map sample_ask ids) s) = s_runs s" for s
    by (induction ids arbitrary: s)
      (simp_all add: turn_approval_frame sample_ask_def sample_envelope_sel)
  have base: "\<exists>x. s_runs (waiting_store []) = [(''r'', x)] \<and>
      run_state x = run_state.WaitingApproval \<and> run_project x = demo_project"
    by (simp add: waiting_store_def sample_sel sample_wait_def transition_payload_def run_store
        cong: let_weak_cong)
  then obtain x where x: "s_runs (waiting_store []) = [(''r'', x)]"
    "run_state x = run_state.WaitingApproval" "run_project x = demo_project" by blast
  then have "sample_waiting_run = x"
    by (simp add: sample_waiting_run_def run_get_def hget_def)
  moreover have "s_runs (waiting_store ids) = s_runs (waiting_store [])"
    by (simp add: waiting_store_fold keep del: fold_simps)
  ultimately show "s_runs (waiting_store ids) = [(''r'', sample_waiting_run)]"
    "run_state sample_waiting_run = run_state.WaitingApproval"
    "run_project sample_waiting_run = demo_project" using x by simp_all
qed

lemma waiting_store_run: "run_get i (waiting_store ids) = (if i = ''r'' then Some sample_waiting_run else None)"
  by (simp add: run_get_def waiting_store_runs hget_def)

definition sample_row :: "ident \<Rightarrow> approval_record" where
  "sample_row i =
     \<lparr>appr_approval_id = i, appr_project = demo_project, appr_run_id = Some ''r'', appr_task_id = None,
      appr_requirement = Required, appr_decision = None, appr_title = None, appr_description = None,
      appr_version = 1, appr_created_at = 100, appr_updated_at = 100\<rparr>"

lemma waiting_store_approvals:
  "approval_get j (waiting_store ids) = (if j \<in> set ids then Some (sample_row j) else None)"
proof -
  have asks: "fold (approval_event 100 j) (map ev_payload (map sample_ask ids)) x =
      (if j \<in> set ids then Some (sample_row j) else x)" for x
    by (induction ids arbitrary: x) (simp_all add: sample_ask_def sample_row_def sample_envelope_sel)
  have new: "approval_get j store_new = None" by (simp add: approval_get_def store_new_def)
  show ?thesis
    unfolding waiting_store_fold fold_turn_approvals map_append fold_append comp_apply asks new
    by (simp add: sample_session_def sample_run_def sample_running_def sample_wait_def
        sample_envelope_sel)
qed

text \<open>
  C40: A resolution does not look at the other approvals of its run. Approving one approval of a run
  that waits for two sets the run running while the other is still pending.
\<close>

theorem approval_resumes_despite_other:
  fixes w :: "'j world"
  assumes "approval_get i (w_store w) = Some a" and "appr_decision a = None"
    and "appr_run_id a = Some run"
    and "map_option run_state (run_get run (w_store w)) = Some run_state.WaitingApproval"
    and "approval_get j (w_store w) = Some b" and "appr_decision b = None"
    and "appr_run_id b = Some run" and "j \<noteq> i"
  shows "map_option run_state (run_get run (w_store
        (snd (resolve_approval env i approval_decision.Approved w)))) = Some run_state.Running \<and>
    has_pending_for_run run (w_store (snd (resolve_approval env i approval_decision.Approved w)))"
proof -
  let ?w = "snd (resolve_approval env i approval_decision.Approved w)"
  have "approval_get j (w_store ?w) = Some b"
    by (rule resolve_approval_applied [OF assms(1,2) refl, of env approval_decision.Approved j])
      (simp add: assms(5,8))
  then have "b \<in> set (hvals (s_approvals (w_store ?w)))"
    using hget_set by (force simp: approval_get_def hvals_def)
  then have "has_pending_for_run run (w_store ?w)"
    using assms(6,7) by (auto simp: has_pending_for_run_def list_ex_iff)
  moreover have "map_option run_state (run_get run (w_store ?w)) = Some run_state.Running"
    by (rule resolve_approval_applied [OF assms(1,2) refl, of env approval_decision.Approved i run])
      (use assms(3,4) in \<open>auto simp: moved_to_def can_transition_run_state_def\<close>)
  ultimately show ?thesis by blast
qed

theorem approval_resumes_despite_other_witness:
  "map_option run_state (run_get ''r'' (w_store (snd (resolve_approval sample_batch ''a''
      approval_decision.Approved (waiting_world [''a'', ''b'']))))) = Some run_state.Running \<and>
   has_pending_for_run ''r'' (w_store (snd (resolve_approval sample_batch ''a''
      approval_decision.Approved (waiting_world [''a'', ''b'']))))"
proof (rule approval_resumes_despite_other)
  show "approval_get ''a'' (w_store (waiting_world [''a'', ''b''])) = Some (sample_row ''a'')"
    "approval_get ''b'' (w_store (waiting_world [''a'', ''b''])) = Some (sample_row ''b'')"
    by (simp_all add: waiting_store_approvals)
  show "map_option run_state (run_get ''r'' (w_store (waiting_world [''a'', ''b'']))) =
      Some run_state.WaitingApproval"
    by (simp add: waiting_store_run waiting_store_runs)
qed (simp_all add: sample_row_def)

end
