(* ===== verification/Run_Recovery_Laws.thy ===== *)
theory Run_Recovery_Laws
  imports Run_Recovery Approval_Service_Laws
begin

text \<open>
  What the sweep plans for one run, row by row, and what the plan does to the stored state: the
  events of a run are cut out of the plan by \<open>moves_of\<close>, the targets of its transitions, and
  \<open>finished_of\<close>, the outcomes of its closing marks.
\<close>

section \<open>The events of one run\<close>

fun moves_of :: "ident \<Rightarrow> recovery_event list \<Rightarrow> run_state list" where
  "moves_of i [] = []"
| "moves_of i (RecoveryTransition e # es) =
     (if rsc_run_id e = i then [st_to (rsc_transition e)] else []) @ moves_of i es"
| "moves_of i (_ # es) = moves_of i es"

fun finished_of :: "ident \<Rightarrow> recovery_event list \<Rightarrow> bool list" where
  "finished_of i [] = []"
| "finished_of i (RecoveryCompleted p run ok b # es) = (if run = i then [ok] else []) @ finished_of i es"
| "finished_of i (_ # es) = finished_of i es"

lemma moves_of_append [simp]: "moves_of i (es @ fs) = moves_of i es @ moves_of i fs"
  by (induction i es rule: moves_of.induct) auto

lemma finished_of_append [simp]: "finished_of i (es @ fs) = finished_of i es @ finished_of i fs"
  by (induction i es rule: finished_of.induct) auto

lemma transition_event_moves [simp]:
  "moves_of i (transition_event p run from to failure resume # es) =
     (if run = i then [to] else []) @ moves_of i es"
  "finished_of i (transition_event p run from to failure resume # es) = finished_of i es"
  by (simp_all add: transition_event_def transition_payload_def)

lemma plan_events_fields [simp]:
  "rw_events (plan_events es sw) = rw_events sw @ es" "rw_summary (plan_events es sw) = rw_summary sw"
  "rw_lost (plan_events es sw) = rw_lost sw" "rw_revoked (plan_events es sw) = rw_revoked sw"
  "rw_reattached (plan_events es sw) = rw_reattached sw" "rw_drifted (plan_events es sw) = rw_drifted sw"
  by (simp_all add: plan_events_def)

lemma note_outcome_fields [simp]:
  "rw_events (note_outcome out sw) = rw_events sw" "rw_lost (note_outcome out sw) = rw_lost sw"
  "rw_revoked (note_outcome out sw) = rw_revoked sw"
  "rw_reattached (note_outcome out sw) = rw_reattached sw"
  "rw_drifted (note_outcome out sw) = rw_drifted sw"
  by (simp_all add: note_outcome_def)

section \<open>The rows of the matrix\<close>

definition may_move :: "run_state \<Rightarrow> run_state \<Rightarrow> bool" where
  "may_move from to \<longleftrightarrow> \<not> run_is_terminal from \<and> can_transition_run_state from to"

definition staged_moves :: "'j store \<Rightarrow> ident \<Rightarrow> run_state \<Rightarrow> run_state list" where
  "staged_moves s i to =
     (case run_get i s of None \<Rightarrow> [] | Some r \<Rightarrow> if may_move (run_state r) to then [to] else [])"

lemma staged_transition_moves:
  "moves_of i (rw_events (staged_transition s p run to failure out sw)) =
     moves_of i (rw_events sw) @ (if run = i then staged_moves s i to else [])"
  "finished_of i (rw_events (staged_transition s p run to failure out sw)) =
     finished_of i (rw_events sw)"
  by (auto simp: staged_transition_def staged_moves_def may_move_def split: option.split)

lemma staged_transition_sets [simp]:
  "rw_lost (staged_transition s p run to failure out sw) = rw_lost sw"
  "rw_revoked (staged_transition s p run to failure out sw) = rw_revoked sw"
  "rw_reattached (staged_transition s p run to failure out sw) = rw_reattached sw"
  "rw_drifted (staged_transition s p run to failure out sw) = rw_drifted sw"
  by (simp_all add: staged_transition_def split: option.split)

lemma gated_row_moves:
  "moves_of i (rw_events (gated_row boot s p run reason aid t d sw)) =
     moves_of i (rw_events sw) @ (if run = i then staged_moves s i run_state.WaitingApproval else [])"
  "finished_of i (rw_events (gated_row boot s p run reason aid t d sw)) =
     finished_of i (rw_events sw) @ (if run = i then [True] else [])"
  by (simp_all add: gated_row_def Let_def staged_transition_moves)

lemma gated_row_sets [simp]:
  "rw_lost (gated_row boot s p run reason aid t d sw) = rw_lost sw"
  "rw_revoked (gated_row boot s p run reason aid t d sw) = rw_revoked sw"
  "rw_reattached (gated_row boot s p run reason aid t d sw) = rw_reattached sw"
  "rw_drifted (gated_row boot s p run reason aid t d sw) = rw_drifted sw"
  by (simp_all add: gated_row_def Let_def)

text \<open>What a row does to the plan of one run: nothing, or its events once.\<close>

definition adds_for :: "ident \<Rightarrow> recovery_sweep \<Rightarrow> recovery_sweep \<Rightarrow> run_state list \<Rightarrow> bool list \<Rightarrow> bool"
  where
  "adds_for i sw sw' ms fs \<longleftrightarrow>
     moves_of i (rw_events sw') = moves_of i (rw_events sw) @ ms \<and>
     finished_of i (rw_events sw') = finished_of i (rw_events sw) @ fs"

lemma fold_row_keeps: "(\<And>x sw. g (f x sw) = g sw) \<Longrightarrow> g (fold f rows sw) = g sw"
  by (induction rows arbitrary: sw) simp_all

text \<open>Rows of which only the first of a run counts, and none when the run is to be skipped.\<close>

lemma fold_rows:
  assumes "\<And>x sw. adds_for i sw (f x sw)
      (if fst x = i \<and> i \<notin> set (seen sw) \<and> i \<notin> skip sw then ms else [])
      (if fst x = i \<and> i \<notin> set (seen sw) \<and> i \<notin> skip sw then fs else [])"
    and "\<And>x sw. set (seen (f x sw)) = insert (fst x) (set (seen sw))"
    and "\<And>x sw. skip (f x sw) = skip sw"
  shows "adds_for i sw (fold f rows sw)
      (if i \<in> fst ` set rows - set (seen sw) - skip sw then ms else [])
      (if i \<in> fst ` set rows - set (seen sw) - skip sw then fs else [])"
    and "set (seen (fold f rows sw)) = set (seen sw) \<union> fst ` set rows"
proof (induction rows arbitrary: sw)
  case Nil
  case 1 show ?case by (simp add: adds_for_def)
  case 2 show ?case by simp
next
  case (Cons x rows)
  case 1
  show ?case
    using Cons.IH(1) [of "f x sw"] assms(1) [of sw x] assms(2,3) [of x sw]
    by (cases "fst x = i") (auto simp: adds_for_def)
  case 2
  show ?case using Cons.IH(2) [of "f x sw"] assms(2) [of x sw] by simp
qed

lemma lost_row_one:
  "adds_for i sw (lost_row boot s x sw)
     (if fst x = i \<and> i \<notin> set (rw_lost sw) \<and> i \<notin> {} then staged_moves s i run_state.Failed else [])
     (if fst x = i \<and> i \<notin> set (rw_lost sw) \<and> i \<notin> {} then [False] else [])"
  "set (rw_lost (lost_row boot s x sw)) = insert (fst x) (set (rw_lost sw))"
  "rw_revoked (lost_row boot s x sw) = rw_revoked sw"
  "rw_drifted (lost_row boot s x sw) = rw_drifted sw"
  by (cases x; auto simp: adds_for_def lost_row_def Let_def staged_transition_moves)+

lemma revoked_row_one:
  "adds_for i sw (revoked_row boot s x sw)
     (if fst x = i \<and> i \<notin> set (rw_revoked sw) \<and> i \<notin> set (rw_lost sw)
      then staged_moves s i run_state.WaitingApproval else [])
     (if fst x = i \<and> i \<notin> set (rw_revoked sw) \<and> i \<notin> set (rw_lost sw) then [True] else [])"
  "set (rw_revoked (revoked_row boot s x sw)) = insert (fst x) (set (rw_revoked sw))"
  "rw_lost (revoked_row boot s x sw) = rw_lost sw"
  "rw_drifted (revoked_row boot s x sw) = rw_drifted sw"
  by (cases x; auto simp: adds_for_def revoked_row_def Let_def gated_row_moves)+

lemma reattached_row_one:
  "adds_for i sw (reattached_row boot x sw) [] []"
  "rw_lost (reattached_row boot x sw) = rw_lost sw"
  "rw_revoked (reattached_row boot x sw) = rw_revoked sw"
  "rw_drifted (reattached_row boot x sw) = rw_drifted sw"
  by (cases x; auto simp: adds_for_def reattached_row_def Let_def)+

lemma drifted_row_one:
  "adds_for i sw (drifted_row boot s x sw)
     (if fst x = i \<and> i \<notin> set (rw_drifted sw) \<and> i \<notin> set (rw_lost sw) \<union> set (rw_revoked sw)
      then staged_moves s i run_state.WaitingApproval else [])
     (if fst x = i \<and> i \<notin> set (rw_drifted sw) \<and> i \<notin> set (rw_lost sw) \<union> set (rw_revoked sw)
      then [True] else [])"
  "set (rw_drifted (drifted_row boot s x sw)) = insert (fst x) (set (rw_drifted sw))"
  "rw_lost (drifted_row boot s x sw) = rw_lost sw"
  "rw_revoked (drifted_row boot s x sw) = rw_revoked sw"
  by (cases x; auto simp: adds_for_def drifted_row_def Let_def gated_row_moves)+

lemma reattached_rows: "adds_for i sw (fold (reattached_row boot) rows sw) [] []"
proof (induction rows arbitrary: sw)
  case (Cons x rows)
  then show ?case using reattached_row_one(1) [of i sw boot x] by (simp add: adds_for_def)
qed (simp add: adds_for_def)

definition lost_in :: "sandbox_report \<Rightarrow> ident \<Rightarrow> bool" where
  "lost_in sr i \<longleftrightarrow> i \<in> fst ` set (sr_lost sr)"

definition gated_in :: "sandbox_report \<Rightarrow> ident \<Rightarrow> bool" where
  "gated_in sr i \<longleftrightarrow> i \<in> fst ` set (sr_revoked sr) \<union> fst ` set (sr_drifted sr)"

lemma sweep_rows_moves:
  "moves_of i (rw_events (sweep_rows boot s sr)) =
     (if lost_in sr i then staged_moves s i run_state.Failed
      else if gated_in sr i then staged_moves s i run_state.WaitingApproval else [])" (is ?moves)
  "finished_of i (rw_events (sweep_rows boot s sr)) =
     (if lost_in sr i then [False] else if gated_in sr i then [True] else [])" (is ?finished)
  "i \<in> set (handled_runs (sweep_rows boot s sr)) \<longleftrightarrow> lost_in sr i \<or> gated_in sr i" (is ?handled)
proof -
  let ?a = "fold (lost_row boot s) (sr_lost sr) (sweep_start boot)"
  let ?b = "fold (revoked_row boot s) (sr_revoked sr) ?a"
  let ?c = "fold (reattached_row boot) (sr_reattached sr) ?b"
  let ?d = "fold (drifted_row boot s) (sr_drifted sr) ?c"
  note a = fold_rows [where f = "lost_row boot s" and seen = rw_lost and skip = "\<lambda>_. {}" and i = i
      and rows = "sr_lost sr" and sw = "sweep_start boot", OF lost_row_one(1,2) refl]
  note b = fold_rows [where f = "revoked_row boot s" and seen = rw_revoked
      and skip = "\<lambda>sw. set (rw_lost sw)" and i = i and rows = "sr_revoked sr" and sw = ?a,
      OF revoked_row_one(1,2) arg_cong [where f = set, OF revoked_row_one(3)]]
  note c = reattached_rows [of i ?b boot "sr_reattached sr"]
  note d = fold_rows [where f = "drifted_row boot s" and seen = rw_drifted
      and skip = "\<lambda>sw. set (rw_lost sw) \<union> set (rw_revoked sw)" and i = i and rows = "sr_drifted sr"
      and sw = ?c, OF drifted_row_one(1,2)]
  have lost: "set (rw_lost ?a) = fst ` set (sr_lost sr)"
    using a(2) by (simp add: sweep_start_def)
  have revoked: "rw_revoked ?a = []"
    by (subst fold_row_keeps [where g = rw_revoked]) (simp_all add: lost_row_one sweep_start_def)
  have lost_b: "rw_lost ?b = rw_lost ?a" and lost_c: "rw_lost ?c = rw_lost ?b"
    and lost_d: "rw_lost ?d = rw_lost ?c"
    by (rule fold_row_keeps [where g = rw_lost]; simp add: revoked_row_one reattached_row_one drifted_row_one)+
  have revoked_c: "rw_revoked ?c = rw_revoked ?b" and revoked_d: "rw_revoked ?d = rw_revoked ?c"
    by (rule fold_row_keeps [where g = rw_revoked]; simp add: reattached_row_one drifted_row_one)+
  have drifted: "rw_drifted ?c = []"
  proof -
    have "rw_drifted ?c = rw_drifted ?b"
      by (rule fold_row_keeps [where g = rw_drifted]) (simp add: reattached_row_one)
    also have "\<dots> = rw_drifted ?a"
      by (rule fold_row_keeps [where g = rw_drifted]) (simp add: revoked_row_one)
    also have "\<dots> = rw_drifted (sweep_start boot)"
      by (rule fold_row_keeps [where g = rw_drifted]) (simp add: lost_row_one)
    finally show ?thesis by (simp add: sweep_start_def)
  qed
  have revoked_set: "set (rw_revoked ?b) = fst ` set (sr_revoked sr)"
    using b(2) revoked by simp
  have start: "rw_events (sweep_start boot) = []" "rw_lost (sweep_start boot) = []"
    by (simp_all add: sweep_start_def)
  have d': "adds_for i ?c ?d
      (if gated_in sr i \<and> i \<notin> fst ` set (sr_revoked sr) \<and> \<not> lost_in sr i
       then staged_moves s i run_state.WaitingApproval else [])
      (if gated_in sr i \<and> i \<notin> fst ` set (sr_revoked sr) \<and> \<not> lost_in sr i then [True] else [])"
    "set (rw_drifted ?d) = fst ` set (sr_drifted sr)"
    using d(1,2) drifted by (auto simp: drifted_row_one lost_b lost_c revoked_c lost revoked_set
        gated_in_def lost_in_def split: if_splits)
  have b': "adds_for i ?a ?b
      (if i \<in> fst ` set (sr_revoked sr) \<and> \<not> lost_in sr i
       then staged_moves s i run_state.WaitingApproval else [])
      (if i \<in> fst ` set (sr_revoked sr) \<and> \<not> lost_in sr i then [True] else [])"
    using b(1) by (simp add: revoked lost lost_in_def)
  have a': "adds_for i (sweep_start boot) ?a
      (if lost_in sr i then staged_moves s i run_state.Failed else [])
      (if lost_in sr i then [False] else [])"
    using a(1) by (simp add: start lost_in_def)
  show ?moves ?finished
    using a' b' c d'(1) by (auto simp: sweep_rows_def adds_for_def start gated_in_def)
  show ?handled
    by (simp add: sweep_rows_def handled_runs_def lost_d lost_c lost_b lost revoked_d revoked_c
        revoked_set d'(2) lost_in_def gated_in_def)
qed

section \<open>The plan of a scanned run\<close>

definition fetched_right :: "'j store \<Rightarrow> approval_cache \<Rightarrow> bool" where
  "fetched_right s fetched \<longleftrightarrow> (\<forall>p rows. hget fetched p = Some rows \<longrightarrow> rows = fetch_all_approvals s p)"

lemma approvals_of_right:
  assumes "fetched_right s fetched" and "approvals_of s p fetched = (rows, fetched')"
  shows "rows = fetch_all_approvals s p \<and> fetched_right s fetched'"
  using assms by (auto simp: approvals_of_def fetched_right_def hmap_simps Let_def split: option.splits if_splits)

text \<open>Where the sweep takes a run that no row handled.\<close>

definition scan_target :: "'j store \<Rightarrow> u64 \<Rightarrow> run_record \<Rightarrow> run_state" where
  "scan_target s now r =
     (case run_state r of
        run_state.Running \<Rightarrow> if wedged s now r then run_state.Failed else run_state.Running
      | run_state.WaitingApproval \<Rightarrow>
          if has_pending_for_run (run_run_id r) s then run_state.WaitingApproval
          else (case latest_resolved (fetch_all_approvals s (run_project r)) (run_run_id r) of
                  None \<Rightarrow> run_state.WaitingApproval
                | Some a \<Rightarrow>
                    if appr_decision a = Some approval_decision.Approved then run_state.Running
                    else run_state.Failed)
      | st \<Rightarrow> st)"

definition scan_moves :: "'j store \<Rightarrow> u64 \<Rightarrow> run_record \<Rightarrow> run_state list" where
  "scan_moves s now r = (if scan_target s now r = run_state r then [] else [scan_target s now r])"

lemma max_by_key_in: "max_by_key f xs = Some y \<Longrightarrow> y \<in> set xs"
  by (induction xs arbitrary: y) (auto split: option.splits if_splits)

lemma latest_resolved_some:
  "latest_resolved rows run = Some a \<Longrightarrow>
     a \<in> set rows \<and> appr_run_id a = Some run \<and> appr_decision a \<noteq> None"
  unfolding latest_resolved_def by (drule max_by_key_in) simp

definition swept_state :: "run_state \<Rightarrow> bool" where
  "swept_state st \<longleftrightarrow>
     st \<in> {run_state.Running, run_state.WaitingApproval, run_state.Paused, run_state.WaitingDependency}"

lemma plan_unchanged_events:
  "plan_unchanged r boot reason = (es, out) \<Longrightarrow>
     moves_of i es = [] \<and> finished_of i es = (if run_run_id r = i then [True] else [])"
  by (auto simp: plan_unchanged_def)

lemma plan_running_events:
  assumes "plan_running s now r boot = (es, out)" and "run_state r = run_state.Running"
  shows "moves_of i es = (if run_run_id r = i then scan_moves s now r else []) \<and>
    finished_of i es = (if run_run_id r = i then [\<not> wedged s now r] else [])"
proof (cases "wedged s now r")
  case True
  have "can_transition_run_state run_state.Running run_state.Failed"
    by (simp add: can_transition_run_state_def)
  with True assms show ?thesis
    by (auto simp: plan_running_def scan_moves_def scan_target_def)
next
  case False
  with assms plan_unchanged_events show ?thesis
    by (fastforce simp: plan_running_def scan_moves_def scan_target_def)
qed

lemma waiting_moves: "can_transition_run_state run_state.WaitingApproval (fst (resolved_target d))"
  by (cases d) (simp_all add: can_transition_run_state_def)

lemma advance_plan_events:
  assumes "advance_plan r boot found = (es, out)" and "run_state r = run_state.WaitingApproval"
  shows "moves_of i es =
      (if run_run_id r = i
       then (case Option.bind found appr_decision of None \<Rightarrow> [] | Some d \<Rightarrow> [fst (resolved_target d)])
       else []) \<and>
    finished_of i es = (if run_run_id r = i then [True] else [])"
  using assms waiting_moves
  by (auto simp: advance_plan_def Let_def case_prod_beta split: option.splits)

lemma plan_waiting_events:
  assumes "plan_waiting_approval s r boot fetched = ((es, out), fetched')"
    and "run_state r = run_state.WaitingApproval" and "fetched_right s fetched"
  shows "moves_of i es = (if run_run_id r = i then scan_moves s now r else []) \<and>
    finished_of i es = (if run_run_id r = i then [True] else []) \<and> fetched_right s fetched'"
proof (cases "has_pending_for_run (run_run_id r) s")
  case True
  with assms plan_unchanged_events show ?thesis
    by (fastforce simp: plan_waiting_approval_def scan_moves_def scan_target_def)
next
  case False
  obtain rows f where rows: "approvals_of s (run_project r) fetched = (rows, f)" by fastforce
  note right = approvals_of_right [OF assms(3) rows]
  let ?found = "latest_resolved rows (run_run_id r)"
  have plan: "advance_plan r boot ?found = (es, out)" and f: "fetched' = f"
    using assms(1) False by (simp_all add: plan_waiting_approval_def rows)
  have "(case Option.bind ?found appr_decision of None \<Rightarrow> [] | Some d \<Rightarrow> [fst (resolved_target d)]) =
      scan_moves s now r"
  proof (cases ?found)
    case None
    then show ?thesis
      using False right assms(2) by (simp add: scan_moves_def scan_target_def)
  next
    case (Some a)
    then obtain d where "appr_decision a = Some d" using latest_resolved_some by blast
    with Some show ?thesis
      using False right assms(2) by (cases d) (simp_all add: scan_moves_def scan_target_def)
  qed
  with advance_plan_events [OF plan assms(2), of i] right f show ?thesis
    by (cases "run_run_id r = i") simp_all
qed

definition recovered_ok :: "'j store \<Rightarrow> u64 \<Rightarrow> run_record \<Rightarrow> bool" where
  "recovered_ok s now r \<longleftrightarrow> run_state r \<noteq> run_state.Running \<or> \<not> wedged s now r"

lemma plan_for_run_events:
  assumes "plan_for_run s now boot r fetched = ((es, out), fetched')"
    and "swept_state (run_state r)" and "fetched_right s fetched"
  shows "moves_of i es = (if run_run_id r = i then scan_moves s now r else []) \<and>
    finished_of i es = (if run_run_id r = i then [recovered_ok s now r] else []) \<and>
    fetched_right s fetched'"
proof -
  have still: "moves_of i es = (if run_run_id r = i then scan_moves s now r else []) \<and>
      finished_of i es = (if run_run_id r = i then [recovered_ok s now r] else []) \<and>
      fetched_right s fetched'"
    if "plan_unchanged r boot reason = (es, out)" "fetched' = fetched"
      "run_state r = run_state.Paused \<or> run_state r = run_state.WaitingDependency" for reason
    using plan_unchanged_events [OF that(1)] that(2,3) assms(3)
    by (auto simp: scan_moves_def scan_target_def recovered_ok_def)
  from assms(2) consider "run_state r = run_state.Running" | "run_state r = run_state.WaitingApproval"
    | "run_state r = run_state.Paused" | "run_state r = run_state.WaitingDependency"
    by (auto simp: swept_state_def)
  then show ?thesis
  proof cases
    case 1
    with assms show ?thesis
      using plan_running_events [of s now r boot es out i]
      by (auto simp: plan_for_run_def recovered_ok_def)
  next
    case 2
    with assms show ?thesis
      using plan_waiting_events [of s r boot fetched es out fetched' i now]
      by (simp add: plan_for_run_def recovered_ok_def)
  qed (use assms still in \<open>auto simp: plan_for_run_def\<close>)
qed

lemma plan_runs_events:
  assumes "distinct (map run_run_id rs)" and "\<And>r. r \<in> set rs \<Longrightarrow> swept_state (run_state r)"
    and "fetched_right s fetched"
  shows "moves_of i (rw_events (plan_runs s now boot rs fetched sw)) = moves_of i (rw_events sw) @
      (case find (\<lambda>r. run_run_id r = i) rs of None \<Rightarrow> [] | Some r \<Rightarrow> scan_moves s now r) \<and>
    finished_of i (rw_events (plan_runs s now boot rs fetched sw)) = finished_of i (rw_events sw) @
      (case find (\<lambda>r. run_run_id r = i) rs of None \<Rightarrow> [] | Some r \<Rightarrow> [recovered_ok s now r])"
  using assms
proof (induction rs arbitrary: fetched sw)
  case (Cons r rs)
  obtain es out f where plan: "plan_for_run s now boot r fetched = ((es, out), f)"
    by (metis surj_pair)
  note events = plan_for_run_events [OF plan Cons.prems(2) Cons.prems(3), of i]
  have none: "find (\<lambda>r. run_run_id r = i) rs = None" if "run_run_id r = i"
    using Cons.prems(1) that by (auto simp: find_None_iff) (metis image_eqI)
  show ?case
    using Cons.IH [of f "note_outcome out (plan_events es sw)"] Cons.prems(1,2) events none
    by (auto simp: plan)
qed simp

section \<open>The scanned runs\<close>

definition scan_complete :: "'j store \<Rightarrow> bool" where
  "scan_complete s \<longleftrightarrow>
     (\<forall>st. length (filter (\<lambda>r. run_state r = st) (hvals (s_runs s))) \<le> recovery_scan_limit)"

lemma keyed_distinct: "keyed f m \<Longrightarrow> distinct (map f (hvals m))"
proof -
  assume k: "keyed f m"
  then have "map f (hvals m) = map fst m"
    by (auto simp: hvals_def keyed_def set_hget)
  with k show ?thesis by (simp add: keyed_def hwf_def)
qed

lemma keyed_hvals: "keyed f m \<Longrightarrow> v \<in> set (hvals m) \<longleftrightarrow> hget m (f v) = Some v"
  by (auto simp: keyed_def set_hvals)

lemma scanned_swept: "r \<in> set (scanned_runs s) \<Longrightarrow> swept_state (run_state r)"
  by (auto simp: scanned_runs_def runs_by_state_def swept_state_def dest!: in_set_takeD)

lemma scanned_member:
  assumes "store_reachable s" and "scan_complete s"
  shows "r \<in> set (scanned_runs s) \<longleftrightarrow>
    run_get (run_run_id r) s = Some r \<and> swept_state (run_state r)"
proof -
  have k: "keyed run_run_id (s_runs s)"
    using reachable_keyed [OF assms(1)] by (simp add: rows_keyed_def)
  have "set (runs_by_state st recovery_scan_limit s) = {r \<in> set (hvals (s_runs s)). run_state r = st}"
    for st
    using assms(2) by (auto simp: runs_by_state_def scan_complete_def)
  then show ?thesis
    using keyed_hvals [OF k, of r] by (auto simp: scanned_runs_def run_get_def swept_state_def)
qed

lemma scanned_distinct:
  assumes "store_reachable s"
  shows "distinct (map run_run_id (scanned_runs s))"
proof -
  have k: "keyed run_run_id (s_runs s)"
    using reachable_keyed [OF assms] by (simp add: rows_keyed_def)
  have one: "distinct (map run_run_id (runs_by_state st n s))" for st n
  proof -
    have "distinct (map run_run_id (filter (\<lambda>r. run_state r = st) (hvals (s_runs s))))"
      by (rule distinct_map_filter [OF keyed_distinct [OF k]])
    then have "distinct (map run_run_id
        (sort_key run_created_at (filter (\<lambda>r. run_state r = st) (hvals (s_runs s)))))"
      by (simp add: distinct_map)
    then show ?thesis by (simp only: runs_by_state_def take_map [symmetric] distinct_take)
  qed
  have mem: "r \<in> set (hvals (s_runs s)) \<and> run_state r = st" if "r \<in> set (runs_by_state st n s)" for r st n
    using that by (auto simp: runs_by_state_def dest!: in_set_takeD)
  have "run_run_id r \<noteq> run_run_id q"
    if "r \<in> set (runs_by_state st n s)" "q \<in> set (runs_by_state st' n' s)" "st \<noteq> st'" for r q st st' n n'
    using mem [OF that(1)] mem [OF that(2)] that(3) keyed_inj [OF k] by (auto dest: inj_onD)
  then show ?thesis
    using one by (auto simp: scanned_runs_def)
qed

section \<open>The plan of the sweep and its effect\<close>

text \<open>The state recovery takes a stored run to.\<close>

definition recovered_state :: "'j store \<Rightarrow> u64 \<Rightarrow> sandbox_report \<Rightarrow> run_record \<Rightarrow> run_state" where
  "recovered_state s now sr r =
     (if lost_in sr (run_run_id r) then
        if may_move (run_state r) run_state.Failed then run_state.Failed else run_state r
      else if gated_in sr (run_run_id r) then
        if may_move (run_state r) run_state.WaitingApproval then run_state.WaitingApproval
        else run_state r
      else if swept_state (run_state r) then scan_target s now r
      else run_state r)"

lemma may_move_neq: "may_move st to \<Longrightarrow> to \<noteq> st"
  by (cases st; cases to) (simp_all add: may_move_def run_tables)

lemma plan_sweep_events:
  assumes "store_reachable s" and "scan_complete s"
  shows "moves_of i (rw_events (plan_sweep boot s now sr)) =
      (case run_get i s of
         None \<Rightarrow> []
       | Some r \<Rightarrow> if recovered_state s now sr r = run_state r then [] else [recovered_state s now sr r])"
    and "finished_of i (rw_events (plan_sweep boot s now sr)) =
      (if lost_in sr i then [False] else if gated_in sr i then [True]
       else (case run_get i s of
               None \<Rightarrow> []
             | Some r \<Rightarrow> if swept_state (run_state r) then [recovered_ok s now r] else []))"
proof -
  let ?sw = "sweep_rows boot s sr"
  let ?rs = "filter (\<lambda>r. run_run_id r \<notin> set (handled_runs ?sw)) (scanned_runs s)"
  note rows = sweep_rows_moves [of i boot s sr]
  have id: "run_run_id r = i" if "run_get i s = Some r" for r
    using reachable_keyed [OF assms(1)] that by (auto simp: rows_keyed_def keyed_def run_get_def)
  have dist: "distinct (map run_run_id ?rs)"
    using scanned_distinct [OF assms(1)] by (rule distinct_map_filter)
  have mem: "r \<in> set ?rs \<longleftrightarrow> run_get (run_run_id r) s = Some r \<and> swept_state (run_state r) \<and>
      \<not> lost_in sr (run_run_id r) \<and> \<not> gated_in sr (run_run_id r)" for r
    using scanned_member [OF assms] sweep_rows_moves(3) [of "run_run_id r" boot s sr] by auto
  have found: "find (\<lambda>r. run_run_id r = i) ?rs =
      (case run_get i s of
         None \<Rightarrow> None
       | Some r \<Rightarrow> if swept_state (run_state r) \<and> \<not> lost_in sr i \<and> \<not> gated_in sr i then Some r else None)"
    (is "_ = ?found")
  proof (cases ?found)
    case None
    then have "\<forall>r \<in> set ?rs. run_run_id r \<noteq> i"
      using mem by (fastforce split: option.splits if_splits)
    with None show ?thesis by (auto simp: find_None_iff)
  next
    case (Some r)
    then have r: "r \<in> set ?rs" "run_run_id r = i"
      using mem id by (auto split: option.splits if_splits)
    then have "find (\<lambda>r. run_run_id r = i) ?rs \<noteq> None" by (auto simp: find_None_iff)
    then obtain q where q: "find (\<lambda>r. run_run_id r = i) ?rs = Some q" by blast
    then have "q \<in> set ?rs" "run_run_id q = i"
      unfolding find_Some_iff using nth_mem by blast+
    with r dist have "q = r" by (auto simp: distinct_map inj_on_def)
    with q Some show ?thesis by simp
  qed
  have right: "fetched_right s []" by (simp add: fetched_right_def)
  have swept: "r \<in> set ?rs \<Longrightarrow> swept_state (run_state r)" for r
    using scanned_swept by auto
  define sw where "sw = ?sw\<lparr>rw_summary := (rw_summary ?sw)\<lparr>rr_scanned_runs :=
    sat_add32 (sat_add32 (sat_add32 (as_u32 (length ?rs)) (as_u32 (length (rw_lost ?sw))))
      (as_u32 (length (rw_revoked ?sw)))) (as_u32 (length (rw_drifted ?sw)))\<rparr>\<rparr>"
  have plan: "plan_sweep boot s now sr = plan_runs s now boot ?rs [] sw"
    by (simp add: plan_sweep_def sw_def Let_def)
  have events: "rw_events sw = rw_events ?sw" by (simp add: sw_def)
  note runs = plan_runs_events [OF dist swept right, of i now boot sw]
  show "moves_of i (rw_events (plan_sweep boot s now sr)) =
      (case run_get i s of
         None \<Rightarrow> []
       | Some r \<Rightarrow> if recovered_state s now sr r = run_state r then [] else [recovered_state s now sr r])"
    using runs rows(1) id
    by (auto simp: plan events found recovered_state_def staged_moves_def scan_moves_def
        dest: may_move_neq split: option.split)
  show "finished_of i (rw_events (plan_sweep boot s now sr)) =
      (if lost_in sr i then [False] else if gated_in sr i then [True]
       else (case run_get i s of
               None \<Rightarrow> []
             | Some r \<Rightarrow> if swept_state (run_state r) then [recovered_ok s now r] else []))"
    using runs rows(2) by (auto simp: plan events found split: option.split)
qed

lemma recovery_payload_runs:
  "fold (run_event i) (map recovery_payload es) x = map_option (\<lambda>st. last (st # moves_of i es)) x"
proof (induction es arbitrary: x)
  case (Cons e es)
  then show ?case by (cases e; cases x) auto
qed (simp add: option.map_ident)

lemma recovery_payload_finishing [simp]: "finishing (recovery_payload e) = None"
  by (cases e) simp_all

lemma recovery_finishing: "list_all (\<lambda>p. finishing p = None) (map recovery_payload es)"
  by (simp add: list_all_iff)

lemma append_plan_runs:
  "map_option run_state (run_get i (w_store (snd (append_plan env es w)))) =
     map_option (\<lambda>st. last (st # moves_of i es)) (map_option run_state (run_get i (w_store w)))"
proof (cases "es = []")
  case True
  then show ?thesis by (simp add: append_plan_def option.map_ident)
next
  case False
  obtain envs c where "map ev_payload envs = map recovery_payload es"
    and "append_batch env (map recovery_payload es) w = (batch_reply env,
      w\<lparr>w_store := fold (turn (be_append_at env)) envs (w_store w), w_counter := c\<rparr>)"
    by (rule append_batch_applied [OF recovery_finishing])
  with False show ?thesis
    by (simp add: append_plan_def fold_turn_runs recovery_payload_runs)
qed

lemma emit_summary_runs:
  "map_option run_state (run_get i (w_store (snd (emit env recovery_summary_payload w)))) =
     map_option run_state (run_get i (w_store w))"
  by (simp add: emit_def append_events_state append_loop_Cons append_loop.simps turn_states
      recovery_summary_payload_def case_prod_beta Let_def split: append_result.split)

lemma recover_runs_states:
  "map_option run_state (run_get i (w_store (snd (recover_runs env boot sr w)))) =
     map_option (\<lambda>st. last (st # moves_of i (rw_events (plan_sweep boot (w_store w) (re_now env) sr))))
       (map_option run_state (run_get i (w_store w)))"
proof -
  let ?sw = "plan_sweep boot (w_store w) (re_now env) sr"
  obtain r w1 where a: "append_plan (re_plan env) (rw_events ?sw) w = (r, w1)" by fastforce
  obtain q w2 where e: "emit (re_summary env) recovery_summary_payload w1 = (q, w2)" by fastforce
  have "snd (recover_runs env boot sr w) = (case r of Done _ \<Rightarrow> w2 | _ \<Rightarrow> w1)"
    by (cases r; cases q) (simp_all add: recover_runs_def a e and_then_def)
  then show ?thesis
    using append_plan_runs [of i "re_plan env" "rw_events ?sw" w] emit_summary_runs [of i "re_summary env" w1]
    by (cases r) (simp_all add: a e)
qed

end
