(* ===== verification/Run_Recovery_Correctness.thy ===== *)
theory Run_Recovery_Correctness
  imports Run_Recovery_Laws
begin

text \<open>
  What recovery promises: every stored run is taken where the matrix takes it, by steps of the run
  machine, and is closed once; a resolution that was cut off after its first event is finished
  the way the approval service would have finished it.
\<close>

section \<open>Every transition is a step of the run machine\<close>

fun allowed_in :: "'j store \<Rightarrow> recovery_event \<Rightarrow> bool" where
  "allowed_in s (RecoveryTransition e) \<longleftrightarrow>
     (case run_get (rsc_run_id e) s of
        None \<Rightarrow> False
      | Some r \<Rightarrow> st_from (rsc_transition e) = Some (run_state r) \<and> \<not> run_is_terminal (run_state r) \<and>
          can_transition_run_state (run_state r) (st_to (rsc_transition e)))"
| "allowed_in s _ \<longleftrightarrow> True"

lemma allowed_transition [simp]:
  "allowed_in s (transition_event p run from to failure resume) \<longleftrightarrow>
     (\<exists>r. run_get run s = Some r \<and> from = run_state r \<and> \<not> run_is_terminal (run_state r) \<and>
        can_transition_run_state (run_state r) to)"
  by (auto simp: transition_event_def transition_payload_def split: option.split)

definition allowed_plan :: "'j store \<Rightarrow> recovery_sweep \<Rightarrow> bool" where
  "allowed_plan s sw \<longleftrightarrow> list_all (allowed_in s) (rw_events sw)"

lemma allowed_staged:
  "allowed_plan s sw \<Longrightarrow> allowed_plan s (staged_transition s p run to failure out sw)"
  by (auto simp: allowed_plan_def staged_transition_def split: option.split)

lemma allowed_plan_events:
  "allowed_plan s (plan_events es sw) \<longleftrightarrow> allowed_plan s sw \<and> list_all (allowed_in s) es"
  by (simp add: allowed_plan_def)

lemma allowed_fields:
  "rw_events sw' = rw_events sw \<Longrightarrow> allowed_plan s sw' \<longleftrightarrow> allowed_plan s sw"
  by (simp add: allowed_plan_def)

lemma allowed_updates [simp]:
  "allowed_plan s (sw\<lparr>rw_lost := l\<rparr>) \<longleftrightarrow> allowed_plan s sw"
  "allowed_plan s (sw\<lparr>rw_revoked := l\<rparr>) \<longleftrightarrow> allowed_plan s sw"
  "allowed_plan s (sw\<lparr>rw_reattached := l\<rparr>) \<longleftrightarrow> allowed_plan s sw"
  "allowed_plan s (sw\<lparr>rw_drifted := l\<rparr>) \<longleftrightarrow> allowed_plan s sw"
  "allowed_plan s (sw\<lparr>rw_summary := m\<rparr>) \<longleftrightarrow> allowed_plan s sw"
  "allowed_plan s (note_outcome out sw) \<longleftrightarrow> allowed_plan s sw"
  by (simp_all add: allowed_plan_def)

lemma allowed_gated:
  "allowed_plan s sw \<Longrightarrow> allowed_plan s (gated_row boot s p run reason i title description sw)"
  by (simp add: gated_row_def Let_def allowed_plan_events allowed_staged)

lemma allowed_rows:
  "allowed_plan s sw \<Longrightarrow> allowed_plan s (lost_row boot s x sw)"
  "allowed_plan s sw \<Longrightarrow> allowed_plan s (revoked_row boot s y sw)"
  "allowed_plan s sw \<Longrightarrow> allowed_plan s (reattached_row boot x sw)"
  "allowed_plan s sw \<Longrightarrow> allowed_plan s (drifted_row boot s y sw)"
  by (auto simp: lost_row_def revoked_row_def reattached_row_def drifted_row_def Let_def
      allowed_plan_events allowed_staged allowed_gated split: prod.split)

lemma allowed_fold:
  "(\<And>x sw. allowed_plan s sw \<Longrightarrow> allowed_plan s (f x sw)) \<Longrightarrow> allowed_plan s sw \<Longrightarrow>
     allowed_plan s (fold f rows sw)"
  by (induction rows arbitrary: sw) simp_all

lemma allowed_sweep_rows: "allowed_plan s (sweep_rows boot s sr)"
  unfolding sweep_rows_def
  by (intro allowed_fold allowed_rows) (simp_all add: allowed_plan_def sweep_start_def)

lemma allowed_plan_for_run:
  assumes "plan_for_run s now boot r fetched = ((es, out), fetched')"
    and "run_get (run_run_id r) s = Some r" and "swept_state (run_state r)"
  shows "list_all (allowed_in s) es"
proof -
  have "\<not> run_is_terminal (run_state r)"
    using assms(3) by (auto simp: swept_state_def run_is_terminal_def)
  with assms(1,2) show ?thesis
    by (auto simp: plan_for_run_def plan_running_def plan_unchanged_def plan_waiting_approval_def
        advance_plan_def Let_def case_prod_beta split: run_state.splits if_splits option.splits)
qed

lemma allowed_plan_runs:
  assumes "\<And>r. r \<in> set rs \<Longrightarrow> run_get (run_run_id r) s = Some r \<and> swept_state (run_state r)"
    and "allowed_plan s sw"
  shows "allowed_plan s (plan_runs s now boot rs fetched sw)"
  using assms
proof (induction rs arbitrary: fetched sw)
  case (Cons r rs)
  obtain es out f where plan: "plan_for_run s now boot r fetched = ((es, out), f)"
    by (metis surj_pair)
  have "list_all (allowed_in s) es"
    using allowed_plan_for_run [OF plan] Cons.prems(1) [of r] by simp
  then show ?case
    using Cons.IH [of "note_outcome out (plan_events es sw)" f] Cons.prems
    by (simp add: plan allowed_plan_events)
qed simp

lemma scanned_stored:
  "store_reachable s \<Longrightarrow> r \<in> set (scanned_runs s) \<Longrightarrow> run_get (run_run_id r) s = Some r"
  using keyed_get [of run_run_id "s_runs s" r] reachable_keyed [of s]
  by (auto simp: scanned_runs_def runs_by_state_def rows_keyed_def run_get_def dest!: in_set_takeD)

text \<open>
  Whatever the sandbox sweep reported and however many runs the scan misses, each transition
  planned starts from the stored state of its run, which is not terminal, and is a step of the run
  machine.
\<close>

lemma recovery_steps_allowed:
  assumes "store_reachable s"
  shows "list_all (allowed_in s) (rw_events (plan_sweep boot s now sr))"
proof -
  have "allowed_plan s (plan_sweep boot s now sr)"
    unfolding plan_sweep_def Let_def
    by (rule allowed_plan_runs)
      (auto simp: allowed_sweep_rows intro: scanned_stored [OF assms] scanned_swept)
  then show ?thesis by (simp add: allowed_plan_def)
qed

section \<open>The matrix\<close>

lemma approvals_keyed: "store_reachable s \<Longrightarrow> keyed appr_approval_id (s_approvals s)"
proof (rule store_reachable_inv [of s "\<lambda>s. keyed appr_approval_id (s_approvals s)"])
  show "keyed appr_approval_id (s_approvals store_new)" by (simp add: store_new_def)
  show "keyed appr_approval_id (s_approvals s) \<Longrightarrow>
      keyed appr_approval_id (s_approvals (increment_usage_for_project p f s))"
    for p f and s :: "'a store"
    by (simp add: increment_usage_for_project_def)
  show "keyed appr_approval_id (s_approvals (turn now env s))"
    if "keyed appr_approval_id (s_approvals s)" for now env and s :: "'a store"
  proof -
    have step: "keyed appr_approval_id (s_approvals s')"
      if "apply_projection ev s = Some s'" "keyed appr_approval_id (s_approvals s)"
      for ev and s s' :: "'a store"
      using that
      by (cases "ev_payload (se_envelope ev)")
        (auto simp: apply_projection_def arms Let_def intro!: keyed_hput keyed_hmodify
          split: option.splits sum.splits if_splits)
    show ?thesis
      by (rule turn_inv [where I = "\<lambda>s. keyed appr_approval_id (s_approvals s)"])
        (use that step in \<open>auto\<close>)
  qed
qed

text \<open>
  C10: Recovery applies the matrix to every run. After a sweep over a store whose states have at
  most the scan limit of runs each, the stored state of a run is the one the matrix names: failed
  when its sandbox is lost, waiting for approval when its sandbox is gated, failed when it was
  running, wedged and without a checkpoint, resumed or failed by its latest resolved approval when
  none is pending, and otherwise as it was; no run appears or vanishes. It holds also when the
  secondary log refuses the appends.
\<close>

theorem recovery_applies_matrix:
  assumes "store_reachable (w_store w)" and "scan_complete (w_store w)"
  shows "map_option run_state (run_get i (w_store (snd (recover_runs env boot sr w)))) =
    map_option (recovered_state (w_store w) (re_now env) sr) (run_get i (w_store w))"
  using plan_sweep_events(1) [OF assms, of i boot "re_now env" sr]
  by (auto simp: recover_runs_states split: option.splits)

text \<open>
  C20: Recovery closes every run it took up once. In the plan of a sweep over a store whose states
  have at most the scan limit of runs each, a run has one closing mark when the sandbox sweep
  reported it lost, revoked or drifted, however often, or when it is in one of the four scanned
  states, and otherwise none; the mark says not recovered for a lost sandbox and for a wedged
  run. A run is moved at most once, to another state, from its stored state, which is not terminal,
  and by a step of the run machine.
\<close>

theorem recovery_closes_once:
  assumes "store_reachable s" and "scan_complete s"
  shows "finished_of i (rw_events (plan_sweep boot s now sr)) =
      (if lost_in sr i then [False] else if gated_in sr i then [True]
       else (case run_get i s of
               None \<Rightarrow> []
             | Some r \<Rightarrow> if swept_state (run_state r) then [recovered_ok s now r] else [])) \<and>
    moves_of i (rw_events (plan_sweep boot s now sr)) =
      (case run_get i s of
         None \<Rightarrow> []
       | Some r \<Rightarrow> if recovered_state s now sr r = run_state r then [] else [recovered_state s now sr r]) \<and>
    list_all (allowed_in s) (rw_events (plan_sweep boot s now sr))"
  using plan_sweep_events [OF assms, of i boot now sr] recovery_steps_allowed [OF assms(1)] by blast

section \<open>Approvals fetched in pages\<close>

definition project_approvals :: "'j store \<Rightarrow> project_key \<Rightarrow> approval_record list" where
  "project_approvals s p =
     sort_key (\<lambda>r. (appr_created_at r, appr_approval_id r))
       (filter (\<lambda>r. appr_project r = p) (hvals (s_approvals s)))"

lemma fetch_from_eq:
  assumes "length out \<le> approval_scan_limit" and "out = take offset (project_approvals s p)"
    and "offset = length out"
  shows "fetch_from s p out offset = take approval_scan_limit (project_approvals s p)"
  using assms
proof (induction s p out offset rule: fetch_from.induct)
  case (1 s p out offset)
  let ?all = "project_approvals s p"
  show ?case
  proof (cases "approval_scan_limit \<le> length out")
    case True
    then have "offset = approval_scan_limit" using "1.prems"(1,3) by linarith
    with "1.prems"(2) have "out = take approval_scan_limit ?all" by simp
    with True show ?thesis by (subst fetch_from.simps) simp
  next
    case False
    define k where "k = min approval_page_size (approval_scan_limit - length out)"
    define rows where "rows = approvals_all p k offset s"
    have rows: "rows = take k (drop offset ?all)"
      by (simp add: rows_def approvals_all_def page_def project_approvals_def)
    have out': "out @ rows = take (offset + k) ?all"
      using "1.prems"(2) by (simp add: rows take_add)
    have k: "offset + k \<le> approval_scan_limit"
      using False "1.prems"(3) by (simp add: k_def)
    show ?thesis
    proof (cases "length rows < k")
      case True
      then have "length ?all \<le> offset + k" by (simp add: rows)
      then have "out @ rows = take approval_scan_limit ?all"
        using out' k by simp
      then show ?thesis
        using False True by (subst fetch_from.simps) (simp add: k_def [symmetric] rows_def [symmetric] Let_def)
    next
      case False': False
      then have len: "length rows = k" by (simp add: rows min_def split: if_splits)
      have "fetch_from s p (out @ rows) (offset + length rows) = take approval_scan_limit ?all"
      proof (rule "1.IH" [OF False k_def rows_def])
        show "\<not> length rows < k" by (rule False')
        show "length (out @ rows) \<le> approval_scan_limit" using k len "1.prems"(3) by simp
        show "out @ rows = take (offset + length rows) ?all" using out' len by simp
        show "offset + length rows = length (out @ rows)" using "1.prems"(3) by simp
      qed
      then show ?thesis
        using False False' by (subst fetch_from.simps) (simp add: k_def [symmetric] rows_def [symmetric] Let_def)
    qed
  qed
qed

lemma fetch_all_approvals_eq:
  "fetch_all_approvals s p = take approval_scan_limit (project_approvals s p)"
  unfolding fetch_all_approvals_def by (rule fetch_from_eq) simp_all

section \<open>A resolution that was cut off\<close>

lemma max_by_key_none: "max_by_key f xs = None \<longleftrightarrow> xs = []"
  by (cases xs) (auto split: option.split)

lemma max_by_key_max: "max_by_key f xs = Some y \<Longrightarrow> x \<in> set xs \<Longrightarrow> f x \<le> f y"
proof (induction xs arbitrary: y)
  case (Cons z zs)
  show ?case
  proof (cases "max_by_key f zs")
    case None
    then show ?thesis using Cons.prems by (simp add: max_by_key_none)
  next
    case (Some m)
    then have "x \<in> set zs \<Longrightarrow> f x \<le> f m" by (rule Cons.IH)
    with Some Cons.prems show ?thesis by (auto split: if_splits)
  qed
qed simp

text \<open>An element that is strictly above the others is the one found.\<close>

lemma max_by_key_unique:
  assumes "x \<in> set xs" and "\<And>y. y \<in> set xs \<Longrightarrow> y \<noteq> x \<Longrightarrow> f y < f x"
  shows "max_by_key f xs = Some x"
proof -
  obtain y where y: "max_by_key f xs = Some y"
    using assms(1) max_by_key_none [of f xs] by (cases "max_by_key f xs") auto
  then have "y \<in> set xs" "f x \<le> f y" using max_by_key_in max_by_key_max assms(1) by metis+
  then have "y = x" using assms(2) [of y] by fastforce
  with y show ?thesis by simp
qed

lemma decision_targets: "resolved_target d = decision_target d"
  by (cases d) simp_all

definition nothing_reported :: sandbox_report where
  "nothing_reported = \<lparr>sr_lost = [], sr_revoked = [], sr_reattached = [], sr_drifted = []\<rparr>"

lemma nothing_reported_in [simp]: "\<not> lost_in nothing_reported i" "\<not> gated_in nothing_reported i"
  by (simp_all add: lost_in_def gated_in_def nothing_reported_def)

lemma cut_resolution_target:
  assumes "store_reachable s" and "approval_get i s = Some a" and "appr_run_id a = Some run"
    and "run_get run s = Some r" and "run_state r = run_state.WaitingApproval"
    and "appr_project a = run_project r" and "appr_decision a = Some d"
    and others: "\<And>j b. approval_get j s = Some b \<Longrightarrow> appr_run_id b = Some run \<Longrightarrow> j \<noteq> i \<Longrightarrow>
      appr_decision b \<noteq> None \<and> appr_updated_at b < appr_updated_at a"
    and "length (hvals (s_approvals s)) \<le> approval_scan_limit"
  shows "scan_target s now r = fst (decision_target d)"
proof -
  have k: "keyed appr_approval_id (s_approvals s)" by (rule approvals_keyed [OF assms(1)])
  have id: "run_run_id r = run"
    using reachable_keyed [OF assms(1)] assms(4) by (auto simp: rows_keyed_def keyed_def run_get_def)
  have mem: "b \<in> set (hvals (s_approvals s)) \<longleftrightarrow> approval_get (appr_approval_id b) s = Some b" for b
    using keyed_hvals [OF k] by (simp add: approval_get_def)
  have a_id: "appr_approval_id a = i"
    using k assms(2) by (auto simp: keyed_def approval_get_def)
  have other: "b = a \<or> appr_decision b \<noteq> None \<and> appr_updated_at b < appr_updated_at a"
    if "b \<in> set (hvals (s_approvals s))" "appr_run_id b = Some run" for b
    using others [of "appr_approval_id b" b] that mem [of b] assms(2)
    by (cases "appr_approval_id b = i") simp_all
  have "\<not> has_pending_for_run run s"
    using other assms(7) by (force simp: has_pending_for_run_def list_ex_iff)
  moreover have "latest_resolved (fetch_all_approvals s (run_project r)) run = Some a"
  proof -
    have "length (project_approvals s p) \<le> length (hvals (s_approvals s))" for p
      by (simp add: project_approvals_def)
    then have "length (project_approvals s (run_project r)) \<le> approval_scan_limit"
      using assms(9) order_trans by blast
    then have all: "fetch_all_approvals s (run_project r) = project_approvals s (run_project r)"
      by (simp add: fetch_all_approvals_eq)
    show ?thesis
      unfolding latest_resolved_def all
      by (rule max_by_key_unique)
        (use assms(2,3,6,7) a_id mem [of a] other in \<open>auto simp: project_approvals_def\<close>)
  qed
  ultimately show ?thesis
    using id assms(5,7) by (cases d) (simp_all add: scan_target_def)
qed

text \<open>
  C11: Recovery finishes a resolution that was cut off between its two events as the service would
  have. Take the log that holds the resolution of an approval but not yet the move of its run,
  which waits for it; if no other approval of the run is pending or was touched as late, and the
  scans reach everything, then the sweep at the next boot leaves the run in the state in which the
  uninterrupted resolution leaves it.
\<close>

theorem recovery_completes_resolution:
  fixes w :: "'j world"
  assumes "store_reachable (w_store w)" and "scan_complete (w_store w)"
    and "approval_get i (w_store w) = Some a" and "appr_decision a = None"
    and "appr_run_id a = Some run" and "run_get run (w_store w) = Some r"
    and "run_state r = run_state.WaitingApproval" and "appr_project a = run_project r"
    and "\<And>j b. approval_get j (w_store w) = Some b \<Longrightarrow> appr_run_id b = Some run \<Longrightarrow> j \<noteq> i \<Longrightarrow>
      appr_decision b \<noteq> None \<and> appr_updated_at b < now"
    and "length (hvals (s_approvals (w_store w))) \<le> approval_scan_limit"
    and "ev_payload e = ApprovalResolved
      \<lparr>ar_project = appr_project a, ar_approval_id = i, ar_decision = d\<rparr>"
  shows "map_option run_state (run_get run (w_store (snd (recover_runs env boot nothing_reported
        (w\<lparr>w_store := snd (append_events now secondary [e] (w_store w))\<rparr>))))) =
    map_option run_state (run_get run (w_store (snd (resolve_approval env' i d w))))"
proof -
  let ?a = "a\<lparr>appr_decision := Some d, appr_version := bump (appr_version a), appr_updated_at := now\<rparr>"
  define s where "s = snd (append_events now secondary [e] (w_store w))"
  have reach: "store_reachable s" unfolding s_def by (rule reach_append [OF assms(1)])
  have turn: "s = turn now e (w_store w)"
    by (simp add: s_def append_events_state append_loop_Cons append_loop.simps)
  have runs: "s_runs s = s_runs (w_store w)"
    using assms(11) by (simp add: turn turn_approval_frame)
  have approvals: "approval_get j s = (if j = i then Some ?a else approval_get j (w_store w))" for j
    using assms(3,11) by (simp add: turn turn_approvals)
  have rows: "length (hvals (s_approvals s)) = length (hvals (s_approvals (w_store w)))"
  proof -
    have "s_approvals s = hmodify i (\<lambda>r. r\<lparr>appr_decision := Some d,
        appr_version := bump (appr_version r), appr_updated_at := now\<rparr>) (s_approvals (w_store w))"
      using assms(11) by (simp add: turn turn_def case_prod_beta apply_projection_def push_event_stored
          apply_approval_resolved_def)
    then have "map (\<lambda>_. ()) (hvals (s_approvals s)) = map (\<lambda>_. ()) (hvals (s_approvals (w_store w)))"
      by (simp add: map_hvals_hmodify)
    then show ?thesis by (metis length_map)
  qed
  have run: "run_get run s = Some r" using assms(6) by (simp add: run_get_def runs)
  have id: "run_run_id r = run"
    using reachable_keyed [OF reach] run by (auto simp: rows_keyed_def keyed_def run_get_def)
  have "scan_target s (re_now env) r = fst (decision_target d)"
    by (rule cut_resolution_target [OF reach, of i ?a run])
      (use assms(5,7,8,9,10) run rows in \<open>auto simp: approvals split: if_splits\<close>)
  then have "recovered_state s (re_now env) nothing_reported r = fst (decision_target d)"
    using assms(7) by (simp add: recovered_state_def swept_state_def)
  moreover have "scan_complete s" using assms(2) by (simp add: scan_complete_def runs)
  ultimately have "map_option run_state (run_get run (w_store (snd (recover_runs env boot nothing_reported
      (w\<lparr>w_store := s\<rparr>))))) = Some (fst (decision_target d))"
    using plan_sweep_events(1) [OF reach, of run boot "re_now env" nothing_reported]
    by (simp add: recover_runs_states run)
  moreover have "map_option run_state (run_get run (w_store (snd (resolve_approval env' i d w)))) =
      Some (fst (decision_target d))"
    by (rule resolve_approval_applied [OF assms(3,4) refl, of env' d i run])
      (use assms(5,6,7) waiting_moves [of d] in \<open>simp add: moved_to_def decision_targets\<close>)
  ultimately show ?thesis unfolding s_def by (rule trans [OF _ sym])
qed

section \<open>A sample boot\<close>

definition sample_recovery :: recovery_env where
  "sample_recovery =
     \<lparr>re_now = 500, re_plan = sample_batch\<lparr>be_append_at := 510\<rparr>,
      re_summary = \<lparr>se_ts_ms = 520, se_trace_id = [], se_append_at = 520, se_secondary = None\<rparr>\<rparr>"

definition sample_lost :: sandbox_report where
  "sample_lost = nothing_reported\<lparr>sr_lost := [(''r'', demo_project), (''r'', demo_project)]\<rparr>"

lemma waiting_scan_complete: "scan_complete (waiting_store ids)"
  by (simp add: scan_complete_def waiting_store_runs hvals_def recovery_scan_limit_def)

lemma waiting_run_id: "run_run_id sample_waiting_run = ''r''"
  using reachable_keyed [OF waiting_store_reachable [of "[]"]] waiting_store_run [of "''r''" "[]"]
  by (auto simp: rows_keyed_def keyed_def run_get_def)

lemma sample_lost_in [simp]: "lost_in sample_lost i \<longleftrightarrow> i = ''r''" "\<not> gated_in sample_lost i"
  by (simp_all add: lost_in_def gated_in_def sample_lost_def nothing_reported_def)

theorem recovery_applies_matrix_witness:
  "map_option run_state (run_get ''r'' (w_store (snd (recover_runs sample_recovery ''b'' sample_lost
      (waiting_world [''a'']))))) = Some run_state.Failed"
  using recovery_applies_matrix [of "waiting_world [''a'']" "''r''" sample_recovery "''b''" sample_lost]
  by (simp add: waiting_store_reachable waiting_scan_complete waiting_store_run recovered_state_def
      waiting_run_id waiting_store_runs may_move_def run_tables)

theorem recovery_closes_once_witness:
  "finished_of ''r'' (rw_events (plan_sweep ''b'' (waiting_store [''a'']) 500 sample_lost)) = [False] \<and>
   moves_of ''r'' (rw_events (plan_sweep ''b'' (waiting_store [''a'']) 500 sample_lost)) = [run_state.Failed]"
  using recovery_closes_once [of "waiting_store [''a'']" "''r''" "''b''" 500 sample_lost]
  by (simp add: waiting_store_reachable waiting_scan_complete waiting_store_run recovered_state_def
      waiting_run_id waiting_store_runs may_move_def run_tables)

theorem recovery_completes_resolution_witness:
  "map_option run_state (run_get ''r'' (w_store (snd (recover_runs sample_recovery ''b'' nothing_reported
      (waiting_world [''a'']\<lparr>w_store := snd (append_events 210 None [sample_envelope ''e10'' None
         (ApprovalResolved \<lparr>ar_project = demo_project, ar_approval_id = ''a'',
            ar_decision = approval_decision.Approved\<rparr>)] (waiting_store [''a'']))\<rparr>))))) =
   map_option run_state (run_get ''r'' (w_store (snd (resolve_approval sample_batch ''a''
      approval_decision.Approved (waiting_world [''a''])))))"
proof -
  let ?w = "waiting_world [''a'']"
  have "length (hvals (s_approvals (waiting_store [''a'']))) \<le> 1"
  proof -
    have k: "keyed appr_approval_id (s_approvals (waiting_store [''a'']))"
      by (rule approvals_keyed [OF waiting_store_reachable])
    have "set (map appr_approval_id (hvals (s_approvals (waiting_store [''a''])))) \<subseteq> {''a''}"
      using keyed_hvals [OF k] waiting_store_approvals [of _ "[''a'']"]
      by (auto simp: approval_get_def split: if_splits)
    then have "card (set (map appr_approval_id (hvals (s_approvals (waiting_store [''a'']))))) \<le> 1"
      using card_mono [of "{''a''}"] by fastforce
    then show ?thesis using distinct_card [OF keyed_distinct [OF k]] by simp
  qed
  then show ?thesis
    using recovery_completes_resolution [of ?w "''a''" "sample_row ''a''" "''r''" sample_waiting_run 210
      "sample_envelope ''e10'' None (ApprovalResolved \<lparr>ar_project = demo_project,
         ar_approval_id = ''a'', ar_decision = approval_decision.Approved\<rparr>)"
      approval_decision.Approved sample_recovery "''b''" None sample_batch]
    by (simp add: waiting_store_reachable waiting_scan_complete waiting_store_approvals sample_row_def
        waiting_store_run waiting_store_runs approval_scan_limit_def sample_envelope_sel
        split: if_splits)
qed

end
