(* ===== verification/Spec2Isabelle.thy ===== *)
theory Spec2Isabelle
  imports Startup_Correctness Limit_Laws Workspace_Quota_Laws Trigger_Correctness Decision_Laws
    Tool_Approval_Races Execute_Correctness Step_History_Laws Run_Recovery_Correctness
begin

text \<open>
  Cairn is a control plane for agent runs. Everything that happens is an event of one append-only
  log; the state of the program is a set of tables projected from it, and the services of the
  runtime read the tables, decide, and append. This development models that core: the vocabulary
  of the domain crate, the in-memory event store with its projections and read models, the
  decision layer in front of every tool call, the limits of tenants and workspaces, what a restart
  rebuilds from the log and what it does to the runs it finds, and the loop that drives an agent
  run over all of it. Paths below are relative to \<open>src/crates\<close>.

  \<^bold>\<open>Theories and the code they model\<close>

  \<^item> \<open>Prelude\<close>: machine integers, hash maps, the string operations of the standard library.
  \<^item> \<open>Tenancy\<close> (\<open>cairn-domain/src/tenancy.rs\<close>, \<open>ids.rs\<close>), \<open>Lifecycle\<close> (\<open>lifecycle.rs\<close>),
    \<open>Tool_Invocation\<close> (\<open>tool_invocation.rs\<close>): keys and scopes, the state machines of sessions,
    runs and tasks with their transition tables, the record of a tool invocation.
  \<^item> \<open>Decision_Types\<close> (\<open>cairn-domain/src/decisions.rs\<close>), \<open>Decision_Cache\<close> and
    \<open>Decision_Service\<close> (\<open>cairn-runtime/src/decisions.rs\<close>): the cache of decisions, each method
    one atomic step, and \<open>evaluate\<close>, which runs the checks in order, asks the cache, then the
    resolver. \<open>Decision_Laws\<close> holds the properties, with the interleavings of evaluations and
    invalidations as a step relation.
  \<^item> \<open>Runtime_Events\<close> (\<open>cairn-domain/src/events.rs\<close>, \<open>event_helpers.rs\<close>): the payloads and the
    envelope. Every payload a modelled projection reads is a record with the fields of the
    source. All other variants are \<open>OtherEvent\<close>, which keeps the name of the variant, its
    project, and the entities it is filed under.
  \<^item> \<open>Projections\<close> (\<open>cairn-store/src/projections\<close>): the rows of the tables. \<open>Event_Store\<close>
    (\<open>cairn-store/src/in_memory.rs\<close>): the store, one definition per arm of \<open>apply_projection\<close>,
    \<open>append\<close> with its causation index, its derived events, its panics and its secondary log.
    \<open>Read_Models\<close>: the look-ups and listings of the same file.
  \<^item> \<open>Event_Log\<close> (\<open>cairn-store/src/event_log.rs\<close>): the contract of \<open>read_stream\<close> as the locale
    \<open>event_log\<close> and the paged loop every reader of the log runs. The locale is interpreted in
    \<open>Store_Laws\<close> on the in-memory store and in \<open>Startup_Laws\<close> on the rows of the durable log.
  \<^item> \<open>Store_Laws\<close>, \<open>Store_Invariants\<close>, \<open>Store_Correctness\<close>: reachable stores, the invariants
    proved arm by arm and lifted to them, and the properties of the store.
  \<^item> \<open>Startup\<close>, \<open>Startup_Laws\<close>, \<open>Startup_Correctness\<close> (\<open>cairn-app/src/main.rs\<close>,
    \<open>cairn-runtime/src/startup.rs\<close>, \<open>decisions.rs\<close>): the replays of the durable log, of the
    decision cache and of the tool results, and the decision on a recovered tool call.
  \<^item> \<open>Limit_Services\<close>, \<open>Limit_Laws\<close> (\<open>cairn-runtime/src/services/quota_impl.rs\<close>,
    \<open>budget_impl.rs\<close>, \<open>run_cost_alert_impl.rs\<close>): tenant quotas, provider budgets, cost alerts,
    and how a service emits an event.
  \<^item> \<open>Workspace_Quota\<close>, \<open>Workspace_Quota_Laws\<close> (\<open>services/workspace_quota.rs\<close>): usage counters,
    policies, isolation guards; callers that interleave as a step relation.
  \<^item> \<open>Trigger_Conditions\<close>, \<open>Trigger_Service\<close> (\<open>services/trigger_service.rs\<close>),
    \<open>Trigger_Handlers\<close> (\<open>cairn-app/src/triggers.rs\<close>, \<open>trigger_routes.rs\<close>, \<open>state.rs\<close>,
    \<open>handlers/signals.rs\<close>): the conditions of a trigger and their persisted form, the service
    that matches signals, its handlers with the event each persists, and the replay.
    \<open>Trigger_Condition_Laws\<close>, \<open>Trigger_Laws\<close> (handlers, signals and restarts as a step
    relation) and \<open>Trigger_Correctness\<close> hold the properties.
  \<^item> \<open>Tool_Paths\<close>, \<open>Tool_Approvals\<close> (\<open>cairn-runtime/src/tool_call_approvals.rs\<close>,
    \<open>services/tool_call_approval_impl.rs\<close>): the paths and policies of the rules, and the service
    that holds a tool call until an operator decides, each method composed of its critical
    sections and its append. \<open>Tool_Path_Laws\<close>, \<open>Tool_Approval_Laws\<close> (what a method does to the
    cache, the rows and the log), \<open>Tool_Approval_Steps\<close> (whole calls in sequence, with restarts),
    \<open>Tool_Approval_Correctness\<close> and \<open>Tool_Approval_Races\<close> (the critical sections of overlapping
    calls as steps on a multiset of calls under way) hold the properties.
  \<^item> \<open>Approval_Service\<close>, \<open>Approval_Service_Laws\<close> (\<open>services/approval_impl.rs\<close>): requests and
    resolutions, each one batch with the move of its run. \<open>Run_Recovery\<close>
    (\<open>services/recovery_impl.rs\<close>): the sweep over the runs at boot, row by row and run by run.
    \<open>Run_Recovery_Laws\<close> cuts the plan into the events of one run and follows them into the store;
    \<open>Run_Recovery_Correctness\<close> holds the properties.
  \<^item> \<open>Text\<close> (strings as the bytes of UTF-8, with \<open>chars\<close>, \<open>lines\<close>, \<open>trim\<close>),
    \<open>Orchestrator_Types\<close> (\<open>cairn-orchestrator/src/context.rs\<close>, \<open>error.rs\<close>,
    \<open>cairn-domain/src/orchestrator.rs\<close>), \<open>Completion_Verification\<close>
    (\<open>completion_verification.rs\<close>), \<open>Step_History\<close> with \<open>Step_History_Laws\<close> (the previews, step
    summaries and compaction of \<open>loop_runner.rs\<close>): what the loop carries from turn to turn.
  \<^item> \<open>Execute_Phase\<close> (\<open>execute_impl.rs\<close>, \<open>approval_policy.rs\<close>): the dispatch of one action, the
    approval gate, the batch, and the dispatch of a call approved earlier. \<open>Execute_Laws\<close> and
    \<open>Batch_Laws\<close> say what each does to the tools, the cache and the results; \<open>Tool_Call_Once\<close>
    holds the invariant of the cache.
  \<^item> \<open>Orchestrator_Loop\<close> (\<open>loop_runner.rs\<close>): the loop from \<open>run\<close> to its termination.
    \<open>Orchestrator_Loop_Laws\<close> and \<open>Orchestrator_Correctness\<close> hold its protocol.
    \<open>Orchestrator_Run\<close> puts the execute phase into the loop: the locale \<open>kept_world\<close> lifts a
    relation every collaborator keeps to whole invocations and is interpreted on that
    composition. \<open>Execute_Correctness\<close> states the contract of the approval service as the locale
    \<open>approval_gate\<close>, interprets it on the service of \<open>Tool_Approvals\<close>, and holds the properties
    of the composition.

  \<^bold>\<open>How the model reads\<close>

  A struct is a record, an enum a datatype, a \<open>u32\<close> or \<open>u64\<close> a natural number with the
  wrap-around or the saturation of the operation written out. A \<open>HashMap\<close> is an association
  list whose order stands for the iteration order, which no result may depend on. A method that
  takes \<open>&mut self\<close> or a lock returns the changed state. A clock reading, a trace id and the
  answer of a component outside the model (the checkers and the resolver of the decision layer,
  the secondary log, the hash functions, the JSON decoder) are arguments. An \<open>f64\<close> the program
  only carries is its bits; a JSON value is a type variable.

  The trait objects the loop and the execute phase hold are the fields of the records
  \<open>loop_ports\<close> and \<open>execute_ports\<close>, functions on a world of any type, so every property of them
  holds for all collaborators; where two parts of the model meet, the fields are their
  definitions. \<open>ls_calls\<close> and \<open>xs_runs\<close> record what the loop called and which tools ran; no
  definition reads them, they are what the properties speak of. The tool calls of a batch are
  driven together by \<open>join_all\<close>: the model runs them one after the other in an order that is an
  argument, and the properties hold for every order.

  An error is a value: \<open>Inl\<close> of a sum, or a constructor of the result type of the call. A panic is
  a value too (\<open>Panicked\<close>, \<open>Crashed\<close>, \<open>None\<close> of a projection), and the store it leaves behind
  is the one the code leaves behind, since its locks ignore poisoning. In the orchestrator a call
  ends in \<open>Fine\<close>, \<open>Fault\<close> with the error that \<open>?\<close> passes on, or \<open>Unwound\<close> after a panic.

  \<^bold>\<open>Bounds and fuel\<close>

  The paged loops take fuel, one unit per page. Fuel greater than the number of events in the log is
  always enough, and the properties of the loops are stated for all such fuel with the result
  as a value. Positions wrap at 2^64; the properties that speak of positions assume a log
  shorter than that. Cost totals saturate at 2^64 - 1; their agreement is stated below it. The loop
  over the iterations of a run recurses on the number of iterations left, which the code bounds
  by \<open>max_iterations\<close>, so it needs no fuel. The scans of the recovery sweep stop at the limits of
  the code, 10000 runs of a state and 50000 approvals of a project; the properties that need a
  complete scan assume stores within them.

  \<^bold>\<open>What the properties show\<close>

  For decisions: \<open>evaluate\<close> is the documented procedure, a cached answer was granted for its key,
  identifiers with a slash make keys ambiguous, and invalidation by scope
  removes nothing. For the store: the log is gap-free and append-only, the tables are a
  function of it, rows stay well formed after panics, cost books agree. For restarts: states,
  decisions and tool results come back, the rule index does not. For limits: a check admits
  exactly below the limit, callers that interleave overshoot by their number at most. For
  triggers: the replay rebuilds the service, a signal fires a trigger once, the rolling windows
  bound the fires, conditions survive the log. For tool approvals: overlapping calls resolve a
  call once, a restart changes no answer, an automatic approval goes back to an operator, a
  parked executor is woken with what it may run; and the four ways in which a rejection or a path
  rule does not hold. For runs: the loop calls its collaborators in a fixed order, asks for at
  most \<open>max_iterations\<close> decisions and reports its end once; a batch has its results in the order
  of the proposals whatever order its calls end in; no tool call succeeds twice in an
  invocation; a tool that runs behind the gate goes back to an operator; a run is reported
  completed only if it was. For boots: recovery takes every run where its matrix takes it, closes
  it once and by steps of the run machine, and finishes a resolution that was cut off. And two
  errors: a call approved by itself can run again under
  another id, and a compaction comes after the prompt it should have shortened.

  \<^bold>\<open>Not modelled\<close>

  The projections of prompts, evaluations, providers, tenants, credentials and settings, and
  their read models. The SQL back ends apart from \<open>read_stream\<close> of the log. Of the orchestrator,
  the building of the prompt, the parsing of the model's answer and its routing to providers, the
  gather phase, the emitters and the checkpoint hook: the loop sees them as functions. The HTTP
  application, memory and retrieval, sandboxes, tools, plugins, integrations and
  providers. Broadcast to subscribers, tracing and metrics, which nothing reads back. A trigger
  handler persists its event after it has released the lock of the service; the model takes the
  change and the event as one step, so it says nothing of an append that fails or of two
  handlers whose events reach the log in the other order. The interleavings of the approval
  service take appends that succeed; appends that fail are covered for calls that do not
  overlap. Its timeouts fire at any time, since the model has no scheduler.
\<close>

end
